(* ===== verification/Prelude.thy ===== *)
theory Prelude
  imports Main "HOL-Library.Word"
begin

text \<open>
  Shared vocabulary of the development: wide characters and the character functions of the C
  library, machine words, index scans that stand for the counted loops of the source, and the
  lemma collections the component theories extend.

  A \<open>wchar_t\<close> is a code unit; the source compares code units and adds small offsets that never
  leave the 16-bit range, so it is an integer here (\<open>wchar\<close>) and a \<open>std::wstring\<close> is a list of
  them. Literals \<open>L'a'\<close> of the source are the abbreviations \<open>L_a\<close>. Sentinels \<open>SIZE_MAX\<close> and \<open>-1\<close>
  of the source, which mean ``no index'', are \<open>None\<close>.
\<close>

type_synonym wchar = int
type_synonym wstring = "wchar list"
type_synonym u8 = "8 word"
type_synonym u16 = "16 word"
type_synonym u32 = "32 word"

named_theorems frame_simps \<open>which fields an engine operation leaves alone\<close>
named_theorems inv_intros \<open>preservation of the engine's well-formedness\<close>

subsection \<open>Character literals\<close>

abbreviation L_a :: wchar where "L_a \<equiv> 97"
abbreviation L_b :: wchar where "L_b \<equiv> 98"
abbreviation L_c :: wchar where "L_c \<equiv> 99"
abbreviation L_d :: wchar where "L_d \<equiv> 100"
abbreviation L_e :: wchar where "L_e \<equiv> 101"
abbreviation L_f :: wchar where "L_f \<equiv> 102"
abbreviation L_g :: wchar where "L_g \<equiv> 103"
abbreviation L_h :: wchar where "L_h \<equiv> 104"
abbreviation L_i :: wchar where "L_i \<equiv> 105"
abbreviation L_j :: wchar where "L_j \<equiv> 106"
abbreviation L_k :: wchar where "L_k \<equiv> 107"
abbreviation L_l :: wchar where "L_l \<equiv> 108"
abbreviation L_m :: wchar where "L_m \<equiv> 109"
abbreviation L_n :: wchar where "L_n \<equiv> 110"
abbreviation L_o :: wchar where "L_o \<equiv> 111"
abbreviation L_p :: wchar where "L_p \<equiv> 112"
abbreviation L_q :: wchar where "L_q \<equiv> 113"
abbreviation L_r :: wchar where "L_r \<equiv> 114"
abbreviation L_s :: wchar where "L_s \<equiv> 115"
abbreviation L_t :: wchar where "L_t \<equiv> 116"
abbreviation L_u :: wchar where "L_u \<equiv> 117"
abbreviation L_v :: wchar where "L_v \<equiv> 118"
abbreviation L_w :: wchar where "L_w \<equiv> 119"
abbreviation L_x :: wchar where "L_x \<equiv> 120"
abbreviation L_y :: wchar where "L_y \<equiv> 121"
abbreviation L_z :: wchar where "L_z \<equiv> 122"
abbreviation L_0 :: wchar where "L_0 \<equiv> 48"
abbreviation L_1 :: wchar where "L_1 \<equiv> 49"
abbreviation L_2 :: wchar where "L_2 \<equiv> 50"
abbreviation L_3 :: wchar where "L_3 \<equiv> 51"
abbreviation L_4 :: wchar where "L_4 \<equiv> 52"
abbreviation L_5 :: wchar where "L_5 \<equiv> 53"
abbreviation L_6 :: wchar where "L_6 \<equiv> 54"
abbreviation L_7 :: wchar where "L_7 \<equiv> 55"
abbreviation L_8 :: wchar where "L_8 \<equiv> 56"
abbreviation L_9 :: wchar where "L_9 \<equiv> 57"
abbreviation L_acirc :: wchar where "L_acirc \<equiv> 0xE2"
abbreviation L_abreve :: wchar where "L_abreve \<equiv> 0x103"
abbreviation L_ecirc :: wchar where "L_ecirc \<equiv> 0xEA"
abbreviation L_ocirc :: wchar where "L_ocirc \<equiv> 0xF4"
abbreviation L_ohorn :: wchar where "L_ohorn \<equiv> 0x1A1"
abbreviation L_uhorn :: wchar where "L_uhorn \<equiv> 0x1B0"
abbreviation L_dstroke :: wchar where "L_dstroke \<equiv> 0x111"
abbreviation L_Dstroke :: wchar where "L_Dstroke \<equiv> 0x110"
abbreviation L_lbracket :: wchar where "L_lbracket \<equiv> 0x5B"
abbreviation L_rbracket :: wchar where "L_rbracket \<equiv> 0x5D"

subsection \<open>Character functions of the C library\<close>

text \<open>
  The program never selects a locale for its engine, so \<open>towlower\<close>, \<open>towupper\<close>, \<open>iswupper\<close>,
  \<open>iswalpha\<close> and \<open>iswspace\<close> run in the ``C'' locale: they classify and convert ASCII only.
\<close>

definition towlower :: "wchar \<Rightarrow> wchar" where
  "towlower c = (if 65 \<le> c \<and> c \<le> 90 then c + 32 else c)"

definition towupper :: "wchar \<Rightarrow> wchar" where
  "towupper c = (if 97 \<le> c \<and> c \<le> 122 then c - 32 else c)"

definition iswupper :: "wchar \<Rightarrow> bool" where
  "iswupper c \<longleftrightarrow> 65 \<le> c \<and> c \<le> 90"

definition iswalpha :: "wchar \<Rightarrow> bool" where
  "iswalpha c \<longleftrightarrow> 65 \<le> c \<and> c \<le> 90 \<or> 97 \<le> c \<and> c \<le> 122"

definition iswspace :: "wchar \<Rightarrow> bool" where
  "iswspace c \<longleftrightarrow> c = 32 \<or> 9 \<le> c \<and> c \<le> 13"

lemma towlower_idem [simp]: "towlower (towlower c) = towlower c"
  by (simp add: towlower_def)

lemma towlower_not_upper: "\<not> iswupper (towlower c)"
  by (simp add: towlower_def iswupper_def)

lemma towlower_lower: "\<not> iswupper c \<Longrightarrow> towlower c = c"
  by (auto simp: towlower_def iswupper_def)

lemma towlower_nonzero [simp]: "towlower c = 0 \<longleftrightarrow> c = 0"
  by (auto simp: towlower_def)

subsection \<open>Index scans\<close>

text \<open>
  \<open>first_idx P n\<close> is the loop \<open>for (i = 0; i < n; ++i) if (P(i)) return i;\<close> and
  \<open>last_idx P n\<close> the loop \<open>for (i = n; i-- > 0;) if (P(i)) return i;\<close>, which is also what a
  forward loop that overwrites an index variable at each hit leaves in it.
\<close>

definition first_idx :: "(nat \<Rightarrow> bool) \<Rightarrow> nat \<Rightarrow> nat option" where
  "first_idx P n = find P [0..<n]"

primrec last_idx :: "(nat \<Rightarrow> bool) \<Rightarrow> nat \<Rightarrow> nat option" where
  "last_idx P 0 = None"
| "last_idx P (Suc n) = (if P n then Some n else last_idx P n)"

lemma last_idx_Some: "last_idx P n = Some i \<longleftrightarrow> i < n \<and> P i \<and> (\<forall>j. i < j \<and> j < n \<longrightarrow> \<not> P j)"
  by (induction n) (auto simp: less_Suc_eq)

lemma last_idx_None: "last_idx P n = None \<longleftrightarrow> (\<forall>i<n. \<not> P i)"
  by (induction n) (auto simp: less_Suc_eq)

lemma first_idx_None: "first_idx P n = None \<longleftrightarrow> (\<forall>i<n. \<not> P i)"
  by (auto simp: first_idx_def find_None_iff)

lemma first_idx_Some: "first_idx P n = Some i \<longleftrightarrow> i < n \<and> P i \<and> (\<forall>j<i. \<not> P j)"
proof
  assume "first_idx P n = Some i"
  then show "i < n \<and> P i \<and> (\<forall>j<i. \<not> P j)"
    by (auto simp: first_idx_def find_Some_iff)
next
  assume "i < n \<and> P i \<and> (\<forall>j<i. \<not> P j)"
  then show "first_idx P n = Some i"
    by (auto simp: first_idx_def find_Some_iff intro!: exI[of _ i])
qed

lemma last_idxD: "last_idx P n = Some i \<Longrightarrow> i < n" "last_idx P n = Some i \<Longrightarrow> P i"
  by (auto simp: last_idx_Some)

lemma first_idxD: "first_idx P n = Some i \<Longrightarrow> i < n" "first_idx P n = Some i \<Longrightarrow> P i"
  by (auto simp: first_idx_Some)

text \<open>In-place update of one element of a vector, \<open>f(xs[i])\<close>.\<close>

definition upd_at :: "nat \<Rightarrow> ('a \<Rightarrow> 'a) \<Rightarrow> 'a list \<Rightarrow> 'a list" where
  "upd_at i f xs = xs[i := f (xs ! i)]"

lemma length_upd_at [simp]: "length (upd_at i f xs) = length xs"
  by (simp add: upd_at_def)

lemma nth_upd_at: "j < length xs \<Longrightarrow> upd_at i f xs ! j = (if i = j then f (xs ! j) else xs ! j)"
  by (simp add: upd_at_def nth_list_update)

lemma upd_at_Nil [simp]: "upd_at i f [] = []"
  by (simp add: upd_at_def)

lemma upd_at_eq_Nil [simp]: "upd_at i f xs = [] \<longleftrightarrow> xs = []"
  by (simp add: upd_at_def)

lemma map_upd_at:
  assumes "\<And>x. g (f x) = g x"
  shows "map g (upd_at i f xs) = map g xs"
  by (rule nth_equalityI) (auto simp: nth_upd_at assms)

lemma set_upd_at: "x \<in> set (upd_at i f xs) \<Longrightarrow> x \<in> set xs \<or> i < length xs \<and> x = f (xs ! i)"
  by (auto simp: in_set_conv_nth nth_upd_at split: if_splits)

lemma list_all_upd_at:
  assumes "list_all P xs" and "i < length xs \<Longrightarrow> P (xs ! i) \<Longrightarrow> P (f (xs ! i))"
  shows "list_all P (upd_at i f xs)"
  using assms by (auto simp: list_all_length nth_upd_at)

text \<open>A field that the update leaves alone reads the same at every position.\<close>

lemma nth_upd_at_same:
  assumes "\<And>x. g (f x) = g x"
  shows "g (upd_at i f xs ! j) = g (xs ! j)"
proof (cases "j < length xs")
  case True
  then show ?thesis by (simp add: nth_upd_at assms)
next
  case False
  then show ?thesis by (cases "i = j") (simp_all add: upd_at_def list_update_beyond)
qed

text \<open>Positions of the last, second last and third last element, as \<open>v[n - 1]\<close> reads them.\<close>

lemma last_conv_nth': "xs \<noteq> [] \<Longrightarrow> last xs = xs ! (length xs - 1)"
  by (rule last_conv_nth)

subsection \<open>Bit masks\<close>

text \<open>The single-bit masks of the source as bits, and its test of a flag.\<close>

unbundle bit_operations_syntax

lemma u32_bits: "bit (1 :: u32) n \<longleftrightarrow> n = 0" "bit (2 :: u32) n \<longleftrightarrow> n = 1" "bit (4 :: u32) n \<longleftrightarrow> n = 2"
    "bit (8 :: u32) n \<longleftrightarrow> n = 3" "bit (15 :: u32) n \<longleftrightarrow> n < 4"
proof -
  have exp: "bit (2 ^ k :: u32) n \<longleftrightarrow> n = k" if "k < 32" for k
    using that by (auto simp: bit_exp_iff)
  show "bit (1 :: u32) n \<longleftrightarrow> n = 0" "bit (2 :: u32) n \<longleftrightarrow> n = 1"
    using exp[of 0] exp[of 1] by (simp_all only: power_0 power_one_right)
  show "bit (4 :: u32) n \<longleftrightarrow> n = 2" using exp[of 2] by (simp add: power2_eq_square)
  show "bit (8 :: u32) n \<longleftrightarrow> n = 3" using exp[of 3] by (simp add: numeral_eq_Suc)
  show "bit (15 :: u32) n \<longleftrightarrow> n < 4"
    using bit_mask_iff[of 4 n, where 'a = u32] by (auto simp: mask_numeral)
qed

lemma u32_flag: "m AND 1 \<noteq> (0 :: u32) \<longleftrightarrow> bit m 0" "m AND 2 \<noteq> (0 :: u32) \<longleftrightarrow> bit m 1"
  "m AND 4 \<noteq> (0 :: u32) \<longleftrightarrow> bit m 2" "m AND 8 \<noteq> (0 :: u32) \<longleftrightarrow> bit m 3"
proof -
  have single: "m AND push_bit k 1 \<noteq> 0 \<longleftrightarrow> bit m k" for k
    by (simp only: bit_iff_and_push_bit_not_eq_0)
  show "m AND 1 \<noteq> (0 :: u32) \<longleftrightarrow> bit m 0" "m AND 2 \<noteq> (0 :: u32) \<longleftrightarrow> bit m 1"
  "m AND 4 \<noteq> (0 :: u32) \<longleftrightarrow> bit m 2" "m AND 8 \<noteq> (0 :: u32) \<longleftrightarrow> bit m 3"
    using single[of 0] single[of 1] single[of 2] single[of 3] by (simp_all add: push_bit_eq_mult)
qed

end
