(* ===== verification/VietnameseTables.thy ===== *)
theory VietnameseTables
  imports Prelude
begin

text \<open>
  The lookup tables of \<open>core/engine/VietnameseTables.h\<close>: vowel plus modifier, vowel plus tone,
  the diphthong tables that drive tone placement, and the Vietnamese case conversions. An index
  function of the source that answers \<open>-1\<close> for ``not in the table'' answers \<open>None\<close> here.
\<close>

subsection \<open>Modifiers and tones\<close>

definition kModifiedVowel :: "wchar list list" where
  "kModifiedVowel =
    [[0xE2, 0x103, 0],
     [0xEA, 0, 0],
     [0xF4, 0, 0x1A1],
     [0, 0, 0x1B0]]"

definition VowelBaseIndex :: "wchar \<Rightarrow> nat option" where
  "VowelBaseIndex b =
    (if b = L_a then Some 0 else if b = L_e then Some 1 else if b = L_o then Some 2
     else if b = L_u then Some 3 else None)"

definition kTonedVowel :: "wchar list list" where
  "kTonedVowel =
    [[0xE1, 0xE0, 0x1EA3, 0xE3, 0x1EA1],
     [0x1EA5, 0x1EA7, 0x1EA9, 0x1EAB, 0x1EAD],
     [0x1EAF, 0x1EB1, 0x1EB3, 0x1EB5, 0x1EB7],
     [0xE9, 0xE8, 0x1EBB, 0x1EBD, 0x1EB9],
     [0x1EBF, 0x1EC1, 0x1EC3, 0x1EC5, 0x1EC7],
     [0xED, 0xEC, 0x1EC9, 0x129, 0x1ECB],
     [0xF3, 0xF2, 0x1ECF, 0xF5, 0x1ECD],
     [0x1ED1, 0x1ED3, 0x1ED5, 0x1ED7, 0x1ED9],
     [0x1EDB, 0x1EDD, 0x1EDF, 0x1EE1, 0x1EE3],
     [0xFA, 0xF9, 0x1EE7, 0x169, 0x1EE5],
     [0x1EE9, 0x1EEB, 0x1EED, 0x1EEF, 0x1EF1],
     [0xFD, 0x1EF3, 0x1EF7, 0x1EF9, 0x1EF5]]"

definition ToneBaseIndex :: "wchar \<Rightarrow> nat option" where
  "ToneBaseIndex ch =
    (if ch = L_a then Some 0 else if ch = L_acirc then Some 1 else if ch = L_abreve then Some 2
     else if ch = L_e then Some 3 else if ch = L_ecirc then Some 4 else if ch = L_i then Some 5
     else if ch = L_o then Some 6 else if ch = L_ocirc then Some 7 else if ch = L_ohorn then Some 8
     else if ch = L_u then Some 9 else if ch = L_uhorn then Some 10 else if ch = L_y then Some 11
     else None)"

text \<open>The untoned vowel of each row of \<open>kTonedVowel\<close>.\<close>

definition kToneBase :: "wchar list" where
  "kToneBase = [L_a, L_acirc, L_abreve, L_e, L_ecirc, L_i, L_o, L_ocirc, L_ohorn, L_u, L_uhorn, L_y]"

text \<open>
  The double loop over \<open>kTonedVowel\<close> that both \<open>StripTone\<close> and \<open>DecomposeVietChar\<close> run: the first
  cell, row by row, that holds the character.
\<close>

definition toned_cells :: "(nat \<times> nat) list" where
  "toned_cells = concat (map (\<lambda>i. map (\<lambda>j. (i, j)) [0..<5]) [0..<12])"

definition find_toned :: "wchar \<Rightarrow> (nat \<times> nat) option" where
  "find_toned ch = find (\<lambda>(i, j). kTonedVowel ! i ! j = ch) toned_cells"

definition StripTone :: "wchar \<Rightarrow> wchar" where
  "StripTone ch =
    (if ToneBaseIndex ch \<noteq> None then ch
     else (case find_toned (towlower ch) of
             Some (i, j) \<Rightarrow> kToneBase ! i
           | None \<Rightarrow> ch))"

subsection \<open>Case conversion\<close>

definition ToUpperVietnamese :: "wchar \<Rightarrow> wchar" where
  "ToUpperVietnamese ch =
    (if 0xE0 \<le> ch \<and> ch \<le> 0xF6 then ch - 0x20
     else if 0xF8 \<le> ch \<and> ch \<le> 0xFE then ch - 0x20
     else if ch = 0x103 then 0x102
     else if ch = 0x111 then 0x110
     else if ch = 0x129 then 0x128
     else if ch = 0x169 then 0x168
     else if ch = 0x1A1 then 0x1A0
     else if ch = 0x1B0 then 0x1AF
     else if 0x1EA0 \<le> ch \<and> ch \<le> 0x1EF9 then (if odd ch then ch - 1 else ch)
     else towupper ch)"

definition ToLowerVietnamese :: "wchar \<Rightarrow> wchar" where
  "ToLowerVietnamese ch =
    (if 0xC0 \<le> ch \<and> ch \<le> 0xD6 then ch + 0x20
     else if 0xD8 \<le> ch \<and> ch \<le> 0xDE then ch + 0x20
     else if ch = 0x102 then 0x103
     else if ch = 0x110 then 0x111
     else if ch = 0x1A0 then 0x1A1
     else if ch = 0x1AF then 0x1B0
     else if 0x1EA0 \<le> ch \<and> ch \<le> 0x1EF9 \<and> even ch then ch + 1
     else towlower ch)"

subsection \<open>Decomposition of a composed character\<close>

text \<open>
  The lambda \<open>decomposeToneBase\<close>: base letter and modifier index (0 circumflex, 1 breve, 2 horn)
  of an untoned vowel.
\<close>

definition decomposeToneBase :: "wchar \<Rightarrow> (wchar \<times> nat option) option" where
  "decomposeToneBase tb =
    (if tb = L_a then Some (L_a, None)
     else if tb = L_e then Some (L_e, None)
     else if tb = L_i then Some (L_i, None)
     else if tb = L_o then Some (L_o, None)
     else if tb = L_u then Some (L_u, None)
     else if tb = L_y then Some (L_y, None)
     else if tb = L_acirc then Some (L_a, Some 0)
     else if tb = L_abreve then Some (L_a, Some 1)
     else if tb = L_ecirc then Some (L_e, Some 0)
     else if tb = L_ocirc then Some (L_o, Some 0)
     else if tb = L_ohorn then Some (L_o, Some 2)
     else if tb = L_uhorn then Some (L_u, Some 2)
     else None)"

text \<open>
  \<open>DecomposeVietChar\<close> answers \<open>false\<close> (here \<open>None\<close>) for a character that is no letter, and
  otherwise the base letter, the modifier index, the tone index and the case.
\<close>

definition DecomposeVietChar :: "wchar \<Rightarrow> (wchar \<times> nat option \<times> nat option \<times> bool) option" where
  "DecomposeVietChar ch =
    (let lower = ToLowerVietnamese ch; isUpperOut = (lower \<noteq> ch) in
     if lower = L_dstroke then Some (L_d, Some 3, None, isUpperOut)
     else (case find_toned lower of
       Some (i, j) \<Rightarrow>
         (case decomposeToneBase (kToneBase ! i) of
            Some (b, m) \<Rightarrow> Some (b, m, Some j, isUpperOut)
          | None \<Rightarrow> None)
     | None \<Rightarrow>
         (case decomposeToneBase lower of
            Some (b, m) \<Rightarrow> Some (b, m, None, isUpperOut)
          | None \<Rightarrow>
              (if L_a \<le> lower \<and> lower \<le> L_z then Some (lower, None, None, isUpperOut)
               else None))))"

subsection \<open>Diphthongs and triphthongs\<close>

definition DiphthongVowelIndex :: "wchar \<Rightarrow> nat option" where
  "DiphthongVowelIndex b =
    (if b = L_a then Some 0 else if b = L_e then Some 1 else if b = L_i then Some 2
     else if b = L_o then Some 3 else if b = L_u then Some 4 else if b = L_y then Some 5 else None)"

text \<open>Entries: 0 no rule, 1 first vowel, 2 second vowel, 3 first without and second with a coda.\<close>

definition kDiphthongClassic :: "nat list list" where
  "kDiphthongClassic =
    [[0, 0, 1, 1, 1, 1],
     [0, 0, 1, 1, 1, 0],
     [1, 0, 0, 0, 1, 0],
     [3, 3, 1, 0, 1, 0],
     [1, 1, 1, 0, 0, 3],
     [0, 0, 0, 0, 3, 0]]"

definition kDiphthongModern :: "nat list list" where
  "kDiphthongModern =
    [[0, 0, 1, 1, 1, 1],
     [0, 0, 1, 1, 1, 0],
     [1, 0, 0, 0, 1, 0],
     [2, 2, 1, 0, 1, 0],
     [1, 2, 1, 2, 0, 2],
     [0, 0, 0, 0, 3, 0]]"

definition IsTriphthong :: "wchar \<Rightarrow> wchar \<Rightarrow> wchar \<Rightarrow> bool" where
  "IsTriphthong v1 v2 v3 \<longleftrightarrow>
    (v1 = L_o \<and> v2 = L_a \<and> v3 = L_i) \<or>
    (v1 = L_o \<and> v2 = L_e \<and> v3 = L_o) \<or>
    (v1 = L_u \<and> v2 = L_y \<and> v3 = L_a) \<or>
    (v1 = L_u \<and> v2 = L_y \<and> v3 = L_u) \<or>
    (v1 = L_o \<and> v2 = L_a \<and> v3 = L_o) \<or>
    (v1 = L_o \<and> v2 = L_a \<and> v3 = L_y)"

definition IsBareSmartTriphthongTail :: "wchar \<Rightarrow> wchar \<Rightarrow> wchar \<Rightarrow> bool" where
  "IsBareSmartTriphthongTail v1 v2 v3 \<longleftrightarrow> v1 = L_u \<and> v2 = L_y \<and> v3 = L_e"

definition IsVowelChar :: "wchar \<Rightarrow> bool" where
  "IsVowelChar c \<longleftrightarrow>
    c = L_a \<or> c = L_e \<or> c = L_i \<or> c = L_o \<or> c = L_u \<or> c = L_y \<or>
    c = 65 \<or> c = 69 \<or> c = 73 \<or> c = 79 \<or> c = 85 \<or> c = 89"

subsection \<open>Facts about the tables\<close>

lemma toned_cells_eq: "toned_cells = List.product [0..<12] [0..<5]"
  by (simp add: toned_cells_def product_concat_map)

lemma toned_cells_set: "set toned_cells = {0..<12} \<times> {0..<5}"
  by (auto simp: toned_cells_eq)

text \<open>Every cell of the tone table is distinct from every other.\<close>

lemma kTonedVowel_distinct: "distinct (concat kTonedVowel)"
  by (simp add: kTonedVowel_def)

lemma find_toned_Some:
  "find_toned ch = Some (i, j) \<Longrightarrow> i < 12 \<and> j < 5 \<and> kTonedVowel ! i ! j = ch"
proof -
  assume "find_toned ch = Some (i, j)"
  then obtain k where k: "k < length toned_cells" "toned_cells ! k = (i, j)"
    and hit: "kTonedVowel ! i ! j = ch"
    by (auto simp: find_toned_def find_Some_iff)
  from k have "(i, j) \<in> set toned_cells" by (metis nth_mem)
  with hit show ?thesis by (simp add: toned_cells_set)
qed

end
