(* ===== verification/CharStates.thy ===== *)
theory CharStates
  imports VietnameseTables
begin

text \<open>
  The engine's character state (\<open>CharState\<close>, \<open>Modifier\<close>, \<open>Tone\<close> of \<open>core/engine/TypingEngine.h\<close>) and
  its composition to a code unit (\<open>TypingEngine::Compose\<close>). The enumerators \<open>None\<close> of the two
  enumerations are \<open>ModNone\<close> and \<open>ToneNone\<close>; \<open>toneRawIdx = SIZE_MAX\<close> is \<open>None\<close>.
\<close>

datatype Modifier = ModNone | Circumflex | Breve | Horn | Stroke

datatype Tone = ToneNone | Acute | Grave | Hook | Tilde | Dot

record CharState =
  csBase :: wchar
  csMod :: Modifier
  csTone :: Tone
  csUpper :: bool
  csSynthetic :: bool
  csRawIdx :: nat
  csToneRawIdx :: "nat option"

text \<open>A \<open>CharState\<close> with the default member initialisers.\<close>

definition newCharState :: CharState where
  "newCharState =
    \<lparr>csBase = 0, csMod = ModNone, csTone = ToneNone, csUpper = False, csSynthetic = False,
     csRawIdx = 0, csToneRawIdx = None\<rparr>"

definition IsVowel :: "CharState \<Rightarrow> bool" where
  "IsVowel s \<longleftrightarrow> csBase s = L_a \<or> csBase s = L_e \<or> csBase s = L_i \<or>
                 csBase s = L_o \<or> csBase s = L_u \<or> csBase s = L_y"

definition CanHaveMod :: "CharState \<Rightarrow> bool" where
  "CanHaveMod s \<longleftrightarrow> csBase s = L_a \<or> csBase s = L_e \<or> csBase s = L_o \<or> csBase s = L_u"

definition IsD :: "CharState \<Rightarrow> bool" where
  "IsD s \<longleftrightarrow> csBase s = L_d"

definition IsHorn :: "CharState \<Rightarrow> bool" where
  "IsHorn s \<longleftrightarrow> csMod s = Horn"

definition HasModifier :: "CharState \<Rightarrow> bool" where
  "HasModifier s \<longleftrightarrow> csMod s \<noteq> ModNone"

definition HasTone :: "CharState \<Rightarrow> bool" where
  "HasTone s \<longleftrightarrow> csTone s \<noteq> ToneNone"

definition IsEmpty :: "CharState \<Rightarrow> bool" where
  "IsEmpty s \<longleftrightarrow> csBase s = 0"

subsection \<open>Composition\<close>

fun ModifierIndex :: "Modifier \<Rightarrow> nat option" where
  "ModifierIndex Circumflex = Some 0"
| "ModifierIndex Breve = Some 1"
| "ModifierIndex Horn = Some 2"
| "ModifierIndex ModNone = None"
| "ModifierIndex Stroke = None"

fun ToneIndex :: "Tone \<Rightarrow> nat option" where
  "ToneIndex Acute = Some 0"
| "ToneIndex Grave = Some 1"
| "ToneIndex Hook = Some 2"
| "ToneIndex Tilde = Some 3"
| "ToneIndex Dot = Some 4"
| "ToneIndex ToneNone = None"

text \<open>Steps 1 and 2 of \<open>Compose\<close>: the modifier table, then the tone table.\<close>

definition apply_mod :: "CharState \<Rightarrow> wchar" where
  "apply_mod s =
    (if csMod s \<noteq> ModNone \<and> IsVowel s then
       (case (VowelBaseIndex (csBase s), ModifierIndex (csMod s)) of
          (Some bi, Some mi) \<Rightarrow>
            (let modified = kModifiedVowel ! bi ! mi in if modified \<noteq> 0 then modified else csBase s)
        | _ \<Rightarrow> csBase s)
     else csBase s)"

definition apply_tone :: "Tone \<Rightarrow> wchar \<Rightarrow> wchar" where
  "apply_tone t ch =
    (if t \<noteq> ToneNone then
       (case (ToneBaseIndex ch, ToneIndex t) of
          (Some ti, Some si) \<Rightarrow> kTonedVowel ! ti ! si
        | _ \<Rightarrow> ch)
     else ch)"

definition Compose :: "CharState \<Rightarrow> wchar" where
  "Compose s =
    (if IsEmpty s then 0
     else if IsD s \<and> csMod s = Stroke then (if csUpper s then L_Dstroke else L_dstroke)
     else (let ch = apply_tone (csTone s) (apply_mod s) in
           if csUpper s then ToUpperVietnamese ch else ch))"

text \<open>\<open>ComposeAll\<close> skips states that compose to no character.\<close>

definition ComposeAll :: "CharState list \<Rightarrow> wstring" where
  "ComposeAll ss = filter (\<lambda>ch. ch \<noteq> 0) (map Compose ss)"

subsection \<open>Well-formed states\<close>

text \<open>
  The type invariant of a state: a modifier only on a base letter that can carry it, a tone only
  on a vowel, and a lower-case base.
\<close>

definition mod_fits :: "wchar \<Rightarrow> Modifier \<Rightarrow> bool" where
  "mod_fits b m \<longleftrightarrow>
    (case m of
       ModNone \<Rightarrow> True
     | Circumflex \<Rightarrow> b = L_a \<or> b = L_e \<or> b = L_o
     | Breve \<Rightarrow> b = L_a
     | Horn \<Rightarrow> b = L_o \<or> b = L_u
     | Stroke \<Rightarrow> b = L_d)"

definition state_ok :: "CharState \<Rightarrow> bool" where
  "state_ok s \<longleftrightarrow>
    mod_fits (csBase s) (csMod s) \<and> (HasTone s \<longrightarrow> IsVowel s) \<and> \<not> iswupper (csBase s)"

lemmas state_defs = IsVowel_def CanHaveMod_def IsD_def IsHorn_def HasModifier_def HasTone_def
  IsEmpty_def

lemma newCharState_simps [simp]:
  "csBase newCharState = 0" "csMod newCharState = ModNone" "csTone newCharState = ToneNone"
  "csUpper newCharState = False" "csSynthetic newCharState = False" "csRawIdx newCharState = 0"
  "csToneRawIdx newCharState = None"
  by (simp_all add: newCharState_def)

text \<open>The predicates see only the base, the modifier and the tone.\<close>

lemma IsVowel_upd [simp]:
  "IsVowel (s\<lparr>csMod := m\<rparr>) = IsVowel s" "IsVowel (s\<lparr>csTone := t\<rparr>) = IsVowel s"
  "IsVowel (s\<lparr>csUpper := u\<rparr>) = IsVowel s" "IsVowel (s\<lparr>csSynthetic := y\<rparr>) = IsVowel s"
  "IsVowel (s\<lparr>csRawIdx := r\<rparr>) = IsVowel s" "IsVowel (s\<lparr>csToneRawIdx := q\<rparr>) = IsVowel s"
  by (simp_all add: IsVowel_def)

lemma IsD_upd [simp]:
  "IsD (s\<lparr>csMod := m\<rparr>) = IsD s" "IsD (s\<lparr>csTone := t\<rparr>) = IsD s"
  "IsD (s\<lparr>csRawIdx := r\<rparr>) = IsD s" "IsD (s\<lparr>csToneRawIdx := q\<rparr>) = IsD s"
  by (simp_all add: IsD_def)

lemma HasTone_upd [simp]:
  "HasTone (s\<lparr>csMod := m\<rparr>) = HasTone s" "HasTone (s\<lparr>csTone := t\<rparr>) = (t \<noteq> ToneNone)"
  "HasTone (s\<lparr>csRawIdx := r\<rparr>) = HasTone s" "HasTone (s\<lparr>csToneRawIdx := q\<rparr>) = HasTone s"
  "HasTone (s\<lparr>csSynthetic := y\<rparr>) = HasTone s"
  by (simp_all add: HasTone_def)

lemma HasModifier_upd [simp]:
  "HasModifier (s\<lparr>csMod := m\<rparr>) = (m \<noteq> ModNone)" "HasModifier (s\<lparr>csTone := t\<rparr>) = HasModifier s"
  by (simp_all add: HasModifier_def)

lemma state_ok_upd [simp]:
  "state_ok (s\<lparr>csUpper := u\<rparr>) = state_ok s" "state_ok (s\<lparr>csSynthetic := y\<rparr>) = state_ok s"
  "state_ok (s\<lparr>csRawIdx := r\<rparr>) = state_ok s" "state_ok (s\<lparr>csToneRawIdx := q\<rparr>) = state_ok s"
  by (simp_all add: state_ok_def state_defs)

lemma state_ok_mod: "state_ok s \<Longrightarrow> mod_fits (csBase s) m \<Longrightarrow> state_ok (s\<lparr>csMod := m\<rparr>)"
  by (simp add: state_ok_def)

lemma state_ok_mod_None [simp]: "state_ok s \<Longrightarrow> state_ok (s\<lparr>csMod := ModNone\<rparr>)"
  by (simp add: state_ok_def mod_fits_def)

lemma state_ok_tone: "state_ok s \<Longrightarrow> t \<noteq> ToneNone \<longrightarrow> IsVowel s \<Longrightarrow> state_ok (s\<lparr>csTone := t\<rparr>)"
  by (simp add: state_ok_def)

lemma state_ok_tone_None [simp]: "state_ok s \<Longrightarrow> state_ok (s\<lparr>csTone := ToneNone\<rparr>)"
  by (simp add: state_ok_def)

text \<open>Composition looks at no field but the base, the modifier, the tone and the case.\<close>

lemma apply_mod_cong: "csBase s = csBase s' \<Longrightarrow> csMod s = csMod s' \<Longrightarrow> apply_mod s = apply_mod s'"
  unfolding apply_mod_def IsVowel_def by (simp only:)

lemma apply_mod_upd [simp]:
  "apply_mod (s\<lparr>csUpper := u\<rparr>) = apply_mod s" "apply_mod (s\<lparr>csRawIdx := i\<rparr>) = apply_mod s"
  "apply_mod (s\<lparr>csTone := t\<rparr>) = apply_mod s" "apply_mod (s\<lparr>csToneRawIdx := q\<rparr>) = apply_mod s"
  "apply_mod (s\<lparr>csSynthetic := y\<rparr>) = apply_mod s"
  by (rule apply_mod_cong; simp)+

lemma Compose_cong:
  "csBase s = csBase s' \<Longrightarrow> csMod s = csMod s' \<Longrightarrow> csTone s = csTone s' \<Longrightarrow> csUpper s = csUpper s' \<Longrightarrow>
   Compose s = Compose s'"
  unfolding Compose_def IsEmpty_def IsD_def using apply_mod_cong[of s s'] by (simp only:)

lemma Compose_upd [simp]:
  "Compose (s\<lparr>csRawIdx := i\<rparr>) = Compose s" "Compose (s\<lparr>csToneRawIdx := q\<rparr>) = Compose s"
  "Compose (s\<lparr>csSynthetic := y\<rparr>) = Compose s"
  by (rule Compose_cong; simp)+

lemma vowel_not_d: "IsVowel s \<Longrightarrow> \<not> IsD s"
  by (auto simp: state_defs)

text \<open>A well-formed state loses nothing in composition.\<close>

lemma apply_mod_eq:
  "state_ok s \<Longrightarrow> IsVowel s \<Longrightarrow>
   apply_mod s =
     (case csMod s of ModNone \<Rightarrow> csBase s
      | Circumflex \<Rightarrow> (if csBase s = L_a then L_acirc else if csBase s = L_e then L_ecirc else L_ocirc)
      | Breve \<Rightarrow> L_abreve
      | Horn \<Rightarrow> (if csBase s = L_o then L_ohorn else L_uhorn)
      | Stroke \<Rightarrow> csBase s)"
  by (cases "csMod s") (auto simp: apply_mod_def state_ok_def mod_fits_def VowelBaseIndex_def
      kModifiedVowel_def)

text \<open>Stripping the tone of a vowel gives back the vowel the tone was put on: \<open>StripTone\<close> inverts
  the tone step of \<open>Compose\<close> on every row of the tone table and for every tone.\<close>

theorem StripTone_apply_tone:
  assumes "b \<in> set kToneBase" shows "StripTone (apply_tone t b) = b"
proof -
  have "list_all (\<lambda>b. list_all (\<lambda>t. StripTone (apply_tone t b) = b)
      [ToneNone, Acute, Grave, Hook, Tilde, Dot]) kToneBase"
    by code_simp
  moreover have "t \<in> set [ToneNone, Acute, Grave, Hook, Tilde, Dot]" by (cases t) simp_all
  ultimately show ?thesis using assms by (auto simp only: list_all_iff)
qed

theorem StripTone_apply_tone_witness: "StripTone (apply_tone Dot L_ecirc) = L_ecirc"
  by (rule StripTone_apply_tone) (simp add: kToneBase_def)

end
