(* ===== verification/PhonologyData.thy ===== *)
theory PhonologyData
  imports Prelude
begin

text \<open>
  The rule data of \<open>core/engine/VietnamesePhonologyData.h\<close>: vowel nuclei packed into 32-bit keys, the
  coda bit masks and the table of codas each nucleus allows. Slots are bytes, keys 32-bit and coda
  masks 16-bit words, as in the source.
\<close>

unbundle bit_operations_syntax

definition IsFrontBaseVowel :: "wchar \<Rightarrow> bool" where
  "IsFrontBaseVowel b \<longleftrightarrow> b = L_e \<or> b = L_i \<or> b = L_y"

subsection \<open>Packed nucleus keys\<close>

definition kA :: u8 where "kA = 0"
definition kE :: u8 where "kE = 1"
definition kI :: u8 where "kI = 2"
definition kO :: u8 where "kO = 3"
definition kU :: u8 where "kU = 4"
definition kY :: u8 where "kY = 5"
definition kNone :: u8 where "kNone = 0"
definition kCirc :: u8 where "kCirc = 1"
definition kBrev :: u8 where "kBrev = 2"
definition kHorn :: u8 where "kHorn = 3"
definition kInvalidBaseIndex :: u8 where "kInvalidBaseIndex = 0xFF"

lemmas k_defs = kA_def kE_def kI_def kO_def kU_def kY_def kNone_def kCirc_def kBrev_def kHorn_def
  kInvalidBaseIndex_def

definition VowelSlot :: "u8 \<Rightarrow> u8 \<Rightarrow> u8" where
  "VowelSlot b m = push_bit 2 b OR m"

definition BaseIndex :: "wchar \<Rightarrow> u8" where
  "BaseIndex b =
    (if b = L_a then kA else if b = L_e then kE else if b = L_i then kI else if b = L_o then kO
     else if b = L_u then kU else if b = L_y then kY else kInvalidBaseIndex)"

definition Key1 :: "u8 \<Rightarrow> u32" where
  "Key1 s0 = push_bit 24 1 OR ucast s0"

definition Key2 :: "u8 \<Rightarrow> u8 \<Rightarrow> u32" where
  "Key2 s0 s1 = push_bit 24 2 OR push_bit 8 (ucast s0) OR ucast s1"

definition Key3 :: "u8 \<Rightarrow> u8 \<Rightarrow> u8 \<Rightarrow> u32" where
  "Key3 s0 s1 s2 = push_bit 24 3 OR push_bit 16 (ucast s0) OR push_bit 8 (ucast s1) OR ucast s2"

subsection \<open>Coda masks\<close>

definition F_c :: u16 where "F_c = 0x001"
definition F_ch :: u16 where "F_ch = 0x002"
definition F_k :: u16 where "F_k = 0x004"
definition F_m :: u16 where "F_m = 0x008"
definition F_n :: u16 where "F_n = 0x010"
definition F_ng :: u16 where "F_ng = 0x020"
definition F_nh :: u16 where "F_nh = 0x040"
definition F_p :: u16 where "F_p = 0x080"
definition F_t :: u16 where "F_t = 0x100"

definition F_ALL :: u16 where
  "F_ALL = F_c OR F_ch OR F_k OR F_m OR F_n OR F_ng OR F_nh OR F_p OR F_t"

definition F_NO_CH_NH :: u16 where
  "F_NO_CH_NH = F_ALL AND NOT (F_ch OR F_nh)"

lemmas F_defs = F_c_def F_ch_def F_k_def F_m_def F_n_def F_ng_def F_nh_def F_p_def F_t_def

definition kVCPairRules :: "(u32 \<times> u16) list" where
  "kVCPairRules =
    [(Key1 (VowelSlot kA kNone), F_ALL),
     (Key1 (VowelSlot kA kCirc), F_NO_CH_NH),
     (Key1 (VowelSlot kA kBrev), F_NO_CH_NH),
     (Key1 (VowelSlot kE kNone), F_ALL),
     (Key1 (VowelSlot kE kCirc), F_c OR F_ch OR F_m OR F_n OR F_nh OR F_p OR F_t),
     (Key1 (VowelSlot kI kNone), F_ALL AND NOT F_ng),
     (Key1 (VowelSlot kO kNone), F_NO_CH_NH),
     (Key1 (VowelSlot kO kCirc), F_NO_CH_NH),
     (Key1 (VowelSlot kO kHorn), F_m OR F_n OR F_p OR F_t),
     (Key1 (VowelSlot kU kNone), F_NO_CH_NH),
     (Key1 (VowelSlot kU kHorn), F_NO_CH_NH),
     (Key1 (VowelSlot kY kNone), F_t),
     (Key2 (VowelSlot kI kNone) (VowelSlot kE kCirc), F_c OR F_m OR F_n OR F_ng OR F_p OR F_t),
     (Key2 (VowelSlot kO kNone) (VowelSlot kA kNone), F_ALL),
     (Key2 (VowelSlot kO kNone) (VowelSlot kA kBrev), F_c OR F_n OR F_ng OR F_t),
     (Key2 (VowelSlot kO kNone) (VowelSlot kE kNone), F_m OR F_n OR F_ng OR F_t),
     (Key2 (VowelSlot kO kNone) (VowelSlot kO kNone), F_c OR F_ng),
     (Key2 (VowelSlot kU kNone) (VowelSlot kA kCirc), F_n OR F_ng OR F_t),
     (Key2 (VowelSlot kU kNone) (VowelSlot kE kCirc), F_ch OR F_n OR F_nh),
     (Key2 (VowelSlot kU kNone) (VowelSlot kO kCirc), F_c OR F_m OR F_n OR F_ng OR F_p OR F_t),
     (Key2 (VowelSlot kU kNone) (VowelSlot kO kHorn), F_c OR F_m OR F_n OR F_ng OR F_p OR F_t),
     (Key2 (VowelSlot kU kNone) (VowelSlot kY kNone), F_ch OR F_n OR F_nh OR F_t),
     (Key2 (VowelSlot kU kHorn) (VowelSlot kO kHorn), F_c OR F_m OR F_n OR F_ng OR F_p OR F_t),
     (Key2 (VowelSlot kY kNone) (VowelSlot kE kCirc), F_c OR F_m OR F_n OR F_ng OR F_p OR F_t),
     (Key3 (VowelSlot kU kNone) (VowelSlot kY kNone) (VowelSlot kE kCirc), F_n OR F_t)]"

lemma F_ALL_code [code]: "F_ALL = 0x1FF"
  by (simp add: F_ALL_def F_defs)

lemma F_NO_CH_NH_code [code]: "F_NO_CH_NH = 0x1BD"
  by (simp add: F_NO_CH_NH_def F_ALL_code F_defs)

text \<open>The table with its keys and masks computed, for evaluation.\<close>

lemma kVCPairRules_code [code]:
  "kVCPairRules =
    [(0x01000000, 0x1FF), (0x01000001, 0x1BD), (0x01000002, 0x1BD),
     (0x01000004, 0x1FF), (0x01000005, 0x1DB), (0x01000008, 0x1DF),
     (0x0100000C, 0x1BD), (0x0100000D, 0x1BD), (0x0100000F, 0x198),
     (0x01000010, 0x1BD), (0x01000013, 0x1BD), (0x01000014, 0x100),
     (0x02000805, 0x1B9), (0x02000C00, 0x1FF), (0x02000C02, 0x131),
     (0x02000C04, 0x138), (0x02000C0C, 0x021), (0x02001001, 0x130),
     (0x02001005, 0x052), (0x0200100D, 0x1B9), (0x0200100F, 0x1B9),
     (0x02001014, 0x152), (0x0200130F, 0x1B9), (0x02001405, 0x1B9),
     (0x03101405, 0x110)]"
  by (simp add: kVCPairRules_def F_NO_CH_NH_code F_ALL_code F_defs k_defs Key1_def Key2_def Key3_def
      VowelSlot_def)

text \<open>The linear search returns the first entry, 0 when the nucleus has none.\<close>

definition GetAllowedFinals :: "u32 \<Rightarrow> u16" where
  "GetAllowedFinals vowelKey =
    (case map_of kVCPairRules vowelKey of Some f \<Rightarrow> f | None \<Rightarrow> 0)"

subsection \<open>The encoding is injective\<close>

text \<open>
  Each slot can be read back from the key, and the length prefix tells the three kinds apart. The
  prefix is a variable in the auxiliary lemmas, so that its numeral is not evaluated away.
\<close>

lemma packed_slots:
  fixes tag :: u32 and s0 s1 s2 :: u8
  shows "ucast (push_bit 24 tag OR ucast s0) = s0"
    and "ucast (drop_bit 8 (push_bit 24 tag OR push_bit 8 (ucast s0) OR ucast s1)) = s0"
    and "ucast (push_bit 24 tag OR push_bit 8 (ucast s0) OR ucast s1) = s1"
    and "ucast (drop_bit 16 (push_bit 24 tag OR push_bit 16 (ucast s0) OR push_bit 8 (ucast s1)
           OR ucast s2)) = s0"
    and "ucast (drop_bit 8 (push_bit 24 tag OR push_bit 16 (ucast s0) OR push_bit 8 (ucast s1)
           OR ucast s2)) = s1"
    and "ucast (push_bit 24 tag OR push_bit 16 (ucast s0) OR push_bit 8 (ucast s1) OR ucast s2) = s2"
  by (rule bit_word_eqI; auto simp: bit_simps dest: bit_imp_le_length)+

lemma packed_prefix:
  fixes tag :: u32 and s0 s1 s2 :: u8
  assumes "take_bit 8 tag = tag"
  shows "drop_bit 24 (push_bit 24 tag OR ucast s0) = tag"
    and "drop_bit 24 (push_bit 24 tag OR push_bit 8 (ucast s0) OR ucast s1) = tag"
    and "drop_bit 24 (push_bit 24 tag OR push_bit 16 (ucast s0) OR push_bit 8 (ucast s1)
           OR ucast s2) = tag"
proof -
  have hi: "n < 8" if "bit tag n" for n
    using that assms by (metis bit_take_bit_iff)
  have lo: "\<not> bit (s :: u8) (24 + n)" for s n
    by (auto dest: bit_imp_le_length)
  show "drop_bit 24 (push_bit 24 tag OR ucast s0) = tag"
    "drop_bit 24 (push_bit 24 tag OR push_bit 8 (ucast s0) OR ucast s1) = tag"
    "drop_bit 24 (push_bit 24 tag OR push_bit 16 (ucast s0) OR push_bit 8 (ucast s1) OR ucast s2) = tag"
    by (rule bit_word_eqI; auto simp: bit_simps lo dest: bit_imp_le_length hi)+
qed

lemma Key_prefix:
  "drop_bit 24 (Key1 s0) = 1" "drop_bit 24 (Key2 s0 s1) = 2" "drop_bit 24 (Key3 s0 s1 s2) = 3"
  unfolding Key1_def Key2_def Key3_def by (rule packed_prefix; simp)+

lemma Key_slots:
  "ucast (Key1 s0) = s0"
  "ucast (drop_bit 8 (Key2 s0 s1)) = s0" "ucast (Key2 s0 s1) = s1"
  "ucast (drop_bit 16 (Key3 s0 s1 s2)) = s0" "ucast (drop_bit 8 (Key3 s0 s1 s2)) = s1"
  "ucast (Key3 s0 s1 s2) = s2"
  unfolding Key1_def Key2_def Key3_def by (rule packed_slots)+

lemma Key_inject [simp]:
  "Key1 s0 = Key1 t0 \<longleftrightarrow> s0 = t0"
  "Key2 s0 s1 = Key2 t0 t1 \<longleftrightarrow> s0 = t0 \<and> s1 = t1"
  "Key3 s0 s1 s2 = Key3 t0 t1 t2 \<longleftrightarrow> s0 = t0 \<and> s1 = t1 \<and> s2 = t2"
  by (metis Key_slots)+

lemma num_neq_u32: "(1::u32) \<noteq> 2" "(1::u32) \<noteq> 3" "(2::u32) \<noteq> 3" "(1::u32) \<noteq> 0" "(2::u32) \<noteq> 0" "(3::u32) \<noteq> 0"
  by simp_all

lemma Key_distinct [simp]:
  "Key1 s0 \<noteq> Key2 t0 t1" "Key2 t0 t1 \<noteq> Key1 s0" "Key1 s0 \<noteq> Key3 t0 t1 t2"
  "Key3 t0 t1 t2 \<noteq> Key1 s0" "Key2 s0 s1 \<noteq> Key3 t0 t1 t2" "Key3 t0 t1 t2 \<noteq> Key2 s0 s1"
  by (metis Key_prefix num_neq_u32)+

lemma Key_nonzero [simp]: "Key1 s0 \<noteq> 0" "Key2 s0 s1 \<noteq> 0" "Key3 s0 s1 s2 \<noteq> 0"
  by (metis Key_prefix drop_bit_of_0 num_neq_u32)+

text \<open>The slot of a base letter and a modifier ordinal determines both.\<close>

lemma VowelSlot_decode:
  assumes "b \<in> {kA, kE, kI, kO, kU, kY}" and "m \<in> {kNone, kCirc, kBrev, kHorn}"
  shows "drop_bit 2 (VowelSlot b m) = b \<and> take_bit 2 (VowelSlot b m) = m"
  using assms by (auto simp: VowelSlot_def k_defs)

lemma VowelSlot_inject:
  assumes "b \<in> {kA, kE, kI, kO, kU, kY}" and "m \<in> {kNone, kCirc, kBrev, kHorn}"
    and "b' \<in> {kA, kE, kI, kO, kU, kY}" and "m' \<in> {kNone, kCirc, kBrev, kHorn}"
  shows "VowelSlot b m = VowelSlot b' m' \<longleftrightarrow> b = b' \<and> m = m'"
  using VowelSlot_decode[OF assms(1,2)] VowelSlot_decode[OF assms(3,4)] by metis

end
