(* ===== verification/Validator.thy ===== *)
theory Validator
  imports CharStates PhonologyData
begin

text \<open>
  The syllable validator (\<open>core/engine/PhonotacticsValidator.cpp\<close>), the hot-path half of the
  phonotactics engine: it decides whether a buffer of character states is a Vietnamese syllable,
  a prefix of one, or neither. A pair of a pointer and a count in the source is a list here.
\<close>

datatype SyllableState = Valid | ValidPrefix | Invalid

subsection \<open>The nucleus table\<close>

text \<open>Entries: packed nucleus and \<open>canEnd\<close>, whether a final consonant may follow.\<close>

type_synonym VowelEntry = "u32 \<times> bool"

definition canEnd :: "VowelEntry \<Rightarrow> bool" where
  "canEnd e = snd e"

definition kVowelTable :: "VowelEntry list" where
  "kVowelTable =
    [(Key1 (VowelSlot kA kNone), True),
     (Key1 (VowelSlot kA kCirc), True),
     (Key1 (VowelSlot kA kBrev), True),
     (Key1 (VowelSlot kE kNone), True),
     (Key1 (VowelSlot kE kCirc), True),
     (Key1 (VowelSlot kI kNone), True),
     (Key1 (VowelSlot kO kNone), True),
     (Key1 (VowelSlot kO kCirc), True),
     (Key1 (VowelSlot kO kHorn), True),
     (Key1 (VowelSlot kU kNone), True),
     (Key1 (VowelSlot kU kHorn), True),
     (Key1 (VowelSlot kY kNone), True),
     (Key2 (VowelSlot kA kNone) (VowelSlot kI kNone), False),
     (Key2 (VowelSlot kA kNone) (VowelSlot kO kNone), False),
     (Key2 (VowelSlot kA kNone) (VowelSlot kU kNone), False),
     (Key2 (VowelSlot kA kNone) (VowelSlot kY kNone), False),
     (Key2 (VowelSlot kA kCirc) (VowelSlot kU kNone), False),
     (Key2 (VowelSlot kA kCirc) (VowelSlot kY kNone), False),
     (Key2 (VowelSlot kE kNone) (VowelSlot kO kNone), False),
     (Key2 (VowelSlot kE kCirc) (VowelSlot kU kNone), False),
     (Key2 (VowelSlot kI kNone) (VowelSlot kA kNone), False),
     (Key2 (VowelSlot kI kNone) (VowelSlot kU kNone), False),
     (Key2 (VowelSlot kO kNone) (VowelSlot kA kNone), True),
     (Key2 (VowelSlot kO kNone) (VowelSlot kI kNone), False),
     (Key2 (VowelSlot kO kCirc) (VowelSlot kI kNone), False),
     (Key2 (VowelSlot kO kHorn) (VowelSlot kI kNone), False),
     (Key2 (VowelSlot kU kNone) (VowelSlot kA kNone), False),
     (Key2 (VowelSlot kU kNone) (VowelSlot kI kNone), False),
     (Key2 (VowelSlot kU kHorn) (VowelSlot kA kNone), False),
     (Key2 (VowelSlot kU kHorn) (VowelSlot kI kNone), False),
     (Key2 (VowelSlot kU kHorn) (VowelSlot kU kNone), False),
     (Key2 (VowelSlot kI kNone) (VowelSlot kE kCirc), True),
     (Key2 (VowelSlot kO kNone) (VowelSlot kA kBrev), True),
     (Key2 (VowelSlot kO kNone) (VowelSlot kE kNone), True),
     (Key2 (VowelSlot kO kNone) (VowelSlot kO kNone), True),
     (Key2 (VowelSlot kU kNone) (VowelSlot kA kCirc), True),
     (Key2 (VowelSlot kU kNone) (VowelSlot kE kCirc), True),
     (Key2 (VowelSlot kU kNone) (VowelSlot kO kCirc), True),
     (Key2 (VowelSlot kU kNone) (VowelSlot kO kHorn), True),
     (Key2 (VowelSlot kU kNone) (VowelSlot kY kNone), True),
     (Key2 (VowelSlot kU kHorn) (VowelSlot kO kHorn), True),
     (Key2 (VowelSlot kY kNone) (VowelSlot kE kCirc), True),
     (Key3 (VowelSlot kI kNone) (VowelSlot kE kCirc) (VowelSlot kU kNone), False),
     (Key3 (VowelSlot kO kNone) (VowelSlot kA kNone) (VowelSlot kI kNone), False),
     (Key3 (VowelSlot kO kNone) (VowelSlot kA kNone) (VowelSlot kY kNone), False),
     (Key3 (VowelSlot kO kNone) (VowelSlot kE kNone) (VowelSlot kO kNone), False),
     (Key3 (VowelSlot kU kNone) (VowelSlot kA kCirc) (VowelSlot kY kNone), False),
     (Key3 (VowelSlot kU kNone) (VowelSlot kO kCirc) (VowelSlot kI kNone), False),
     (Key3 (VowelSlot kU kNone) (VowelSlot kY kNone) (VowelSlot kA kNone), False),
     (Key3 (VowelSlot kU kNone) (VowelSlot kY kNone) (VowelSlot kU kNone), False),
     (Key3 (VowelSlot kU kHorn) (VowelSlot kO kHorn) (VowelSlot kI kNone), False),
     (Key3 (VowelSlot kU kHorn) (VowelSlot kO kHorn) (VowelSlot kU kNone), False),
     (Key3 (VowelSlot kU kNone) (VowelSlot kY kNone) (VowelSlot kE kCirc), True),
     (Key3 (VowelSlot kY kNone) (VowelSlot kE kCirc) (VowelSlot kU kNone), False)]"

text \<open>The table with its keys computed, for evaluation.\<close>

lemma kVowelTable_code [code]:
  "kVowelTable =
    [(0x01000000, True), (0x01000001, True), (0x01000002, True), (0x01000004, True),
     (0x01000005, True), (0x01000008, True), (0x0100000C, True), (0x0100000D, True),
     (0x0100000F, True), (0x01000010, True), (0x01000013, True), (0x01000014, True),
     (0x02000008, False), (0x0200000C, False), (0x02000010, False), (0x02000014, False),
     (0x02000110, False), (0x02000114, False), (0x0200040C, False), (0x02000510, False),
     (0x02000800, False), (0x02000810, False), (0x02000C00, True), (0x02000C08, False),
     (0x02000D08, False), (0x02000F08, False), (0x02001000, False), (0x02001008, False),
     (0x02001300, False), (0x02001308, False), (0x02001310, False), (0x02000805, True),
     (0x02000C02, True), (0x02000C04, True), (0x02000C0C, True), (0x02001001, True),
     (0x02001005, True), (0x0200100D, True), (0x0200100F, True), (0x02001014, True),
     (0x0200130F, True), (0x02001405, True), (0x03080510, False), (0x030C0008, False),
     (0x030C0014, False), (0x030C040C, False), (0x03100114, False), (0x03100D08, False),
     (0x03101400, False), (0x03101410, False), (0x03130F08, False), (0x03130F10, False),
     (0x03101405, True), (0x03140510, False)]"
  by (simp add: kVowelTable_def k_defs Key1_def Key2_def Key3_def VowelSlot_def)

definition FindVowel :: "u32 \<Rightarrow> VowelEntry option" where
  "FindVowel key = find (\<lambda>e. fst e = key) kVowelTable"

definition FinalConsonantBit :: "CharState list \<Rightarrow> nat \<Rightarrow> u16" where
  "FinalConsonantBit ss finalLen =
    (if finalLen = 0 then 0
     else (let c0 = csBase (ss ! 0) in
       if finalLen = 2 then
         (let c1 = csBase (ss ! 1) in
          if c0 = L_c \<and> c1 = L_h then F_ch
          else if c0 = L_n \<and> c1 = L_g then F_ng
          else if c0 = L_n \<and> c1 = L_h then F_nh
          else 0)
       else if c0 = L_c then F_c
       else if c0 = L_k then F_k
       else if c0 = L_m then F_m
       else if c0 = L_n then F_n
       else if c0 = L_p then F_p
       else if c0 = L_t then F_t
       else 0))"

text \<open>Is the key a proper prefix of a longer table entry? Slots are compared byte by byte.\<close>

definition IsVowelPrefix :: "u32 \<Rightarrow> nat \<Rightarrow> bool" where
  "IsVowelPrefix key numSlots =
    (let keySlot0 = (if numSlots = 2 then ucast (drop_bit 8 key AND 0xFF) else ucast (key AND 0xFF) :: u8)
     in list_ex (\<lambda>(entryKey, _).
          let entryLen = ucast (drop_bit 24 entryKey) :: u8 in
          if numSlots = 1 \<and> 2 \<le> entryLen then
            (let entryFirst = (if entryLen = 2 then ucast (drop_bit 8 entryKey AND 0xFF)
                               else ucast (drop_bit 16 entryKey AND 0xFF) :: u8)
             in entryFirst = keySlot0)
          else if numSlots = 2 \<and> entryLen = 3 then
            (ucast (drop_bit 8 entryKey AND 0xFFFF) :: u16) = ucast (key AND 0xFFFF)
          else False) kVowelTable)"

subsection \<open>Consonants\<close>

definition single_initial :: "wchar \<Rightarrow> bool \<Rightarrow> bool" where
  "single_initial c0 zwjf \<longleftrightarrow>
    c0 = L_b \<or> c0 = L_c \<or> c0 = L_d \<or> c0 = L_g \<or> c0 = L_h \<or> c0 = L_k \<or> c0 = L_l \<or> c0 = L_m \<or>
    c0 = L_n \<or> c0 = L_p \<or> c0 = L_q \<or> c0 = L_r \<or> c0 = L_s \<or> c0 = L_t \<or> c0 = L_v \<or> c0 = L_x \<or>
    zwjf \<and> (c0 = L_z \<or> c0 = L_j \<or> c0 = L_w \<or> c0 = L_f)"

definition ParseInitialConsonant :: "CharState list \<Rightarrow> bool \<Rightarrow> nat" where
  "ParseInitialConsonant ss zwjf =
    (if ss = [] then 0
     else if IsD (ss ! 0) \<and> csMod (ss ! 0) \<noteq> ModNone then 1
     else if IsVowel (ss ! 0) then 0
     else (let c0 = csBase (ss ! 0) in
       if 3 \<le> length ss \<and> c0 = L_n \<and> csBase (ss ! 1) = L_g \<and> csBase (ss ! 2) = L_h \<and>
          \<not> IsVowel (ss ! 1) \<and> \<not> IsVowel (ss ! 2) then 3
       else if 2 \<le> length ss \<and> \<not> IsVowel (ss ! 1) \<and> \<not> IsD (ss ! 1) \<and>
          (let c1 = csBase (ss ! 1) in
             c0 = L_c \<and> c1 = L_h \<or> c0 = L_g \<and> c1 = L_h \<or> c0 = L_g \<and> c1 = L_i \<or>
             c0 = L_k \<and> c1 = L_h \<or> c0 = L_n \<and> c1 = L_g \<or> c0 = L_n \<and> c1 = L_h \<or>
             c0 = L_p \<and> c1 = L_h \<or> c0 = L_q \<and> c1 = L_u \<or> c0 = L_t \<and> c1 = L_h \<or>
             c0 = L_t \<and> c1 = L_r) then 2
       else if single_initial c0 zwjf then 1
       else 0))"

definition ParseFinalConsonant :: "CharState list \<Rightarrow> nat" where
  "ParseFinalConsonant ss =
    (if ss = [] then 0
     else if IsVowel (ss ! 0) then 0
     else (let c0 = csBase (ss ! 0) in
       if 2 \<le> length ss \<and> \<not> IsVowel (ss ! 1) \<and>
          (let c1 = csBase (ss ! 1) in
             c0 = L_c \<and> c1 = L_h \<or> c0 = L_n \<and> c1 = L_g \<or> c0 = L_n \<and> c1 = L_h) then 2
       else if c0 = L_c \<or> c0 = L_k \<or> c0 = L_m \<or> c0 = L_n \<or> c0 = L_p \<or> c0 = L_t then 1
       else 0))"

definition IsStopFinal :: "CharState list \<Rightarrow> nat \<Rightarrow> bool" where
  "IsStopFinal ss finalLen =
    (if finalLen = 0 then False
     else (let c0 = csBase (ss ! 0) in
       if c0 = L_p \<or> c0 = L_t then True
       else if c0 = L_c \<or> c0 = L_k then True
       else False))"

text \<open>The first tone carried by any state.\<close>

definition GetTone :: "CharState list \<Rightarrow> Tone" where
  "GetTone ss = (case find (\<lambda>s. csTone s \<noteq> ToneNone) ss of Some s \<Rightarrow> csTone s | None \<Rightarrow> ToneNone)"

text \<open>The modifier's ordinal; \<open>Stroke\<close>, value 4, counts as none.\<close>

fun ModOrdinal :: "Modifier \<Rightarrow> u8" where
  "ModOrdinal ModNone = 0"
| "ModOrdinal Circumflex = 1"
| "ModOrdinal Breve = 2"
| "ModOrdinal Horn = 3"
| "ModOrdinal Stroke = 0"

subsection \<open>Nuclei one modifier away\<close>

definition BuildModifiedKey :: "u8 list \<Rightarrow> u8 list \<Rightarrow> nat \<Rightarrow> nat \<Rightarrow> u8 \<Rightarrow> u32" where
  "BuildModifiedKey bases mods vowelLen vi tryMod =
    (let slot = (\<lambda>i. VowelSlot (bases ! i) (if i = vi then tryMod else mods ! i)) in
     if vowelLen = 1 then Key1 (slot 0)
     else if vowelLen = 2 then Key2 (slot 0) (slot 1)
     else Key3 (slot 0) (slot 1) (slot 2))"

definition TryModifiedVowels :: "CharState list \<Rightarrow> (VowelEntry \<Rightarrow> bool) \<Rightarrow> bool" where
  "TryModifiedVowels vs P =
    (if length vs < 1 \<or> 3 < length vs then False
     else (let bases = map (\<lambda>s. BaseIndex (csBase s)) vs;
               mods = map (\<lambda>s. ModOrdinal (csMod s)) vs in
       if kInvalidBaseIndex \<in> set bases then False
       else list_ex (\<lambda>vi. mods ! vi = kNone \<and>
              list_ex (\<lambda>tryMod.
                case FindVowel (BuildModifiedKey bases mods (length vs) vi tryMod) of
                  Some e \<Rightarrow> P e
                | None \<Rightarrow> False) [1, 2, 3]) [0..<length vs]))"

subsection \<open>One decomposition\<close>

text \<open>
  The packed key of a nucleus of one to three vowels; \<open>None\<close> is the source's early return
  \<open>Invalid\<close>, for a base letter outside the table or four and more vowels.
\<close>

fun vowel_key :: "CharState list \<Rightarrow> u32 option" where
  "vowel_key [v0] =
     (let b0 = BaseIndex (csBase v0) in
      if b0 = 0xFF then None else Some (Key1 (VowelSlot b0 (ModOrdinal (csMod v0)))))"
| "vowel_key [v0, v1] =
     (let b0 = BaseIndex (csBase v0); b1 = BaseIndex (csBase v1) in
      if b0 = 0xFF \<or> b1 = 0xFF then None
      else Some (Key2 (VowelSlot b0 (ModOrdinal (csMod v0))) (VowelSlot b1 (ModOrdinal (csMod v1)))))"
| "vowel_key [v0, v1, v2] =
     (let b0 = BaseIndex (csBase v0); b1 = BaseIndex (csBase v1); b2 = BaseIndex (csBase v2) in
      if b0 = 0xFF \<or> b1 = 0xFF \<or> b2 = 0xFF then None
      else Some (Key3 (VowelSlot b0 (ModOrdinal (csMod v0))) (VowelSlot b1 (ModOrdinal (csMod v1)))
                      (VowelSlot b2 (ModOrdinal (csMod v2)))))"
| "vowel_key _ = None"

text \<open>What must follow a nucleus that allows a final consonant: the tail after the last vowel.\<close>

definition validate_final :: "CharState list \<Rightarrow> CharState list \<Rightarrow> u32 \<Rightarrow> CharState list \<Rightarrow> SyllableState" where
  "validate_final ss vowels vowelKey tl' =
    (let finalLen = ParseFinalConsonant tl' in
     if finalLen = 0 then Invalid
     else if finalLen < length tl' then Invalid
     else if finalLen = 1 \<and> csBase (tl' ! 0) = L_k \<and>
        \<not> (length vowels = 1 \<and> csBase (vowels ! 0) = L_a \<and> ModOrdinal (csMod (vowels ! 0)) = kBrev)
     then Invalid
     else (let allowed = GetAllowedFinals vowelKey; finalBit = FinalConsonantBit tl' finalLen in
       if allowed \<noteq> 0 \<and> finalBit \<noteq> 0 \<and> allowed AND finalBit = 0 then Invalid
       else if IsStopFinal tl' finalLen \<and>
          (let tone = GetTone ss in tone \<noteq> ToneNone \<and> tone \<noteq> Acute \<and> tone \<noteq> Dot)
       then Invalid
       else Valid))"

definition ValidateDecomposition :: "CharState list \<Rightarrow> nat \<Rightarrow> SyllableState" where
  "ValidateDecomposition ss initialLen =
    (let rest = drop initialLen ss in
     if rest = [] then ValidPrefix
     else (let vowels = takeWhile IsVowel rest; tl' = dropWhile IsVowel rest in
       if vowels = [] then Invalid
       else (case vowel_key vowels of
         None \<Rightarrow> Invalid
       | Some vowelKey \<Rightarrow>
           (case FindVowel vowelKey of
             None \<Rightarrow>
               (if length vowels \<le> 2 \<and> IsVowelPrefix vowelKey (length vowels) \<and> tl' = [] then ValidPrefix
                else if TryModifiedVowels vowels
                    (\<lambda>e. if tl' = [] then True
                         else if canEnd e then ParseFinalConsonant tl' = length tl' else False)
                then ValidPrefix
                else Invalid)
           | Some entry \<Rightarrow>
               (if tl' = [] then Valid
                else if \<not> canEnd entry then
                  (if TryModifiedVowels vowels
                      (\<lambda>e. if \<not> canEnd e then False else ParseFinalConsonant tl' = length tl')
                   then ValidPrefix
                   else Invalid)
                else validate_final ss vowels vowelKey tl')))))"

subsection \<open>The whole validator\<close>

definition IsValidConsonantPrefix :: "CharState list \<Rightarrow> bool \<Rightarrow> bool" where
  "IsValidConsonantPrefix ss zwjf =
    (if ss = [] then True
     else if length ss = 1 \<and> \<not> IsVowel (ss ! 0) then
       (if single_initial (csBase (ss ! 0)) zwjf then True
        else IsD (ss ! 0) \<and> csMod (ss ! 0) \<noteq> ModNone)
     else if length ss = 2 \<and> \<not> IsVowel (ss ! 0) \<and> \<not> IsVowel (ss ! 1) then
       (let c0 = csBase (ss ! 0); c1 = csBase (ss ! 1) in
          c0 = L_c \<and> c1 = L_h \<or> c0 = L_g \<and> c1 = L_h \<or> c0 = L_k \<and> c1 = L_h \<or>
          c0 = L_n \<and> c1 = L_g \<or> c0 = L_n \<and> c1 = L_h \<or> c0 = L_p \<and> c1 = L_h \<or>
          c0 = L_t \<and> c1 = L_h \<or> c0 = L_t \<and> c1 = L_r)
     else length ss = 3 \<and> csBase (ss ! 0) = L_n \<and> csBase (ss ! 1) = L_g \<and> csBase (ss ! 2) = L_h \<and>
          \<not> IsVowel (ss ! 0) \<and> \<not> IsVowel (ss ! 1) \<and> \<not> IsVowel (ss ! 2))"

text \<open>Onset and first vowel must agree (c/k, gh, ngh, q); \<open>True\<close> is the early return \<open>Invalid\<close>.\<close>

definition onset_conflict :: "CharState list \<Rightarrow> nat \<Rightarrow> bool" where
  "onset_conflict ss initialLen =
    (if initialLen < length ss \<and> IsVowel (ss ! initialLen) then
       (let firstVowel = csBase (ss ! initialLen); front = IsFrontBaseVowel firstVowel in
        if initialLen = 1 then
          (let c0 = csBase (ss ! 0) in
           c0 = L_k \<and> \<not> front \<or> c0 = L_c \<and> front \<or> c0 = L_q \<and> firstVowel \<noteq> L_u)
        else if initialLen = 2 then
          csBase (ss ! 0) = L_g \<and> csBase (ss ! 1) = L_h \<and> \<not> front
        else if initialLen = 3 then
          csBase (ss ! 0) = L_n \<and> csBase (ss ! 1) = L_g \<and> csBase (ss ! 2) = L_h \<and> \<not> front
        else False)
     else False)"

text \<open>The dual decomposition of a buffer that starts with \<open>gi\<close> or \<open>qu\<close>.\<close>

definition dual_gi :: "CharState list \<Rightarrow> SyllableState \<Rightarrow> SyllableState" where
  "dual_gi ss result =
    (let r1 = ValidateDecomposition ss 1 in
     if 2 < length ss \<and> IsVowel (ss ! 2) then
       (let r2 = ValidateDecomposition ss 2 in
        if r2 = Valid \<or> r1 = Valid then Valid
        else if r2 = ValidPrefix \<or> r1 = ValidPrefix then ValidPrefix
        else result)
     else if r1 = Valid then Valid
     else if r1 = ValidPrefix \<and> result \<noteq> Valid then ValidPrefix
     else result)"

definition dual_qu :: "CharState list \<Rightarrow> SyllableState \<Rightarrow> SyllableState" where
  "dual_qu ss result =
    (if 2 < length ss \<and> IsVowel (ss ! 2) then
       (let r2 = ValidateDecomposition ss 2 in
        if r2 = Valid then Valid
        else if r2 = ValidPrefix \<and> result \<noteq> Valid then ValidPrefix
        else result)
     else if length ss = 2 then ValidPrefix
     else result)"

definition ValidateImpl :: "CharState list \<Rightarrow> bool \<Rightarrow> SyllableState" where
  "ValidateImpl ss zwjf =
    (if ss = [] then ValidPrefix
     else (let parsed = ParseInitialConsonant ss zwjf in
       if parsed = 0 \<and> \<not> IsVowel (ss ! 0) \<and> \<not> (IsD (ss ! 0) \<and> csMod (ss ! 0) = ModNone) then Invalid
       else (let initialLen = (if parsed = 0 \<and> \<not> IsVowel (ss ! 0) then 1 else parsed) in
         if 0 < initialLen \<and> initialLen = length ss then
           (if IsValidConsonantPrefix ss zwjf then ValidPrefix else Invalid)
         else if 0 < initialLen \<and> initialLen < length ss \<and> \<not> IsVowel (ss ! initialLen) then
           (if IsValidConsonantPrefix ss zwjf then ValidPrefix else Invalid)
         else if onset_conflict ss initialLen then Invalid
         else (let result = ValidateDecomposition ss initialLen in
           if 2 \<le> length ss \<and> csBase (ss ! 0) = L_g \<and> csBase (ss ! 1) = L_i \<and> IsVowel (ss ! 1)
           then dual_gi ss result
           else if 2 \<le> length ss \<and> csBase (ss ! 0) = L_q \<and> csBase (ss ! 1) = L_u
           then dual_qu ss result
           else result))))"

text \<open>
  The loop of \<open>CheckToneModInvariant\<close>: \<open>None\<close> is the early return \<open>false\<close> on a second tone,
  otherwise the flag \<open>anyMod\<close> and the toned vowel, if any.
\<close>

fun tone_mod_scan :: "CharState list \<Rightarrow> bool \<Rightarrow> CharState option \<Rightarrow> (bool \<times> CharState option) option" where
  "tone_mod_scan [] anyMod toned = Some (anyMod, toned)"
| "tone_mod_scan (s # ss) anyMod toned =
    (if \<not> IsVowel s then tone_mod_scan ss anyMod toned
     else (let anyMod' = (anyMod \<or> HasModifier s) in
       if HasTone s then
         (if toned \<noteq> None then None else tone_mod_scan ss anyMod' (Some s))
       else tone_mod_scan ss anyMod' toned))"

definition CheckToneModInvariant :: "CharState list \<Rightarrow> bool" where
  "CheckToneModInvariant ss =
    (case tone_mod_scan ss False None of
       None \<Rightarrow> False
     | Some (anyMod, toned) \<Rightarrow>
         (case toned of
            None \<Rightarrow> True
          | Some t \<Rightarrow> \<not> (anyMod \<and> \<not> HasModifier t)))"

definition ValidateSyllableState :: "CharState list \<Rightarrow> bool \<Rightarrow> SyllableState" where
  "ValidateSyllableState ss zwjf =
    (let r = ValidateImpl ss zwjf in
     if r \<noteq> Invalid \<and> \<not> CheckToneModInvariant ss then Invalid else r)"

end
