(* ===== verification/EnglishProtection.thy ===== *)
theory EnglishProtection
  imports CharStates
begin

text \<open>
  The three-tier English protection (\<open>core/engine/EnglishProtection.h\<close>): patterns that no Vietnamese
  word has, soft bias for ambiguous starts, and the user's insistence on a tone key.
\<close>

datatype LanguageBias = Unknown | HardEnglish | SoftEnglish | Vietnamese

record EnglishProtectionState =
  bias :: LanguageBias
  lastToneKey :: wchar
  sameToneKeyCount :: nat

definition engProt_init :: EnglishProtectionState where
  "engProt_init = \<lparr>bias = Unknown, lastToneKey = 0, sameToneKeyCount = 0\<rparr>"

subsection \<open>Tier 1 patterns\<close>

definition IsHardEnglishStart :: "wchar \<Rightarrow> wchar \<Rightarrow> bool" where
  "IsHardEnglishStart x0 x1 =
    (let c0 = towlower x0; c1 = towlower x1 in
     (c0 = L_c \<and> c1 = L_l) \<or> (c0 = L_c \<and> c1 = L_r) \<or>
     (c0 = L_b \<and> c1 = L_r) \<or> (c0 = L_b \<and> c1 = L_l) \<or>
     (c0 = L_d \<and> c1 = L_r) \<or>
     (c0 = L_f \<and> c1 = L_r) \<or> (c0 = L_f \<and> c1 = L_l) \<or>
     (c0 = L_g \<and> c1 = L_r) \<or> (c0 = L_g \<and> c1 = L_l) \<or>
     (c0 = L_p \<and> c1 = L_r) \<or> (c0 = L_p \<and> c1 = L_l) \<or>
     (c0 = L_s \<and> c1 = L_m) \<or> (c0 = L_s \<and> c1 = L_n) \<or> (c0 = L_s \<and> c1 = L_p) \<or>
     (c0 = L_s \<and> c1 = L_w) \<or> (c0 = L_s \<and> c1 = L_t) \<or> (c0 = L_s \<and> c1 = L_c) \<or>
     (c0 = L_s \<and> c1 = L_k) \<or> (c0 = L_s \<and> c1 = L_l) \<or>
     (c0 = L_w \<and> c1 = L_h) \<or> (c0 = L_w \<and> c1 = L_r) \<or>
     (c0 = L_k \<and> c1 = L_n) \<or> (c0 = L_p \<and> c1 = L_n) \<or> (c0 = L_p \<and> c1 = L_s))"

definition IsHardEnglishRawStart :: "wstring \<Rightarrow> bool" where
  "IsHardEnglishRawStart raw =
    (if length raw < 2 then False else IsHardEnglishStart (raw ! 0) (raw ! 1))"

definition IsHardEnglishEnd :: "wchar \<Rightarrow> bool" where
  "IsHardEnglishEnd x =
    (let c = towlower x in
     c = L_x \<or> c = L_r \<or> c = L_z \<or> c = L_f \<or> c = L_s \<or> c = L_j)"

definition IsQWithoutU :: "wchar \<Rightarrow> wchar \<Rightarrow> bool" where
  "IsQWithoutU c0 c1 \<longleftrightarrow> towlower c0 = L_q \<and> towlower c1 \<noteq> L_u"

subsection \<open>Tier 2 and tier 3\<close>

definition IsValidVietnameseYSequence :: "CharState list \<Rightarrow> bool" where
  "IsValidVietnameseYSequence ss =
    (if length ss < 2 then False
     else if towlower (csBase (ss ! 0)) \<noteq> L_y then False
     else if csBase (ss ! 1) = L_e \<and> HasModifier (ss ! 1) then
       (if length ss = 2 then True
        else (let c2 = towlower (csBase (ss ! 2)) in c2 = L_u \<or> c2 = L_n \<or> c2 = L_m \<or> c2 = L_t))
     else False)"

definition CheckSoftEnglishBias :: "CharState list \<Rightarrow> bool" where
  "CheckSoftEnglishBias ss =
    (if length ss < 2 then False
     else if towlower (csBase (ss ! 0)) \<noteq> L_y then False
     else (let c1 = towlower (csBase (ss ! 1));
               isAmbiguous = (IsVowel (ss ! 1) \<and> (c1 = L_a \<or> c1 = L_o \<or> c1 = L_e))
           in isAmbiguous \<and> \<not> IsValidVietnameseYSequence ss))"

definition UpdateToneInsistence ::
  "wchar \<Rightarrow> EnglishProtectionState \<Rightarrow> bool \<times> EnglishProtectionState" where
  "UpdateToneInsistence toneKey p =
    (let p' = (if toneKey = lastToneKey p then p\<lparr>sameToneKeyCount := sameToneKeyCount p + 1\<rparr>
               else p\<lparr>lastToneKey := toneKey, sameToneKeyCount := 1\<rparr>)
     in (2 \<le> sameToneKeyCount p', p'))"

subsection \<open>Structural patterns\<close>

text \<open>
  \<open>HasStructuralVCVPattern\<close>: walk over the vowel groups; a vowel group, one or more consonants and
  another vowel is no syllable, unless the group carries a modifier and exactly one coda consonant
  separates the two. The \<open>while\<close> over indices becomes recursion on the rest of the buffer.
\<close>

definition vcv_coda :: "wchar \<Rightarrow> bool" where
  "vcv_coda coda \<longleftrightarrow> coda = L_c \<or> coda = L_k \<or> coda = L_m \<or> coda = L_n \<or> coda = L_p \<or> coda = L_t"

function vcv_scan :: "CharState list \<Rightarrow> bool" where
  "vcv_scan ss =
    (case ss of
       [] \<Rightarrow> False
     | s # rest \<Rightarrow>
         (if \<not> IsVowel s then vcv_scan rest
          else (let vowels = takeWhile IsVowel ss;
                    afterV = dropWhile IsVowel ss;
                    cons = takeWhile (\<lambda>x. \<not> IsVowel x) afterV;
                    next' = dropWhile (\<lambda>x. \<not> IsVowel x) afterV in
                if cons \<noteq> [] \<and> next' \<noteq> [] \<and>
                   \<not> (length cons = 1 \<and> list_ex HasModifier vowels \<and> vcv_coda (csBase (cons ! 0)))
                then True
                else vcv_scan next')))"
  by pat_completeness auto
termination
proof (relation "measure length", simp, simp, goal_cases)
  case (1 ss s rest vowels afterV cons next')
  have "length next' \<le> length afterV" using 1 by (simp add: length_dropWhile_le)
  also have "length afterV < length ss"
    using 1 by (auto simp: less_Suc_eq_le length_dropWhile_le)
  finally show ?case by simp
qed

declare vcv_scan.simps [simp del]

definition HasStructuralVCVPattern :: "CharState list \<Rightarrow> bool" where
  "HasStructuralVCVPattern ss = (if length ss < 4 then False else vcv_scan ss)"

definition IsHardEnglishToneContext :: "CharState list \<Rightarrow> wchar \<Rightarrow> bool" where
  "IsHardEnglishToneContext ss toneKey =
    (if \<not> IsHardEnglishEnd toneKey then False else HasStructuralVCVPattern ss)"

definition IsClusterConsonant :: "CharState list \<Rightarrow> nat \<Rightarrow> bool" where
  "IsClusterConsonant ss i =
    (if i = 0 then False
     else if csBase (ss ! i) = L_i \<and> csBase (ss ! (i - 1)) = L_g \<and> i + 1 < length ss \<and>
             IsVowel (ss ! (i + 1)) then True
     else csBase (ss ! i) = L_u \<and> csBase (ss ! (i - 1)) = L_q)"

text \<open>One position of the loop of \<open>HasInvalidAdjacentVowelPair\<close>.\<close>

definition invalid_pair_at :: "CharState list \<Rightarrow> nat \<Rightarrow> bool" where
  "invalid_pair_at ss i =
    (if \<not> IsVowel (ss ! i) \<or> \<not> IsVowel (ss ! (i + 1)) then False
     else if HasModifier (ss ! i) \<or> HasModifier (ss ! (i + 1)) then False
     else if IsClusterConsonant ss i then False
     else (case (DiphthongVowelIndex (csBase (ss ! i)), DiphthongVowelIndex (csBase (ss ! (i + 1)))) of
             (Some v0, Some v1) \<Rightarrow>
               (if v0 = 2 \<and> v1 = 1 then False
                else if v0 = 5 \<and> v1 = 0 then False
                else if v0 = 5 \<and> v1 = 1 then False
                else kDiphthongClassic ! v0 ! v1 = 0 \<and> kDiphthongModern ! v0 ! v1 = 0)
           | _ \<Rightarrow> False))"

definition HasInvalidAdjacentVowelPair :: "CharState list \<Rightarrow> bool" where
  "HasInvalidAdjacentVowelPair ss = list_ex (invalid_pair_at ss) [0..<length ss - 1]"

text \<open>
  The backward scan of \<open>IsInvalidVietnameseCoda\<close> stops at a vowel or at a \<open>d\<close> in front; the coda
  is what it passed over, and \<open>None\<close> means that it found neither.
\<close>

definition coda_stop :: "CharState list \<Rightarrow> nat option" where
  "coda_stop ss = last_idx (\<lambda>i. IsVowel (ss ! i) \<or> IsD (ss ! i) \<and> i = 0) (length ss)"

definition IsInvalidVietnameseCoda :: "CharState list \<Rightarrow> bool" where
  "IsInvalidVietnameseCoda ss =
    (if length ss < 3 then False
     else (case coda_stop ss of
       None \<Rightarrow> False
     | Some i \<Rightarrow>
         (let codaLen = length ss - 1 - i in
          if codaLen < 2 then False
          else if 3 \<le> codaLen then True
          else (let c1 = towlower (csBase (ss ! (length ss - 2)));
                    c2 = towlower (csBase (ss ! (length ss - 1))) in
                \<not> (c1 = L_c \<and> c2 = L_h \<or> c1 = L_n \<and> c2 = L_g \<or> c1 = L_n \<and> c2 = L_h)))))"

subsection \<open>The combined check\<close>

definition CheckEnglishBias :: "CharState list \<Rightarrow> EnglishProtectionState \<Rightarrow> EnglishProtectionState" where
  "CheckEnglishBias ss p =
    (let count = length ss in
     if bias p = Vietnamese then p
     else if 2 \<le> count \<and> \<not> IsVowel (ss ! 0) \<and> \<not> IsVowel (ss ! 1) \<and> \<not> IsD (ss ! 0) \<and>
        (IsHardEnglishStart (csBase (ss ! 0)) (csBase (ss ! 1)) \<or>
         IsQWithoutU (csBase (ss ! 0)) (csBase (ss ! 1)))
     then p\<lparr>bias := HardEnglish\<rparr>
     else if 3 \<le> count \<and> \<not> IsVowel (ss ! (count - 1)) \<and> \<not> IsD (ss ! (count - 1)) \<and>
        IsVowel (ss ! (count - 2)) \<and> IsHardEnglishEnd (csBase (ss ! (count - 1)))
     then p\<lparr>bias := HardEnglish\<rparr>
     else if IsInvalidVietnameseCoda ss then p\<lparr>bias := HardEnglish\<rparr>
     else if bias p = Unknown \<and> CheckSoftEnglishBias ss then p\<lparr>bias := SoftEnglish\<rparr>
     else p)"

subsection \<open>Raw prefixes of English words\<close>

definition kBlockedTonePrefixes :: "wstring list" where
  "kBlockedTonePrefixes = [[L_p, L_a, L_s], [L_g, L_u, L_e, L_s]]"

definition kBlockedModifierPrefixes :: "wstring list" where
  "kBlockedModifierPrefixes = [[L_p, L_o, L_w], [L_u, L_p, L_w]]"

definition MatchesRawPrefix :: "wstring \<Rightarrow> wstring list \<Rightarrow> bool" where
  "MatchesRawPrefix raw rules =
    list_ex (\<lambda>pat. length pat \<le> length raw \<and> map towlower (take (length pat) raw) = pat) rules"

definition IsBlockedEnglishTone :: "wstring \<Rightarrow> bool" where
  "IsBlockedEnglishTone raw = MatchesRawPrefix raw kBlockedTonePrefixes"

definition IsBlockedEnglishModifier :: "wstring \<Rightarrow> bool" where
  "IsBlockedEnglishModifier raw = MatchesRawPrefix raw kBlockedModifierPrefixes"

end
