(* ===== verification/TypingActions.thy ===== *)
theory TypingActions
  imports Prelude
begin

text \<open>
  Key actions (\<open>core/engine/TypingAction.h\<close>) and the typing configuration
  (\<open>core/config/TypingConfig.h\<close>). The enumerators keep the source's order, which its range tests
  \<open>first <= a && a <= last\<close> rely on; the order is the class instance \<open>linorder\<close> below. The
  enumerator \<open>None\<close> is \<open>ActNone\<close>.
\<close>

subsection \<open>The action vocabulary\<close>

datatype TypingAction =
    ActNone
  | ClearTone
  | ToneAcute
  | ToneGrave
  | ToneHook
  | ToneTilde
  | ToneDot
  | CircumflexA
  | CircumflexE
  | CircumflexO
  | HornW
  | HornInsertO
  | HornInsertU
  | StrokeD
  | VniCircumflex
  | VniHorn
  | VniBreve
  | VniStroke
  | HornOrInsertU
  | HornOrInsertUNoStart
  | UndoAllMarks
  | InsertABreve
  | InsertABreveUpper
  | InsertACircumflex
  | InsertACircumflexUpper
  | InsertDStroke
  | InsertDStrokeUpper
  | InsertECircumflex
  | InsertECircumflexUpper
  | InsertOCircumflex
  | InsertOCircumflexUpper
  | InsertOHorn
  | InsertOHornUpper
  | InsertUHorn
  | InsertUHornUpper

text \<open>The value of the enumerator, its position in the declaration.\<close>

fun action_value :: "TypingAction \<Rightarrow> nat" where
  "action_value ActNone = 0"
| "action_value ClearTone = 1"
| "action_value ToneAcute = 2"
| "action_value ToneGrave = 3"
| "action_value ToneHook = 4"
| "action_value ToneTilde = 5"
| "action_value ToneDot = 6"
| "action_value CircumflexA = 7"
| "action_value CircumflexE = 8"
| "action_value CircumflexO = 9"
| "action_value HornW = 10"
| "action_value HornInsertO = 11"
| "action_value HornInsertU = 12"
| "action_value StrokeD = 13"
| "action_value VniCircumflex = 14"
| "action_value VniHorn = 15"
| "action_value VniBreve = 16"
| "action_value VniStroke = 17"
| "action_value HornOrInsertU = 18"
| "action_value HornOrInsertUNoStart = 19"
| "action_value UndoAllMarks = 20"
| "action_value InsertABreve = 21"
| "action_value InsertABreveUpper = 22"
| "action_value InsertACircumflex = 23"
| "action_value InsertACircumflexUpper = 24"
| "action_value InsertDStroke = 25"
| "action_value InsertDStrokeUpper = 26"
| "action_value InsertECircumflex = 27"
| "action_value InsertECircumflexUpper = 28"
| "action_value InsertOCircumflex = 29"
| "action_value InsertOCircumflexUpper = 30"
| "action_value InsertOHorn = 31"
| "action_value InsertOHornUpper = 32"
| "action_value InsertUHorn = 33"
| "action_value InsertUHornUpper = 34"

lemma action_value_inj: "action_value a = action_value b \<longleftrightarrow> a = b"
  by (cases a; cases b) simp_all

instantiation TypingAction :: linorder
begin

definition less_eq_TypingAction :: "TypingAction \<Rightarrow> TypingAction \<Rightarrow> bool" where
  "less_eq_TypingAction a b \<longleftrightarrow> action_value a \<le> action_value b"

definition less_TypingAction :: "TypingAction \<Rightarrow> TypingAction \<Rightarrow> bool" where
  "less_TypingAction a b \<longleftrightarrow> action_value a < action_value b"

instance
  by standard (auto simp: less_eq_TypingAction_def less_TypingAction_def action_value_inj)

end

lemmas action_order = less_eq_TypingAction_def less_TypingAction_def

definition IsToneAction :: "TypingAction \<Rightarrow> bool" where
  "IsToneAction action \<longleftrightarrow> ClearTone \<le> action \<and> action \<le> ToneDot"

definition IsTelexModifierAction :: "TypingAction \<Rightarrow> bool" where
  "IsTelexModifierAction action \<longleftrightarrow> CircumflexA \<le> action \<and> action \<le> StrokeD"

definition IsVniModifierAction :: "TypingAction \<Rightarrow> bool" where
  "IsVniModifierAction action \<longleftrightarrow> VniCircumflex \<le> action \<and> action \<le> VniStroke"

definition IsUserDefinedOnlyAction :: "TypingAction \<Rightarrow> bool" where
  "IsUserDefinedOnlyAction action \<longleftrightarrow> HornOrInsertU \<le> action \<and> action \<le> InsertUHornUpper"

definition IsInsertTypeAction :: "TypingAction \<Rightarrow> bool" where
  "IsInsertTypeAction action =
    (if action = HornInsertO \<or> action = HornInsertU then True
     else if action = HornOrInsertU then True
     else if action = HornW then True
     else if InsertABreve \<le> action \<and> action \<le> InsertUHornUpper then True
     else False)"

subsection \<open>Key classification\<close>

text \<open>The two switches of \<open>ClassifyKey\<close>: the Telex letters, then the VNI digits.\<close>

definition classify_telex :: "wchar \<Rightarrow> TypingAction option" where
  "classify_telex lower =
    (if lower = L_z then Some ClearTone
     else if lower = L_s then Some ToneAcute
     else if lower = L_f then Some ToneGrave
     else if lower = L_r then Some ToneHook
     else if lower = L_x then Some ToneTilde
     else if lower = L_j then Some ToneDot
     else if lower = L_a then Some CircumflexA
     else if lower = L_e then Some CircumflexE
     else if lower = L_o then Some CircumflexO
     else if lower = L_w then Some HornW
     else if lower = L_lbracket then Some HornInsertO
     else if lower = L_rbracket then Some HornInsertU
     else if lower = L_d then Some StrokeD
     else None)"

definition classify_vni :: "wchar \<Rightarrow> TypingAction option" where
  "classify_vni lower =
    (if lower = L_0 then Some ClearTone
     else if lower = L_1 then Some ToneAcute
     else if lower = L_2 then Some ToneGrave
     else if lower = L_3 then Some ToneHook
     else if lower = L_4 then Some ToneTilde
     else if lower = L_5 then Some ToneDot
     else if lower = L_6 then Some VniCircumflex
     else if lower = L_7 then Some VniHorn
     else if lower = L_8 then Some VniBreve
     else if lower = L_9 then Some VniStroke
     else None)"

definition ClassifyKey :: "wchar \<Rightarrow> bool \<Rightarrow> bool \<Rightarrow> TypingAction" where
  "ClassifyKey lower isTelex isVni =
    (case (if isTelex then classify_telex lower else None) of
       Some a \<Rightarrow> a
     | None \<Rightarrow> (case (if isVni then classify_vni lower else None) of Some a \<Rightarrow> a | None \<Rightarrow> ActNone))"

subsection \<open>Action names\<close>

text \<open>The names actions have in the configuration file.\<close>

fun TypingActionToString :: "TypingAction \<Rightarrow> string" where
  "TypingActionToString ActNone = ''None''"
| "TypingActionToString ClearTone = ''ClearTone''"
| "TypingActionToString ToneAcute = ''ToneAcute''"
| "TypingActionToString ToneGrave = ''ToneGrave''"
| "TypingActionToString ToneHook = ''ToneHook''"
| "TypingActionToString ToneTilde = ''ToneTilde''"
| "TypingActionToString ToneDot = ''ToneDot''"
| "TypingActionToString CircumflexA = ''CircumflexA''"
| "TypingActionToString CircumflexE = ''CircumflexE''"
| "TypingActionToString CircumflexO = ''CircumflexO''"
| "TypingActionToString HornW = ''HornW''"
| "TypingActionToString HornInsertO = ''HornInsertO''"
| "TypingActionToString HornInsertU = ''HornInsertU''"
| "TypingActionToString StrokeD = ''StrokeD''"
| "TypingActionToString VniCircumflex = ''VniCircumflex''"
| "TypingActionToString VniHorn = ''VniHorn''"
| "TypingActionToString VniBreve = ''VniBreve''"
| "TypingActionToString VniStroke = ''VniStroke''"
| "TypingActionToString HornOrInsertU = ''HornOrInsertU''"
| "TypingActionToString HornOrInsertUNoStart = ''HornOrInsertUNoStart''"
| "TypingActionToString UndoAllMarks = ''UndoAllMarks''"
| "TypingActionToString InsertABreve = ''InsertABreve''"
| "TypingActionToString InsertABreveUpper = ''InsertABreveUpper''"
| "TypingActionToString InsertACircumflex = ''InsertACircumflex''"
| "TypingActionToString InsertACircumflexUpper = ''InsertACircumflexUpper''"
| "TypingActionToString InsertDStroke = ''InsertDStroke''"
| "TypingActionToString InsertDStrokeUpper = ''InsertDStrokeUpper''"
| "TypingActionToString InsertECircumflex = ''InsertECircumflex''"
| "TypingActionToString InsertECircumflexUpper = ''InsertECircumflexUpper''"
| "TypingActionToString InsertOCircumflex = ''InsertOCircumflex''"
| "TypingActionToString InsertOCircumflexUpper = ''InsertOCircumflexUpper''"
| "TypingActionToString InsertOHorn = ''InsertOHorn''"
| "TypingActionToString InsertOHornUpper = ''InsertOHornUpper''"
| "TypingActionToString InsertUHorn = ''InsertUHorn''"
| "TypingActionToString InsertUHornUpper = ''InsertUHornUpper''"

text \<open>The chain of comparisons of \<open>StringToTypingAction\<close>: the first name that matches wins.\<close>

definition action_names :: "(string \<times> TypingAction) list" where
  "action_names =
    [(''ClearTone'', ClearTone),
     (''ToneAcute'', ToneAcute),
     (''ToneGrave'', ToneGrave),
     (''ToneHook'', ToneHook),
     (''ToneTilde'', ToneTilde),
     (''ToneDot'', ToneDot),
     (''CircumflexA'', CircumflexA),
     (''CircumflexE'', CircumflexE),
     (''CircumflexO'', CircumflexO),
     (''HornW'', HornW),
     (''HornInsertO'', HornInsertO),
     (''HornInsertU'', HornInsertU),
     (''StrokeD'', StrokeD),
     (''VniCircumflex'', VniCircumflex),
     (''VniHorn'', VniHorn),
     (''VniBreve'', VniBreve),
     (''VniStroke'', VniStroke),
     (''HornOrInsertU'', HornOrInsertU),
     (''HornOrInsertUNoStart'', HornOrInsertUNoStart),
     (''UndoAllMarks'', UndoAllMarks),
     (''InsertABreve'', InsertABreve),
     (''InsertABreveUpper'', InsertABreveUpper),
     (''InsertACircumflex'', InsertACircumflex),
     (''InsertACircumflexUpper'', InsertACircumflexUpper),
     (''InsertDStroke'', InsertDStroke),
     (''InsertDStrokeUpper'', InsertDStrokeUpper),
     (''InsertECircumflex'', InsertECircumflex),
     (''InsertECircumflexUpper'', InsertECircumflexUpper),
     (''InsertOCircumflex'', InsertOCircumflex),
     (''InsertOCircumflexUpper'', InsertOCircumflexUpper),
     (''InsertOHorn'', InsertOHorn),
     (''InsertOHornUpper'', InsertOHornUpper),
     (''InsertUHorn'', InsertUHorn),
     (''InsertUHornUpper'', InsertUHornUpper)]"

definition StringToTypingAction :: "string \<Rightarrow> TypingAction" where
  "StringToTypingAction s = (case map_of action_names s of Some a \<Rightarrow> a | None \<Rightarrow> ActNone)"

subsection \<open>Configuration\<close>

datatype InputMethod = Telex | VNI | SimpleTelex | Combined | UserDefined

datatype CodeTable = Unicode | TCVN3 | VNIWindows | UnicodeCompound | VietnameseLocale

record HotkeyConfig =
  hkCtrl :: bool
  hkShift :: bool
  hkAlt :: bool
  hkWin :: bool
  hkVk :: u32

definition HasAny :: "HotkeyConfig \<Rightarrow> bool" where
  "HasAny h \<longleftrightarrow> hkCtrl h \<or> hkShift h \<or> hkAlt h \<or> hkWin h \<or> hkVk h \<noteq> 0"

definition ModifiersMatch :: "HotkeyConfig \<Rightarrow> bool \<Rightarrow> bool \<Rightarrow> bool \<Rightarrow> bool \<Rightarrow> bool" where
  "ModifiersMatch h c s a w \<longleftrightarrow> hkCtrl h = c \<and> hkShift h = s \<and> hkAlt h = a \<and> hkWin h = w"

unbundle bit_operations_syntax

definition ToMods :: "HotkeyConfig \<Rightarrow> u32" where
  "ToMods h =
    (let m0 = 0;
         m1 = (if hkCtrl h then m0 OR 0x01 else m0);
         m2 = (if hkShift h then m1 OR 0x02 else m1);
         m3 = (if hkAlt h then m2 OR 0x04 else m2)
     in (if hkWin h then m3 OR 0x08 else m3))"

definition SetModsFromMask :: "u32 \<Rightarrow> HotkeyConfig \<Rightarrow> HotkeyConfig" where
  "SetModsFromMask mods h =
    h\<lparr>hkCtrl := mods AND 0x01 \<noteq> 0, hkShift := mods AND 0x02 \<noteq> 0,
      hkAlt := mods AND 0x04 \<noteq> 0, hkWin := mods AND 0x08 \<noteq> 0\<rparr>"

text \<open>\<open>TypingConfig\<close>, with the fields in the order of the source.\<close>

record TypingConfig =
  inputMethod :: InputMethod
  codeTable :: CodeTable
  spellCheckEnabled :: bool
  beepOnSwitch :: bool
  smartSwitch :: bool
  excludeApps :: bool
  tsfApps :: bool
  optimizeLevel :: u8
  modernOrtho :: bool
  autoCaps :: bool
  allowZwjf :: bool
  autoRestoreEnabled :: bool
  cjkAutoSwitch :: bool
  macroEnabled :: bool
  macroInEnglish :: bool
  quickConsonant :: bool
  quickStartConsonant :: bool
  quickEndConsonant :: bool
  escRestoreRawEnabled :: bool
  autoCapsMacro :: bool
  allowEnglishBypass :: bool
  suggestKeepChars :: bool
  debugLogEnabled :: bool
  perfHistogramEnabled :: bool
  macroTriggerSpace :: bool
  macroTriggerEnter :: bool
  macroTriggerTab :: bool
  macroTriggerDir :: bool
  spellExclusions :: "wstring list"
  customKeyMap :: "nat \<Rightarrow> TypingAction"

text \<open>
  The compiled-in defaults. The array \<open>customKeyMap\<close> has 128 entries and is only read at indices
  below 128, so it is a function of the index.
\<close>

definition defaultConfig :: TypingConfig where
  "defaultConfig =
    \<lparr>inputMethod = Telex, codeTable = Unicode, spellCheckEnabled = True, beepOnSwitch = False,
     smartSwitch = False, excludeApps = False, tsfApps = False, optimizeLevel = 0,
     modernOrtho = True, autoCaps = False, allowZwjf = False, autoRestoreEnabled = True,
     cjkAutoSwitch = False, macroEnabled = False, macroInEnglish = False, quickConsonant = False,
     quickStartConsonant = False, quickEndConsonant = False, escRestoreRawEnabled = False,
     autoCapsMacro = False, allowEnglishBypass = False, suggestKeepChars = False,
     debugLogEnabled = False, perfHistogramEnabled = False, macroTriggerSpace = True,
     macroTriggerEnter = True, macroTriggerTab = True, macroTriggerDir = True,
     spellExclusions = [], customKeyMap = (\<lambda>_. ActNone)\<rparr>"

subsection \<open>Properties\<close>

lemma action_classes_disjoint:
  "\<not> (IsToneAction a \<and> IsTelexModifierAction a)" "\<not> (IsToneAction a \<and> IsVniModifierAction a)"
  "\<not> (IsTelexModifierAction a \<and> IsVniModifierAction a)"
  "\<not> (IsToneAction a \<and> IsUserDefinedOnlyAction a)"
  by (cases a; simp add: IsToneAction_def IsTelexModifierAction_def IsVniModifierAction_def
      IsUserDefinedOnlyAction_def action_order)+

text \<open>Every action survives a round trip through the name the configuration file has for it.\<close>

theorem action_name_round_trip: "StringToTypingAction (TypingActionToString a) = a"
proof -
  have "list_all (\<lambda>a. StringToTypingAction (TypingActionToString a) = a) (ActNone # map snd action_names)"
    by code_simp
  moreover have "a \<in> set (ActNone # map snd action_names)"
    by (cases a) (simp_all add: action_names_def)
  ultimately show ?thesis unfolding list_all_iff by (rule bspec)
qed

text \<open>The modifier mask of a hotkey encodes its four modifier flags and nothing else: reading the
  mask back restores the flags, and writing any mask keeps its four low bits.\<close>

theorem hotkey_mask_round_trip:
  "SetModsFromMask (ToMods h) h = h \<and> ToMods (SetModsFromMask m h) = m AND 0x0F"
proof
  show "SetModsFromMask (ToMods h) h = h"
    by (cases "hkCtrl h"; cases "hkShift h"; cases "hkAlt h"; cases "hkWin h")
       (simp_all add: SetModsFromMask_def ToMods_def)
  show "ToMods (SetModsFromMask m h) = m AND 0x0F"
  proof (rule bit_word_eqI)
    fix n
    have bit_if: "bit (if P then x OR y else x) n \<longleftrightarrow> bit x n \<or> P \<and> bit y n" for P and x y :: u32
      by (simp add: bit_or_iff)
    have "n < 4 \<longleftrightarrow> n = 0 \<or> n = 1 \<or> n = 2 \<or> n = 3" by auto
    moreover have "bit (ToMods (SetModsFromMask m h)) n \<longleftrightarrow>
        bit m 0 \<and> n = 0 \<or> bit m 1 \<and> n = 1 \<or> bit m 2 \<and> n = 2 \<or> bit m 3 \<and> n = 3"
      unfolding ToMods_def SetModsFromMask_def Let_def
      by (simp only: HotkeyConfig.simps HotkeyConfig.update_convs u32_flag bit_if u32_bits) auto
    ultimately show "bit (ToMods (SetModsFromMask m h)) n = bit (m AND 0x0F) n"
      by (simp only: bit_and_iff u32_bits) auto
  qed
qed

text \<open>Within one typing method no two keys carry the same action.\<close>

theorem ClassifyKey_inj:
  assumes "\<not> (isTelex \<and> isVni)" and "ClassifyKey k isTelex isVni = ClassifyKey k' isTelex isVni"
    and "ClassifyKey k isTelex isVni \<noteq> ActNone"
  shows "k = k'"
proof -
  have telex: "classify_telex k = classify_telex k' \<Longrightarrow> classify_telex k \<noteq> None \<Longrightarrow> k = k'"
    by (auto simp: classify_telex_def split: if_splits)
  have vni: "classify_vni k = classify_vni k' \<Longrightarrow> classify_vni k \<noteq> None \<Longrightarrow> k = k'"
    by (auto simp: classify_vni_def split: if_splits)
  have some: "classify_telex x \<noteq> Some ActNone" "classify_vni x \<noteq> Some ActNone" for x
    by (simp_all add: classify_telex_def classify_vni_def)
  show ?thesis
    using assms telex vni some
    by (cases isTelex; cases isVni) (auto simp: ClassifyKey_def split: option.splits)
qed

theorem ClassifyKey_inj_witness: "ClassifyKey L_s True False = ToneAcute \<and> L_s = L_s"
  using ClassifyKey_inj[of True False L_s L_s] by (simp add: ClassifyKey_def classify_telex_def)

end
