(* ===== verification/EngineHelpers.thy ===== *)
theory EngineHelpers
  imports Validator EnglishProtection TypingActions
begin

text \<open>
  The helper functions of \<open>core/engine/EngineHelpers.h\<close>: escape and quick-consonant bookkeeping, the
  spell-check state, auto-restore, spell exclusions, the target of the stroke modifier and the
  guards of tone relocation. The composition function the source passes as a parameter is always
  \<open>Compose\<close>.
\<close>

subsection \<open>Escape and quick-consonant state\<close>

datatype EscapeKind = EscNone | EscTone | EscCircumflex | EscHorn | EscBreve | EscStroke | EscModifier

definition isEscaped :: "EscapeKind \<Rightarrow> bool" where
  "isEscaped k \<longleftrightarrow> k \<noteq> EscNone"

record QuickConsonantState =
  resultIndex :: "nat option"
  lastKey :: wchar
  onlyQC :: bool
  escaped :: bool

definition qc_Reset :: QuickConsonantState where
  "qc_Reset = \<lparr>resultIndex = None, lastKey = 0, onlyQC = False, escaped = False\<rparr>"

definition clearActive :: "QuickConsonantState \<Rightarrow> QuickConsonantState" where
  "clearActive q = q\<lparr>resultIndex := None, lastKey := 0\<rparr>"

definition markEscaped :: "QuickConsonantState \<Rightarrow> QuickConsonantState" where
  "markEscaped q = clearActive (q\<lparr>escaped := True\<rparr>)"

definition hasActive :: "QuickConsonantState \<Rightarrow> bool" where
  "hasActive q \<longleftrightarrow> resultIndex q \<noteq> None"

subsection \<open>Spell check\<close>

text \<open>
  The lower-cased composed buffer of at most 16 characters that the exclusion tests look at; the
  state at the override index, if any, composes to the override character instead.
\<close>

definition BuildExclusionBuf :: "CharState list \<Rightarrow> (nat \<times> wchar) option \<Rightarrow> wstring" where
  "BuildExclusionBuf ss ov =
    take 16 (map towlower (filter (\<lambda>ch. ch \<noteq> 0)
      (map (\<lambda>i. case ov of
                  Some (oi, oc) \<Rightarrow> if i = oi then oc else Compose (ss ! i)
                | None \<Rightarrow> Compose (ss ! i)) [0..<length ss])))"

definition IsSpellExcluded :: "CharState list \<Rightarrow> wstring list \<Rightarrow> bool" where
  "IsSpellExcluded ss exclusions =
    (if exclusions = [] \<or> ss = [] then False
     else (let buf = BuildExclusionBuf ss None in
       list_ex (\<lambda>pat. 2 \<le> length pat \<and> length pat \<le> length buf \<and> take (length pat) buf = pat)
         exclusions))"

definition UpdateSpellCheck :: "CharState list \<Rightarrow> TypingConfig \<Rightarrow> bool" where
  "UpdateSpellCheck ss cfg =
    (if \<not> spellCheckEnabled cfg \<or> ss = [] then False
     else if IsSpellExcluded ss (spellExclusions cfg) then False
     else ValidateSyllableState ss (allowZwjf cfg) = Invalid)"

definition ShouldAutoRestore :: "wstring \<Rightarrow> wstring \<Rightarrow> bool" where
  "ShouldAutoRestore raw composed =
    (if raw = composed then False
     else if list_ex (\<lambda>ch. 0x7F < ch) composed then True
     else length raw \<le> length composed)"

definition HasIntentionalStrokeD :: "wstring \<Rightarrow> wstring \<Rightarrow> bool" where
  "HasIntentionalStrokeD rawInput composed =
    (let hasRawDD = list_ex (\<lambda>i. let ch = rawInput ! i; nxt = rawInput ! (i + 1) in
                        (ch = L_d \<or> ch = 68) \<and> (nxt = L_d \<or> nxt = 68 \<or> nxt = L_9))
                      [0..<length rawInput - 1];
         lastStrokeD = last_idx (\<lambda>i. composed ! i = L_dstroke \<or> composed ! i = L_Dstroke) (length composed)
     in if \<not> hasRawDD then False
        else (case lastStrokeD of
          None \<Rightarrow> False
        | Some k \<Rightarrow>
            \<not> list_ex (\<lambda>c. let ch = towlower c in
                 ch = L_a \<or> ch = L_e \<or> ch = L_i \<or> ch = L_o \<or> ch = L_u \<or> ch = L_y)
               (drop (k + 1) composed)))"

subsection \<open>Horn helpers\<close>

definition IsUOEdgeCasePrefix :: "CharState list \<Rightarrow> nat \<Rightarrow> bool" where
  "IsUOEdgeCasePrefix ss uIdx =
    (if uIdx = 1 \<and> towlower (csBase (ss ! 0)) = L_h then True
     else if uIdx = 2 then
       (let c0 = towlower (csBase (ss ! 0)); c1 = towlower (csBase (ss ! 1)) in
        c1 = L_h \<and> (c0 = L_t \<or> c0 = L_k))
     else False)"

definition set_mod :: "nat \<Rightarrow> Modifier \<Rightarrow> CharState list \<Rightarrow> CharState list" where
  "set_mod i m ss = upd_at i (\<lambda>s. s\<lparr>csMod := m\<rparr>) ss"

definition UndoHornU :: "CharState list \<Rightarrow> nat \<Rightarrow> CharState list" where
  "UndoHornU ss oIndex =
    (if 0 < oIndex \<and> csBase (ss ! oIndex) = L_o \<and> HasModifier (ss ! oIndex) \<and>
        csBase (ss ! (oIndex - 1)) = L_u \<and> HasModifier (ss ! (oIndex - 1))
     then set_mod (oIndex - 1) ModNone ss
     else ss)"

subsection \<open>English bias after an edit\<close>

definition RecalcEnglishBias :: "CharState list \<Rightarrow> EnglishProtectionState" where
  "RecalcEnglishBias ss =
    (if 2 \<le> length ss then CheckEnglishBias ss engProt_init else engProt_init)"

definition CheckZwjfInitialBias ::
  "CharState list \<Rightarrow> TypingConfig \<Rightarrow> EnglishProtectionState \<Rightarrow> EnglishProtectionState" where
  "CheckZwjfInitialBias ss cfg p =
    (if allowZwjf cfg \<or> \<not> spellCheckEnabled cfg \<or> ss = [] then p
     else if bias p = Vietnamese then p
     else if IsVowel (ss ! 0) then p
     else (let initialChar = csBase (ss ! 0) in
       if initialChar = L_w \<or> initialChar = L_z \<or> initialChar = L_j \<or> initialChar = L_f
       then p\<lparr>bias := HardEnglish\<rparr> else p))"

subsection \<open>The stroke modifier\<close>

text \<open>The first index of the contiguous run of \<open>d\<close> that ends at \<open>i\<close>.\<close>

primrec d_run_start :: "CharState list \<Rightarrow> nat \<Rightarrow> nat" where
  "d_run_start ss 0 = 0"
| "d_run_start ss (Suc i) = (if IsD (ss ! i) then d_run_start ss i else Suc i)"

definition FindStrokeDTarget :: "CharState list \<Rightarrow> nat option" where
  "FindStrokeDTarget ss =
    (if ss = [] then None
     else (case last_idx (\<lambda>i. IsD (ss ! i)) (length ss) of
       None \<Rightarrow> None
     | Some dIdx \<Rightarrow>
         (if 0 < dIdx \<and>
             (let checkIdx = d_run_start ss dIdx in 0 < checkIdx \<and> IsVowel (ss ! (checkIdx - 1)))
          then None
          else Some dIdx)))"

definition IsStrokeDBlockedByCoda :: "CharState list \<Rightarrow> nat \<Rightarrow> bool" where
  "IsStrokeDBlockedByCoda ss dTarget =
    (if dTarget = 0 \<and> 1 < length ss \<and> IsVowel (ss ! 1) then False
     else 1 \<le> length (takeWhile (\<lambda>s. \<not> (IsVowel s \<or> IsD s)) (rev ss)))"

definition ShouldBlockStrokeDAsEnglish :: "CharState list \<Rightarrow> nat \<Rightarrow> bool" where
  "ShouldBlockStrokeDAsEnglish ss dTarget =
    (if IsStrokeDBlockedByCoda ss dTarget then True
     else if dTarget = 0 \<and> HasStructuralVCVPattern ss then True
     else False)"

definition IsStrokeDEscapeAllowed :: "nat \<Rightarrow> nat \<Rightarrow> bool" where
  "IsStrokeDEscapeAllowed count dIdx =
    (if 0 < count \<and> dIdx = count - 1 then True
     else if dIdx = 0 \<and> 2 \<le> count then True
     else False)"

subsection \<open>Spell exclusions while typing\<close>

definition MatchExclusionBuf :: "(wchar \<Rightarrow> wchar \<Rightarrow> bool) \<Rightarrow> wstring \<Rightarrow> wstring list \<Rightarrow> bool" where
  "MatchExclusionBuf cmp buf exclusions =
    list_ex (\<lambda>pat. 2 \<le> length pat \<and>
       (let cmpLen = min (length buf) (length pat) in
        cmpLen \<noteq> 0 \<and> list_all (\<lambda>i. cmp (pat ! i) (buf ! i)) [0..<cmpLen])) exclusions"

definition MatchExclusionBufIgnoreTone :: "wstring \<Rightarrow> wstring list \<Rightarrow> bool" where
  "MatchExclusionBufIgnoreTone buf exclusions =
    MatchExclusionBuf (\<lambda>a b. StripTone a = StripTone b) buf exclusions"

definition WouldStrokeDMatchExclusion :: "CharState list \<Rightarrow> wstring list \<Rightarrow> bool" where
  "WouldStrokeDMatchExclusion ss exclusions =
    (if exclusions = [] \<or> ss = [] then False
     else (case FindStrokeDTarget ss of
       None \<Rightarrow> False
     | Some dIdx \<Rightarrow> MatchExclusionBuf (=) (BuildExclusionBuf ss (Some (dIdx, L_dstroke))) exclusions))"

definition WouldToneMatchExclusion :: "CharState list \<Rightarrow> wstring list \<Rightarrow> nat \<Rightarrow> wchar \<Rightarrow> bool" where
  "WouldToneMatchExclusion ss exclusions toneIdx tonedChar =
    (if exclusions = [] \<or> ss = [] \<or> length ss \<le> toneIdx then False
     else MatchExclusionBuf (=) (BuildExclusionBuf ss (Some (toneIdx, tonedChar))) exclusions)"

definition WouldModifierMatchExclusion ::
  "CharState list \<Rightarrow> wstring list \<Rightarrow> nat \<Rightarrow> Modifier \<Rightarrow> bool" where
  "WouldModifierMatchExclusion ss exclusions targetIdx m =
    (if exclusions = [] \<or> ss = [] \<or> length ss \<le> targetIdx then False
     else (let tentative = (ss ! targetIdx)\<lparr>csMod := m\<rparr> in
       MatchExclusionBufIgnoreTone (BuildExclusionBuf ss (Some (targetIdx, Compose tentative)))
         exclusions))"

definition WouldAnyModifierMatchExclusion ::
  "CharState list \<Rightarrow> wstring list \<Rightarrow> Modifier \<Rightarrow> wstring \<Rightarrow> bool" where
  "WouldAnyModifierMatchExclusion ss exclusions m eligibleBases =
    (if exclusions = [] \<or> ss = [] then False
     else list_ex (\<lambda>i. IsVowel (ss ! i) \<and> csMod (ss ! i) = ModNone \<and>
            csBase (ss ! i) \<in> set eligibleBases \<and> WouldModifierMatchExclusion ss exclusions i m)
          [0..<length ss])"

subsection \<open>Codas, escapable modifiers and tone relocation\<close>

definition HasStopFinalCoda :: "CharState list \<Rightarrow> bool" where
  "HasStopFinalCoda ss =
    (if length ss < 2 then False
     else (let codaLen = length (takeWhile (\<lambda>s. \<not> IsVowel s) (rev ss));
               codaStart = length ss - codaLen in
       if codaStart = 0 then False
       else if codaLen = 1 then
         (let c = towlower (csBase (ss ! codaStart)) in c = L_c \<or> c = L_k \<or> c = L_p \<or> c = L_t)
       else if codaLen = 2 then
         (let c0 = towlower (csBase (ss ! codaStart)); c1 = towlower (csBase (ss ! (codaStart + 1))) in
          c0 = L_c \<and> c1 = L_h)
       else False))"

definition HasEscapableModifier :: "CharState list \<Rightarrow> Modifier \<Rightarrow> bool \<Rightarrow> bool" where
  "HasEscapableModifier ss m isStroke =
    list_ex (\<lambda>s. if isStroke then IsD s \<and> csMod s = m else IsVowel s \<and> csMod s = m) ss"

definition FindTonedVowelIndex :: "CharState list \<Rightarrow> nat option" where
  "FindTonedVowelIndex ss = first_idx (\<lambda>i. IsVowel (ss ! i) \<and> HasTone (ss ! i)) (length ss)"

definition HasConsonantBetween :: "CharState list \<Rightarrow> nat \<Rightarrow> nat \<Rightarrow> bool" where
  "HasConsonantBetween ss a b =
    (let fromIdx = (if b < a then b else a); toIdx = (if b < a then a else b) in
     list_ex (\<lambda>i. \<not> IsVowel (ss ! i)) [fromIdx + 1..<toIdx])"

definition IsToneRelocBlockedByP4 :: "CharState list \<Rightarrow> nat \<Rightarrow> bool \<Rightarrow> bool" where
  "IsToneRelocBlockedByP4 ss targetIdx modernOrtho' =
    (if HasModifier (ss ! targetIdx) then False
     else (let nucleus = (\<lambda>i. IsVowel (ss ! i) \<and> \<not> IsClusterConsonant ss i);
               vLast = last_idx nucleus (length ss);
               v2nd = (case vLast of None \<Rightarrow> None | Some l \<Rightarrow> last_idx nucleus l) in
       (case (vLast, v2nd) of
          (Some l, Some k) \<Rightarrow>
            (if targetIdx \<noteq> l \<or> l \<noteq> k + 1 then False
             else (case (DiphthongVowelIndex (csBase (ss ! k)), DiphthongVowelIndex (csBase (ss ! l))) of
                     (Some fi, Some li) \<Rightarrow>
                       (if modernOrtho' then kDiphthongModern else kDiphthongClassic) ! fi ! li = 0
                   | _ \<Rightarrow> False))
        | _ \<Rightarrow> False)))"

subsection \<open>Basic facts\<close>

lemma length_set_mod [simp]: "length (set_mod i m ss) = length ss"
  by (simp add: set_mod_def)

lemma nth_set_mod:
  "j < length ss \<Longrightarrow> set_mod i m ss ! j = (if i = j then (ss ! j)\<lparr>csMod := m\<rparr> else ss ! j)"
  by (simp add: set_mod_def nth_upd_at)

lemma length_UndoHornU [simp]: "length (UndoHornU ss i) = length ss"
  by (simp add: UndoHornU_def)

lemma FindStrokeDTarget_Some: "FindStrokeDTarget ss = Some i \<Longrightarrow> i < length ss \<and> IsD (ss ! i)"
  by (auto simp: FindStrokeDTarget_def last_idx_Some split: if_splits option.splits)

lemma FindTonedVowelIndex_Some:
  "FindTonedVowelIndex ss = Some i \<Longrightarrow> i < length ss \<and> IsVowel (ss ! i) \<and> HasTone (ss ! i)"
  by (auto simp: FindTonedVowelIndex_def dest: first_idxD)

end
