(* ===== verification/Phonotactics.thy ===== *)
theory Phonotactics
  imports CharStates PhonologyData
begin

text \<open>
  The rendered-text half of the phonotactics engine (\<open>core/engine/Phonotactics.cpp\<close>): where the tone
  mark goes in a vowel nucleus, whether an onset, a nucleus, a coda and a tone form a syllable, and
  whether a partial text can be completed to one. It works on lower-case rendered text, not on the
  engine's states, and reads its rule data through the interface \<open>IPhonologyRules\<close>.
\<close>

subsection \<open>Vowel decomposition\<close>

datatype VowelMod = VNone | VCircumflex | VBreve | VHorn

record VowelInfo =
  viBase :: wchar
  viMod :: VowelMod

abbreviation VI :: "wchar \<Rightarrow> VowelMod \<Rightarrow> VowelInfo" where
  "VI b m \<equiv> \<lparr>viBase = b, viMod = m\<rparr>"

definition Decompose :: "wchar \<Rightarrow> VowelInfo" where
  "Decompose c =
    (if c = L_a then VI L_a VNone
     else if c = L_abreve then VI L_a VBreve
     else if c = L_acirc then VI L_a VCircumflex
     else if c = L_e then VI L_e VNone
     else if c = L_ecirc then VI L_e VCircumflex
     else if c = L_i then VI L_i VNone
     else if c = L_o then VI L_o VNone
     else if c = L_ocirc then VI L_o VCircumflex
     else if c = L_ohorn then VI L_o VHorn
     else if c = L_u then VI L_u VNone
     else if c = L_uhorn then VI L_u VHorn
     else if c = L_y then VI L_y VNone
     else VI 0 VNone)"

subsection \<open>Lexicon\<close>

definition kClosedVowels :: "wstring list" where
  "kClosedVowels =
    [[L_a, L_i], [L_a, L_o], [L_a, L_u], [L_a, L_y], [L_acirc, L_u], [L_acirc, L_y], [L_e, L_o],
     [L_ecirc, L_u], [L_i, L_a], [L_i, L_u], [L_o, L_i], [L_ocirc, L_i], [L_ohorn, L_i],
     [L_u, L_i], [L_uhorn, L_a], [L_uhorn, L_i], [L_uhorn, L_u], [L_i, L_ecirc, L_u],
     [L_u, L_ocirc, L_i], [L_u, L_y, L_u], [L_uhorn, L_ohorn, L_i], [L_uhorn, L_ohorn, L_u],
     [L_o, L_a, L_i], [L_o, L_a, L_y], [L_u, L_acirc, L_y], [L_u, L_y, L_a], [L_o, L_e, L_o],
     [L_o, L_a, L_o]]"

definition kPendingVowels :: "wstring list" where
  "kPendingVowels =
    [[L_abreve], [L_acirc], [L_i, L_ecirc], [L_o, L_abreve], [L_u, L_acirc], [L_u, L_ocirc],
     [L_o, L_o], [L_ocirc, L_ocirc], [L_uhorn, L_ohorn], [L_u, L_y, L_ecirc]]"

definition IsClosedVowelSeq :: "wstring \<Rightarrow> bool" where
  "IsClosedVowelSeq vs \<longleftrightarrow> vs \<in> set kClosedVowels"

definition IsPendingVowelSeq :: "wstring \<Rightarrow> bool" where
  "IsPendingVowelSeq vs \<longleftrightarrow> vs \<in> set kPendingVowels"

definition IsStopFinalCoda :: "wstring \<Rightarrow> bool" where
  "IsStopFinalCoda coda \<longleftrightarrow> coda = [L_c] \<or> coda = [L_c, L_h] \<or> coda = [L_p] \<or> coda = [L_t]"

definition ToneAllowedForCoda :: "wstring \<Rightarrow> Tone \<Rightarrow> bool" where
  "ToneAllowedForCoda coda tone =
    (if \<not> IsStopFinalCoda coda then True else tone = ToneNone \<or> tone = Acute \<or> tone = Dot)"

definition kValidOnsets :: "wstring list" where
  "kValidOnsets =
    [[], [L_b], [L_c], [L_d], [L_dstroke], [L_g], [L_h], [L_k], [L_l], [L_m], [L_n], [L_p],
     [L_q], [L_r], [L_s], [L_t], [L_v], [L_x], [L_c, L_h], [L_g, L_h], [L_g, L_i], [L_k, L_h],
     [L_n, L_g], [L_n, L_h], [L_p, L_h], [L_q, L_u], [L_t, L_h], [L_t, L_r], [L_n, L_g, L_h]]"

definition IsKnownOnset :: "wstring \<Rightarrow> bool" where
  "IsKnownOnset t \<longleftrightarrow> t \<in> set kValidOnsets"

definition IsKnownOnsetPrefix :: "wstring \<Rightarrow> bool" where
  "IsKnownOnsetPrefix t =
    (if t = [] then True
     else if length t = 1 then
       (let leadChar = t ! 0 in
        if viBase (Decompose leadChar) \<noteq> 0 then False
        else L_a \<le> leadChar \<and> leadChar \<le> L_z \<or> leadChar = L_dstroke)
     else IsKnownOnset t)"

definition kValidCodas :: "wstring list" where
  "kValidCodas =
    [[L_c], [L_m], [L_n], [L_p], [L_t], [L_c, L_h], [L_n, L_g], [L_n, L_h]]"

definition IsKnownCoda :: "wstring \<Rightarrow> bool" where
  "IsKnownCoda t \<longleftrightarrow> t \<in> set kValidCodas"

subsection \<open>Nucleus keys and coda compatibility\<close>

fun vowel_mod_value :: "VowelMod \<Rightarrow> u8" where
  "vowel_mod_value VNone = 0"
| "vowel_mod_value VCircumflex = 1"
| "vowel_mod_value VBreve = 2"
| "vowel_mod_value VHorn = 3"

text \<open>The loop of \<open>WstringViewToVowelKey\<close>; \<open>None\<close> is its early \<open>return 0\<close>.\<close>

fun nucleus_slots :: "wstring \<Rightarrow> u8 list \<Rightarrow> u8 list option" where
  "nucleus_slots [] slots = Some slots"
| "nucleus_slots (ch # chs) slots =
    (let info = Decompose ch in
     if viBase info = 0 then None
     else if 3 \<le> length slots then None
     else (let baseIdx = BaseIndex (viBase info) in
       if baseIdx = kInvalidBaseIndex then None
       else nucleus_slots chs (slots @ [VowelSlot baseIdx (vowel_mod_value (viMod info))])))"

definition WstringViewToVowelKey :: "wstring \<Rightarrow> u32" where
  "WstringViewToVowelKey vs =
    (case nucleus_slots vs [] of
       None \<Rightarrow> 0
     | Some slots \<Rightarrow>
         (if length slots = 1 then Key1 (slots ! 0)
          else if length slots = 2 then Key2 (slots ! 0) (slots ! 1)
          else if length slots = 3 then Key3 (slots ! 0) (slots ! 1) (slots ! 2)
          else 0))"

definition CodaToFinalBit :: "wstring \<Rightarrow> u16" where
  "CodaToFinalBit coda =
    (if length coda = 1 then
       (let c = coda ! 0 in
        if c = L_c then F_c else if c = L_k then F_k else if c = L_m then F_m
        else if c = L_n then F_n else if c = L_p then F_p else if c = L_t then F_t else 0)
     else if length coda = 2 then
       (if coda = [L_c, L_h] then F_ch
        else if coda = [L_n, L_g] then F_ng
        else if coda = [L_n, L_h] then F_nh
        else 0)
     else 0)"

text \<open>
  The rule pack behind \<open>IPhonologyRules\<close>: a record of its two virtual functions, and the default
  pack that reads the tables of \<open>PhonologyData\<close>.
\<close>

record IPhonologyRules =
  rulesIsFrontBaseVowel :: "wchar \<Rightarrow> bool"
  rulesAllowedFinals :: "u32 \<Rightarrow> u16"

definition DefaultPhonologyRules :: IPhonologyRules where
  "DefaultPhonologyRules =
    \<lparr>rulesIsFrontBaseVowel = IsFrontBaseVowel, rulesAllowedFinals = GetAllowedFinals\<rparr>"

definition IsCodaValidForNucleus :: "IPhonologyRules \<Rightarrow> wstring \<Rightarrow> wstring \<Rightarrow> bool" where
  "IsCodaValidForNucleus rules vowelSeq coda =
    (if coda = [] then True
     else (let vowelKey = WstringViewToVowelKey vowelSeq in
       if vowelKey = 0 then True
       else (let allowed = rulesAllowedFinals rules vowelKey in
         if allowed = 0 then True
         else (let b = CodaToFinalBit coda in
           if b = 0 then True else allowed AND b \<noteq> 0))))"

definition IsOnsetVowelAgreementValid :: "IPhonologyRules \<Rightarrow> wstring \<Rightarrow> wstring \<Rightarrow> bool" where
  "IsOnsetVowelAgreementValid rules onset vowelSeq =
    (if onset = [L_q, L_u] then True
     else if \<not> (onset = [L_c] \<or> onset = [L_k] \<or> onset = [L_g] \<or> onset = [L_g, L_h] \<or>
                onset = [L_n, L_g] \<or> onset = [L_n, L_g, L_h]) then True
     else (case find (\<lambda>ch. viBase (Decompose ch) \<noteq> 0) vowelSeq of
             None \<Rightarrow> True
           | Some ch \<Rightarrow>
               (let wantsFront = (onset = [L_k] \<or> onset = [L_g, L_h] \<or> onset = [L_n, L_g, L_h])
                in wantsFront = rulesIsFrontBaseVowel rules (viBase (Decompose ch)))))"

subsection \<open>Tone placement\<close>

definition diphthong_rule :: "bool \<Rightarrow> nat \<Rightarrow> nat \<Rightarrow> nat" where
  "diphthong_rule modernOrtho i j =
    (if modernOrtho then kDiphthongModern ! i ! j else kDiphthongClassic ! i ! j)"

text \<open>
  Priority 3 of the placement, from the point where the modern triphthong and the smart-accent
  triphthong have been ruled out: the default pair is the last two vowels, shifted onto the first
  two of a three-vowel cluster when those have a rule. \<open>None\<close> means no rule applied.
\<close>

definition diphthong_position :: "VowelInfo list \<Rightarrow> bool \<Rightarrow> bool \<Rightarrow> nat option" where
  "diphthong_position vs codaEmpty modernOrtho =
    (let count = length vs;
         f0 = DiphthongVowelIndex (viBase (vs ! (count - 2)));
         l0 = DiphthongVowelIndex (viBase (vs ! (count - 1)));
         shift = (if 3 \<le> count then
                    (case (DiphthongVowelIndex (viBase (vs ! (count - 3))), f0) of
                       (Some s, Some f) \<Rightarrow> if diphthong_rule modernOrtho s f \<noteq> 0 then Some (s, f) else None
                     | _ \<Rightarrow> None)
                  else None);
         firstPos = (if shift \<noteq> None then count - 3 else count - 2);
         lastPos = (if shift \<noteq> None then count - 2 else count - 1);
         pair = (case shift of Some (s, f) \<Rightarrow> (Some s, Some f) | None \<Rightarrow> (f0, l0))
     in (case pair of
           (Some fi, Some li) \<Rightarrow>
             (let rule0 = diphthong_rule modernOrtho fi li;
                  rule = (if rule0 = 3 then
                            (if shift \<noteq> None \<and> viBase (vs ! (count - 1)) = viBase (vs ! (count - 2)) then 1
                             else if lastPos + 1 < count \<or> \<not> codaEmpty then 2 else 1)
                          else rule0)
              in if rule = 1 then Some firstPos else if rule = 2 then Some lastPos else None)
         | _ \<Rightarrow> None))"

definition ComputeTonePosition :: "wstring \<Rightarrow> wstring \<Rightarrow> bool \<Rightarrow> nat option" where
  "ComputeTonePosition vowelSeq coda modernOrtho =
    (let vs = take 16 (filter (\<lambda>v. viBase v \<noteq> 0) (map Decompose vowelSeq)); count = length vs in
     if count = 0 then None
     else (case last_idx (\<lambda>i. viMod (vs ! i) = VHorn) count of
       Some i \<Rightarrow> Some i
     | None \<Rightarrow>
         (case first_idx (\<lambda>i. viMod (vs ! i) = VCircumflex \<or> viMod (vs ! i) = VBreve) count of
            Some i \<Rightarrow> Some i
          | None \<Rightarrow>
              (if 2 \<le> count then
                 (if modernOrtho \<and> 3 \<le> count \<and>
                     IsTriphthong (viBase (vs ! (count - 3))) (viBase (vs ! (count - 2)))
                       (viBase (vs ! (count - 1)))
                  then Some (count - 2)
                  else if count = 3 \<and> viMod (vs ! 0) = VNone \<and> viMod (vs ! 1) = VNone \<and>
                     viMod (vs ! 2) = VNone \<and>
                     IsBareSmartTriphthongTail (viBase (vs ! 0)) (viBase (vs ! 1)) (viBase (vs ! 2))
                  then Some (count - 1)
                  else (case diphthong_position vs (coda = []) modernOrtho of
                          Some i \<Rightarrow> Some i
                        | None \<Rightarrow> Some (count - 1)))
               else Some (count - 1)))))"

subsection \<open>Parsing and the public interface\<close>

record ParsedSyllable =
  psOnset :: wstring
  psVowels :: wstring
  psCoda :: wstring
  psLeftover :: wstring
  psHasVowel :: bool

definition is_vowel_char :: "wchar \<Rightarrow> bool" where
  "is_vowel_char ch \<longleftrightarrow> viBase (Decompose ch) \<noteq> 0"

definition Parse :: "wstring \<Rightarrow> ParsedSyllable" where
  "Parse t =
    (if \<not> list_ex is_vowel_char t then
       \<lparr>psOnset = t, psVowels = [], psCoda = [], psLeftover = [], psHasVowel = False\<rparr>
     else
       (let onset = takeWhile (\<lambda>c. \<not> is_vowel_char c) t;
            from = dropWhile (\<lambda>c. \<not> is_vowel_char c) t;
            vowels = takeWhile is_vowel_char from;
            rest = dropWhile is_vowel_char from;
            codaLen = length (takeWhile (\<lambda>c. \<not> is_vowel_char c) (take 2 rest))
        in \<lparr>psOnset = onset, psVowels = vowels, psCoda = take codaLen rest,
            psLeftover = drop codaLen rest, psHasVowel = True\<rparr>))"

definition TonePosition :: "wstring \<Rightarrow> wstring \<Rightarrow> bool \<Rightarrow> nat option" where
  "TonePosition vowelSeq coda modernOrtho = ComputeTonePosition vowelSeq coda modernOrtho"

definition IsValidSyllable :: "IPhonologyRules \<Rightarrow> wstring \<Rightarrow> wstring \<Rightarrow> wstring \<Rightarrow> Tone \<Rightarrow> bool" where
  "IsValidSyllable rules onset vowelSeq coda tone =
    (if vowelSeq = [] then False
     else if \<not> IsOnsetVowelAgreementValid rules onset vowelSeq then False
     else if coda \<noteq> [] \<and> IsClosedVowelSeq vowelSeq then False
     else if coda = [] \<and> IsPendingVowelSeq vowelSeq then False
     else if \<not> IsCodaValidForNucleus rules vowelSeq coda then False
     else if \<not> ToneAllowedForCoda coda tone then False
     else True)"

definition CanComplete :: "wstring \<Rightarrow> bool" where
  "CanComplete partial =
    (if partial = [] then True
     else (let parsed = Parse partial in
       if \<not> psHasVowel parsed then IsKnownOnsetPrefix (psOnset parsed)
       else if \<not> IsKnownOnset (psOnset parsed) then False
       else if psLeftover parsed \<noteq> [] then False
       else if psCoda parsed \<noteq> [] \<and> \<not> IsKnownCoda (psCoda parsed) then False
       else True))"

end
