(* ===== verification/EngineState.thy ===== *)
theory EngineState
  imports EngineHelpers Phonotactics
begin

text \<open>
  The state of \<open>TypingEngine\<close> (\<open>core/engine/TypingEngine.h\<close>, \<open>TypingEngine.cpp\<close>) and its private
  buffer operations: appending a character, erasing a consumed raw key, finding the vowel that
  carries the tone, moving the tone, completing \<open>uo\<close> pairs and the speculative validation of a
  modifier.
\<close>

subsection \<open>State\<close>

record Engine =
  states :: "CharState list"
  rawInput :: wstring
  escRawHistory :: wstring
  config :: TypingConfig
  spellCheckDisabled :: bool
  qc :: QuickConsonantState
  escape :: EscapeKind
  quickStartKey :: wchar
  engProt :: EnglishProtectionState

definition Reset :: "Engine \<Rightarrow> Engine" where
  "Reset e =
    e\<lparr>states := [], rawInput := [], escRawHistory := [], spellCheckDisabled := False,
      qc := qc_Reset, escape := EscNone, quickStartKey := 0, engProt := engProt_init\<rparr>"

definition newEngine :: "TypingConfig \<Rightarrow> Engine" where
  "newEngine cfg =
    \<lparr>states = [], rawInput = [], escRawHistory = [], config = cfg, spellCheckDisabled = False,
     qc = qc_Reset, escape = EscNone, quickStartKey = 0, engProt = engProt_init\<rparr>"

definition IsTelexMode :: "Engine \<Rightarrow> bool" where
  "IsTelexMode e \<longleftrightarrow> inputMethod (config e) \<noteq> VNI \<and> inputMethod (config e) \<noteq> UserDefined"

definition IsVniMode :: "Engine \<Rightarrow> bool" where
  "IsVniMode e \<longleftrightarrow> inputMethod (config e) = VNI \<or> inputMethod (config e) = Combined"

definition Peek :: "Engine \<Rightarrow> wstring" where
  "Peek e = ComposeAll (states e)"

definition Count :: "Engine \<Rightarrow> nat" where
  "Count e = length (states e)"

definition HasActiveQuickConsonant :: "Engine \<Rightarrow> bool" where
  "HasActiveQuickConsonant e = hasActive (qc e)"

definition IsEnglishWord :: "Engine \<Rightarrow> bool" where
  "IsEnglishWord e \<longleftrightarrow> bias (engProt e) = HardEnglish"

definition IsToneEscaped :: "Engine \<Rightarrow> bool" where
  "IsToneEscaped e \<longleftrightarrow> isEscaped (escape e)"

definition PeekRaw :: "Engine \<Rightarrow> wstring" where
  "PeekRaw e = escRawHistory e"

subsection \<open>Appending and erasing\<close>

definition rawTail :: "wstring \<Rightarrow> nat" where
  "rawTail raw = (if raw = [] then 0 else length raw - 1)"

definition ProcessChar :: "wchar \<Rightarrow> bool \<Rightarrow> Engine \<Rightarrow> Engine" where
  "ProcessChar lower isUpper' e =
    e\<lparr>states := states e @ [newCharState\<lparr>csBase := lower, csUpper := isUpper',
        csRawIdx := rawTail (rawInput e)\<rparr>]\<rparr>"

text \<open>The overload \<open>ProcessChar(wchar_t)\<close>.\<close>

definition ProcessKey :: "wchar \<Rightarrow> Engine \<Rightarrow> Engine" where
  "ProcessKey c e = ProcessChar (towlower c) (iswupper c) e"

text \<open>Indices that pointed behind the erased entry move down by one.\<close>

definition shift_raw :: "nat \<Rightarrow> CharState \<Rightarrow> CharState" where
  "shift_raw idx s =
    s\<lparr>csRawIdx := (if idx < csRawIdx s then csRawIdx s - 1 else csRawIdx s),
      csToneRawIdx := (case csToneRawIdx s of
         Some t \<Rightarrow> Some (if idx < t then t - 1 else t)
       | None \<Rightarrow> None)\<rparr>"

definition EraseConsumedRaw :: "nat \<Rightarrow> Engine \<Rightarrow> Engine" where
  "EraseConsumedRaw idx e =
    (if length (rawInput e) \<le> idx then e
     else e\<lparr>rawInput := take idx (rawInput e) @ drop (Suc idx) (rawInput e),
            states := map (shift_raw idx) (states e)\<rparr>)"

text \<open>Assignments to one state of the buffer.\<close>

definition setMod :: "nat \<Rightarrow> Modifier \<Rightarrow> Engine \<Rightarrow> Engine" where
  "setMod i m e = e\<lparr>states := set_mod i m (states e)\<rparr>"

definition escapeWith :: "EscapeKind \<Rightarrow> Engine \<Rightarrow> Engine" where
  "escapeWith k e = e\<lparr>escape := k\<rparr>"

definition setBias :: "LanguageBias \<Rightarrow> Engine \<Rightarrow> Engine" where
  "setBias b e = e\<lparr>engProt := (engProt e)\<lparr>bias := b\<rparr>\<rparr>"

definition popState :: "Engine \<Rightarrow> Engine" where
  "popState e = e\<lparr>states := butlast (states e)\<rparr>"

definition pushState :: "CharState \<Rightarrow> Engine \<Rightarrow> Engine" where
  "pushState s e = e\<lparr>states := states e @ [s]\<rparr>"

subsection \<open>Where the tone belongs\<close>

text \<open>
  The positions of the nucleus vowels, at most \<open>kVowelCap\<close> of them, with cluster consonants (the
  \<open>i\<close> of \<open>gi\<close>, the \<open>u\<close> of \<open>qu\<close>) left out. The rule engine sees the rendered lower-case vowels
  without tone and the rendered coda, and answers with a position in the vowel sequence. It is a
  parameter, as it is injected into the engine as an \<open>IPhonotactics\<close>.
\<close>

definition kVowelCap :: nat where
  "kVowelCap = 16"

definition canonical_vowel :: "CharState \<Rightarrow> wchar" where
  "canonical_vowel s = Compose (s\<lparr>csTone := ToneNone, csUpper := False\<rparr>)"

definition nucleus_indices :: "CharState list \<Rightarrow> nat list" where
  "nucleus_indices ss =
    take kVowelCap (filter (\<lambda>i. IsVowel (ss ! i) \<and> \<not> IsClusterConsonant ss i \<and>
                                canonical_vowel (ss ! i) \<noteq> 0) [0..<length ss])"

definition coda_text :: "CharState list \<Rightarrow> nat \<Rightarrow> wstring" where
  "coda_text ss lastVowel =
    take kVowelCap (filter (\<lambda>ch. ch \<noteq> 0)
      (map (\<lambda>s. Compose (s\<lparr>csUpper := False\<rparr>)) (drop (lastVowel + 1) ss)))"

definition FindToneTargetWith ::
  "(wstring \<Rightarrow> wstring \<Rightarrow> bool \<Rightarrow> nat option) \<Rightarrow> bool \<Rightarrow> CharState list \<Rightarrow> nat option" where
  "FindToneTargetWith tonePosition modern ss =
    (let idxs = nucleus_indices ss in
     if idxs = [] then None
     else (case tonePosition (map (\<lambda>i. canonical_vowel (ss ! i)) idxs) (coda_text ss (last idxs)) modern of
       None \<Rightarrow> None
     | Some k \<Rightarrow> if length idxs \<le> k then None else Some (idxs ! k)))"

definition FindToneTarget :: "bool \<Rightarrow> CharState list \<Rightarrow> nat option" where
  "FindToneTarget modern ss = FindToneTargetWith TonePosition modern ss"

definition toneTarget :: "Engine \<Rightarrow> nat option" where
  "toneTarget e = FindToneTarget (modernOrtho (config e)) (states e)"

definition IsToneStopCodaMismatch :: "CharState list \<Rightarrow> bool" where
  "IsToneStopCodaMismatch ss =
    (if \<not> HasStopFinalCoda ss then False
     else (case find HasTone ss of
       Some s \<Rightarrow> csTone s = Grave \<or> csTone s = Hook \<or> csTone s = Tilde
     | None \<Rightarrow> False))"

subsection \<open>Moving the tone\<close>

definition set_tone :: "nat \<Rightarrow> Tone \<Rightarrow> CharState list \<Rightarrow> CharState list" where
  "set_tone i t ss = upd_at i (\<lambda>s. s\<lparr>csTone := t\<rparr>) ss"

definition set_tone_raw :: "nat \<Rightarrow> nat option \<Rightarrow> CharState list \<Rightarrow> CharState list" where
  "set_tone_raw i r ss = upd_at i (\<lambda>s. s\<lparr>csToneRawIdx := r\<rparr>) ss"

definition RelocateToneToHornVowel :: "CharState list \<Rightarrow> CharState list" where
  "RelocateToneToHornVowel ss =
    (let hornIdx = last_idx (\<lambda>i. IsVowel (ss ! i) \<and> csMod (ss ! i) = Horn) (length ss);
         tonedIdx = last_idx (\<lambda>i. IsVowel (ss ! i) \<and> csTone (ss ! i) \<noteq> ToneNone) (length ss)
     in (case (hornIdx, tonedIdx) of
           (Some h, Some t) \<Rightarrow>
             (if h \<noteq> t \<and> (csMod (ss ! t) = ModNone \<or> csMod (ss ! t) = Horn) \<and>
                 \<not> HasConsonantBetween ss t h
              then set_tone t ToneNone (set_tone h (csTone (ss ! t)) ss)
              else ss)
         | _ \<Rightarrow> ss))"

definition RelocateToneToTarget :: "bool \<Rightarrow> CharState list \<Rightarrow> CharState list" where
  "RelocateToneToTarget modern ss =
    (case FindTonedVowelIndex ss of
       None \<Rightarrow> ss
     | Some tonedIdx \<Rightarrow>
         (case FindToneTarget modern ss of
            None \<Rightarrow> ss
          | Some targetIdx \<Rightarrow>
              (if targetIdx = tonedIdx then ss
               else if HasConsonantBetween ss tonedIdx targetIdx then ss
               else if IsToneRelocBlockedByP4 ss targetIdx modern then ss
               else set_tone_raw tonedIdx None (set_tone tonedIdx ToneNone
                      (set_tone_raw targetIdx (csToneRawIdx (ss ! tonedIdx))
                        (set_tone targetIdx (csTone (ss ! tonedIdx)) ss))))))"

definition relocateTarget :: "Engine \<Rightarrow> Engine" where
  "relocateTarget e = e\<lparr>states := RelocateToneToTarget (modernOrtho (config e)) (states e)\<rparr>"

definition relocateHorn :: "Engine \<Rightarrow> Engine" where
  "relocateHorn e = e\<lparr>states := RelocateToneToHornVowel (states e)\<rparr>"

subsection \<open>Completing \<open>uo\<close> pairs\<close>

definition autoUO_step :: "bool \<Rightarrow> CharState list \<Rightarrow> nat \<Rightarrow> CharState list" where
  "autoUO_step modern ss i =
    (if 0 < i \<and> csBase (ss ! i) = L_u \<and> csBase (ss ! (i - 1)) = L_q then ss
     else (let ss1 = (if csBase (ss ! i) = L_u \<and> csMod (ss ! i) = ModNone \<and>
                         csBase (ss ! (i + 1)) = L_o \<and> csMod (ss ! (i + 1)) = Horn
                      then set_mod i Horn ss else ss)
           in if csBase (ss1 ! i) = L_u \<and> csMod (ss1 ! i) = Horn \<and>
                 csBase (ss1 ! (i + 1)) = L_o \<and> csMod (ss1 ! (i + 1)) = ModNone
              then RelocateToneToTarget modern (set_mod (i + 1) Horn ss1)
              else ss1))"

definition ApplyAutoUO :: "bool \<Rightarrow> CharState list \<Rightarrow> CharState list" where
  "ApplyAutoUO modern ss =
    (if length ss < 3 then ss
     else (let start = (if 4 < length ss then length ss - 4 else 0)
           in foldl (autoUO_step modern) ss [start..<length ss - 2]))"

definition autoUO :: "Engine \<Rightarrow> Engine" where
  "autoUO e = e\<lparr>states := ApplyAutoUO (modernOrtho (config e)) (states e)\<rparr>"

subsection \<open>Spell state and speculative validation\<close>

definition UpdateSpellState :: "Engine \<Rightarrow> Engine" where
  "UpdateSpellState e = e\<lparr>spellCheckDisabled := UpdateSpellCheck (states e) (config e)\<rparr>"

definition WouldModifierKeyMatchExclusion :: "Engine \<Rightarrow> wchar \<Rightarrow> bool" where
  "WouldModifierKeyMatchExclusion e lower =
    (let ss = states e; ex = spellExclusions (config e) in
     if lower = L_d then WouldStrokeDMatchExclusion ss ex
     else if lower = L_w then
       WouldAnyModifierMatchExclusion ss ex Horn [L_u, L_o] \<or>
       WouldAnyModifierMatchExclusion ss ex Breve [L_a]
     else if lower = L_a \<or> lower = L_e \<or> lower = L_o then
       WouldAnyModifierMatchExclusion ss ex Circumflex [L_a, L_e, L_o]
     else if lower = L_6 then WouldAnyModifierMatchExclusion ss ex Circumflex [L_a, L_e, L_o]
     else if lower = L_7 then WouldAnyModifierMatchExclusion ss ex Horn [L_u, L_o]
     else if lower = L_8 then WouldAnyModifierMatchExclusion ss ex Breve [L_a]
     else if lower = L_9 then WouldStrokeDMatchExclusion ss ex
     else False)"

text \<open>
  The source mutates the buffer, validates, and restores it from a snapshot; the value computed is
  that of the mutated copy.
\<close>

definition accepts_or_recovers :: "bool \<Rightarrow> CharState list \<Rightarrow> bool" where
  "accepts_or_recovers zwjf ss =
    (let result = ValidateSyllableState ss zwjf in
     result \<noteq> Invalid \<or> (result = Invalid \<and> IsToneStopCodaMismatch ss))"

definition WouldBeValidSyllable ::
  "Engine \<Rightarrow> nat \<Rightarrow> Modifier \<Rightarrow> nat option \<Rightarrow> bool \<Rightarrow> bool" where
  "WouldBeValidSyllable e targetIdx newMod clearCircumflexIdx speculateRelocateTone =
    (let ss = states e; cfg = config e in
     if \<not> spellCheckEnabled cfg then True
     else if length ss \<le> targetIdx then True
     else if speculateRelocateTone then
       (if kVowelCap < length ss then True
        else (let ss1 = set_mod targetIdx newMod ss;
                  ss2 = (case clearCircumflexIdx of
                           Some k \<Rightarrow> if k < length ss \<and> csMod (ss ! k) = Circumflex
                                     then set_mod k ModNone ss1 else ss1
                         | None \<Rightarrow> ss1)
              in accepts_or_recovers (allowZwjf cfg) (RelocateToneToTarget (modernOrtho cfg) ss2)))
     else (let ss1 = set_mod targetIdx newMod ss;
               ss2 = (case clearCircumflexIdx of
                        Some k \<Rightarrow> if k < length ss \<and> csMod (ss1 ! k) = Circumflex
                                  then set_mod k ModNone ss1 else ss1
                      | None \<Rightarrow> ss1)
           in accepts_or_recovers (allowZwjf cfg) ss2))"

definition ShouldRejectModifier :: "Engine \<Rightarrow> nat \<Rightarrow> Modifier \<Rightarrow> wchar \<Rightarrow> bool" where
  "ShouldRejectModifier e targetIdx newMod key =
    (if \<not> spellCheckEnabled (config e) then False
     else \<not> WouldBeValidSyllable e targetIdx newMod None False \<and>
          \<not> WouldModifierKeyMatchExclusion e key)"

definition IsInQUCluster :: "CharState list \<Rightarrow> bool" where
  "IsInQUCluster ss =
    (if length ss < 2 then False
     else list_ex (\<lambda>i. csBase (ss ! i) = L_q \<and> csBase (ss ! (i + 1)) = L_u \<and>
                       csMod (ss ! (i + 1)) = ModNone) [0..<length ss - 1])"

end
