(* ===== verification/RuleRegistry.thy ===== *)
theory RuleRegistry
  imports EngineState "HOL-Library.Multiset"
begin

text \<open>
  The per-phase registry of engine rules (\<open>core/engine/rule/EngineRuleRegistry.cpp\<close>,
  \<open>IEngineRule.h\<close>, \<open>EngineRuleContext.h\<close>, \<open>core/pipeline/GateMask.h\<close>): rules sorted by priority,
  gates evaluated once per dispatch, and the dispatch loop that a \<open>Handled\<close> or \<open>Veto\<close> ends. The
  references the context holds to the engine's buffers are the engine argument itself.
\<close>

subsection \<open>Phases, results and gates\<close>

datatype Phase = PreClassify | PostClassify

datatype RuleResult = Pass | Handled | Veto

datatype GateId = GateEnglishBias | GateSpellCheck | GateToneEscape

type_synonym GateMask = u32

fun gate_index :: "GateId \<Rightarrow> nat" where
  "gate_index GateEnglishBias = 0"
| "gate_index GateSpellCheck = 1"
| "gate_index GateToneEscape = 2"

definition GateMaskFor :: "GateId \<Rightarrow> GateMask" where
  "GateMaskFor g = push_bit (gate_index g) 1"

unbundle bit_operations_syntax

definition GateMaskHas :: "GateMask \<Rightarrow> GateId \<Rightarrow> bool" where
  "GateMaskHas m g \<longleftrightarrow> m AND GateMaskFor g \<noteq> 0"

subsection \<open>Context and rules\<close>

record EngineRuleContext =
  ctxKeyChar :: wchar
  ctxLower :: wchar
  ctxIsUpper :: bool
  ctxAction :: TypingAction
  ctxSpellCheckDisabled :: bool
  ctxAllowEnglishBypass :: bool
  ctxEscapeActive :: bool
  ctxBias :: LanguageBias
  ctxIsVniDigitSeq :: bool

record EngineRule =
  rulePhase :: Phase
  rulePriority :: int
  ruleRequires :: GateMask
  ruleApply :: "EngineRuleContext \<Rightarrow> Engine \<Rightarrow> RuleResult \<times> Engine"

type_synonym EngineRuleRegistry = "Phase \<Rightarrow> EngineRule list"

definition emptyRegistry :: EngineRuleRegistry where
  "emptyRegistry = (\<lambda>_. [])"

text \<open>\<open>push_back\<close> and a stable sort by priority.\<close>

definition Register :: "EngineRule \<Rightarrow> EngineRuleRegistry \<Rightarrow> EngineRuleRegistry" where
  "Register r reg = reg(rulePhase r := sort_key rulePriority (reg (rulePhase r) @ [r]))"

definition RuleCountAtPhase :: "EngineRuleRegistry \<Rightarrow> Phase \<Rightarrow> nat" where
  "RuleCountAtPhase reg p = length (reg p)"

definition RuleCount :: "EngineRuleRegistry \<Rightarrow> nat" where
  "RuleCount reg = length (reg PreClassify) + length (reg PostClassify)"

definition EvaluateGates :: "EngineRuleContext \<Rightarrow> Engine \<Rightarrow> GateMask" where
  "EvaluateGates ctx e =
    (let r0 = 0;
         r1 = (if ctxBias ctx = HardEnglish \<and> \<not> ctxAllowEnglishBypass ctx
               then r0 OR GateMaskFor GateEnglishBias else r0);
         r2 = (if ctxSpellCheckDisabled ctx \<and> spellCheckEnabled (config e) \<and>
                  \<not> ctxAllowEnglishBypass ctx
               then r1 OR GateMaskFor GateSpellCheck else r1)
     in (if ctxEscapeActive ctx then r2 OR GateMaskFor GateToneEscape else r2))"

primrec dispatch_loop ::
  "EngineRule list \<Rightarrow> GateMask \<Rightarrow> EngineRuleContext \<Rightarrow> Engine \<Rightarrow> RuleResult \<times> Engine" where
  "dispatch_loop [] raised ctx e = (Pass, e)"
| "dispatch_loop (rule # bucket) raised ctx e =
    (if ruleRequires rule AND raised \<noteq> 0 then dispatch_loop bucket raised ctx e
     else (let r = ruleApply rule ctx e in
       if fst r = Handled then r
       else if fst r = Veto then r
       else dispatch_loop bucket raised ctx (snd r)))"

definition DispatchAtPhase ::
  "EngineRuleRegistry \<Rightarrow> Phase \<Rightarrow> EngineRuleContext \<Rightarrow> Engine \<Rightarrow> RuleResult \<times> Engine" where
  "DispatchAtPhase reg phase ctx e = dispatch_loop (reg phase) (EvaluateGates ctx e) ctx e"

subsection \<open>Gates\<close>

lemma gate_index_bound: "gate_index g < 32"
  by (cases g) simp_all

lemma bit_single: "k < 32 \<Longrightarrow> bit (push_bit k (1 :: u32)) n \<longleftrightarrow> n = k"
  by (auto simp: bit_simps bit_1_iff)

lemma bit_gate: "bit (GateMaskFor g) n \<longleftrightarrow> n = gate_index g"
  unfolding GateMaskFor_def by (rule bit_single [OF gate_index_bound])

lemma gate_AND: "m AND GateMaskFor g \<noteq> 0 \<longleftrightarrow> bit m (gate_index g)"
proof -
  have "m AND GateMaskFor g = 0 \<longleftrightarrow> \<not> bit m (gate_index g)"
    using gate_index_bound [of g]
    by (auto simp: bit_eq_iff [of "m AND GateMaskFor g"] bit_simps bit_gate)
  then show ?thesis by simp
qed

lemma bit_EvaluateGates:
  "bit (EvaluateGates ctx e) n \<longleftrightarrow>
    n = 0 \<and> ctxBias ctx = HardEnglish \<and> \<not> ctxAllowEnglishBypass ctx \<or>
    n = 1 \<and> ctxSpellCheckDisabled ctx \<and> spellCheckEnabled (config e) \<and> \<not> ctxAllowEnglishBypass ctx \<or>
    n = 2 \<and> ctxEscapeActive ctx"
  by (auto simp: EvaluateGates_def Let_def bit_simps bit_gate)

subsection \<open>The dispatch contract\<close>

text \<open>
  Whatever relation between the engine before and after every registered rule keeps, dispatching
  keeps: the relation is reflexive and transitive, and each rule of the bucket stays in it for
  contexts that fit the engine. Contexts that fit still fit after a related step.
\<close>

locale rule_bucket =
  fixes R :: "Engine \<Rightarrow> Engine \<Rightarrow> bool"
    and fits :: "EngineRuleContext \<Rightarrow> Engine \<Rightarrow> bool"
    and bucket :: "EngineRule list"
  assumes R_refl: "R e e"
    and R_trans: "R e1 e2 \<Longrightarrow> R e2 e3 \<Longrightarrow> R e1 e3"
    and fits_R: "fits ctx e \<Longrightarrow> R e e' \<Longrightarrow> fits ctx e'"
    and rule_R: "r \<in> set bucket \<Longrightarrow> fits ctx e \<Longrightarrow> R e (snd (ruleApply r ctx e))"
begin

lemma loop_R:
  "set rs \<subseteq> set bucket \<Longrightarrow> fits ctx e \<Longrightarrow> R e (snd (dispatch_loop rs raised ctx e))"
proof (induction rs arbitrary: e)
  case Nil
  then show ?case by (simp add: R_refl)
next
  case (Cons r rs)
  then have r: "R e (snd (ruleApply r ctx e))" by (simp add: rule_R)
  with Cons have "R (snd (ruleApply r ctx e))
      (snd (dispatch_loop rs raised ctx (snd (ruleApply r ctx e))))"
    by (simp add: fits_R)
  then show ?case
    using Cons r by (auto simp: Let_def intro: R_trans)
qed

lemma dispatch_R:
  "reg phase = bucket \<Longrightarrow> fits ctx e \<Longrightarrow> R e (snd (DispatchAtPhase reg phase ctx e))"
  by (simp add: DispatchAtPhase_def loop_R)

end

subsection \<open>Registration order\<close>

lemma Register_sorted:
  "sorted (map rulePriority (reg p)) \<Longrightarrow> sorted (map rulePriority (Register r reg p))"
  by (simp add: Register_def)

lemma Register_set: "set (Register r reg p) = set (reg p) \<union> (if p = rulePhase r then {r} else {})"
  by (auto simp: Register_def)

text \<open>The sort is stable: rules of one priority keep their registration order.\<close>

lemma Register_stable:
  "filter (\<lambda>x. rulePriority x = k) (Register r reg (rulePhase r)) =
   filter (\<lambda>x. rulePriority x = k) (reg (rulePhase r)) @ (if rulePriority r = k then [r] else [])"
  by (simp add: Register_def sort_key_stable)

subsection \<open>Registering and gating\<close>

text \<open>The registrations of a constructor, in their order.\<close>

definition RegisterAll :: "EngineRule list \<Rightarrow> EngineRuleRegistry" where
  "RegisterAll rs = foldl (\<lambda>reg r. Register r reg) emptyRegistry rs"

text \<open>However rules are registered, the bucket of a phase is the stable sort by priority of the
  rules of that phase: no rule is lost, none is added, and rules of one priority run in the order
  of their registration.\<close>

theorem RegisterAll_sorts:
  "RegisterAll rs p = sort_key rulePriority (filter (\<lambda>r. rulePhase r = p) rs)"
proof (induction rs rule: rev_induct)
  case Nil
  then show ?case by (simp add: RegisterAll_def emptyRegistry_def)
next
  case (snoc r rs)
  let ?bucket = "\<lambda>rs. filter (\<lambda>r. rulePhase r = p) rs"
  have step: "RegisterAll (rs @ [r]) p =
      (if rulePhase r = p then sort_key rulePriority (RegisterAll rs p @ [r]) else RegisterAll rs p)"
    by (auto simp: RegisterAll_def Register_def)
  have "sort_key rulePriority (sort_key rulePriority xs @ [r]) = sort_key rulePriority (xs @ [r])" for xs
  proof (rule properties_for_sort_key)
    fix k
    have flip: "(\<lambda>x. rulePriority k = rulePriority x) = (\<lambda>x. rulePriority x = rulePriority k)" by auto
    show "filter (\<lambda>x. rulePriority k = rulePriority x) (sort_key rulePriority (xs @ [r])) =
        filter (\<lambda>x. rulePriority k = rulePriority x) (sort_key rulePriority xs @ [r])"
      unfolding flip sort_key_stable filter_append ..
  qed simp_all
  then show ?case by (simp add: step snoc)
qed

text \<open>The gates are raised exactly when their conditions hold: the English gate on the hard bias
  and the spell gate on a failed spell check, both unless the user allows English, and the escape
  gate while an escape is active.\<close>

theorem gates_raised:
  "GateMaskHas (EvaluateGates ctx e) g \<longleftrightarrow>
    (case g of
       GateEnglishBias \<Rightarrow> ctxBias ctx = HardEnglish \<and> \<not> ctxAllowEnglishBypass ctx
     | GateSpellCheck \<Rightarrow> ctxSpellCheckDisabled ctx \<and> spellCheckEnabled (config e) \<and> \<not> ctxAllowEnglishBypass ctx
     | GateToneEscape \<Rightarrow> ctxEscapeActive ctx)"
  by (cases g) (simp_all add: GateMaskHas_def gate_AND bit_EvaluateGates)

lemma dispatch_loop_open:
  "dispatch_loop rs raised ctx e = dispatch_loop (filter (\<lambda>r. ruleRequires r AND raised = 0) rs) 0 ctx e"
  by (induction rs arbitrary: e) (simp_all add: Let_def)

lemma dispatch_loop_ends:
  "fst (dispatch_loop rs raised ctx e) = Pass \<or>
   (\<exists>r e0. r \<in> set rs \<and> ruleRequires r AND raised = 0 \<and> dispatch_loop rs raised ctx e = ruleApply r ctx e0)"
proof (induction rs arbitrary: e)
  case (Cons r rs)
  show ?case
  proof (cases "ruleRequires r AND raised = 0 \<and> fst (ruleApply r ctx e) \<noteq> Pass")
    case True
    then show ?thesis by (intro disjI2 exI[of _ r] exI[of _ e]) (cases "fst (ruleApply r ctx e)"; simp add: Let_def)
  next
    case False
    then obtain e' where "dispatch_loop (r # rs) raised ctx e = dispatch_loop rs raised ctx e'"
      by (cases "ruleRequires r AND raised = 0") (auto simp: Let_def)
    then show ?thesis using Cons[of e'] by auto
  qed
qed simp

text \<open>A rule whose gate is raised never runs: dispatching is dispatching the open rules alone, and
  the rule that ends a dispatch is the first open rule that does not pass.\<close>

theorem dispatch_open_rules:
  "dispatch_loop rs raised ctx e =
    dispatch_loop (filter (\<lambda>r. ruleRequires r AND raised = 0) rs) 0 ctx e \<and>
   (fst (dispatch_loop rs raised ctx e) = Pass \<or>
    (\<exists>r \<in> set rs. \<exists>e0. ruleRequires r AND raised = 0 \<and> dispatch_loop rs raised ctx e = ruleApply r ctx e0))"
  using dispatch_loop_open[of rs raised ctx e] dispatch_loop_ends[of rs raised ctx e] by blast

end
