(* ===== verification/EngineModifiers.thy ===== *)
theory EngineModifiers
  imports EngineState
begin

text \<open>
  The modifier handlers of \<open>TypingEngine\<close>: brackets, adjacent and free-marking circumflex, the
  Telex \<open>w\<close> key with its priorities P1 to P8, the stroke, the VNI modifier keys and the
  user-defined actions. A handler returns whether it consumed the key, and the new engine.
\<close>

type_synonym handler = "Engine \<Rightarrow> bool \<times> Engine"

fun ActionToTone :: "TypingAction \<Rightarrow> Tone" where
  "ActionToTone ToneAcute = Acute"
| "ActionToTone ToneGrave = Grave"
| "ActionToTone ToneHook = Hook"
| "ActionToTone ToneTilde = Tilde"
| "ActionToTone ToneDot = Dot"
| "ActionToTone _ = ToneNone"

fun ActionToVowel :: "TypingAction \<Rightarrow> wchar" where
  "ActionToVowel CircumflexA = L_a"
| "ActionToVowel CircumflexE = L_e"
| "ActionToVowel CircumflexO = L_o"
| "ActionToVowel _ = 0"

fun ActionToVniModifier :: "TypingAction \<Rightarrow> Modifier" where
  "ActionToVniModifier VniCircumflex = Circumflex"
| "ActionToVniModifier VniHorn = Horn"
| "ActionToVniModifier VniBreve = Breve"
| "ActionToVniModifier VniStroke = Stroke"
| "ActionToVniModifier _ = ModNone"

text \<open>\<open>i - 2\<close> from the end of the raw buffer is the key before the current one.\<close>

definition repeated_key :: "Engine \<Rightarrow> wchar \<Rightarrow> bool" where
  "repeated_key e c \<longleftrightarrow>
    2 \<le> length (rawInput e) \<and> towlower (rawInput e ! (length (rawInput e) - 2)) = towlower c"

text \<open>Clear a modifier, append the key as a literal and record the escape.\<close>

definition escapeMod :: "nat \<Rightarrow> wchar \<Rightarrow> EscapeKind \<Rightarrow> Engine \<Rightarrow> Engine" where
  "escapeMod i c k e = escapeWith k (ProcessKey c (setMod i ModNone e))"

subsection \<open>Direct insertion\<close>

text \<open>Undo the glyph a doubled action key just inserted and emit the key.\<close>

definition undoInsert :: "wchar \<Rightarrow> EscapeKind \<Rightarrow> Engine \<Rightarrow> Engine" where
  "undoInsert c k e =
    (let consumedIdx = csRawIdx (last (states e)) in
     escapeWith k (ProcessKey c (EraseConsumedRaw consumedIdx (popState e))))"

definition HandleHornInsert :: "TypingAction \<Rightarrow> wchar \<Rightarrow> handler" where
  "HandleHornInsert action c e =
    (if inputMethod (config e) = SimpleTelex then (False, e)
     else (let baseVowel = (if action = HornInsertO then L_o else L_u) in
       if states e \<noteq> [] \<and> repeated_key e c \<and>
          csBase (last (states e)) = baseVowel \<and> csMod (last (states e)) = Horn
       then (True, undoInsert c EscHorn e)
       else (True, pushState (newCharState\<lparr>csBase := baseVowel, csMod := Horn,
                                csRawIdx := rawTail (rawInput e)\<rparr>) e)))"

text \<open>Base letter, modifier and case of the \<open>Insert...\<close> actions.\<close>

fun insert_glyph :: "TypingAction \<Rightarrow> (wchar \<times> Modifier \<times> bool) option" where
  "insert_glyph InsertABreve = Some (L_a, Breve, False)"
| "insert_glyph InsertABreveUpper = Some (L_a, Breve, True)"
| "insert_glyph InsertACircumflex = Some (L_a, Circumflex, False)"
| "insert_glyph InsertACircumflexUpper = Some (L_a, Circumflex, True)"
| "insert_glyph InsertDStroke = Some (L_d, Stroke, False)"
| "insert_glyph InsertDStrokeUpper = Some (L_d, Stroke, True)"
| "insert_glyph InsertECircumflex = Some (L_e, Circumflex, False)"
| "insert_glyph InsertECircumflexUpper = Some (L_e, Circumflex, True)"
| "insert_glyph InsertOCircumflex = Some (L_o, Circumflex, False)"
| "insert_glyph InsertOCircumflexUpper = Some (L_o, Circumflex, True)"
| "insert_glyph InsertOHorn = Some (L_o, Horn, False)"
| "insert_glyph InsertOHornUpper = Some (L_o, Horn, True)"
| "insert_glyph InsertUHorn = Some (L_u, Horn, False)"
| "insert_glyph InsertUHornUpper = Some (L_u, Horn, True)"
| "insert_glyph _ = None"

fun insert_escape :: "Modifier \<Rightarrow> EscapeKind" where
  "insert_escape Horn = EscHorn"
| "insert_escape Circumflex = EscCircumflex"
| "insert_escape Breve = EscBreve"
| "insert_escape Stroke = EscStroke"
| "insert_escape ModNone = EscModifier"

definition HandleInsertChar :: "TypingAction \<Rightarrow> wchar \<Rightarrow> handler" where
  "HandleInsertChar action c e =
    (case insert_glyph action of
       None \<Rightarrow> (False, e)
     | Some (b, m, upper) \<Rightarrow>
         (if states e \<noteq> [] \<and> repeated_key e c \<and>
             csBase (last (states e)) = b \<and> csMod (last (states e)) = m
          then (True, undoInsert c (insert_escape m) e)
          else (True, pushState (newCharState\<lparr>csBase := b, csMod := m, csUpper := upper,
                                   csRawIdx := rawTail (rawInput e)\<rparr>) e)))"

subsection \<open>Circumflex: adjacent key and free marking\<close>

text \<open>The three vowels that end at the end of the buffer, the last one included.\<close>

definition ends_in_triphthong :: "CharState list \<Rightarrow> bool" where
  "ends_in_triphthong ss =
    (let n = length ss in
     3 \<le> n \<and> IsVowel (ss ! (n - 3)) \<and> IsVowel (ss ! (n - 2)) \<and>
     IsTriphthong (csBase (ss ! (n - 3))) (csBase (ss ! (n - 2))) (csBase (ss ! (n - 1))))"

definition adjacent_circumflex :: "wchar \<Rightarrow> wchar \<Rightarrow> handler" where
  "adjacent_circumflex targetBase c e =
    (let n = length (states e); lastS = last (states e) in
     if ends_in_triphthong (states e) then (True, e)
     else if csMod lastS = Circumflex then
       (let e1 = ProcessKey c (setMod (n - 1) ModNone e) in
        (True, if spellCheckEnabled (config e) then escapeWith EscCircumflex e1 else e1))
     else (let needsRelocate =
                 (ValidateSyllableState (states e) (allowZwjf (config e)) = ValidPrefix) in
       if needsRelocate \<and> \<not> WouldBeValidSyllable e (n - 1) Circumflex None True \<and>
          \<not> WouldModifierKeyMatchExclusion e c
       then (False, e)
       else if \<not> needsRelocate \<and> ShouldRejectModifier e (n - 1) Circumflex targetBase
       then (False, e)
       else (let e1 = setMod (n - 1) Circumflex e in
         (True, if needsRelocate then relocateTarget e1 else e1))))"

text \<open>
  The backward scan of the free-marking branch at position \<open>k - 1\<close>; \<open>needsValidation\<close>, the number
  of consonants crossed and the first of them are its loop variables. A \<open>break\<close> is \<open>False\<close>.
\<close>

primrec free_mark :: "wchar \<Rightarrow> wchar \<Rightarrow> nat \<Rightarrow> bool \<Rightarrow> nat \<Rightarrow> wchar \<Rightarrow> handler" where
  "free_mark targetBase c 0 needsValidation consonantsCrossed singleCoda e = (False, e)"
| "free_mark targetBase c (Suc i) needsValidation consonantsCrossed singleCoda e =
    (let s = states e ! i in
     if IsVowel s \<and> csBase s \<noteq> targetBase then
       free_mark targetBase c i True consonantsCrossed singleCoda e
     else if \<not> IsVowel s then
       free_mark targetBase c i needsValidation (consonantsCrossed + 1)
         (if consonantsCrossed = 0 then csBase s else singleCoda) e
     else if needsValidation \<and> csMod s \<noteq> Horn \<and> csMod s \<noteq> ModNone \<and> csMod s \<noteq> Circumflex then
       (False, e)
     else if csMod s = Circumflex then (True, escapeMod i c EscCircumflex e)
     else if csMod s = Breve \<and> targetBase = L_a then
       (True, relocateTarget (setMod i Circumflex e))
     else if csMod s = Horn \<and> targetBase = L_o then
       (let e1 = setMod i Circumflex e in
        (True, relocateTarget (e1\<lparr>states := UndoHornU (states e1) i\<rparr>)))
     else if csMod s = ModNone then
       (if needsValidation \<and> spellCheckEnabled (config e) \<and>
           ShouldRejectModifier e i Circumflex targetBase
        then (False, e)
        else if needsValidation \<and> \<not> spellCheckEnabled (config e) \<and> 1 \<le> consonantsCrossed
        then (False, setBias HardEnglish e)
        else if \<not> needsValidation \<and> \<not> spellCheckEnabled (config e) \<and> consonantsCrossed = 1 \<and>
          \<not> vcv_coda singleCoda
        then (False, setBias HardEnglish e)
        else if \<not> needsValidation \<and> spellCheckEnabled (config e) \<and> 1 \<le> consonantsCrossed \<and>
          \<not> WouldBeValidSyllable e i Circumflex None True
        then (False, e)
        else (True, relocateTarget (setMod i Circumflex e)))
     else (False, e))"

definition HandleAdjacentCircumflex :: "TypingAction \<Rightarrow> wchar \<Rightarrow> handler" where
  "HandleAdjacentCircumflex action c e =
    (if states e = [] then (False, e)
     else (let lower = towlower c;
               targetBase = (if inputMethod (config e) = UserDefined then ActionToVowel action else lower);
               n = length (states e) in
       if IsVowel (last (states e)) \<and> csBase (last (states e)) = targetBase
       then adjacent_circumflex targetBase c e
       else if 2 \<le> n \<and> IsVowel (states e ! (n - 1)) \<and> IsVowel (states e ! (n - 2)) \<and>
          IsTriphthong (csBase (states e ! (n - 2))) (csBase (states e ! (n - 1))) targetBase
       then (False, e)
       else free_mark targetBase c n False 0 0 e))"

subsection \<open>The Telex \<open>w\<close> key\<close>

definition isQUClusterU :: "CharState list \<Rightarrow> nat \<Rightarrow> bool" where
  "isQUClusterU ss i \<longleftrightarrow>
    0 < i \<and> csBase (ss ! i) = L_u \<and> csMod (ss ! i) = ModNone \<and> csBase (ss ! (i - 1)) = L_q"

definition hasNonVowelAfter :: "CharState list \<Rightarrow> nat \<Rightarrow> bool" where
  "hasNonVowelAfter ss idx = list_ex (\<lambda>i. \<not> IsVowel (ss ! i)) [idx + 1..<length ss]"

text \<open>The index variables the analysis loops of \<open>HandleHornW\<close> compute.\<close>

definition w_vowel :: "CharState list \<Rightarrow> nat \<Rightarrow> bool" where
  "w_vowel ss i \<longleftrightarrow> IsVowel (ss ! i) \<and> \<not> isQUClusterU ss i"

definition w_uIdx :: "CharState list \<Rightarrow> nat option" where
  "w_uIdx ss = last_idx (\<lambda>i. w_vowel ss i \<and> csBase (ss ! i) = L_u \<and> csMod (ss ! i) = ModNone) (length ss)"

definition w_firstUIdx :: "CharState list \<Rightarrow> nat option" where
  "w_firstUIdx ss = first_idx (\<lambda>i. w_vowel ss i \<and> csBase (ss ! i) = L_u \<and> csMod (ss ! i) = ModNone) (length ss)"

definition w_oIdx :: "CharState list \<Rightarrow> nat option" where
  "w_oIdx ss = last_idx (\<lambda>i. w_vowel ss i \<and> csBase (ss ! i) = L_o \<and>
      (csMod (ss ! i) = ModNone \<or> csMod (ss ! i) = Circumflex)) (length ss)"

definition w_aIdx :: "CharState list \<Rightarrow> nat option" where
  "w_aIdx ss = last_idx (\<lambda>i. w_vowel ss i \<and> csBase (ss ! i) = L_a \<and>
      (csMod (ss ! i) = ModNone \<or> csMod (ss ! i) = Circumflex)) (length ss)"

definition w_hornedIdx :: "CharState list \<Rightarrow> nat option" where
  "w_hornedIdx ss = last_idx (\<lambda>i. w_vowel ss i \<and> (csBase (ss ! i) = L_u \<or> csBase (ss ! i) = L_o) \<and>
      csMod (ss ! i) = Horn) (length ss)"

definition w_brevedIdx :: "CharState list \<Rightarrow> nat option" where
  "w_brevedIdx ss = last_idx (\<lambda>i. w_vowel ss i \<and> csBase (ss ! i) = L_a \<and> csMod (ss ! i) = Breve) (length ss)"

text \<open>The last position of an adjacent pair of vowels; its first vowel is no cluster \<open>u\<close>.\<close>

definition w_pair :: "CharState list \<Rightarrow> wchar \<Rightarrow> wchar \<Rightarrow> nat option" where
  "w_pair ss x y =
    last_idx (\<lambda>i. IsVowel (ss ! i) \<and> IsVowel (ss ! (i + 1)) \<and> \<not> isQUClusterU ss i \<and>
      csBase (ss ! i) = x \<and> csBase (ss ! (i + 1)) = y) (length ss - 1)"

text \<open>P1 and P5 take a sister circumflex off the \<open>a\<close>.\<close>

definition clear_sister :: "nat option \<Rightarrow> Engine \<Rightarrow> Engine" where
  "clear_sister aIdx e =
    (case aIdx of
       Some a \<Rightarrow> if csMod (states e ! a) = Circumflex then setMod a ModNone e else e
     | None \<Rightarrow> e)"

text \<open>P2, the horn cycle of a \<open>uo\<close> pair; \<open>None\<close> falls through to P3.\<close>

definition w_uo_cycle :: "nat \<Rightarrow> wchar \<Rightarrow> Engine \<Rightarrow> (bool \<times> Engine) option" where
  "w_uo_cycle pairU c e =
    (let pairO = pairU + 1;
         uMod = csMod (states e ! pairU);
         oMod = csMod (states e ! pairO);
         isEdge = IsUOEdgeCasePrefix (states e) pairU in
     if uMod \<noteq> Horn \<and> (oMod = ModNone \<or> oMod = Circumflex) then
       (if isEdge then Some (True, relocateHorn (setMod pairO Horn e))
        else Some (True, relocateHorn (setMod pairO Horn (setMod pairU Horn e))))
     else if uMod = Horn \<and> oMod = ModNone then Some (True, relocateHorn (setMod pairO Horn e))
     else if uMod = ModNone \<and> oMod = Horn \<and> isEdge then Some (True, relocateHorn (setMod pairU Horn e))
     else if uMod = Horn \<and> oMod = Horn then
       Some (True, escapeMod pairO c EscHorn (setMod pairU ModNone e))
     else if uMod = ModNone \<and> oMod = Horn then Some (True, escapeMod pairO c EscHorn e)
     else None)"

text \<open>P4, the escape of a horn or a breve; \<open>None\<close> falls through to P5.\<close>

definition w_escape :: "wchar \<Rightarrow> Engine \<Rightarrow> (bool \<times> Engine) option" where
  "w_escape c e =
    (case w_hornedIdx (states e) of
       Some h \<Rightarrow>
         (if csSynthetic (states e ! h) \<and> h = length (states e) - 1 then
            (let origUpper = csUpper (states e ! h) in
             Some (True, escapeWith EscHorn
               (ProcessKey (if origUpper then towupper c else towlower c) (popState e))))
          else Some (True, escapeMod h c EscHorn (e\<lparr>states := UndoHornU (states e) h\<rparr>)))
     | None \<Rightarrow>
         (case w_brevedIdx (states e) of
            Some b \<Rightarrow> Some (True, escapeMod b c EscBreve e)
          | None \<Rightarrow> None))"

text \<open>P8, the standalone \<open>w\<close> that becomes a synthetic \<open>u\<close> with horn.\<close>

definition w_insert :: "wchar \<Rightarrow> handler" where
  "w_insert c e =
    (if inputMethod (config e) \<noteq> SimpleTelex \<and> \<not> IsInQUCluster (states e) \<and>
        \<not> list_ex (\<lambda>i. IsVowel (states e ! i) \<and>
             \<not> (csBase (states e ! i) = L_i \<and> 0 < i \<and> csBase (states e ! (i - 1)) = L_g))
           [0..<length (states e)]
     then (True, pushState (newCharState\<lparr>csBase := L_u, csMod := Horn, csUpper := iswupper c,
                               csSynthetic := True, csRawIdx := rawTail (rawInput e)\<rparr>) e)
     else (False, e))"

text \<open>P5 to P8.\<close>

definition w_standalone :: "wchar \<Rightarrow> handler" where
  "w_standalone c e =
    (let ss = states e; hasOA = (w_pair ss L_o L_a \<noteq> None); hasUU = (w_pair ss L_u L_u \<noteq> None) in
     case w_uIdx ss of
       Some u \<Rightarrow>
         (let targetU = (case w_firstUIdx ss of Some f \<Rightarrow> if hasUU then f else u | None \<Rightarrow> u) in
          if hasNonVowelAfter ss targetU \<and> \<not> WouldBeValidSyllable e targetU Horn (w_aIdx ss) False
          then (False, e)
          else (True, relocateHorn (clear_sister (w_aIdx ss) (setMod targetU Horn e))))
     | None \<Rightarrow>
         (case (if hasOA then None else w_oIdx ss) of
            Some oi \<Rightarrow>
              (if hasNonVowelAfter ss oi \<and> \<not> WouldBeValidSyllable e oi Horn None False then (False, e)
               else (True, relocateHorn (setMod oi Horn e)))
          | None \<Rightarrow>
              (case w_aIdx ss of
                 Some a \<Rightarrow>
                   (if hasNonVowelAfter ss a \<and> \<not> WouldBeValidSyllable e a Breve None False
                    then (False, e)
                    else (True, setMod a Breve e))
               | None \<Rightarrow> w_insert c e)))"

definition HandleHornW :: "TypingAction \<Rightarrow> wchar \<Rightarrow> handler" where
  "HandleHornW action c e =
    (let ss = states e in
     if inputMethod (config e) = SimpleTelex \<and>
        \<not> list_ex (\<lambda>s. IsVowel s \<and> (csBase s = L_a \<or> csBase s = L_o \<or> csBase s = L_u)) ss
     then (False, e)
     else (case (w_pair ss L_u L_a, w_uIdx ss) of
       (Some p, Some u) \<Rightarrow> (True, relocateHorn (clear_sister (w_aIdx ss) (setMod u Horn e)))
     | _ \<Rightarrow>
         (case (case w_pair ss L_u L_o of Some pairU \<Rightarrow> w_uo_cycle pairU c e | None \<Rightarrow> None) of
            Some r \<Rightarrow> r
          | None \<Rightarrow>
              (case (w_pair ss L_o L_a, w_aIdx ss) of
                 (Some p, Some a) \<Rightarrow> (True, setMod a Breve e)
               | _ \<Rightarrow>
                   (case w_escape c e of
                      Some r \<Rightarrow> r
                    | None \<Rightarrow> w_standalone c e)))))"

subsection \<open>The stroke\<close>

definition HandleStrokeD :: "TypingAction \<Rightarrow> wchar \<Rightarrow> handler" where
  "HandleStrokeD action c e =
    (if escape e = EscStroke then (False, e)
     else (case FindStrokeDTarget (states e) of
       None \<Rightarrow> (False, e)
     | Some dIdx \<Rightarrow>
         (if csMod (states e ! dIdx) = ModNone then (True, setMod dIdx Stroke e)
          else if csMod (states e ! dIdx) = Stroke then
            (if \<not> IsStrokeDEscapeAllowed (length (states e)) dIdx then (False, e)
             else if dIdx = 0 \<and> spellExclusions (config e) \<noteq> [] \<and>
                WouldModifierKeyMatchExclusion e (towlower c)
             then (False, e)
             else (True, ProcessKey c (escapeWith EscStroke (setMod dIdx ModNone e))))
          else (False, e))))"

definition HandleVniStroke :: "TypingAction \<Rightarrow> wchar \<Rightarrow> handler" where
  "HandleVniStroke action c e = HandleStrokeD action c e"

subsection \<open>VNI vowel modifiers\<close>

fun vni_eligible :: "Modifier \<Rightarrow> wchar \<Rightarrow> bool" where
  "vni_eligible Circumflex b \<longleftrightarrow> b = L_a \<or> b = L_e \<or> b = L_o"
| "vni_eligible Horn b \<longleftrightarrow> b = L_o \<or> b = L_u"
| "vni_eligible Breve b \<longleftrightarrow> b = L_a"
| "vni_eligible ModNone b \<longleftrightarrow> False"
| "vni_eligible Stroke b \<longleftrightarrow> False"

definition vni_switch :: "wchar \<Rightarrow> Modifier \<Rightarrow> Modifier \<Rightarrow> bool" where
  "vni_switch b curMod targetMod \<longleftrightarrow>
    b = L_a \<and> (curMod = Circumflex \<and> targetMod = Breve \<or> curMod = Breve \<and> targetMod = Circumflex) \<or>
    b = L_o \<and> (curMod = Circumflex \<and> targetMod = Horn \<or> curMod = Horn \<and> targetMod = Circumflex)"

definition nucleus_at :: "CharState list \<Rightarrow> nat \<Rightarrow> bool" where
  "nucleus_at ss i \<longleftrightarrow> IsVowel (ss ! i) \<and> \<not> IsClusterConsonant ss i"

definition vni_apply_at :: "nat \<Rightarrow> Modifier \<Rightarrow> wchar \<Rightarrow> handler" where
  "vni_apply_at i targetMod key e =
    (let needsRelocate = (ValidateSyllableState (states e) (allowZwjf (config e)) = ValidPrefix) in
     if needsRelocate \<and> \<not> WouldBeValidSyllable e i targetMod None True \<and>
        \<not> WouldModifierKeyMatchExclusion e key
     then (False, e)
     else if \<not> needsRelocate \<and> ShouldRejectModifier e i targetMod key then (False, e)
     else (let e1 = setMod i targetMod e in
       (True, if needsRelocate then relocateTarget e1 else e1)))"

definition ProcessVniVowelModifier :: "Modifier \<Rightarrow> wchar \<Rightarrow> handler" where
  "ProcessVniVowelModifier targetMod key e =
    (let ss = states e in
     if ss = [] then (False, e)
     else (case last_idx (\<lambda>i. nucleus_at ss i \<and> vni_eligible targetMod (csBase (ss ! i)) \<and>
                             csMod (ss ! i) = ModNone) (length ss) of
       Some i \<Rightarrow> vni_apply_at i targetMod key e
     | None \<Rightarrow>
         (case last_idx (\<lambda>i. nucleus_at ss i \<and> HasModifier (ss ! i) \<and>
                            vni_switch (csBase (ss ! i)) (csMod (ss ! i)) targetMod) (length ss) of
            Some i \<Rightarrow>
              (True, relocateTarget (setMod i targetMod (e\<lparr>states := UndoHornU ss i\<rparr>)))
          | None \<Rightarrow>
              (case last_idx (\<lambda>i. nucleus_at ss i \<and> csMod (ss ! i) = targetMod) (length ss) of
                 Some i \<Rightarrow> (True, escapeMod i key EscModifier (e\<lparr>states := UndoHornU ss i\<rparr>))
               | None \<Rightarrow> (False, e)))))"

definition HandleVniCircumflex :: "TypingAction \<Rightarrow> wchar \<Rightarrow> handler" where
  "HandleVniCircumflex action c e = ProcessVniVowelModifier Circumflex c e"

definition HandleVniBreve :: "TypingAction \<Rightarrow> wchar \<Rightarrow> handler" where
  "HandleVniBreve action c e = ProcessVniVowelModifier Breve c e"

text \<open>The \<open>uo\<close> pair cycle of the VNI horn key; \<open>None\<close> falls through.\<close>

definition vni_uo_cycle :: "nat \<Rightarrow> nat \<Rightarrow> wchar \<Rightarrow> Engine \<Rightarrow> (bool \<times> Engine) option" where
  "vni_uo_cycle uIdx oIdx c e =
    (let isEdge = IsUOEdgeCasePrefix (states e) uIdx;
         uHorn = IsHorn (states e ! uIdx); oHorn = IsHorn (states e ! oIdx) in
     if \<not> uHorn \<and> \<not> oHorn then
       (if isEdge then Some (True, relocateTarget (setMod oIdx Horn e))
        else Some (True, relocateTarget (setMod oIdx Horn (setMod uIdx Horn e))))
     else if uHorn \<and> \<not> oHorn then Some (True, relocateTarget (setMod oIdx Horn e))
     else if isEdge \<and> \<not> uHorn \<and> oHorn then Some (True, relocateTarget (setMod uIdx Horn e))
     else if uHorn \<and> oHorn then
       Some (True, escapeMod oIdx c EscHorn (setMod uIdx ModNone e))
     else None)"

text \<open>The \<open>uu\<close> pattern: the first and the last \<open>u\<close> of the nucleus, when they differ.\<close>

definition vni_uu :: "nat \<Rightarrow> nat \<Rightarrow> wchar \<Rightarrow> Engine \<Rightarrow> (bool \<times> Engine) option" where
  "vni_uu firstU lastU c e =
    (if firstU \<noteq> lastU then
       (if csMod (states e ! firstU) = ModNone \<and> csMod (states e ! lastU) = ModNone then
          Some (True, relocateTarget (setMod firstU Horn e))
        else if csMod (states e ! firstU) = Horn then
          Some (True, escapeMod firstU c EscHorn e)
        else None)
     else None)"

definition HandleVniHorn :: "TypingAction \<Rightarrow> wchar \<Rightarrow> handler" where
  "HandleVniHorn action c e =
    (let ss = states e in
     if ss = [] then (False, e)
     else (let uIdx = last_idx (\<lambda>i. nucleus_at ss i \<and> csBase (ss ! i) = L_u) (length ss);
               oIdx = last_idx (\<lambda>i. nucleus_at ss i \<and> csBase (ss ! i) = L_o) (length ss);
               firstU = first_idx (\<lambda>i. nucleus_at ss i \<and> csBase (ss ! i) = L_u) (length ss) in
       case (case (uIdx, oIdx) of
               (Some u, Some oi) \<Rightarrow> if oi = u + 1 then vni_uo_cycle u oi c e else None
             | _ \<Rightarrow> None) of
         Some r \<Rightarrow> r
       | None \<Rightarrow>
           (case (case (firstU, uIdx) of
                    (Some f, Some l) \<Rightarrow> vni_uu f l c e
                  | _ \<Rightarrow> None) of
              Some r \<Rightarrow> r
            | None \<Rightarrow> ProcessVniVowelModifier Horn c e)))"

subsection \<open>User-defined actions\<close>

definition HandleHornOrInsertU :: "TypingAction \<Rightarrow> wchar \<Rightarrow> handler" where
  "HandleHornOrInsertU action c e =
    (if action = HornOrInsertUNoStart \<and> states e = [] then (False, e)
     else (let r1 = HandleHornW HornW c e; e1 = snd r1 in
       if fst r1 then (True, e1)
       else (let beforeSize = length (states e1); r2 = HandleHornInsert HornInsertU c e1; e2 = snd r2 in
         if fst r2 then
           (True, if beforeSize < length (states e2)
                  then e2\<lparr>states := upd_at (length (states e2) - 1) (\<lambda>s. s\<lparr>csSynthetic := True\<rparr>)
                                     (states e2)\<rparr>
                  else e2)
         else (False, e2))))"

definition clear_marks :: "CharState \<Rightarrow> CharState" where
  "clear_marks s =
    (if csMod s \<noteq> ModNone \<or> csTone s \<noteq> ToneNone
     then s\<lparr>csMod := ModNone, csTone := ToneNone, csToneRawIdx := None\<rparr> else s)"

definition HandleUndoAllMarks :: "TypingAction \<Rightarrow> wchar \<Rightarrow> handler" where
  "HandleUndoAllMarks action c e =
    (if states e = [] then (False, e)
     else if list_ex (\<lambda>s. csMod s \<noteq> ModNone \<or> csTone s \<noteq> ToneNone) (states e)
     then (True, escapeWith EscTone (e\<lparr>states := map clear_marks (states e)\<rparr>))
     else (False, e\<lparr>states := map clear_marks (states e)\<rparr>))"

subsection \<open>Modifier proposals\<close>

text \<open>
  The classes under \<open>core/engine/rule\<close> that name each modifier's relocation policy and forward
  \<open>tryApply\<close> to the engine's handler: a record of the two virtual functions, one value per class.
  The enumerator \<open>None\<close> of \<open>RelocationKind\<close> is \<open>RelocNone\<close>.
\<close>

datatype RelocationKind = RelocNone | TargetTone | HornVowel | Conditional

record ModifierProposal =
  relocationKind :: RelocationKind
  tryApply :: "TypingAction \<Rightarrow> wchar \<Rightarrow> handler"

definition adjacentCircumflexProposal :: ModifierProposal where
  "adjacentCircumflexProposal = \<lparr>relocationKind = Conditional, tryApply = HandleAdjacentCircumflex\<rparr>"

definition hornModifierProposal :: ModifierProposal where
  "hornModifierProposal = \<lparr>relocationKind = HornVowel, tryApply = HandleHornW\<rparr>"

definition strokeDProposal :: ModifierProposal where
  "strokeDProposal = \<lparr>relocationKind = RelocNone, tryApply = HandleStrokeD\<rparr>"

definition bracketProposal :: ModifierProposal where
  "bracketProposal = \<lparr>relocationKind = RelocNone, tryApply = HandleHornInsert\<rparr>"

definition vniCircumflexProposal :: ModifierProposal where
  "vniCircumflexProposal = \<lparr>relocationKind = Conditional, tryApply = HandleVniCircumflex\<rparr>"

definition vniHornProposal :: ModifierProposal where
  "vniHornProposal = \<lparr>relocationKind = Conditional, tryApply = HandleVniHorn\<rparr>"

definition vniBreveProposal :: ModifierProposal where
  "vniBreveProposal = \<lparr>relocationKind = Conditional, tryApply = HandleVniBreve\<rparr>"

lemmas proposal_defs = adjacentCircumflexProposal_def hornModifierProposal_def strokeDProposal_def
  bracketProposal_def vniCircumflexProposal_def vniHornProposal_def vniBreveProposal_def

subsection \<open>Dispatch\<close>

definition ProcessModifier :: "TypingAction \<Rightarrow> wchar \<Rightarrow> handler" where
  "ProcessModifier action c e =
    (case action of
       HornInsertO \<Rightarrow> tryApply bracketProposal action c e
     | HornInsertU \<Rightarrow> tryApply bracketProposal action c e
     | HornW \<Rightarrow> tryApply hornModifierProposal action c e
     | CircumflexA \<Rightarrow> tryApply adjacentCircumflexProposal action c e
     | CircumflexE \<Rightarrow> tryApply adjacentCircumflexProposal action c e
     | CircumflexO \<Rightarrow> tryApply adjacentCircumflexProposal action c e
     | StrokeD \<Rightarrow> tryApply strokeDProposal action c e
     | VniCircumflex \<Rightarrow> tryApply vniCircumflexProposal action c e
     | VniHorn \<Rightarrow> tryApply vniHornProposal action c e
     | VniBreve \<Rightarrow> tryApply vniBreveProposal action c e
     | VniStroke \<Rightarrow> HandleVniStroke action c e
     | HornOrInsertU \<Rightarrow> HandleHornOrInsertU action c e
     | HornOrInsertUNoStart \<Rightarrow> HandleHornOrInsertU action c e
     | UndoAllMarks \<Rightarrow> HandleUndoAllMarks action c e
     | _ \<Rightarrow> (if IsUserDefinedOnlyAction action then HandleInsertChar action c e else (False, e)))"

end
