(* ===== verification/Engine.thy ===== *)
theory Engine
  imports RuleRegistry EngineModifiers
begin

text \<open>
  The public operations of \<open>TypingEngine\<close> (\<open>core/engine/TypingEngine.cpp\<close>): the tone keys, the quick
  consonants, the gated modifier dispatch, \<open>PushChar\<close> over the rule registry, \<open>Backspace\<close>,
  \<open>Commit\<close> and \<open>SeedFromText\<close>.
\<close>

subsection \<open>Literal keys and the English bias\<close>

text \<open>\<open>config_.spellCheckEnabled && !config_.allowEnglishBypass\<close>\<close>

definition effectiveSpellCheck :: "Engine \<Rightarrow> bool" where
  "effectiveSpellCheck e \<longleftrightarrow> spellCheckEnabled (config e) \<and> \<not> allowEnglishBypass (config e)"

definition asLiteral :: "wchar \<Rightarrow> bool \<Rightarrow> Engine \<Rightarrow> Engine" where
  "asLiteral lower isUpper' e = UpdateSpellState (ProcessChar lower isUpper' e)"

definition recalcBias :: "Engine \<Rightarrow> Engine" where
  "recalcBias e = e\<lparr>engProt := RecalcEnglishBias (states e)\<rparr>"

definition zwjfBias :: "Engine \<Rightarrow> Engine" where
  "zwjfBias e =
    (if IsTelexMode e then e\<lparr>engProt := CheckZwjfInitialBias (states e) (config e) (engProt e)\<rparr> else e)"

subsection \<open>Tones\<close>

definition ToneMatchesExclusion :: "Engine \<Rightarrow> nat option \<Rightarrow> Tone \<Rightarrow> bool" where
  "ToneMatchesExclusion e targetIdx requestedTone =
    (case targetIdx of
       None \<Rightarrow> False
     | Some i \<Rightarrow>
         (if spellExclusions (config e) = [] then False
          else WouldToneMatchExclusion (states e) (spellExclusions (config e)) i
                 (Compose ((states e ! i)\<lparr>csTone := requestedTone\<rparr>))))"

definition ProcessTone :: "Tone \<Rightarrow> wchar \<Rightarrow> nat option \<Rightarrow> Engine \<Rightarrow> bool \<times> Engine" where
  "ProcessTone newTone c cachedTarget e =
    (if newTone = ToneNone then (False, e)
     else (case (case cachedTarget of Some i \<Rightarrow> Some i | None \<Rightarrow> toneTarget e) of
       None \<Rightarrow> (False, e)
     | Some i \<Rightarrow>
         (if csTone (states e ! i) = newTone then
            (let e1 = e\<lparr>states := set_tone i ToneNone (states e)\<rparr>;
                 e2 = (case csToneRawIdx (states e1 ! i) of
                         Some r \<Rightarrow> EraseConsumedRaw r e1
                       | None \<Rightarrow> e1);
                 e3 = e2\<lparr>states := set_tone_raw i None (states e2)\<rparr>
             in (True, escapeWith EscTone (ProcessKey c e3)))
          else (True, escapeWith EscNone
                  (e\<lparr>states := set_tone_raw i (Some (length (rawInput e) - 1))
                                (set_tone i newTone (states e))\<rparr>)))))"

definition ProcessClearTone :: "Engine \<Rightarrow> bool \<times> Engine" where
  "ProcessClearTone e =
    (case toneTarget e of
       None \<Rightarrow> (False, e)
     | Some i \<Rightarrow>
         (if csTone (states e ! i) = ToneNone then (False, e)
          else (True, e\<lparr>states := set_tone_raw i None (set_tone i ToneNone (states e))\<rparr>)))"

text \<open>
  The gates of \<open>HandleToneFsm\<close>, in the order of the source. Each answers whether the key is a
  literal; the English gate also updates the protection state.
\<close>

definition tone_spell_gate :: "Tone \<Rightarrow> Engine \<Rightarrow> bool" where
  "tone_spell_gate requestedTone e \<longleftrightarrow>
    effectiveSpellCheck e \<and> spellCheckDisabled e \<and>
    (let ss = states e; target = toneTarget e;
         isEscape = (case target of Some i \<Rightarrow> csTone (ss ! i) = requestedTone | None \<Rightarrow> False);
         matchesExclusion = (\<not> isEscape \<and> ToneMatchesExclusion e target requestedTone);
         wouldRecover = (\<not> isEscape \<and> \<not> matchesExclusion \<and>
           (case target of
              Some i \<Rightarrow> HasTone (ss ! i) \<and>
                ValidateSyllableState (set_tone i requestedTone ss) (allowZwjf (config e)) = Valid
            | None \<Rightarrow> False))
     in \<not> isEscape \<and> \<not> matchesExclusion \<and> \<not> wouldRecover)"

definition tone_prefix_gate :: "bool \<Rightarrow> Tone \<Rightarrow> Engine \<Rightarrow> bool" where
  "tone_prefix_gate isTelexTone requestedTone e \<longleftrightarrow>
    isTelexTone \<and> effectiveSpellCheck e \<and> IsBlockedEnglishTone (rawInput e) \<and>
    \<not> (spellExclusions (config e) \<noteq> [] \<and> ToneMatchesExclusion e (toneTarget e) requestedTone)"

definition tone_english_gate :: "bool \<Rightarrow> wchar \<Rightarrow> Engine \<Rightarrow> bool \<times> Engine" where
  "tone_english_gate isTelexTone c e =
    (if allowEnglishBypass (config e) then (False, e)
     else if bias (engProt e) = HardEnglish then (True, e)
     else (let soft = (bias (engProt e) = SoftEnglish);
               insistence = UpdateToneInsistence c (engProt e);
               e1 = (if soft then e\<lparr>engProt := snd insistence\<rparr> else e) in
       if soft \<and> \<not> fst insistence then (True, e1)
       else if (if isTelexTone then IsHardEnglishToneContext (states e1) c
                else 4 \<le> length (states e1) \<and> HasStructuralVCVPattern (states e1))
       then (True, setBias HardEnglish e1)
       else if HasInvalidAdjacentVowelPair (states e1) then (True, setBias HardEnglish e1)
       else (False, e1)))"

definition tone_stop_gate :: "Tone \<Rightarrow> Engine \<Rightarrow> bool" where
  "tone_stop_gate requestedTone e \<longleftrightarrow>
    effectiveSpellCheck e \<and> \<not> spellCheckDisabled e \<and>
    (requestedTone = Grave \<or> requestedTone = Hook \<or> requestedTone = Tilde) \<and>
    HasStopFinalCoda (states e)"

text \<open>What follows a consumed tone key.\<close>

definition tone_finish :: "Engine \<Rightarrow> Engine" where
  "tone_finish e =
    UpdateSpellState (autoUO
      (if \<not> isEscaped (escape e) then setBias Vietnamese e else zwjfBias (recalcBias e)))"

text \<open>
  The target the spell gate or the prefix gate computed is handed to \<open>ProcessTone\<close>; the buffer has
  not changed in between.
\<close>

definition tone_cache :: "bool \<Rightarrow> Engine \<Rightarrow> nat option" where
  "tone_cache isTelexTone e =
    (if effectiveSpellCheck e \<and> spellCheckDisabled e \<or>
        isTelexTone \<and> effectiveSpellCheck e \<and> IsBlockedEnglishTone (rawInput e) \<and>
        spellExclusions (config e) \<noteq> []
     then toneTarget e else None)"

definition tone_keys :: "Tone \<Rightarrow> wchar \<Rightarrow> wchar \<Rightarrow> bool \<Rightarrow> Engine \<Rightarrow> bool \<times> Engine" where
  "tone_keys requestedTone c lower isUpper' e =
    (let isTelexTone = (lower < L_0 \<or> L_9 < lower) in
     if tone_spell_gate requestedTone e then (True, asLiteral lower isUpper' e)
     else if isEscaped (escape e) then (True, asLiteral lower isUpper' e)
     else if tone_prefix_gate isTelexTone requestedTone e then (True, asLiteral lower isUpper' e)
     else (let english = tone_english_gate isTelexTone c e; e1 = snd english in
       if fst english then (True, asLiteral lower isUpper' e1)
       else if tone_stop_gate requestedTone e1 then (True, asLiteral lower isUpper' e1)
       else (let applied = ProcessTone requestedTone c (tone_cache isTelexTone e) e1; e2 = snd applied in
         if fst applied then (True, tone_finish e2) else (False, e2))))"

definition HandleToneFsm :: "TypingAction \<Rightarrow> wchar \<Rightarrow> wchar \<Rightarrow> bool \<Rightarrow> Engine \<Rightarrow> bool \<times> Engine" where
  "HandleToneFsm action c lower isUpper' e =
    (let requestedTone = (if states e = [] then ToneNone else ActionToTone action) in
     if action = ClearTone \<and> states e \<noteq> [] \<and> effectiveSpellCheck e \<and> spellCheckDisabled e
     then (True, UpdateSpellState (ProcessKey c e))
     else (let cleared = (if action = ClearTone \<and> states e \<noteq> [] then ProcessClearTone e else (False, e));
               e1 = snd cleared in
       if fst cleared then (True, UpdateSpellState e1)
       else if requestedTone \<noteq> ToneNone then tone_keys requestedTone c lower isUpper' e1
       else (False, e1)))"

subsection \<open>Regular characters\<close>

text \<open>
  A leading synthetic \<open>u\<close> with horn goes back to the literal \<open>w\<close> when the raw keys start like an
  English word.
\<close>

definition revert_synthetic_w :: "Engine \<Rightarrow> Engine" where
  "revert_synthetic_w e =
    (if inputMethod (config e) = Telex \<and> bias (engProt e) \<noteq> HardEnglish \<and> states e \<noteq> [] \<and>
        csSynthetic (states e ! 0) \<and> csBase (states e ! 0) = L_u \<and> csMod (states e ! 0) = Horn \<and>
        csTone (states e ! 0) = ToneNone \<and> IsHardEnglishRawStart (rawInput e)
     then (setBias HardEnglish e)\<lparr>states :=
            upd_at 0 (\<lambda>s. s\<lparr>csBase := L_w, csMod := ModNone, csSynthetic := False\<rparr>) (states e)\<rparr>
     else e)"

definition checkBias :: "Engine \<Rightarrow> Engine" where
  "checkBias e = e\<lparr>engProt := CheckEnglishBias (states e) (engProt e)\<rparr>"

definition FinalizeRegularChar :: "Engine \<Rightarrow> Engine" where
  "FinalizeRegularChar e =
    (let e1 = relocateTarget e; e2 = autoUO e1; e3 = UpdateSpellState e2; e4 = checkBias e3;
         e5 = revert_synthetic_w e4
     in zwjfBias e5)"

subsection \<open>Quick consonants\<close>

definition quick_start_pair :: "wchar \<Rightarrow> (wchar \<times> wchar) option" where
  "quick_start_pair lower =
    (if lower = L_f then Some (L_p, L_h)
     else if lower = L_j then Some (L_g, L_i)
     else if lower = L_w then Some (L_q, L_u)
     else None)"

text \<open>0a-cont: undo the quick start when a consonant follows.\<close>

definition quick_start_undo :: "wchar \<Rightarrow> Engine \<Rightarrow> Engine" where
  "quick_start_undo c e =
    (if quickStartKey e \<noteq> 0 then
       (let savedKey = quickStartKey e; e1 = e\<lparr>quickStartKey := 0\<rparr> in
        if \<not> IsVowelChar c then
          (let e2 = ProcessKey savedKey (e1\<lparr>states := [], rawInput := [savedKey]\<rparr>)
           in e2\<lparr>rawInput := rawInput e2 @ [c]\<rparr>)
        else e1)
     else e)"

definition quick_replacement :: "wchar \<Rightarrow> wchar \<Rightarrow> wchar option" where
  "quick_replacement base lower =
    (if base = L_c \<and> lower = L_c then Some L_h
     else if base = L_g \<and> lower = L_g then Some L_i
     else if base = L_n \<and> lower = L_n then Some L_g
     else if base = L_k \<and> lower = L_k then Some L_h
     else if base = L_q \<and> lower = L_q then Some L_u
     else if base = L_p \<and> lower = L_p then Some L_h
     else if base = L_t \<and> lower = L_t then Some L_h
     else None)"

text \<open>0b, after the escape flags have been read: the doubled consonants and \<open>uu\<close>.\<close>

definition quick_letter :: "wchar \<Rightarrow> wchar \<Rightarrow> bool \<Rightarrow> Engine \<Rightarrow> Engine" where
  "quick_letter replacement lower isUpper' e =
    (let n = length (states e);
         q = (if n = 1 then (qc e)\<lparr>onlyQC := True\<rparr> else qc e);
         e1 = e\<lparr>qc := q\<lparr>resultIndex := Some n, lastKey := lower\<rparr>\<rparr>;
         newKey = (if isUpper' then towupper replacement else replacement);
         e2 = ProcessKey newKey e1
     in FinalizeRegularChar e2)"

definition quick_horn :: "wchar \<Rightarrow> bool \<Rightarrow> Engine \<Rightarrow> Engine" where
  "quick_horn lower isUpper' e =
    (let e1 = pushState (newCharState\<lparr>csBase := L_o, csMod := Horn, csUpper := isUpper',
                  csRawIdx := rawTail (rawInput e)\<rparr>) (setMod (length (states e) - 1) Horn e);
         q = (qc e1)\<lparr>resultIndex := Some (length (states e1) - 1)\<rparr>;
         q1 = (if length (states e1) = 2 then q\<lparr>onlyQC := True\<rparr> else q)
     in UpdateSpellState (e1\<lparr>qc := q1\<lparr>lastKey := lower\<rparr>\<rparr>))"

definition quick_double :: "wchar \<Rightarrow> bool \<Rightarrow> Engine \<Rightarrow> RuleResult \<times> Engine" where
  "quick_double lower isUpper' e =
    (let lastS = last (states e) in
     if \<not> IsVowel lastS \<and> \<not> IsD lastS then
       (case quick_replacement (csBase lastS) lower of
          Some replacement \<Rightarrow> (Veto, quick_letter replacement lower isUpper' e)
        | None \<Rightarrow> (Pass, e))
     else if IsVowel lastS \<and> csBase lastS = L_u \<and> csMod lastS = ModNone \<and> lower = L_u then
       (if ends_in_triphthong (states e) then (Pass, e) else (Veto, quick_horn lower isUpper' e))
     else (Pass, e))"

text \<open>The escape and re-trigger flags: is the expansion suppressed, and what they become.\<close>

definition quick_suppressed :: "wchar \<Rightarrow> QuickConsonantState \<Rightarrow> bool" where
  "quick_suppressed lower q \<longleftrightarrow> escaped q \<or> lastKey q \<noteq> 0 \<and> lower = lastKey q"

definition quick_flags :: "wchar \<Rightarrow> QuickConsonantState \<Rightarrow> QuickConsonantState" where
  "quick_flags lower q =
    (let q1 = q\<lparr>escaped := False\<rparr> in
     if lastKey q1 \<noteq> 0 \<and> lower \<noteq> lastKey q1 then q1\<lparr>lastKey := 0\<rparr> else q1)"

definition quick_mid :: "wchar \<Rightarrow> bool \<Rightarrow> Engine \<Rightarrow> RuleResult \<times> Engine" where
  "quick_mid lower isUpper' e =
    (let suppressed = quick_suppressed lower (qc e); e1 = e\<lparr>qc := quick_flags lower (qc e)\<rparr> in
     if quickConsonant (config e1) \<and> states e1 \<noteq> [] \<and> \<not> suppressed
     then quick_double lower isUpper' e1 else (Pass, e1))"

definition quick_start :: "wchar \<Rightarrow> bool \<Rightarrow> wchar \<times> wchar \<Rightarrow> Engine \<Rightarrow> Engine" where
  "quick_start c isUpper' pq e =
    (let e1 = ProcessKey (if isUpper' then towupper (fst pq) else fst pq) e;
         e2 = ProcessKey (snd pq) e1
     in UpdateSpellState (e2\<lparr>quickStartKey := c\<rparr>))"

definition HandleQuickStartConsonant :: "wchar \<Rightarrow> wchar \<Rightarrow> bool \<Rightarrow> Engine \<Rightarrow> RuleResult \<times> Engine" where
  "HandleQuickStartConsonant c lower isUpper' e =
    (case (if quickStartConsonant (config e) \<and> states e = [] then quick_start_pair lower else None) of
       Some pq \<Rightarrow> (Veto, quick_start c isUpper' pq e)
     | None \<Rightarrow> (let e1 = quick_start_undo c e in quick_mid lower isUpper' e1))"

definition quick_end_pair :: "wchar \<Rightarrow> (wchar \<times> wchar) option" where
  "quick_end_pair lower =
    (if lower = L_g then Some (L_n, L_g)
     else if lower = L_h then Some (L_n, L_h)
     else if lower = L_k then Some (L_c, L_h)
     else None)"

definition HandleQuickEndConsonant :: "wchar \<Rightarrow> wchar \<Rightarrow> bool \<Rightarrow> Engine \<Rightarrow> bool \<times> Engine" where
  "HandleQuickEndConsonant c lower isUpper' e =
    (case quick_end_pair lower of
       Some (first, second) \<Rightarrow> (True, UpdateSpellState (ProcessKey second (ProcessKey first e)))
     | None \<Rightarrow> (False, e))"

subsection \<open>The gated modifier dispatch\<close>

definition WouldModifierRecoverOrEscape :: "TypingAction \<Rightarrow> wchar \<Rightarrow> wchar \<Rightarrow> Engine \<Rightarrow> bool" where
  "WouldModifierRecoverOrEscape action c lower e =
    (let ss = states e; raw = rawInput e;
         canEscape =
           (if IsTelexModifierAction action then
              (if lower = L_w then HasEscapableModifier ss Horn False \<or> HasEscapableModifier ss Breve False
               else if lower = L_d then HasEscapableModifier ss Stroke True \<or> FindStrokeDTarget ss \<noteq> None
               else if IsVowelChar c \<and> ss \<noteq> [] then
                 IsVowel (last ss) \<and> csBase (last ss) = lower \<and> csMod (last ss) = Circumflex
               else if (action = HornInsertO \<or> action = HornInsertU) \<and> ss \<noteq> [] \<and> 2 \<le> length raw \<and>
                  towlower (raw ! (length raw - 2)) = lower
               then csBase (last ss) = (if action = HornInsertO then L_o else L_u) \<and>
                    csMod (last ss) = Horn
               else False)
            else
              (let escMod = ActionToVniModifier action in
               if escMod = Stroke then HasEscapableModifier ss escMod True \<or> FindStrokeDTarget ss \<noteq> None
               else if escMod \<noteq> ModNone then HasEscapableModifier ss escMod False
               else False))
     in (canEscape \<or> WouldModifierKeyMatchExclusion e lower) \<or> IsToneStopCodaMismatch ss)"

text \<open>The English pre-check of the stroke actions, on a raw \<open>d\<close> only.\<close>

definition stroke_precheck :: "bool \<Rightarrow> Engine \<Rightarrow> Engine" where
  "stroke_precheck isStroke e =
    (if isStroke \<and> bias (engProt e) \<noteq> HardEnglish \<and> 3 \<le> length (states e) then
       (case FindStrokeDTarget (states e) of
          Some d \<Rightarrow>
            (if csMod (states e ! d) = ModNone \<and> ShouldBlockStrokeDAsEnglish (states e) d
             then setBias HardEnglish e else e)
        | None \<Rightarrow> e)
     else e)"

definition escape_or_english :: "Engine \<Rightarrow> bool" where
  "escape_or_english e \<longleftrightarrow>
    isEscaped (escape e) \<or> \<not> allowEnglishBypass (config e) \<and> bias (engProt e) = HardEnglish"

definition exclusion_unblocks :: "wchar \<Rightarrow> Engine \<Rightarrow> bool" where
  "exclusion_unblocks lower e \<longleftrightarrow>
    \<not> isEscaped (escape e) \<and> spellExclusions (config e) \<noteq> [] \<and> WouldModifierKeyMatchExclusion e lower"

definition raw_prefix_blocks :: "Engine \<Rightarrow> bool" where
  "raw_prefix_blocks e \<longleftrightarrow> effectiveSpellCheck e \<and> IsBlockedEnglishModifier (rawInput e)"

text \<open>What follows a consumed modifier key.\<close>

definition modifier_finish :: "bool \<times> Engine \<Rightarrow> bool \<times> Engine" where
  "modifier_finish r =
    (if fst r then (True, UpdateSpellState (autoUO (setBias Vietnamese (snd r)))) else r)"

definition recover_gate :: "TypingAction \<Rightarrow> wchar \<Rightarrow> wchar \<Rightarrow> Engine \<Rightarrow> bool" where
  "recover_gate action c lower e \<longleftrightarrow>
    (if effectiveSpellCheck e \<and> spellCheckDisabled e
     then WouldModifierRecoverOrEscape action c lower e else True)"

text \<open>The blocks 2a, 2b and 2d of \<open>HandleModifierAction\<close>.\<close>

definition modifier_2a :: "TypingAction \<Rightarrow> wchar \<Rightarrow> wchar \<Rightarrow> Engine \<Rightarrow> bool \<times> Engine" where
  "modifier_2a action c lower e =
    (if (IsTelexMode e \<or> inputMethod (config e) = UserDefined) \<and> IsTelexModifierAction action then
       (let e1 = stroke_precheck (action = StrokeD) e;
            block0 = (escape_or_english e1 \<or> raw_prefix_blocks e1);
            block = (block0 \<and> \<not> exclusion_unblocks lower e1)
        in if \<not> block \<and> recover_gate action c lower e1
           then modifier_finish (ProcessModifier action c e1) else (False, e1))
     else (False, e))"

definition modifier_2b :: "TypingAction \<Rightarrow> wchar \<Rightarrow> wchar \<Rightarrow> Engine \<Rightarrow> bool \<times> Engine" where
  "modifier_2b action c lower e =
    (if (IsVniMode e \<or> inputMethod (config e) = UserDefined) \<and> IsVniModifierAction action then
       (let e1 = stroke_precheck (action = VniStroke) e;
            block = (escape_or_english e1 \<and> \<not> exclusion_unblocks lower e1)
        in if \<not> block \<and> recover_gate action c lower e1
           then modifier_finish (ProcessModifier action c e1) else (False, e1))
     else (False, e))"

definition modifier_2d :: "TypingAction \<Rightarrow> wchar \<Rightarrow> wchar \<Rightarrow> Engine \<Rightarrow> bool \<times> Engine" where
  "modifier_2d action c lower e =
    (if inputMethod (config e) = UserDefined \<and> IsUserDefinedOnlyAction action then
       (let block0 = (escape_or_english e \<or> raw_prefix_blocks e);
            block = (block0 \<and> \<not> exclusion_unblocks lower e)
        in if \<not> block then modifier_finish (ProcessModifier action c e) else (False, e))
     else (False, e))"

definition HandleModifierAction ::
  "TypingAction \<Rightarrow> wchar \<Rightarrow> wchar \<Rightarrow> bool \<Rightarrow> Engine \<Rightarrow> bool \<times> Engine" where
  "HandleModifierAction action c lower isUpper' e =
    (if \<not> IsTelexModifierAction action \<and> \<not> IsVniModifierAction action \<and>
        \<not> IsUserDefinedOnlyAction action then (False, e)
     else (let r1 = modifier_2a action c lower e in
       if fst r1 then r1
       else (let r2 = modifier_2b action c lower (snd r1) in
         if fst r2 then r2 else modifier_2d action c lower (snd r2))))"

subsection \<open>The engine's rules\<close>

text \<open>\<open>? Result::Veto : Result::Pass\<close>\<close>

definition veto_if :: "bool \<times> Engine \<Rightarrow> RuleResult \<times> Engine" where
  "veto_if r = (if fst r then Veto else Pass, snd r)"

definition ToneRule_Apply :: "EngineRuleContext \<Rightarrow> Engine \<Rightarrow> RuleResult \<times> Engine" where
  "ToneRule_Apply ctx e =
    (if \<not> IsToneAction (ctxAction ctx) then (Pass, e)
     else veto_if (HandleToneFsm (ctxAction ctx) (ctxKeyChar ctx) (ctxLower ctx) (ctxIsUpper ctx) e))"

definition ToneRule :: EngineRule where
  "ToneRule = \<lparr>rulePhase = PostClassify, rulePriority = 10,
     ruleRequires = GateMaskFor GateToneEscape, ruleApply = ToneRule_Apply\<rparr>"

definition ModifierRule_Apply :: "EngineRuleContext \<Rightarrow> Engine \<Rightarrow> RuleResult \<times> Engine" where
  "ModifierRule_Apply ctx e =
    (if \<not> IsTelexModifierAction (ctxAction ctx) \<and> \<not> IsVniModifierAction (ctxAction ctx) \<and>
        \<not> IsUserDefinedOnlyAction (ctxAction ctx) then (Pass, e)
     else veto_if (HandleModifierAction (ctxAction ctx) (ctxKeyChar ctx) (ctxLower ctx)
                     (ctxIsUpper ctx) e))"

definition ModifierRule :: EngineRule where
  "ModifierRule = \<lparr>rulePhase = PostClassify, rulePriority = 20, ruleRequires = 0,
     ruleApply = ModifierRule_Apply\<rparr>"

definition QuickStartConsonantRule_Apply :: "EngineRuleContext \<Rightarrow> Engine \<Rightarrow> RuleResult \<times> Engine" where
  "QuickStartConsonantRule_Apply ctx e =
    HandleQuickStartConsonant (ctxKeyChar ctx) (ctxLower ctx) (ctxIsUpper ctx) e"

definition QuickStartConsonantRule :: EngineRule where
  "QuickStartConsonantRule = \<lparr>rulePhase = PreClassify, rulePriority = 5, ruleRequires = 0,
     ruleApply = QuickStartConsonantRule_Apply\<rparr>"

definition QuickEndConsonantRule_Apply :: "EngineRuleContext \<Rightarrow> Engine \<Rightarrow> RuleResult \<times> Engine" where
  "QuickEndConsonantRule_Apply ctx e =
    (if \<not> quickEndConsonant (config e) then (Pass, e)
     else if states e = [] \<or> \<not> IsVowel (last (states e)) then (Pass, e)
     else if ctxLower ctx \<noteq> L_g \<and> ctxLower ctx \<noteq> L_h \<and> ctxLower ctx \<noteq> L_k then (Pass, e)
     else veto_if (HandleQuickEndConsonant (ctxKeyChar ctx) (ctxLower ctx) (ctxIsUpper ctx) e))"

definition QuickEndConsonantRule :: EngineRule where
  "QuickEndConsonantRule = \<lparr>rulePhase = PostClassify, rulePriority = 30, ruleRequires = 0,
     ruleApply = QuickEndConsonantRule_Apply\<rparr>"

text \<open>The registrations of the constructor, in its order.\<close>

definition engineRegistry :: EngineRuleRegistry where
  "engineRegistry =
    Register QuickEndConsonantRule (Register QuickStartConsonantRule
      (Register ModifierRule (Register ToneRule emptyRegistry)))"

lemmas rule_defs = ToneRule_def ModifierRule_def QuickStartConsonantRule_def QuickEndConsonantRule_def

text \<open>The order in which the constructor's registrations leave the rules.\<close>

lemma engineRegistry_phase [code]:
  "engineRegistry p =
    (case p of PreClassify \<Rightarrow> [QuickStartConsonantRule]
     | PostClassify \<Rightarrow> [ToneRule, ModifierRule, QuickEndConsonantRule])"
  by (cases p) (simp_all add: engineRegistry_def Register_def emptyRegistry_def rule_defs)

subsection \<open>Pushing a key\<close>

definition pre_context :: "wchar \<Rightarrow> Engine \<Rightarrow> EngineRuleContext" where
  "pre_context c e =
    \<lparr>ctxKeyChar = c, ctxLower = towlower c, ctxIsUpper = iswupper c, ctxAction = ActNone,
     ctxSpellCheckDisabled = spellCheckDisabled e,
     ctxAllowEnglishBypass = allowEnglishBypass (config e),
     ctxEscapeActive = isEscaped (escape e), ctxBias = bias (engProt e), ctxIsVniDigitSeq = False\<rparr>"

definition vni_digit_sequence :: "wchar \<Rightarrow> Engine \<Rightarrow> bool" where
  "vni_digit_sequence c e \<longleftrightarrow>
    IsVniMode e \<and> L_0 \<le> c \<and> c \<le> L_9 \<and> states e \<noteq> [] \<and>
    L_0 \<le> csBase (last (states e)) \<and> csBase (last (states e)) \<le> L_9"

definition key_action :: "wchar \<Rightarrow> Engine \<Rightarrow> TypingAction" where
  "key_action lower e =
    (let overrideAction = (if lower < 128 \<and> inputMethod (config e) = UserDefined
                           then customKeyMap (config e) (nat lower) else ActNone)
     in (if overrideAction \<noteq> ActNone then overrideAction
         else ClassifyKey lower (IsTelexMode e) (IsVniMode e)))"

definition post_context :: "EngineRuleContext \<Rightarrow> wchar \<Rightarrow> Engine \<Rightarrow> EngineRuleContext" where
  "post_context ctx c e =
    (let digitSeq = vni_digit_sequence c e in
     ctx\<lparr>ctxAction := (if digitSeq then ActNone else key_action (towlower c) e),
         ctxIsVniDigitSeq := digitSeq, ctxSpellCheckDisabled := spellCheckDisabled e,
         ctxEscapeActive := isEscaped (escape e), ctxBias := bias (engProt e)\<rparr>)"

text \<open>The key history the buffers at the top of \<open>PushChar\<close> record.\<close>

definition recordKey :: "wchar \<Rightarrow> Engine \<Rightarrow> Engine" where
  "recordKey c e =
    e\<lparr>rawInput := rawInput e @ [c], escRawHistory := escRawHistory e @ [c],
      qc := (qc e)\<lparr>onlyQC := False\<rparr>\<rparr>"

text \<open>The part of \<open>PushChar\<close> after the action is known.\<close>

definition classified :: "EngineRuleContext \<Rightarrow> wchar \<Rightarrow> Engine \<Rightarrow> Engine" where
  "classified ctx c e =
    (let d = DispatchAtPhase engineRegistry PostClassify (post_context ctx c e) e; e1 = snd d in
     if fst d = Veto then e1
     else (let e2 = ProcessChar (towlower c) (iswupper c) e1 in FinalizeRegularChar e2))"

definition PushChar :: "wchar \<Rightarrow> Engine \<Rightarrow> Engine" where
  "PushChar c e =
    (let e0 = recordKey c e; ctx = pre_context c e0;
         d = DispatchAtPhase engineRegistry PreClassify ctx e0; e1 = snd d in
     if fst d = Veto then e1 else classified ctx c e1)"

definition pushAll :: "wstring \<Rightarrow> Engine \<Rightarrow> Engine" where
  "pushAll keys e = foldl (\<lambda>e c. PushChar c e) e keys"

subsection \<open>Backspace\<close>

text \<open>Collapse an untouched quick start consonant to the key that produced it.\<close>

definition bs_quick_start :: "Engine \<Rightarrow> Engine" where
  "bs_quick_start e =
    (let e1 = e\<lparr>states := [], rawInput := [quickStartKey e]\<rparr>;
         e2 = ProcessKey (quickStartKey e) e1
     in UpdateSpellState (e2\<lparr>quickStartKey := 0\<rparr>))"

text \<open>The tail of the two other branches.\<close>

definition bs_finish :: "Engine \<Rightarrow> Engine" where
  "bs_finish e = (let e1 = UpdateSpellState e; e2 = recalcBias e1 in zwjfBias e2)"

text \<open>Undo a quick consonant: the key that triggered it comes back as a literal.\<close>

definition bs_quick_consonant :: "Engine \<Rightarrow> Engine" where
  "bs_quick_consonant e =
    (let originalKey = lastKey (qc e);
         e1 = e\<lparr>states := UndoHornU (states e) (length (states e) - 1), qc := markEscaped (qc e)\<rparr>;
         e2 = popState e1;
         e3 = (if originalKey \<noteq> 0 then ProcessKey originalKey e2 else e2)
     in bs_finish e3)"

text \<open>Remove the last state with the raw keys from its creation on.\<close>

definition bs_normal :: "Engine \<Rightarrow> Engine" where
  "bs_normal e =
    (let rawTarget = csRawIdx (last (states e));
         e1 = popState (e\<lparr>qc := clearActive (qc e)\<rparr>);
         e2 = e1\<lparr>rawInput := take rawTarget (rawInput e1),
                 escRawHistory := (if states e1 = [] then [] else butlast (escRawHistory e1))\<rparr>
     in bs_finish e2)"

definition Backspace :: "Engine \<Rightarrow> Engine" where
  "Backspace e =
    (if states e = [] then e
     else (let e0 = e\<lparr>escape := EscNone\<rparr> in
       if quickStartKey e0 \<noteq> 0 \<and> length (states e0) = 2 then bs_quick_start e0
       else (let e1 = e0\<lparr>quickStartKey := 0\<rparr> in
         if hasActive (qc e1) \<and> resultIndex (qc e1) = Some (length (states e1) - 1)
         then bs_quick_consonant e1 else bs_normal e1)))"

subsection \<open>Commit\<close>

text \<open>The raw text with the capital of the composed text.\<close>

definition restore_text :: "wstring \<Rightarrow> wstring \<Rightarrow> wstring" where
  "restore_text raw composed =
    (if raw \<noteq> [] \<and> composed \<noteq> [] \<and> iswupper (composed ! 0)
     then raw[0 := towupper (raw ! 0)] else raw)"

definition commit_text :: "Engine \<Rightarrow> wstring" where
  "commit_text e =
    (let composed = ComposeAll (states e); raw = rawInput e in
     if quickStartKey e \<noteq> 0 \<and> length raw = 1 \<and> ShouldAutoRestore raw composed then raw
     else if onlyQC (qc e) \<and> ShouldAutoRestore raw composed then raw
     else if \<not> spellCheckEnabled (config e) \<or> \<not> autoRestoreEnabled (config e) \<or> hasActive (qc e)
     then composed
     else (let shouldRestore =
                 (spellCheckDisabled e \<or>
                  states e \<noteq> [] \<and>
                  ValidateSyllableState (states e) (allowZwjf (config e)) = ValidPrefix);
               keepComposed =
                 (IsSpellExcluded (states e) (spellExclusions (config e)) \<or>
                  HasIntentionalStrokeD raw composed);
               restored = restore_text raw composed
           in if shouldRestore \<and> \<not> keepComposed then
                (if restored = composed then composed
                 else if ShouldAutoRestore restored composed then restored else composed)
              else composed))"

definition Commit :: "Engine \<Rightarrow> wstring \<times> Engine" where
  "Commit e = (commit_text e, Reset e)"

subsection \<open>Seeding from displayed text\<close>

fun mod_of_index :: "nat option \<Rightarrow> Modifier" where
  "mod_of_index (Some i) =
    (if i = 0 then Circumflex else if i = 1 then Breve else if i = 2 then Horn
     else if i = 3 then Stroke else ModNone)"
| "mod_of_index None = ModNone"

fun tone_of_index :: "nat option \<Rightarrow> Tone" where
  "tone_of_index (Some i) =
    (if i = 0 then Acute else if i = 1 then Grave else if i = 2 then Hook
     else if i = 3 then Tilde else if i = 4 then Dot else ToneNone)"
| "tone_of_index None = ToneNone"

text \<open>The loop of \<open>SeedFromText\<close>: one state and one raw entry per character.\<close>

type_synonym decomposed = "wchar \<times> nat option \<times> nat option \<times> bool"

fun seed_state :: "decomposed \<Rightarrow> nat \<Rightarrow> CharState" where
  "seed_state (b, m, t, upper) i =
    newCharState\<lparr>csBase := b, csUpper := upper, csMod := mod_of_index m, csTone := tone_of_index t,
      csRawIdx := i, csToneRawIdx := None\<rparr>"

fun seed_raw :: "decomposed \<Rightarrow> wchar" where
  "seed_raw (b, m, t, upper) = (if upper then towupper b else b)"

definition seed_step :: "decomposed \<Rightarrow> Engine \<Rightarrow> Engine" where
  "seed_step d e =
    e\<lparr>states := states e @ [seed_state d (length (rawInput e))], rawInput := rawInput e @ [seed_raw d]\<rparr>"

fun seed_loop :: "wstring \<Rightarrow> Engine \<Rightarrow> Engine option" where
  "seed_loop [] e = Some e"
| "seed_loop (ch # text) e =
    (case DecomposeVietChar ch of None \<Rightarrow> None | Some d \<Rightarrow> seed_loop text (seed_step d e))"

definition SeedFromText :: "wstring \<Rightarrow> Engine \<Rightarrow> bool \<times> Engine" where
  "SeedFromText text e =
    (case seed_loop text (Reset e) of
       None \<Rightarrow> (False, Reset e)
     | Some e1 \<Rightarrow> (True, checkBias (UpdateSpellState e1)))"

end
