(* ===== verification/EngineInvariant.thy ===== *)
theory EngineInvariant
  imports Engine
begin

text \<open>
  The type invariant of the engine: every state of the buffer is well formed (a modifier only on a
  letter that carries it, a tone only on a vowel, a lower-case base that is no null character). The
  relation \<open>keeps x e\<close> says that \<open>e\<close>, which operations reached from \<open>x\<close>, has the configuration and
  the key history of \<open>x\<close> and is well formed if \<open>x\<close> was. Each operation has one introduction rule
  for it; the collection \<open>inv_intros\<close> composes them along the code.
\<close>

definition state_wf :: "CharState \<Rightarrow> bool" where
  "state_wf s \<longleftrightarrow> state_ok s \<and> csBase s \<noteq> 0"

definition engine_wf :: "Engine \<Rightarrow> bool" where
  "engine_wf e \<longleftrightarrow> list_all state_wf (states e)"

definition keeps :: "Engine \<Rightarrow> Engine \<Rightarrow> bool" where
  "keeps x e \<longleftrightarrow>
    config e = config x \<and> escRawHistory e = escRawHistory x \<and> (engine_wf x \<longrightarrow> engine_wf e)"

lemma keeps_refl [inv_intros]: "keeps x x"
  by (simp add: keeps_def)

lemma keeps_trans: "keeps x y \<Longrightarrow> keeps y z \<Longrightarrow> keeps x z"
  by (simp add: keeps_def)

subsection \<open>What the list operations leave alone\<close>

lemma csBase_set_mod [simp]: "csBase (set_mod i m ss ! j) = csBase (ss ! j)"
  by (simp add: set_mod_def nth_upd_at_same)

lemma csBase_set_tone [simp]: "csBase (set_tone i t ss ! j) = csBase (ss ! j)"
  by (simp add: set_tone_def nth_upd_at_same)

lemma csMod_set_tone [simp]: "csMod (set_tone i t ss ! j) = csMod (ss ! j)"
  by (simp add: set_tone_def nth_upd_at_same)

lemma csBase_set_tone_raw [simp]: "csBase (set_tone_raw i r ss ! j) = csBase (ss ! j)"
  by (simp add: set_tone_raw_def nth_upd_at_same)

lemma csMod_set_tone_raw [simp]: "csMod (set_tone_raw i r ss ! j) = csMod (ss ! j)"
  by (simp add: set_tone_raw_def nth_upd_at_same)

lemma csTone_set_tone_raw [simp]: "csTone (set_tone_raw i r ss ! j) = csTone (ss ! j)"
  by (simp add: set_tone_raw_def nth_upd_at_same)

lemma csBase_UndoHornU [simp]: "csBase (UndoHornU ss i ! j) = csBase (ss ! j)"
  by (simp add: UndoHornU_def)

lemma length_set_tone [simp]: "length (set_tone i t ss) = length ss"
  by (simp add: set_tone_def)

lemma length_set_tone_raw [simp]: "length (set_tone_raw i r ss) = length ss"
  by (simp add: set_tone_raw_def)

lemma IsVowel_base: "csBase s = csBase s' \<Longrightarrow> IsVowel s = IsVowel s'"
  by (simp add: IsVowel_def)

subsection \<open>Well-formedness under the list operations\<close>

lemma state_wf_upd [simp]:
  "state_wf (s\<lparr>csUpper := u\<rparr>) = state_wf s" "state_wf (s\<lparr>csSynthetic := y\<rparr>) = state_wf s"
  "state_wf (s\<lparr>csRawIdx := r\<rparr>) = state_wf s" "state_wf (s\<lparr>csToneRawIdx := q\<rparr>) = state_wf s"
  by (simp_all add: state_wf_def)

lemma wf_set_mod:
  assumes "list_all state_wf ss" and "i < length ss \<Longrightarrow> mod_fits (csBase (ss ! i)) m"
  shows "list_all state_wf (set_mod i m ss)"
  unfolding set_mod_def
  by (rule list_all_upd_at[OF assms(1)]) (simp add: state_wf_def state_ok_mod assms(2))

lemma wf_set_tone:
  assumes "list_all state_wf ss" and "i < length ss \<Longrightarrow> t \<noteq> ToneNone \<longrightarrow> IsVowel (ss ! i)"
  shows "list_all state_wf (set_tone i t ss)"
  unfolding set_tone_def
  by (rule list_all_upd_at[OF assms(1)]) (simp add: state_wf_def state_ok_tone assms(2))

lemma wf_set_tone_raw: "list_all state_wf ss \<Longrightarrow> list_all state_wf (set_tone_raw i r ss)"
  unfolding set_tone_raw_def by (rule list_all_upd_at) simp_all

lemma wf_UndoHornU: "list_all state_wf ss \<Longrightarrow> list_all state_wf (UndoHornU ss i)"
  unfolding UndoHornU_def by (simp add: wf_set_mod mod_fits_def)

text \<open>The tone target is a vowel of the nucleus, whatever the placement engine answers.\<close>

lemma FindToneTargetWith_Some:
  assumes "FindToneTargetWith tp m ss = Some i"
  shows "i < length ss \<and> IsVowel (ss ! i) \<and> \<not> IsClusterConsonant ss i"
proof -
  have "set (nucleus_indices ss) \<subseteq> {i. i < length ss \<and> IsVowel (ss ! i) \<and> \<not> IsClusterConsonant ss i}"
    unfolding nucleus_indices_def by (rule order.trans[OF set_take_subset]) auto
  moreover have "i \<in> set (nucleus_indices ss)"
    using assms by (auto simp: FindToneTargetWith_def Let_def split: if_splits option.splits)
  ultimately show ?thesis by blast
qed

lemma FindToneTarget_Some:
  "FindToneTarget m ss = Some i \<Longrightarrow> i < length ss \<and> IsVowel (ss ! i) \<and> \<not> IsClusterConsonant ss i"
  unfolding FindToneTarget_def by (rule FindToneTargetWith_Some)

lemma wf_RelocateToneToTarget:
  assumes "list_all state_wf ss" shows "list_all state_wf (RelocateToneToTarget m ss)"
  using assms
  by (auto simp: RelocateToneToTarget_def split: option.splits
      intro!: wf_set_tone wf_set_tone_raw dest: FindToneTarget_Some)

lemma csBase_RelocateToneToTarget [simp]: "csBase (RelocateToneToTarget m ss ! j) = csBase (ss ! j)"
  by (simp add: RelocateToneToTarget_def split: option.split)

lemma csMod_RelocateToneToTarget [simp]: "csMod (RelocateToneToTarget m ss ! j) = csMod (ss ! j)"
  by (simp add: RelocateToneToTarget_def split: option.split)

lemma length_RelocateToneToTarget [simp]: "length (RelocateToneToTarget m ss) = length ss"
  by (simp add: RelocateToneToTarget_def split: option.split)

lemma wf_RelocateToneToHornVowel:
  assumes "list_all state_wf ss" shows "list_all state_wf (RelocateToneToHornVowel ss)"
  using assms
  by (auto simp: RelocateToneToHornVowel_def Let_def split: option.splits
      intro!: wf_set_tone dest: last_idxD)

lemma length_RelocateToneToHornVowel [simp]: "length (RelocateToneToHornVowel ss) = length ss"
  by (simp add: RelocateToneToHornVowel_def Let_def split: option.split)

lemma wf_autoUO_step:
  assumes "list_all state_wf ss" shows "list_all state_wf (autoUO_step m ss i)"
  using assms
  by (auto simp: autoUO_step_def Let_def mod_fits_def
      intro!: wf_set_mod wf_RelocateToneToTarget)

lemma wf_ApplyAutoUO:
  assumes "list_all state_wf ss" shows "list_all state_wf (ApplyAutoUO m ss)"
proof -
  have "list_all state_wf (foldl (autoUO_step m) ss is)" for "is"
    using assms by (induction "is" arbitrary: ss) (simp_all add: wf_autoUO_step)
  then show ?thesis using assms by (simp add: ApplyAutoUO_def Let_def)
qed

subsection \<open>Introduction rules of the primitive operations\<close>

lemma keepsI:
  assumes "keeps x e" and "config e' = config e" and "escRawHistory e' = escRawHistory e"
    and "engine_wf e \<Longrightarrow> engine_wf e'"
  shows "keeps x e'"
  using assms by (simp add: keeps_def)

lemma keeps_states [inv_intros]:
  "keeps x e \<Longrightarrow> (list_all state_wf (states e) \<Longrightarrow> list_all state_wf ss) \<Longrightarrow> keeps x (e\<lparr>states := ss\<rparr>)"
  by (erule keepsI) (simp_all add: engine_wf_def)

lemma keeps_field [inv_intros]:
  "keeps x e \<Longrightarrow> keeps x (e\<lparr>qc := q\<rparr>)" "keeps x e \<Longrightarrow> keeps x (e\<lparr>quickStartKey := k\<rparr>)"
  "keeps x e \<Longrightarrow> keeps x (e\<lparr>rawInput := r\<rparr>)" "keeps x e \<Longrightarrow> keeps x (e\<lparr>engProt := p\<rparr>)"
  "keeps x e \<Longrightarrow> keeps x (e\<lparr>escape := k'\<rparr>)" "keeps x e \<Longrightarrow> keeps x (e\<lparr>spellCheckDisabled := b\<rparr>)"
  by (simp_all add: keeps_def engine_wf_def)

lemma keeps_escapeWith [inv_intros]: "keeps x e \<Longrightarrow> keeps x (escapeWith k e)"
  unfolding escapeWith_def by (rule keeps_field)

lemma keeps_setBias [inv_intros]: "keeps x e \<Longrightarrow> keeps x (setBias b e)"
  unfolding setBias_def by (rule keeps_field)

lemma keeps_UpdateSpellState [inv_intros]: "keeps x e \<Longrightarrow> keeps x (UpdateSpellState e)"
  unfolding UpdateSpellState_def by (rule keeps_field)

lemma keeps_recalcBias [inv_intros]: "keeps x e \<Longrightarrow> keeps x (recalcBias e)"
  unfolding recalcBias_def by (rule keeps_field)

lemma keeps_checkBias [inv_intros]: "keeps x e \<Longrightarrow> keeps x (checkBias e)"
  unfolding checkBias_def by (rule keeps_field)

lemma keeps_zwjfBias [inv_intros]: "keeps x e \<Longrightarrow> keeps x (zwjfBias e)"
  unfolding zwjfBias_def by (auto intro: keeps_field)

lemma keeps_pushState [inv_intros]:
  "keeps x e \<Longrightarrow> state_wf s \<Longrightarrow> keeps x (pushState s e)"
  unfolding pushState_def by (rule keeps_states) simp_all

lemma keeps_ProcessChar:
  "keeps x e \<Longrightarrow> \<not> iswupper l \<Longrightarrow> l \<noteq> 0 \<Longrightarrow> keeps x (ProcessChar l u e)"
  unfolding ProcessChar_def
  by (rule keeps_states) (simp_all add: state_wf_def state_ok_def mod_fits_def HasTone_def)

lemma keeps_ProcessKey [inv_intros]: "keeps x e \<Longrightarrow> c \<noteq> 0 \<Longrightarrow> keeps x (ProcessKey c e)"
  unfolding ProcessKey_def by (rule keeps_ProcessChar) (simp_all add: towlower_not_upper)

lemma keeps_popState [inv_intros]: "keeps x e \<Longrightarrow> keeps x (popState e)"
  unfolding popState_def by (rule keeps_states) (auto simp: list_all_iff dest: in_set_butlastD)

lemma keeps_EraseConsumedRaw [inv_intros]: "keeps x e \<Longrightarrow> keeps x (EraseConsumedRaw i e)"
  unfolding EraseConsumedRaw_def
  by (auto elim!: keepsI simp: engine_wf_def list_all_iff shift_raw_def)

lemma keeps_setMod [inv_intros]:
  "keeps x e \<Longrightarrow> mod_fits (csBase (states e ! i)) m \<Longrightarrow> keeps x (setMod i m e)"
  unfolding setMod_def by (rule keeps_states) (simp_all add: wf_set_mod)

lemma keeps_escapeMod [inv_intros]: "keeps x e \<Longrightarrow> c \<noteq> 0 \<Longrightarrow> keeps x (escapeMod i c k e)"
  unfolding escapeMod_def by (intro inv_intros) (simp_all add: mod_fits_def)

lemma keeps_undoInsert [inv_intros]: "keeps x e \<Longrightarrow> c \<noteq> 0 \<Longrightarrow> keeps x (undoInsert c k e)"
  unfolding undoInsert_def Let_def by (intro inv_intros)

lemma keeps_relocateTarget [inv_intros]: "keeps x e \<Longrightarrow> keeps x (relocateTarget e)"
  unfolding relocateTarget_def by (rule keeps_states) (simp_all add: wf_RelocateToneToTarget)

lemma keeps_relocateHorn [inv_intros]: "keeps x e \<Longrightarrow> keeps x (relocateHorn e)"
  unfolding relocateHorn_def by (rule keeps_states) (simp_all add: wf_RelocateToneToHornVowel)

lemma keeps_autoUO [inv_intros]: "keeps x e \<Longrightarrow> keeps x (autoUO e)"
  unfolding autoUO_def by (rule keeps_states) (simp_all add: wf_ApplyAutoUO)

lemma keeps_UndoHornU [inv_intros]: "keeps x e \<Longrightarrow> keeps x (e\<lparr>states := UndoHornU (states e) i\<rparr>)"
  by (rule keeps_states) (simp_all add: wf_UndoHornU)

lemma csBase_setMod [simp]: "csBase (states (setMod i m e) ! j) = csBase (states e ! j)"
  by (simp add: setMod_def)

lemma config_setMod [simp]: "config (setMod i m e) = config e"
  by (simp add: setMod_def)

subsection \<open>The modifier handlers\<close>

lemma keeps_HandleHornInsert [inv_intros]:
  "keeps x e \<Longrightarrow> c \<noteq> 0 \<Longrightarrow> keeps x (snd (HandleHornInsert a c e))"
  by (auto simp: HandleHornInsert_def Let_def state_wf_def state_ok_def mod_fits_def HasTone_def
      iswupper_def intro!: inv_intros)

lemma insert_glyph_fits: "insert_glyph a = Some (b, m, u) \<Longrightarrow> mod_fits b m \<and> b \<noteq> 0 \<and> \<not> iswupper b"
  by (cases a) (auto simp: mod_fits_def iswupper_def)

lemma keeps_HandleInsertChar [inv_intros]:
  "keeps x e \<Longrightarrow> c \<noteq> 0 \<Longrightarrow> keeps x (snd (HandleInsertChar a c e))"
  by (auto simp: HandleInsertChar_def Let_def state_wf_def state_ok_def HasTone_def
      split: option.split intro!: inv_intros dest: insert_glyph_fits)

definition circ_base :: "wchar \<Rightarrow> bool" where
  "circ_base b \<longleftrightarrow> b = L_a \<or> b = L_e \<or> b = L_o"

lemma circ_fits: "circ_base b \<Longrightarrow> mod_fits b Circumflex"
  by (auto simp: circ_base_def mod_fits_def)

lemma keeps_adjacent_circumflex [inv_intros]:
  assumes "keeps x e" and "c \<noteq> 0" and "circ_base t" and "states e \<noteq> []" and "csBase (last (states e)) = t"
  shows "keeps x (snd (adjacent_circumflex t c e))"
proof -
  have [simp]: "csBase (states e ! (length (states e) - 1)) = t"
    using assms(4,5) by (simp add: last_conv_nth)
  then have [simp]: "csBase (states e ! (length (states e) - Suc 0)) = t" by simp
  show ?thesis
    using assms(1-3) by (auto simp: adjacent_circumflex_def Let_def circ_fits intro!: inv_intros)
        (simp_all add: mod_fits_def)
qed

lemma keeps_free_mark [inv_intros]:
  "keeps x e \<Longrightarrow> c \<noteq> 0 \<Longrightarrow> circ_base t \<Longrightarrow> keeps x (snd (free_mark t c n v k s e))"
proof (induction n arbitrary: v k s)
  case 0
  then show ?case by simp
next
  case (Suc n)
  then show ?case
    by (auto simp: Let_def circ_fits intro!: inv_intros)
qed

lemma keeps_HandleAdjacentCircumflex [inv_intros]:
  assumes "keeps x e" and "c \<noteq> 0"
    and "circ_base (if inputMethod (config e) = UserDefined then ActionToVowel a else towlower c)"
  shows "keeps x (snd (HandleAdjacentCircumflex a c e))"
  using assms by (auto simp: HandleAdjacentCircumflex_def Let_def intro!: inv_intros)

text \<open>The base letters at the indices the analysis loops of \<open>HandleHornW\<close> leave.\<close>

lemma w_bases:
  "w_uIdx ss = Some i \<Longrightarrow> csBase (ss ! i) = L_u" "w_firstUIdx ss = Some i \<Longrightarrow> csBase (ss ! i) = L_u"
  "w_oIdx ss = Some i \<Longrightarrow> csBase (ss ! i) = L_o" "w_aIdx ss = Some i \<Longrightarrow> csBase (ss ! i) = L_a"
  by (auto simp: w_uIdx_def w_firstUIdx_def w_oIdx_def w_aIdx_def dest: last_idxD first_idxD)

lemma w_pair_bases:
  "w_pair ss a b = Some i \<Longrightarrow> csBase (ss ! i) = a \<and> csBase (ss ! Suc i) = b"
  by (auto simp: w_pair_def dest: last_idxD)

lemma horn_fits [simp]: "mod_fits L_u Horn" "mod_fits L_o Horn" "mod_fits L_a Breve"
    "mod_fits b ModNone" "mod_fits L_d Stroke"
  by (simp_all add: mod_fits_def)

lemma keeps_clear_sister [inv_intros]: "keeps x e \<Longrightarrow> keeps x (clear_sister k e)"
  by (auto simp: clear_sister_def split: option.split intro: inv_intros)

lemma keeps_w_uo_cycle:
  assumes "keeps x e" and "c \<noteq> 0" and "w_uo_cycle p c e = Some r"
    and "csBase (states e ! p) = L_u" and "csBase (states e ! Suc p) = L_o"
  shows "keeps x (snd r)"
  using assms by (auto simp: w_uo_cycle_def Let_def split: if_splits intro!: inv_intros)

lemma towupper_nonzero [simp]: "towupper c = 0 \<longleftrightarrow> c = 0"
  by (auto simp: towupper_def)

lemma keeps_w_escape:
  assumes "keeps x e" and "c \<noteq> 0" and "w_escape c e = Some r"
  shows "keeps x (snd r)"
  using assms
  by (auto simp: w_escape_def Let_def split: if_splits option.splits intro!: inv_intros)

lemma keeps_w_insert [inv_intros]: "keeps x e \<Longrightarrow> keeps x (snd (w_insert c e))"
  by (auto simp: w_insert_def state_wf_def state_ok_def HasTone_def iswupper_def intro!: inv_intros)

lemma keeps_w_standalone [inv_intros]: "keeps x e \<Longrightarrow> keeps x (snd (w_standalone c e))"
  by (auto simp: w_standalone_def Let_def w_bases split: option.split intro!: inv_intros)

lemma keeps_HandleHornW [inv_intros]:
  assumes "keeps x e" and "c \<noteq> 0" shows "keeps x (snd (HandleHornW a c e))"
  using assms
  by (auto simp: HandleHornW_def Let_def w_bases dest: w_pair_bases keeps_w_uo_cycle keeps_w_escape
      split: option.split intro!: inv_intros)

lemma keeps_HandleStrokeD [inv_intros]:
  assumes "keeps x e" and "c \<noteq> 0" shows "keeps x (snd (HandleStrokeD a c e))"
  using assms
  by (auto simp: HandleStrokeD_def dest: FindStrokeDTarget_Some split: option.split intro!: inv_intros)
     (auto simp: IsD_def dest!: FindStrokeDTarget_Some)

lemma vni_eligible_fits: "vni_eligible m b \<Longrightarrow> mod_fits b m"
  by (cases m) (auto simp: mod_fits_def)

lemma vni_switch_fits: "vni_switch b c m \<Longrightarrow> mod_fits b m"
  by (auto simp: vni_switch_def mod_fits_def)

lemma keeps_vni_apply_at [inv_intros]:
  "keeps x e \<Longrightarrow> mod_fits (csBase (states e ! i)) m \<Longrightarrow> keeps x (snd (vni_apply_at i m c e))"
  by (auto simp: vni_apply_at_def Let_def intro!: inv_intros)

lemma keeps_ProcessVniVowelModifier [inv_intros]:
  assumes "keeps x e" and "c \<noteq> 0" shows "keeps x (snd (ProcessVniVowelModifier m c e))"
  using assms
  by (auto simp: ProcessVniVowelModifier_def Let_def split: option.split
      intro!: inv_intros dest!: last_idxD intro: vni_eligible_fits vni_switch_fits)

lemma keeps_vni_uo_cycle:
  assumes "keeps x e" and "c \<noteq> 0" and "vni_uo_cycle u v c e = Some r"
    and "csBase (states e ! u) = L_u" and "csBase (states e ! v) = L_o"
  shows "keeps x (snd r)"
  using assms by (auto simp: vni_uo_cycle_def Let_def split: if_splits intro!: inv_intros)

lemma keeps_vni_uu:
  assumes "keeps x e" and "c \<noteq> 0" and "vni_uu f l c e = Some r" and "csBase (states e ! f) = L_u"
  shows "keeps x (snd r)"
  using assms by (auto simp: vni_uu_def Let_def split: if_splits intro!: inv_intros)

lemma keeps_HandleVniHorn [inv_intros]:
  assumes "keeps x e" and "c \<noteq> 0" shows "keeps x (snd (HandleVniHorn a c e))"
  using assms
  by (auto simp: HandleVniHorn_def Let_def split: option.split if_splits intro!: inv_intros
      dest!: last_idxD(2) first_idxD(2) dest: keeps_vni_uo_cycle keeps_vni_uu)

lemma keeps_HandleHornOrInsertU [inv_intros]:
  assumes "keeps x e" and "c \<noteq> 0" shows "keeps x (snd (HandleHornOrInsertU a c e))"
proof -
  have e2: "keeps x (snd (HandleHornInsert HornInsertU c (snd (HandleHornW HornW c e))))" (is "keeps x ?e2")
    using assms by (intro inv_intros) simp_all
  have "keeps x (?e2\<lparr>states := upd_at (length (states ?e2) - 1) (\<lambda>s. s\<lparr>csSynthetic := True\<rparr>)
      (states ?e2)\<rparr>)"
    by (rule keeps_states[OF e2]) (rule list_all_upd_at, simp_all)
  then show ?thesis
    using assms by (auto simp: HandleHornOrInsertU_def Let_def intro: inv_intros)
qed

lemma keeps_HandleUndoAllMarks [inv_intros]:
  assumes "keeps x e" shows "keeps x (snd (HandleUndoAllMarks a c e))"
proof -
  have "keeps x (e\<lparr>states := map clear_marks (states e)\<rparr>)"
    by (rule keeps_states[OF assms])
       (auto simp: list_all_iff clear_marks_def state_wf_def state_ok_def HasTone_def)
  then show ?thesis using assms by (auto simp: HandleUndoAllMarks_def intro!: inv_intros)
qed

text \<open>
  The circumflex actions must come with a key that carries a circumflex: the Telex letters \<open>a\<close>,
  \<open>e\<close> and \<open>o\<close> by \<open>ClassifyKey\<close>, and any key in the user-defined method.
\<close>

definition circ_action :: "TypingAction \<Rightarrow> bool" where
  "circ_action a \<longleftrightarrow> a = CircumflexA \<or> a = CircumflexE \<or> a = CircumflexO"

definition action_fits :: "TypingAction \<Rightarrow> wchar \<Rightarrow> Engine \<Rightarrow> bool" where
  "action_fits a c e \<longleftrightarrow>
    c \<noteq> 0 \<and> (circ_action a \<and> inputMethod (config e) \<noteq> UserDefined \<longrightarrow> circ_base (towlower c))"

lemma circ_action_vowel: "circ_action a \<Longrightarrow> circ_base (ActionToVowel a)"
  by (auto simp: circ_action_def circ_base_def)

lemma keeps_ProcessModifier [inv_intros]:
  assumes "keeps x e" and "action_fits a c e" shows "keeps x (snd (ProcessModifier a c e))"
proof (cases "circ_action a")
  case True
  then have "ProcessModifier a c e = HandleAdjacentCircumflex a c e"
    by (auto simp: circ_action_def ProcessModifier_def proposal_defs)
  then show ?thesis
    using assms True
    by (auto simp: action_fits_def circ_action_vowel intro!: inv_intros)
next
  case False
  with assms show ?thesis
    by (auto simp: ProcessModifier_def proposal_defs action_fits_def circ_action_def HandleVniCircumflex_def
        HandleVniBreve_def HandleVniStroke_def split: TypingAction.split intro!: inv_intros)
qed

subsection \<open>Tones\<close>

lemma keeps_asLiteral [inv_intros]:
  "keeps x e \<Longrightarrow> \<not> iswupper l \<Longrightarrow> l \<noteq> 0 \<Longrightarrow> keeps x (asLiteral l u e)"
  unfolding asLiteral_def by (intro inv_intros keeps_ProcessChar)

text \<open>The target handed to \<open>ProcessTone\<close> is the one it would compute itself.\<close>

lemma keeps_ProcessTone:
  assumes "keeps x e" and "c \<noteq> 0" and "\<And>i. cached = Some i \<Longrightarrow> IsVowel (states e ! i)"
  shows "keeps x (snd (ProcessTone t c cached e))"
proof -
  have wf: "list_all state_wf (set_tone i u (states e))"
    if "list_all state_wf (states e)" and "(case cached of Some i \<Rightarrow> Some i | None \<Rightarrow> toneTarget e) = Some i"
    for i u
    using that assms(3)
    by (auto intro!: wf_set_tone simp: toneTarget_def dest: FindToneTarget_Some split: option.splits)
  have e1: "keeps x (e\<lparr>states := set_tone i ToneNone (states e)\<rparr>)" for i
    by (rule keeps_states[OF assms(1)]) (simp add: wf_set_tone)
  show ?thesis
    using assms(1,2)
    by (auto simp: ProcessTone_def Let_def split: option.splits intro!: inv_intros e1 wf_set_tone_raw
        wf)
qed

lemma keeps_ProcessClearTone [inv_intros]:
  assumes "keeps x e" shows "keeps x (snd (ProcessClearTone e))"
  using assms
  by (auto simp: ProcessClearTone_def split: option.split intro!: inv_intros wf_set_tone_raw wf_set_tone)

lemma keeps_tone_english_gate [inv_intros]:
  assumes "keeps x e" shows "keeps x (snd (tone_english_gate b c e))"
  using assms by (auto simp: tone_english_gate_def Let_def intro!: inv_intros)

lemma states_tone_english_gate [simp]: "states (snd (tone_english_gate b c e)) = states e"
  by (simp add: tone_english_gate_def Let_def setBias_def)

lemma keeps_tone_finish [inv_intros]: "keeps x e \<Longrightarrow> keeps x (tone_finish e)"
  unfolding tone_finish_def by (auto intro!: inv_intros)

lemma tone_cache_vowel: "tone_cache b e = Some i \<Longrightarrow> IsVowel (states e ! i)"
  by (auto simp: tone_cache_def toneTarget_def dest: FindToneTarget_Some split: if_splits)

lemma keeps_tone_keys [inv_intros]:
  assumes "keeps x e" and "c \<noteq> 0" and "\<not> iswupper l" and "l \<noteq> 0"
  shows "keeps x (snd (tone_keys t c l u e))"
  using assms
  by (auto simp: tone_keys_def Let_def intro!: inv_intros keeps_ProcessTone dest: tone_cache_vowel)

lemma keeps_HandleToneFsm [inv_intros]:
  assumes "keeps x e" and "c \<noteq> 0" and "\<not> iswupper l" and "l \<noteq> 0"
  shows "keeps x (snd (HandleToneFsm a c l u e))"
  using assms by (auto simp: HandleToneFsm_def Let_def intro!: inv_intros)

end
