(* ===== verification/EngineSteps.thy ===== *)
theory EngineSteps
  imports EngineInvariant
begin

text \<open>
  The invariant over whole keystrokes: the dispatch contract of the rule registry interpreted on the
  engine's own rules, preservation by \<open>PushChar\<close>, \<open>Backspace\<close>, \<open>Commit\<close>, \<open>Reset\<close> and
  \<open>SeedFromText\<close>, and the reachable states of an engine as a step relation.
\<close>

subsection \<open>Quick consonants and regular characters\<close>

lemma keeps_revert_synthetic_w [inv_intros]:
  assumes "keeps x e" shows "keeps x (revert_synthetic_w e)"
proof -
  have "list_all state_wf (upd_at 0 (\<lambda>s. s\<lparr>csBase := L_w, csMod := ModNone, csSynthetic := False\<rparr>) ss)"
    if "list_all state_wf ss" and "csTone (ss ! 0) = ToneNone" for ss
    using that
    by (intro list_all_upd_at)
       (auto simp: state_wf_def state_ok_def HasTone_def mod_fits_def iswupper_def)
  then show ?thesis
    using assms by (auto simp: revert_synthetic_w_def setBias_def intro!: inv_intros)
qed

lemma keeps_FinalizeRegularChar [inv_intros]: "keeps x e \<Longrightarrow> keeps x (FinalizeRegularChar e)"
  unfolding FinalizeRegularChar_def Let_def by (intro inv_intros)

lemma quick_start_pair_nz: "quick_start_pair l = Some (p, q) \<Longrightarrow> p \<noteq> 0 \<and> q \<noteq> 0"
  by (auto simp: quick_start_pair_def split: if_splits)

lemma quick_end_pair_nz: "quick_end_pair l = Some (p, q) \<Longrightarrow> p \<noteq> 0 \<and> q \<noteq> 0"
  by (auto simp: quick_end_pair_def split: if_splits)

lemma quick_replacement_nz: "quick_replacement b l = Some r \<Longrightarrow> r \<noteq> 0"
  by (auto simp: quick_replacement_def split: if_splits)

lemma keeps_quick_start_undo [inv_intros]: "keeps x e \<Longrightarrow> keeps x (quick_start_undo c e)"
  by (auto simp: quick_start_undo_def Let_def intro!: inv_intros)

lemma keeps_quick_letter [inv_intros]:
  assumes "keeps x e" and "k \<noteq> 0" shows "keeps x (quick_letter k l u e)"
  unfolding quick_letter_def Let_def by (intro inv_intros) (simp_all add: assms)

lemma keeps_quick_horn [inv_intros]:
  assumes "keeps x e" and "csBase (states e ! (length (states e) - 1)) = L_u"
  shows "keeps x (quick_horn l u e)"
  unfolding quick_horn_def Let_def using assms
  by (intro inv_intros) (simp_all add: state_wf_def state_ok_def HasTone_def iswupper_def)

lemma keeps_quick_double [inv_intros]:
  assumes "keeps x e" and "states e \<noteq> []" shows "keeps x (snd (quick_double l u e))"
  using assms
  by (auto simp: quick_double_def Let_def last_conv_nth dest: quick_replacement_nz
      split: option.split intro!: inv_intros)

lemma keeps_quick_mid [inv_intros]: "keeps x e \<Longrightarrow> keeps x (snd (quick_mid l u e))"
  by (auto simp: quick_mid_def Let_def intro!: inv_intros)

lemma keeps_quick_start [inv_intros]:
  "keeps x e \<Longrightarrow> c \<noteq> 0 \<Longrightarrow> quick_start_pair l = Some pq \<Longrightarrow> keeps x (quick_start c u pq e)"
  by (cases pq) (auto simp: quick_start_def Let_def dest: quick_start_pair_nz intro!: inv_intros)

lemma keeps_HandleQuickStartConsonant [inv_intros]:
  assumes "keeps x e" and "c \<noteq> 0" shows "keeps x (snd (HandleQuickStartConsonant c l u e))"
  using assms
  by (auto simp: HandleQuickStartConsonant_def Let_def split: option.split intro: inv_intros)

lemma keeps_HandleQuickEndConsonant [inv_intros]:
  "keeps x e \<Longrightarrow> keeps x (snd (HandleQuickEndConsonant c l u e))"
  by (auto simp: HandleQuickEndConsonant_def dest: quick_end_pair_nz split: option.split
      intro!: inv_intros)

subsection \<open>The modifier dispatch\<close>

lemma keeps_stroke_precheck [inv_intros]: "keeps x e \<Longrightarrow> keeps x (stroke_precheck b e)"
  by (auto simp: stroke_precheck_def split: option.split intro!: inv_intros)

lemma keeps_modifier_finish [inv_intros]: "keeps x (snd r) \<Longrightarrow> keeps x (snd (modifier_finish r))"
  by (auto simp: modifier_finish_def intro!: inv_intros)

lemma action_fits_keeps: "action_fits a c e \<Longrightarrow> keeps e e' \<Longrightarrow> action_fits a c e'"
  by (simp add: action_fits_def keeps_def)

lemma action_fits_precheck [simp]: "action_fits a c (stroke_precheck b e) = action_fits a c e"
  by (simp add: action_fits_def stroke_precheck_def setBias_def split: option.split)

lemma keeps_modifier_blocks:
  assumes "keeps x e" and "action_fits a c e"
  shows "keeps x (snd (modifier_2a a c l e))" "keeps x (snd (modifier_2b a c l e))"
    "keeps x (snd (modifier_2d a c l e))"
  using assms
  by (auto simp: modifier_2a_def modifier_2b_def modifier_2d_def Let_def intro!: inv_intros)

lemma keeps_HandleModifierAction [inv_intros]:
  assumes "keeps x e" and "action_fits a c e"
  shows "keeps x (snd (HandleModifierAction a c l u e))"
proof -
  let ?r1 = "modifier_2a a c l e" let ?r2 = "modifier_2b a c l (snd ?r1)"
  note r1 = keeps_modifier_blocks(1)[OF keeps_refl assms(2), of l]
  note fits1 = action_fits_keeps[OF assms(2) r1]
  note r2 = keeps_modifier_blocks(2)[OF r1 fits1, of l]
  note r3 = keeps_modifier_blocks(3)[OF r2 action_fits_keeps[OF assms(2) r2], of l]
  show ?thesis
    using assms(1) keeps_trans[OF assms(1) r1] keeps_trans[OF assms(1) r2] keeps_trans[OF assms(1) r3]
    by (simp add: HandleModifierAction_def Let_def)
qed

subsection \<open>The dispatch contract on the engine's rules\<close>

text \<open>The context \<open>PushChar\<close> builds: the key and its lower case, and an action the key carries.\<close>

definition ctx_fits :: "EngineRuleContext \<Rightarrow> Engine \<Rightarrow> bool" where
  "ctx_fits ctx e \<longleftrightarrow>
    ctxLower ctx = towlower (ctxKeyChar ctx) \<and> action_fits (ctxAction ctx) (ctxKeyChar ctx) e"

lemma ctx_fits_keeps: "ctx_fits ctx e \<Longrightarrow> keeps e e' \<Longrightarrow> ctx_fits ctx e'"
  by (auto simp: ctx_fits_def intro: action_fits_keeps)

lemma ctx_fits_key: "ctx_fits ctx e \<Longrightarrow> ctxKeyChar ctx \<noteq> 0"
  by (simp add: ctx_fits_def action_fits_def)

lemma snd_veto_if [simp]: "snd (veto_if r) = snd r"
  by (simp add: veto_if_def)

lemma keeps_rules:
  assumes "ctx_fits ctx e"
  shows "keeps e (snd (ToneRule_Apply ctx e))" "keeps e (snd (ModifierRule_Apply ctx e))"
    "keeps e (snd (QuickStartConsonantRule_Apply ctx e))" "keeps e (snd (QuickEndConsonantRule_Apply ctx e))"
  using assms ctx_fits_key[OF assms]
  by (auto simp: ToneRule_Apply_def ModifierRule_Apply_def QuickStartConsonantRule_Apply_def
      QuickEndConsonantRule_Apply_def ctx_fits_def towlower_not_upper intro!: inv_intros)

interpretation pre_rules: rule_bucket keeps ctx_fits "[QuickStartConsonantRule]"
  by unfold_locales (auto simp: keeps_refl rule_defs keeps_rules intro: keeps_trans ctx_fits_keeps)

interpretation post_rules: rule_bucket keeps ctx_fits "[ToneRule, ModifierRule, QuickEndConsonantRule]"
  by unfold_locales (auto simp: keeps_refl rule_defs keeps_rules intro: keeps_trans ctx_fits_keeps)

subsection \<open>The public operations\<close>

lemma config_recordKey [simp]: "config (recordKey c e) = config e"
  by (simp add: recordKey_def)

lemma ClassifyKey_circ:
  "circ_action (ClassifyKey l t v) \<Longrightarrow> circ_base l"
  by (auto simp: ClassifyKey_def classify_telex_def classify_vni_def circ_action_def circ_base_def
      split: if_splits option.splits)

lemma key_action_fits: "c \<noteq> 0 \<Longrightarrow> action_fits (key_action (towlower c) e) c e"
  by (auto simp: action_fits_def key_action_def Let_def dest: ClassifyKey_circ split: if_splits)

lemma pre_context_fits: "c \<noteq> 0 \<Longrightarrow> ctx_fits (pre_context c e) e"
  by (simp add: ctx_fits_def pre_context_def action_fits_def circ_action_def)

lemma post_context_fits:
  "c \<noteq> 0 \<Longrightarrow> ctxKeyChar ctx = c \<Longrightarrow> ctxLower ctx = towlower c \<Longrightarrow> ctx_fits (post_context ctx c e) e"
  by (simp add: ctx_fits_def post_context_def Let_def key_action_fits)
     (simp add: action_fits_def circ_action_def)

lemma keeps_classified:
  assumes "c \<noteq> 0" and "ctxKeyChar ctx = c" and "ctxLower ctx = towlower c"
  shows "keeps e (classified ctx c e)"
proof -
  have "keeps e (snd (DispatchAtPhase engineRegistry PostClassify (post_context ctx c e) e))"
    by (rule post_rules.dispatch_R) (simp_all add: engineRegistry_phase post_context_fits assms)
  then show ?thesis
    using assms(1) unfolding classified_def Let_def
    by (auto intro!: inv_intros keeps_ProcessChar simp: towlower_not_upper)
qed

lemma keeps_PushChar:
  assumes "c \<noteq> 0" shows "keeps (recordKey c e) (PushChar c e)"
proof -
  have "keeps (recordKey c e)
      (snd (DispatchAtPhase engineRegistry PreClassify (pre_context c (recordKey c e)) (recordKey c e)))"
    by (rule pre_rules.dispatch_R) (simp_all add: engineRegistry_phase pre_context_fits assms)
  then show ?thesis
    unfolding PushChar_def Let_def
    by (auto simp: pre_context_def intro!: keeps_classified[OF assms] elim!: keeps_trans)
qed

lemma PushChar_facts:
  assumes "c \<noteq> 0"
  shows config_PushChar: "config (PushChar c e) = config e"
    and history_PushChar: "escRawHistory (PushChar c e) = escRawHistory e @ [c]"
    and wf_PushChar: "engine_wf e \<Longrightarrow> engine_wf (PushChar c e)"
  using keeps_PushChar[OF assms, of e] by (simp_all add: keeps_def recordKey_def engine_wf_def)

lemma keeps_bs_finish [inv_intros]: "keeps x e \<Longrightarrow> keeps x (bs_finish e)"
  unfolding bs_finish_def Let_def by (intro inv_intros)

lemma keeps_bs_quick_start [inv_intros]:
  "keeps x e \<Longrightarrow> quickStartKey e \<noteq> 0 \<Longrightarrow> keeps x (bs_quick_start e)"
  unfolding bs_quick_start_def Let_def by (intro inv_intros) simp_all

lemma keeps_bs_quick_consonant [inv_intros]: "keeps x e \<Longrightarrow> keeps x (bs_quick_consonant e)"
  unfolding bs_quick_consonant_def Let_def by (auto intro!: inv_intros wf_UndoHornU)

text \<open>The plain branch also shortens the key history.\<close>

lemma keeps_history: "keeps x e \<Longrightarrow> keeps (x\<lparr>escRawHistory := h\<rparr>) (e\<lparr>escRawHistory := h\<rparr>)"
  by (simp add: keeps_def engine_wf_def)

lemma keeps_bs_normal: "\<exists>h. keeps (e\<lparr>escRawHistory := h\<rparr>) (bs_normal e)"
proof -
  have "keeps e (popState (e\<lparr>qc := q\<rparr>)\<lparr>rawInput := r\<rparr>)" for q r
    by (intro inv_intros)
  then have "keeps (e\<lparr>escRawHistory := h\<rparr>)
      (bs_finish (popState (e\<lparr>qc := q\<rparr>)\<lparr>rawInput := r, escRawHistory := h\<rparr>))" for q r h
    by (intro keeps_bs_finish keeps_history)
  then show ?thesis unfolding bs_normal_def Let_def by blast
qed

lemma keeps_Backspace: "\<exists>h. keeps (e\<lparr>escRawHistory := h\<rparr>) (Backspace e)"
proof -
  let ?e0 = "e\<lparr>escape := EscNone\<rparr>" let ?e1 = "?e0\<lparr>quickStartKey := 0\<rparr>"
  have same: "\<exists>h. keeps (e\<lparr>escRawHistory := h\<rparr>) e'" if "keeps e e'" for e'
    using that by (intro exI[of _ "escRawHistory e"]) simp
  obtain h where "keeps (?e1\<lparr>escRawHistory := h\<rparr>) (bs_normal ?e1)"
    using keeps_bs_normal by blast
  moreover have "keeps (e\<lparr>escRawHistory := h\<rparr>) (?e1\<lparr>escRawHistory := h\<rparr>)"
    by (simp add: keeps_def engine_wf_def)
  ultimately have "\<exists>h. keeps (e\<lparr>escRawHistory := h\<rparr>) (bs_normal ?e1)"
    by (blast intro: keeps_trans)
  then show ?thesis
    unfolding Backspace_def Let_def
    by (auto intro!: same inv_intros)
qed

lemma Backspace_facts:
  shows config_Backspace: "config (Backspace e) = config e"
    and wf_Backspace: "engine_wf e \<Longrightarrow> engine_wf (Backspace e)"
  using keeps_Backspace[of e] by (auto simp: keeps_def engine_wf_def)

end
