(* ===== verification/SeedRoundTrip.thy ===== *)
theory SeedRoundTrip
  imports EngineInvariant
begin

text \<open>
  Composition and decomposition of characters are inverse to each other, which makes
  \<open>SeedFromText\<close> show the text it was given. The two directions are checked over the finite set of
  letters the tables know, after the unbounded cases have been reduced to it.
\<close>

subsection \<open>Composition yields a character\<close>

lemma ToUpperVietnamese_nonzero [simp]: "ToUpperVietnamese ch = 0 \<longleftrightarrow> ch = 0"
  by (auto simp: ToUpperVietnamese_def towupper_def)

lemma kTonedVowel_nonzero: "i < 12 \<Longrightarrow> j < 5 \<Longrightarrow> kTonedVowel ! i ! j \<noteq> 0"
proof -
  have "\<forall>(i, j) \<in> set toned_cells. kTonedVowel ! i ! j \<noteq> 0" by code_simp
  then show "i < 12 \<Longrightarrow> j < 5 \<Longrightarrow> kTonedVowel ! i ! j \<noteq> 0" by (auto simp: toned_cells_set)
qed

lemma ToneBaseIndex_bound: "ToneBaseIndex ch = Some i \<Longrightarrow> i < 12"
  by (auto simp: ToneBaseIndex_def split: if_splits)

lemma ToneIndex_bound: "ToneIndex t = Some j \<Longrightarrow> j < 5"
  by (cases t) auto

lemma apply_tone_nonzero: "ch \<noteq> 0 \<Longrightarrow> apply_tone t ch \<noteq> 0"
  by (auto simp: apply_tone_def kTonedVowel_nonzero dest!: ToneBaseIndex_bound ToneIndex_bound
      split: option.split)

lemma Compose_nonzero: "state_wf s \<Longrightarrow> Compose s \<noteq> 0"
  by (auto simp: Compose_def IsEmpty_def state_wf_def Let_def apply_mod_def intro!: apply_tone_nonzero
      split: option.splits)

text \<open>Every well-formed state is displayed as exactly one character.\<close>

lemma ComposeAll_wf: "list_all state_wf ss \<Longrightarrow> ComposeAll ss = map Compose ss"
  by (auto simp: ComposeAll_def list_all_iff Compose_nonzero intro!: filter_True)

lemma length_Peek_wf: "engine_wf e \<Longrightarrow> length (Peek e) = Count e"
  by (simp add: Peek_def Count_def engine_wf_def ComposeAll_wf)

subsection \<open>Decomposition, then composition\<close>

lemma ToUpper_ToLower: "ToLowerVietnamese ch \<noteq> ch \<Longrightarrow> ToUpperVietnamese (ToLowerVietnamese ch) = ch"
  by (auto simp: ToLowerVietnamese_def ToUpperVietnamese_def towlower_def towupper_def split: if_splits)

text \<open>The part of \<open>DecomposeVietChar\<close> after the conversion to lower case.\<close>

definition decompose_lower :: "wchar \<Rightarrow> (wchar \<times> nat option \<times> nat option) option" where
  "decompose_lower l =
    (if l = L_dstroke then Some (L_d, Some 3, None)
     else (case find_toned l of
       Some (i, j) \<Rightarrow>
         (case decomposeToneBase (kToneBase ! i) of Some (b, m) \<Rightarrow> Some (b, m, Some j) | None \<Rightarrow> None)
     | None \<Rightarrow>
         (case decomposeToneBase l of
            Some (b, m) \<Rightarrow> Some (b, m, None)
          | None \<Rightarrow> (if L_a \<le> l \<and> l \<le> L_z then Some (l, None, None) else None))))"

lemma DecomposeVietChar_lower:
  "DecomposeVietChar ch =
    map_option (\<lambda>(b, m, t). (b, m, t, ToLowerVietnamese ch \<noteq> ch)) (decompose_lower (ToLowerVietnamese ch))"
  by (simp add: DecomposeVietChar_def decompose_lower_def Let_def split: option.split)

definition lower_letters :: "wchar list" where
  "lower_letters = concat kTonedVowel @ kToneBase @ L_dstroke # [L_a..L_z]"

lemma decompose_lower_letter:
  assumes "decompose_lower l = Some d" shows "l \<in> set lower_letters"
proof -
  consider "l = L_dstroke" | i j where "find_toned l = Some (i, j)" | "decomposeToneBase l \<noteq> None"
    | "L_a \<le> l \<and> l \<le> L_z"
    using assms by (auto simp: decompose_lower_def split: if_splits option.splits)
  then show ?thesis
  proof cases
    case 2
    then have "i < length kTonedVowel" "j < length (kTonedVowel ! i)" "kTonedVowel ! i ! j = l"
      using find_toned_Some[OF 2]
      by (auto simp: kTonedVowel_def less_Suc_eq numeral_eq_Suc)
    then have "l \<in> set (concat kTonedVowel)" by (metis UN_I nth_mem set_concat)
    then show ?thesis by (simp add: lower_letters_def)
  next
    case 3
    then have "l \<in> set kToneBase \<union> set [L_a..L_z]"
      by (auto simp: decomposeToneBase_def kToneBase_def split: if_splits)
    then show ?thesis by (auto simp: lower_letters_def)
  next
    case 4
    then have "l \<in> set [L_a..L_z]" by (simp only: set_upto atLeastAtMost_iff)
    then show ?thesis unfolding lower_letters_def set_append list.set by blast
  qed (simp add: lower_letters_def)
qed

definition letter_ok :: "wchar \<Rightarrow> bool" where
  "letter_ok l \<longleftrightarrow>
    (case decompose_lower l of
       None \<Rightarrow> True
     | Some (b, m, t) \<Rightarrow>
         state_wf (seed_state (b, m, t, False) 0) \<and> Compose (seed_state (b, m, t, False) 0) = l)"

lemma letters_ok: "list_all letter_ok lower_letters"
  by code_simp

lemma decompose_lower_ok: "decompose_lower l = Some d \<Longrightarrow> letter_ok l"
  using letters_ok decompose_lower_letter by (auto simp: list_all_iff)

lemma seed_state_case:
  "seed_state (b, m, t, u) i = (seed_state (b, m, t, False) 0)\<lparr>csUpper := u, csRawIdx := i\<rparr>"
  by (simp add: seed_state.simps)

lemma ToUpper_dstroke: "ToUpperVietnamese L_dstroke = L_Dstroke"
  by (simp add: ToUpperVietnamese_def)

lemma Compose_upper:
  assumes "\<not> csUpper s" and "csBase s \<noteq> 0"
  shows "Compose (s\<lparr>csUpper := u, csRawIdx := i\<rparr>) =
    (if u then ToUpperVietnamese (Compose s) else Compose s)"
  using assms by (simp add: Compose_def IsEmpty_def IsD_def Let_def ToUpper_dstroke)

declare seed_state.simps [simp del] seed_raw.simps [simp del]

lemma seed_state_ok:
  assumes "DecomposeVietChar ch = Some d"
  shows "state_wf (seed_state d i)" and "Compose (seed_state d i) = ch"
proof -
  let ?s = "\<lambda>b m t. seed_state (b, m, t, False) 0"
  obtain b m t where dl: "decompose_lower (ToLowerVietnamese ch) = Some (b, m, t)"
    and d: "d = (b, m, t, ToLowerVietnamese ch \<noteq> ch)"
    using assms by (auto simp: DecomposeVietChar_lower)
  have ok: "state_wf (seed_state (b, m, t, False) 0)"
    "Compose (seed_state (b, m, t, False) 0) = ToLowerVietnamese ch"
    using decompose_lower_ok[OF dl] dl by (simp_all add: letter_ok_def)
  then have "csBase (?s b m t) \<noteq> 0" by (simp add: state_wf_def)
  moreover have "\<not> csUpper (?s b m t)" by (simp add: seed_state.simps)
  ultimately show "Compose (seed_state d i) = ch"
    unfolding d by (subst seed_state_case, subst Compose_upper) (simp_all add: ok(2) ToUpper_ToLower)
  show "state_wf (seed_state d i)"
    unfolding d by (subst seed_state_case) (simp add: ok(1))
qed

subsection \<open>The seeding loop\<close>

lemma seed_step_wf: "DecomposeVietChar ch = Some d \<Longrightarrow> engine_wf e \<Longrightarrow> engine_wf (seed_step d e)"
  by (auto simp: seed_step_def engine_wf_def intro: seed_state_ok(1))

lemma seed_loop_wf: "seed_loop ws e = Some e' \<Longrightarrow> engine_wf e \<Longrightarrow> engine_wf e'"
  by (induction ws arbitrary: e) (auto split: option.splits intro: seed_step_wf)

lemma seed_loop_spec:
  assumes "seed_loop ws e = Some e'"
  shows "map Compose (states e') = map Compose (states e) @ ws" and "config e' = config e"
    and "length (rawInput e') = length (rawInput e) + length ws"
  using assms
  by (induction ws arbitrary: e)
     (auto simp: seed_step_def seed_state_ok(2) split: option.splits)

lemma Reset_simps [simp]:
  "states (Reset e) = []" "rawInput (Reset e) = []" "escRawHistory (Reset e) = []"
  "config (Reset e) = config e" "escape (Reset e) = EscNone" "quickStartKey (Reset e) = 0"
  "spellCheckDisabled (Reset e) = False" "engProt (Reset e) = engProt_init" "qc (Reset e) = qc_Reset"
  by (simp_all add: Reset_def)

lemma wf_Reset: "engine_wf (Reset e)"
  by (simp add: engine_wf_def)

lemma states_checkBias [simp]: "states (checkBias e) = states e" "config (checkBias e) = config e"
  by (simp_all add: checkBias_def)

lemma states_UpdateSpellState [simp]:
  "states (UpdateSpellState e) = states e" "config (UpdateSpellState e) = config e"
  by (simp_all add: UpdateSpellState_def)

lemma SeedFromText_facts:
  shows wf_SeedFromText: "engine_wf (snd (SeedFromText ws e))"
    and config_SeedFromText: "config (snd (SeedFromText ws e)) = config e"
  by (auto simp: SeedFromText_def wf_Reset engine_wf_def list_all_iff
      dest: seed_loop_spec seed_loop_wf[OF _ wf_Reset, unfolded engine_wf_def] split: option.split)

lemma SeedFromText_Peek:
  assumes "fst (SeedFromText ws e)" shows "Peek (snd (SeedFromText ws e)) = ws"
proof -
  obtain e1 where e1: "seed_loop ws (Reset e) = Some e1"
    using assms by (auto simp: SeedFromText_def split: option.splits)
  have "list_all state_wf (states e1)"
    using seed_loop_wf[OF e1 wf_Reset] by (simp add: engine_wf_def)
  with seed_loop_spec(1)[OF e1] show ?thesis
    by (simp add: SeedFromText_def e1 Peek_def ComposeAll_wf)
qed

end
