(* ===== verification/EngineRuns.thy ===== *)
theory EngineRuns
  imports EngineSteps SeedRoundTrip
begin

text \<open>
  Whole runs of an engine: the calls of the \<open>IInputEngine\<close> interface as a step relation, the states
  an engine can reach, its invariant, the record of the keys typed, and how many backspaces empty
  the buffer.
\<close>

subsection \<open>Steps and reachable states\<close>

inductive engine_step :: "Engine \<Rightarrow> Engine \<Rightarrow> bool" where
  push: "c \<noteq> 0 \<Longrightarrow> engine_step e (PushChar c e)"
| backspace: "engine_step e (Backspace e)"
| commit: "engine_step e (snd (Commit e))"
| reset: "engine_step e (Reset e)"
| seed: "engine_step e (snd (SeedFromText t e))"

inductive reachable :: "TypingConfig \<Rightarrow> Engine \<Rightarrow> bool" for cfg where
  start: "reachable cfg (newEngine cfg)"
| step: "reachable cfg e \<Longrightarrow> engine_step e e' \<Longrightarrow> reachable cfg e'"

inductive_cases engine_stepE: "engine_step e e'"

lemma engine_step_keeps:
  "engine_step e e' \<Longrightarrow> config e' = config e \<and> (engine_wf e \<longrightarrow> engine_wf e')"
  by (elim engine_stepE)
     (simp_all add: PushChar_facts Backspace_facts SeedFromText_facts Commit_def wf_Reset)

lemma reachable_inv: "reachable cfg e \<Longrightarrow> config e = cfg \<and> engine_wf e"
proof (induction rule: reachable.induct)
  case start
  show ?case by (simp add: newEngine_def engine_wf_def)
next
  case (step e e')
  then show ?case using engine_step_keeps by blast
qed

lemma pushAll_facts:
  assumes "0 \<notin> set ws"
  shows "config (pushAll ws e) = config e"
    and "escRawHistory (pushAll ws e) = escRawHistory e @ ws"
    and "engine_wf e \<Longrightarrow> engine_wf (pushAll ws e)"
  using assms
  by (induction ws arbitrary: e) (auto simp: pushAll_def PushChar_facts)

lemma reachable_pushAll:
  "reachable cfg e \<Longrightarrow> 0 \<notin> set ws \<Longrightarrow> reachable cfg (pushAll ws e)"
  by (induction ws arbitrary: e) (auto simp: pushAll_def intro: reachable.step engine_step.push)

subsection \<open>Backspace\<close>

text \<open>
  The measure that every backspace on a non-empty buffer decreases: the number of states, plus one
  while a quick consonant can still be undone in place.
\<close>

definition bs_measure :: "Engine \<Rightarrow> nat" where
  "bs_measure e = Count e + (if hasActive (qc e) then 1 else 0)"

lemma finish_simps [simp]:
  "states (bs_finish e) = states e" "qc (bs_finish e) = qc e" "rawInput (bs_finish e) = rawInput e"
  "escRawHistory (bs_finish e) = escRawHistory e"
  by (simp_all add: bs_finish_def Let_def zwjfBias_def recalcBias_def UpdateSpellState_def)

lemma qc_simps [simp]:
  "hasActive (clearActive q) = False" "hasActive (markEscaped q) = False" "lastKey (clearActive q) = 0"
  by (simp_all add: hasActive_def clearActive_def markEscaped_def)

lemma Count_bs_quick_start: "Count (bs_quick_start e) = 1"
  by (simp add: Count_def bs_quick_start_def Let_def ProcessKey_def ProcessChar_def
      UpdateSpellState_def)

lemma qc_bs_quick_start: "qc (bs_quick_start e) = qc e"
  by (simp add: bs_quick_start_def Let_def ProcessKey_def ProcessChar_def UpdateSpellState_def)

lemma Count_bs_quick_consonant:
  "states e \<noteq> [] \<Longrightarrow> Count (bs_quick_consonant e) \<le> Count e"
  "hasActive (qc (bs_quick_consonant e)) = False"
  by (simp_all add: Count_def bs_quick_consonant_def Let_def ProcessKey_def ProcessChar_def popState_def)

lemma Count_bs_normal:
  "Count (bs_normal e) = Count e - 1" "hasActive (qc (bs_normal e)) = False"
  by (simp_all add: Count_def bs_normal_def Let_def popState_def)

lemma Backspace_eq:
  "states e \<noteq> [] \<Longrightarrow> Backspace e =
    (if quickStartKey e \<noteq> 0 \<and> Count e = 2 then bs_quick_start (e\<lparr>escape := EscNone\<rparr>)
     else if hasActive (qc e) \<and> resultIndex (qc e) = Some (Count e - 1)
     then bs_quick_consonant (e\<lparr>escape := EscNone, quickStartKey := 0\<rparr>)
     else bs_normal (e\<lparr>escape := EscNone, quickStartKey := 0\<rparr>))"
  by (simp add: Backspace_def Let_def Count_def)

lemma Count_upd [simp]:
  "Count (e\<lparr>escape := k\<rparr>) = Count e" "Count (e\<lparr>quickStartKey := q\<rparr>) = Count e"
  by (simp_all add: Count_def)

lemma bs_measure_decreases:
  assumes "states e \<noteq> []" shows "bs_measure (Backspace e) < bs_measure e"
proof -
  have pos: "0 < Count e" using assms by (simp add: Count_def)
  then show ?thesis
    using Count_bs_quick_consonant[of "e\<lparr>escape := EscNone, quickStartKey := 0\<rparr>"] assms
    by (auto simp: Backspace_eq bs_measure_def Count_bs_quick_start qc_bs_quick_start Count_bs_normal)
qed

lemma Backspace_empty: "states e = [] \<Longrightarrow> Backspace e = e"
  by (simp add: Backspace_def)

lemma backspaces_empty: "bs_measure e \<le> n \<Longrightarrow> states ((Backspace ^^ n) e) = []"
proof (induction n arbitrary: e)
  case 0
  then show ?case by (simp add: bs_measure_def Count_def)
next
  case (Suc n)
  have idle: "(Backspace ^^ k) e = e" if "states e = []" for k
    using that by (induction k) (simp_all add: Backspace_empty)
  show ?case
  proof (cases "states e = []")
    case True
    then show ?thesis by (simp only: idle)
  next
    case False
    then have "bs_measure (Backspace e) \<le> n"
      using bs_measure_decreases[of e] Suc.prems by simp
    then have "states ((Backspace ^^ n) (Backspace e)) = []" by (rule Suc.IH)
    then show ?thesis by (simp add: funpow_swap1)
  qed
qed

end
