(* ===== verification/SpellSync.thy ===== *)
theory SpellSync
  imports EngineRuns
begin

text \<open>
  The spell state of the engine is a cache: \<open>spellCheckDisabled_\<close> holds the verdict of the last
  validation. This theory shows that every operation leaves it in step with the buffer. The one
  exception is the reversal of a leading synthetic \<open>u\<close> with horn to \<open>w\<close>, which edits the buffer after
  the validation; it always leaves the hard English bias behind, and that bias ends only in an
  operation that validates again.
\<close>

definition synced :: "Engine \<Rightarrow> bool" where
  "synced e \<longleftrightarrow> spellCheckDisabled e = UpdateSpellCheck (states e) (config e)"

definition spell_cache_ok :: "Engine \<Rightarrow> bool" where
  "spell_cache_ok e \<longleftrightarrow> synced e \<or> bias (engProt e) = HardEnglish"

lemma synced_UpdateSpellState [simp]: "synced (UpdateSpellState e)"
  by (simp add: synced_def UpdateSpellState_def)

lemma synced_upd [simp]:
  "synced (e\<lparr>engProt := p\<rparr>) = synced e" "synced (e\<lparr>qc := q\<rparr>) = synced e"
  "synced (e\<lparr>quickStartKey := k\<rparr>) = synced e" "synced (e\<lparr>escape := k'\<rparr>) = synced e"
  by (simp_all add: synced_def)

lemma synced_bias [simp]:
  "synced (recalcBias e) = synced e" "synced (checkBias e) = synced e" "synced (zwjfBias e) = synced e"
  "synced (setBias b e) = synced e"
  by (simp_all add: recalcBias_def checkBias_def zwjfBias_def setBias_def)

lemma synced_ok: "synced e \<Longrightarrow> spell_cache_ok e"
  by (simp add: spell_cache_ok_def)

lemma CheckZwjfInitialBias_Hard:
  "bias p = HardEnglish \<Longrightarrow> bias (CheckZwjfInitialBias ss cfg p) = HardEnglish"
  by (simp add: CheckZwjfInitialBias_def Let_def)

lemma ok_zwjfBias: "spell_cache_ok e \<Longrightarrow> spell_cache_ok (zwjfBias e)"
  by (auto simp: spell_cache_ok_def) (simp add: zwjfBias_def CheckZwjfInitialBias_Hard split: if_splits)

lemma ok_revert: "synced e \<Longrightarrow> spell_cache_ok (revert_synthetic_w e)"
  by (auto simp: revert_synthetic_w_def spell_cache_ok_def setBias_def)

lemma ok_FinalizeRegularChar: "spell_cache_ok (FinalizeRegularChar e)"
  unfolding FinalizeRegularChar_def Let_def by (intro ok_zwjfBias ok_revert) simp

subsection \<open>Vetoes\<close>

text \<open>
  A dispatch that ends in a veto ends in the state the vetoing rule left: whatever holds of the
  result of every vetoing rule holds of the result of the dispatch.
\<close>

locale veto_bucket =
  fixes P :: "Engine \<Rightarrow> bool" and bucket :: "EngineRule list"
  assumes veto_P: "r \<in> set bucket \<Longrightarrow> fst (ruleApply r ctx e) = Veto \<Longrightarrow> P (snd (ruleApply r ctx e))"
begin

lemma loop_veto:
  "set rs \<subseteq> set bucket \<Longrightarrow> fst (dispatch_loop rs raised ctx e) = Veto \<Longrightarrow>
   P (snd (dispatch_loop rs raised ctx e))"
  by (induction rs arbitrary: e) (auto simp: Let_def veto_P split: if_splits)

lemma dispatch_veto:
  "reg phase = bucket \<Longrightarrow> fst (DispatchAtPhase reg phase ctx e) = Veto \<Longrightarrow>
   P (snd (DispatchAtPhase reg phase ctx e))"
  by (simp add: DispatchAtPhase_def loop_veto)

end

lemma veto_if_Veto [simp]: "fst (veto_if r) = Veto \<longleftrightarrow> fst r"
  by (simp add: veto_if_def)

lemma synced_asLiteral [simp]: "synced (asLiteral l u e)"
  by (simp add: asLiteral_def)

lemma synced_tone_finish [simp]: "synced (tone_finish e)"
  by (simp add: tone_finish_def)

lemma synced_tone_keys: "fst (tone_keys t c l u e) \<Longrightarrow> synced (snd (tone_keys t c l u e))"
  by (auto simp: tone_keys_def Let_def split: if_splits)

lemma synced_HandleToneFsm:
  assumes "fst (HandleToneFsm a c l u e)" shows "synced (snd (HandleToneFsm a c l u e))"
proof -
  define t where "t = (if states e = [] then ToneNone else ActionToTone a)"
  define r where "r = (if a = ClearTone \<and> states e \<noteq> [] then ProcessClearTone e else (False, e))"
  have "HandleToneFsm a c l u e =
    (if a = ClearTone \<and> states e \<noteq> [] \<and> effectiveSpellCheck e \<and> spellCheckDisabled e
     then (True, UpdateSpellState (ProcessKey c e))
     else if fst r then (True, UpdateSpellState (snd r))
     else if t \<noteq> ToneNone then tone_keys t c l u (snd r) else (False, snd r))"
    by (simp only: HandleToneFsm_def Let_def r_def t_def)
  then show ?thesis using assms by (simp add: synced_tone_keys split: if_splits)
qed

lemma synced_modifier_finish: "fst (modifier_finish r) \<Longrightarrow> synced (snd (modifier_finish r))"
  by (auto simp: modifier_finish_def split: if_splits)

lemma synced_modifier_blocks:
  "fst (modifier_2a a c l e) \<Longrightarrow> synced (snd (modifier_2a a c l e))"
  "fst (modifier_2b a c l e) \<Longrightarrow> synced (snd (modifier_2b a c l e))"
  "fst (modifier_2d a c l e) \<Longrightarrow> synced (snd (modifier_2d a c l e))"
  unfolding modifier_2a_def modifier_2b_def modifier_2d_def Let_def
  by (auto simp: synced_modifier_finish split: if_split_asm)

lemma synced_HandleModifierAction:
  "fst (HandleModifierAction a c l u e) \<Longrightarrow> synced (snd (HandleModifierAction a c l u e))"
  unfolding HandleModifierAction_def Let_def
  by (auto simp: synced_modifier_blocks split: if_split_asm)

lemma synced_HandleQuickEndConsonant:
  "fst (HandleQuickEndConsonant c l u e) \<Longrightarrow> synced (snd (HandleQuickEndConsonant c l u e))"
  by (auto simp: HandleQuickEndConsonant_def split: option.splits)

lemma ok_quick_letter: "spell_cache_ok (quick_letter k l u e)"
  by (simp add: quick_letter_def Let_def ok_FinalizeRegularChar)

lemma ok_quick_mid: "fst (quick_mid l u e) = Veto \<Longrightarrow> spell_cache_ok (snd (quick_mid l u e))"
  by (auto simp: quick_mid_def quick_double_def quick_horn_def Let_def ok_quick_letter synced_ok
      split: if_splits option.splits)

lemma ok_HandleQuickStartConsonant:
  "fst (HandleQuickStartConsonant c l u e) = Veto \<Longrightarrow> spell_cache_ok (snd (HandleQuickStartConsonant c l u e))"
  by (auto simp: HandleQuickStartConsonant_def quick_start_def Let_def ok_quick_mid synced_ok
      split: if_splits option.splits)

interpretation pre_veto: veto_bucket spell_cache_ok "[QuickStartConsonantRule]"
  by unfold_locales (simp add: rule_defs QuickStartConsonantRule_Apply_def ok_HandleQuickStartConsonant)

interpretation post_veto: veto_bucket spell_cache_ok "[ToneRule, ModifierRule, QuickEndConsonantRule]"
  by unfold_locales
     (auto simp: rule_defs ToneRule_Apply_def ModifierRule_Apply_def QuickEndConsonantRule_Apply_def
        synced_HandleToneFsm synced_HandleModifierAction synced_HandleQuickEndConsonant
        intro!: synced_ok split: if_splits)

subsection \<open>Every operation\<close>

lemma ok_classified: "spell_cache_ok (classified ctx c e)"
  unfolding classified_def Let_def
  by (auto simp: ok_FinalizeRegularChar engineRegistry_phase intro!: post_veto.dispatch_veto)

lemma ok_PushChar: "spell_cache_ok (PushChar c e)"
  unfolding PushChar_def Let_def
  by (auto simp: ok_classified engineRegistry_phase intro!: pre_veto.dispatch_veto)

lemma synced_Backspace: "states e \<noteq> [] \<Longrightarrow> synced (Backspace e)"
  by (simp add: Backspace_def bs_quick_start_def bs_quick_consonant_def bs_normal_def bs_finish_def Let_def)

lemma synced_Reset: "synced (Reset e)"
  by (simp add: synced_def UpdateSpellCheck_def)

lemma synced_SeedFromText: "synced (snd (SeedFromText t e))"
  by (simp add: SeedFromText_def synced_Reset split: option.split)

lemma ok_step: "engine_step e e' \<Longrightarrow> spell_cache_ok e \<Longrightarrow> spell_cache_ok e'"
  by (elim engine_stepE; cases "states e = []")
     (auto simp: ok_PushChar Commit_def Backspace_empty
       intro!: synced_ok synced_Backspace synced_Reset synced_SeedFromText)

lemma reachable_spell: "reachable cfg e \<Longrightarrow> spell_cache_ok e"
proof (induction rule: reachable.induct)
  case start
  show ?case by (rule synced_ok) (simp add: synced_def newEngine_def UpdateSpellCheck_def)
qed (rule ok_step)

subsection \<open>What commit restores\<close>

text \<open>A buffer that holds a complete syllable is committed as displayed.\<close>

lemma commit_valid:
  assumes "reachable cfg e" and "bias (engProt e) \<noteq> HardEnglish"
    and "quickStartKey e = 0" and "\<not> onlyQC (qc e)"
    and "ValidateSyllableState (states e) (allowZwjf cfg) = Valid"
  shows "commit_text e = Peek e"
proof -
  have "config e = cfg" using reachable_inv[OF assms(1)] by simp
  with assms have "\<not> spellCheckDisabled e"
    using reachable_spell[OF assms(1)] by (auto simp: spell_cache_ok_def synced_def UpdateSpellCheck_def)
  with assms \<open>config e = cfg\<close> show ?thesis
    by (simp add: commit_text_def Peek_def Let_def)
qed

text \<open>Auto-restore answers the raw keys only when they differ from the displayed text in kind.\<close>

lemma commit_text_cases:
  "commit_text e = Peek e \<or>
   (commit_text e = rawInput e \<or> commit_text e = restore_text (rawInput e) (Peek e)) \<and>
   ShouldAutoRestore (commit_text e) (Peek e)"
  by (simp add: commit_text_def Peek_def Let_def)

end
