(* ===== verification/Reopen.thy ===== *)
theory Reopen
  imports SeedRoundTrip
begin

text \<open>
  Reopening a word: decomposing a displayed letter gives back the base letter, the modifier, the
  tone and the case it was composed from, with two exceptions. \<open>ToLowerVietnamese\<close> has no case for
  the capitals of i and u with tilde, which \<open>ToUpperVietnamese\<close> produces, so a word that shows one
  of them cannot be reopened.
\<close>

definition letter :: "CharState \<Rightarrow> bool" where
  "letter s \<longleftrightarrow> L_a \<le> csBase s \<and> csBase s \<le> L_z"

definition capital_tilde_iu :: "CharState \<Rightarrow> bool" where
  "capital_tilde_iu s \<longleftrightarrow>
    csUpper s \<and> csTone s = Tilde \<and> csMod s = ModNone \<and> (csBase s = L_i \<or> csBase s = L_u)"

text \<open>What a state displays: every field that composition reads.\<close>

definition marks :: "CharState \<Rightarrow> wchar \<times> Modifier \<times> Tone \<times> bool" where
  "marks s = (csBase s, csMod s, csTone s, csUpper s)"

fun marked :: "wchar \<times> Modifier \<times> Tone \<times> bool \<Rightarrow> CharState" where
  "marked (b, m, t, u) = newCharState\<lparr>csBase := b, csMod := m, csTone := t, csUpper := u\<rparr>"

fun decomposed_marks :: "decomposed \<Rightarrow> wchar \<times> Modifier \<times> Tone \<times> bool" where
  "decomposed_marks (b, m, t, u) = (b, mod_of_index m, tone_of_index t, u)"

text \<open>All marks of well-formed letters.\<close>

definition all_marks :: "(wchar \<times> Modifier \<times> Tone \<times> bool) list" where
  "all_marks =
    concat (map (\<lambda>b. concat (map (\<lambda>m. concat (map (\<lambda>t.
        if mod_fits b m \<and> (t = ToneNone \<or> b = L_a \<or> b = L_e \<or> b = L_i \<or> b = L_o \<or> b = L_u \<or> b = L_y)
        then [(b, m, t, False), (b, m, t, True)] else [])
      [ToneNone, Acute, Grave, Hook, Tilde, Dot])) [ModNone, Circumflex, Breve, Horn, Stroke]))
      [L_a..L_z])"

definition reopens :: "wchar \<times> Modifier \<times> Tone \<times> bool \<Rightarrow> bool" where
  "reopens d \<longleftrightarrow>
    (if capital_tilde_iu (marked d) then DecomposeVietChar (Compose (marked d)) = None
     else map_option decomposed_marks (DecomposeVietChar (Compose (marked d))) = Some d)"

lemma all_marks_reopen: "list_all reopens all_marks"
  by code_simp

lemma in_concat_map: "x \<in> set xs \<Longrightarrow> y \<in> set (f x) \<Longrightarrow> y \<in> set (concat (map f xs))"
  by auto

lemma marks_all: "state_wf s \<Longrightarrow> letter s \<Longrightarrow> marks s \<in> set all_marks"
proof -
  assume wf: "state_wf s" and "letter s"
  then have b: "csBase s \<in> set [L_a..L_z]"
    by (simp only: set_upto atLeastAtMost_iff letter_def)
  have m: "csMod s \<in> set [ModNone, Circumflex, Breve, Horn, Stroke]" by (cases "csMod s") auto
  have t: "csTone s \<in> set [ToneNone, Acute, Grave, Hook, Tilde, Dot]" by (cases "csTone s") auto
  show ?thesis
    unfolding all_marks_def marks_def
    by (intro in_concat_map[OF b] in_concat_map[OF m] in_concat_map[OF t])
       (use wf in \<open>auto simp: state_wf_def state_ok_def HasTone_def IsVowel_def\<close>)
qed

lemma Compose_marked: "Compose (marked (marks s)) = Compose s"
  by (rule Compose_cong) (simp_all add: marks_def)

lemma capital_tilde_marked: "capital_tilde_iu (marked (marks s)) = capital_tilde_iu s"
  by (simp add: marks_def capital_tilde_iu_def)

lemma Decompose_Compose:
  assumes "state_wf s" and "letter s" and "\<not> capital_tilde_iu s"
  obtains d where "DecomposeVietChar (Compose s) = Some d" and "decomposed_marks d = marks s"
proof -
  have "reopens (marks s)"
    using all_marks_reopen marks_all[OF assms(1,2)] by (simp add: list_all_iff)
  then show ?thesis
    using assms(3) that by (auto simp: reopens_def Compose_marked capital_tilde_marked)
qed

lemma Decompose_capital_tilde:
  assumes "state_wf s" and "capital_tilde_iu s" shows "DecomposeVietChar (Compose s) = None"
proof -
  have "letter s" using assms(2) by (auto simp: capital_tilde_iu_def letter_def)
  then have "reopens (marks s)"
    using all_marks_reopen marks_all[OF assms(1)] by (simp add: list_all_iff)
  then show ?thesis using assms(2) by (simp add: reopens_def Compose_marked capital_tilde_marked)
qed

text \<open>A whole buffer.\<close>

definition reopenable :: "CharState \<Rightarrow> bool" where
  "reopenable s \<longleftrightarrow> state_wf s \<and> letter s \<and> \<not> capital_tilde_iu s"

lemma marks_seed_state: "marks (seed_state d i) = decomposed_marks d"
  by (cases d) (simp add: marks_def seed_state.simps)

lemma seed_loop_reopens:
  assumes "list_all reopenable ss"
  shows "\<exists>e'. seed_loop (map Compose ss) e = Some e' \<and> map marks (states e') = map marks (states e) @ map marks ss"
  using assms
proof (induction ss arbitrary: e)
  case (Cons s ss)
  then obtain d where d: "DecomposeVietChar (Compose s) = Some d" "decomposed_marks d = marks s"
    by (auto simp: reopenable_def elim: Decompose_Compose)
  from Cons obtain e' where "seed_loop (map Compose ss) (seed_step d e) = Some e'"
    and "map marks (states e') = map marks (states (seed_step d e)) @ map marks ss" by auto
  with d show ?case by (auto simp: seed_step_def marks_seed_state)
qed simp

lemma SeedFromText_reopens:
  assumes "list_all reopenable (states e)"
  shows "fst (SeedFromText (Peek e) e')"
    and "map marks (states (snd (SeedFromText (Peek e) e'))) = map marks (states e)"
proof -
  have "Peek e = map Compose (states e)"
    unfolding Peek_def by (rule ComposeAll_wf) (use assms in \<open>simp add: list_all_iff reopenable_def\<close>)
  then obtain e1 where "seed_loop (Peek e) (Reset e') = Some e1" "map marks (states e1) = map marks (states e)"
    using seed_loop_reopens[OF assms, of "Reset e'"] by auto
  then show "fst (SeedFromText (Peek e) e')"
    and "map marks (states (snd (SeedFromText (Peek e) e'))) = map marks (states e)"
    by (simp_all add: SeedFromText_def)
qed

lemma seed_loop_None: "ch \<in> set ws \<Longrightarrow> DecomposeVietChar ch = None \<Longrightarrow> seed_loop ws e = None"
  by (induction ws arbitrary: e) (auto split: option.split)

end
