(* ===== verification/ToneKeys.thy ===== *)
theory ToneKeys
  imports EngineRuns
begin

text \<open>
  What a tone key does: in an English word it is a literal, on a Vietnamese nucleus it sets the tone,
  and pressed again it takes the tone back and leaves itself as a literal, with the consumed key
  struck from the record of raw keys.
\<close>

subsection \<open>Literals\<close>

lemma Compose_literal:
  assumes "c \<noteq> 0"
  shows "Compose (newCharState\<lparr>csBase := towlower c, csUpper := iswupper c, csRawIdx := i\<rparr>) = c"
proof -
  let ?s = "newCharState\<lparr>csBase := towlower c, csUpper := iswupper c, csRawIdx := i\<rparr>"
  have "Compose ?s = (if iswupper c then ToUpperVietnamese (towlower c) else towlower c)"
    using assms by (simp add: Compose_def IsEmpty_def apply_mod_def apply_tone_def Let_def)
  also have "\<dots> = c"
    by (auto simp: iswupper_def towlower_def ToUpperVietnamese_def towupper_def)
  finally show ?thesis .
qed

lemma ComposeAll_append: "ComposeAll (ss @ ts) = ComposeAll ss @ ComposeAll ts"
  by (simp add: ComposeAll_def)

lemma Peek_ProcessKey: "c \<noteq> 0 \<Longrightarrow> Peek (ProcessKey c e) = Peek e @ [c]"
  using Compose_literal[of c 0]
  by (simp add: Peek_def ProcessKey_def ProcessChar_def ComposeAll_append) (simp add: ComposeAll_def)

lemma Peek_asLiteral: "c \<noteq> 0 \<Longrightarrow> Peek (asLiteral (towlower c) (iswupper c) e) = Peek e @ [c]"
  using Peek_ProcessKey[of c e] by (simp add: asLiteral_def Peek_def ProcessKey_def UpdateSpellState_def)

subsection \<open>English words\<close>

lemma tone_action_tone: "IsToneAction a \<Longrightarrow> a \<noteq> ClearTone \<Longrightarrow> ActionToTone a \<noteq> ToneNone"
  by (cases a) (simp_all add: IsToneAction_def action_order)

lemma HandleToneFsm_tone:
  "a \<noteq> ClearTone \<Longrightarrow> states e \<noteq> [] \<Longrightarrow> ActionToTone a \<noteq> ToneNone \<Longrightarrow>
   HandleToneFsm a c l u e = tone_keys (ActionToTone a) c l u e"
  by (simp add: HandleToneFsm_def)

lemma tone_keys_English:
  "bias (engProt e) = HardEnglish \<Longrightarrow> \<not> allowEnglishBypass (config e) \<Longrightarrow>
   tone_keys t c l u e = (True, asLiteral l u e)"
  by (simp add: tone_keys_def tone_english_gate_def Let_def)

text \<open>The phase before classification passes on a key that is no quick consonant.\<close>

lemma pre_dispatch_pass:
  assumes "states e \<noteq> []" and "quickStartKey e = 0" and "\<not> quickConsonant (config e)"
  shows "DispatchAtPhase engineRegistry PreClassify ctx e =
    (Pass, e\<lparr>qc := quick_flags (ctxLower ctx) (qc e)\<rparr>)"
  using assms
  by (simp add: DispatchAtPhase_def engineRegistry_phase rule_defs QuickStartConsonantRule_Apply_def
      HandleQuickStartConsonant_def quick_start_undo_def quick_mid_def Let_def)

text \<open>With no escape active, a tone key reaches the tone rule first.\<close>

lemma post_dispatch_tone:
  assumes "\<not> ctxEscapeActive ctx" and "IsToneAction (ctxAction ctx)"
    and "HandleToneFsm (ctxAction ctx) (ctxKeyChar ctx) (ctxLower ctx) (ctxIsUpper ctx) e = (True, e')"
  shows "DispatchAtPhase engineRegistry PostClassify ctx e = (Veto, e')"
proof -
  have "GateMaskFor GateToneEscape AND EvaluateGates ctx e = 0"
    using gate_AND[of "EvaluateGates ctx e" GateToneEscape] assms(1)
    by (simp add: bit_EvaluateGates and.commute)
  then show ?thesis
    using assms(2,3)
    by (simp add: DispatchAtPhase_def engineRegistry_phase rule_defs ToneRule_Apply_def veto_if_def Let_def)
qed

lemma English_tone_key:
  assumes "states e \<noteq> []" and "quickStartKey e = 0" and "\<not> quickConsonant (config e)"
    and "bias (engProt e) = HardEnglish" and "\<not> allowEnglishBypass (config e)"
    and "\<not> isEscaped (escape e)" and "\<not> vni_digit_sequence c e"
    and "IsToneAction (key_action (towlower c) e)" and "key_action (towlower c) e \<noteq> ClearTone"
  shows "PushChar c e =
    asLiteral (towlower c) (iswupper c)
      ((recordKey c e)\<lparr>qc := quick_flags (towlower c) (qc (recordKey c e))\<rparr>)"
proof -
  let ?e0 = "recordKey c e" let ?e1 = "?e0\<lparr>qc := quick_flags (towlower c) (qc ?e0)\<rparr>"
  let ?ctx = "post_context (pre_context c ?e0) c ?e1"
  have pre: "DispatchAtPhase engineRegistry PreClassify (pre_context c ?e0) ?e0 = (Pass, ?e1)"
    using pre_dispatch_pass[of ?e0 "pre_context c ?e0"] assms(1-3)
    by (simp add: recordKey_def pre_context_def)
  have seq: "\<not> vni_digit_sequence c ?e1" and act: "key_action (towlower c) ?e1 = key_action (towlower c) e"
    using assms(7) by (simp_all add: vni_digit_sequence_def key_action_def IsVniMode_def IsTelexMode_def recordKey_def Let_def)
  then have action: "ctxAction ?ctx = key_action (towlower c) e"
    and keys: "ctxKeyChar ?ctx = c" "ctxLower ?ctx = towlower c" "ctxIsUpper ?ctx = iswupper c"
    and esc: "\<not> ctxEscapeActive ?ctx"
    using assms(6) by (simp_all add: post_context_def pre_context_def recordKey_def Let_def)
  have "HandleToneFsm (key_action (towlower c) e) c (towlower c) (iswupper c) ?e1 =
      (True, asLiteral (towlower c) (iswupper c) ?e1)"
    using assms(1,4,5,9) tone_action_tone[OF assms(8,9)]
    by (simp add: HandleToneFsm_tone tone_keys_English recordKey_def)
  then have "DispatchAtPhase engineRegistry PostClassify ?ctx ?e1 =
      (Veto, asLiteral (towlower c) (iswupper c) ?e1)"
    by (intro post_dispatch_tone) (simp_all add: action keys esc assms(8))
  then show ?thesis by (simp add: PushChar_def classified_def pre Let_def)
qed

subsection \<open>The tone target does not depend on the tones of the nucleus\<close>

lemma canonical_vowel_cong:
  "csBase s = csBase s' \<Longrightarrow> csMod s = csMod s' \<Longrightarrow> canonical_vowel s = canonical_vowel s'"
  unfolding canonical_vowel_def by (rule Compose_cong) simp_all

definition keeps_vowel :: "(CharState \<Rightarrow> CharState) \<Rightarrow> bool" where
  "keeps_vowel f \<longleftrightarrow> (\<forall>s. csBase (f s) = csBase s \<and> csMod (f s) = csMod s)"

lemma vowel_upd:
  assumes "keeps_vowel f"
  shows "csBase (upd_at i f ss ! j) = csBase (ss ! j)"
    and "canonical_vowel (upd_at i f ss ! j) = canonical_vowel (ss ! j)"
    and "IsVowel (upd_at i f ss ! j) = IsVowel (ss ! j)"
proof -
  show base: "csBase (upd_at i f ss ! j) = csBase (ss ! j)"
    using assms by (intro nth_upd_at_same) (simp add: keeps_vowel_def)
  have "csMod (upd_at i f ss ! j) = csMod (ss ! j)"
    using assms by (intro nth_upd_at_same) (simp add: keeps_vowel_def)
  with base show "canonical_vowel (upd_at i f ss ! j) = canonical_vowel (ss ! j)"
    by (rule canonical_vowel_cong)
  from base show "IsVowel (upd_at i f ss ! j) = IsVowel (ss ! j)" by (rule IsVowel_base)
qed

lemma nucleus_indices_upd: "keeps_vowel f \<Longrightarrow> nucleus_indices (upd_at i f ss) = nucleus_indices ss"
  by (simp add: nucleus_indices_def IsClusterConsonant_def vowel_upd)

lemma nucleus_le_last:
  assumes "i \<in> set (nucleus_indices ss)" shows "i \<le> last (nucleus_indices ss)"
proof -
  have "sorted (nucleus_indices ss)"
    unfolding nucleus_indices_def by (intro sorted_wrt_take sorted_wrt_filter) simp
  moreover obtain ys where "nucleus_indices ss = ys @ [last (nucleus_indices ss)]"
    using assms by (metis append_butlast_last_id empty_iff list.set(1))
  ultimately show ?thesis
    using assms by (metis Un_iff empty_iff insert_iff list.set order_refl set_append sorted_append)
qed

lemma FindToneTarget_upd:
  assumes "keeps_vowel f" and "i \<in> set (nucleus_indices ss)"
  shows "FindToneTarget m (upd_at i f ss) = FindToneTarget m ss"
proof -
  have "drop (last (nucleus_indices ss) + 1) (upd_at i f ss) = drop (last (nucleus_indices ss) + 1) ss"
    using nucleus_le_last[OF assms(2)] by (simp add: upd_at_def)
  then show ?thesis
    by (simp add: FindToneTarget_def FindToneTargetWith_def nucleus_indices_upd vowel_upd assms(1)
        coda_text_def Let_def)
qed

lemma FindToneTarget_in: "FindToneTarget m ss = Some i \<Longrightarrow> i \<in> set (nucleus_indices ss)"
  by (auto simp: FindToneTarget_def FindToneTargetWith_def Let_def split: if_splits option.splits)

subsection \<open>The same tone twice\<close>

lemma map_Compose_raw:
  "map Compose (set_tone_raw i r ss) = map Compose ss" "map Compose (map (shift_raw k) ss) = map Compose ss"
  unfolding set_tone_raw_def by (rule map_upd_at; simp) (simp add: shift_raw_def)

lemma ComposeAll_raw [simp]:
  "ComposeAll (set_tone_raw i r ss) = ComposeAll ss" "ComposeAll (map (shift_raw k) ss) = ComposeAll ss"
  unfolding ComposeAll_def by (simp_all only: map_Compose_raw)

lemma upd_at_upd_at: "upd_at i f (upd_at i g xs) = upd_at i (\<lambda>x. f (g x)) xs"
  by (cases "i < length xs") (simp_all add: upd_at_def list_update_beyond)

lemma set_tone_pair:
  "set_tone_raw i r (set_tone i t ss) = upd_at i (\<lambda>s. s\<lparr>csTone := t, csToneRawIdx := r\<rparr>) ss"
  by (simp add: set_tone_raw_def set_tone_def upd_at_upd_at)

lemma set_tone_again:
  "set_tone i t' (upd_at i (\<lambda>s. s\<lparr>csTone := t, csToneRawIdx := r\<rparr>) ss) =
   upd_at i (\<lambda>s. s\<lparr>csTone := t', csToneRawIdx := r\<rparr>) ss"
  unfolding set_tone_def upd_at_upd_at by (rule arg_cong[where f = "\<lambda>f. upd_at i f ss"]) (rule ext, simp)

lemma ComposeAll_upd_cong:
  "(\<And>s. Compose (f s) = Compose (g s)) \<Longrightarrow> ComposeAll (upd_at i f ss) = ComposeAll (upd_at i g ss)"
  by (simp add: ComposeAll_def upd_at_def map_update)

lemma keeps_vowel_tone: "keeps_vowel (\<lambda>s. s\<lparr>csTone := t, csToneRawIdx := r\<rparr>)"
  by (simp add: keeps_vowel_def)

text \<open>The state a first press leaves.\<close>

lemma ProcessTone_set:
  assumes "toneTarget e = Some i" and "csTone (states e ! i) \<noteq> t" and "t \<noteq> ToneNone"
  shows "ProcessTone t c None e =
    (True, escapeWith EscNone (e\<lparr>states :=
       upd_at i (\<lambda>s. s\<lparr>csTone := t, csToneRawIdx := Some (length (rawInput e) - 1)\<rparr>) (states e)\<rparr>))"
  using assms by (simp add: ProcessTone_def set_tone_pair)

text \<open>The state a press of the tone that is already there leaves.\<close>

lemma ProcessTone_escape:
  assumes "toneTarget e = Some i" and "csTone (states e ! i) = t" and "t \<noteq> ToneNone"
    and "csToneRawIdx (states e ! i) = Some r" and "r < length (rawInput e)" and "c \<noteq> 0"
  shows "fst (ProcessTone t c None e)"
    and "rawInput (snd (ProcessTone t c None e)) = take r (rawInput e) @ drop (Suc r) (rawInput e)"
    and "Peek (snd (ProcessTone t c None e)) = ComposeAll (set_tone i ToneNone (states e)) @ [c]"
    and "escape (snd (ProcessTone t c None e)) = EscTone"
proof -
  have i: "i < length (states e)"
    using assms(1) FindToneTarget_Some by (simp add: toneTarget_def)
  then have raw: "csToneRawIdx (set_tone i ToneNone (states e) ! i) = Some r"
    using assms(4) by (simp add: set_tone_def nth_upd_at)
  have eq: "ProcessTone t c None e =
    (True, escapeWith EscTone (ProcessKey c (e\<lparr>
        rawInput := take r (rawInput e) @ drop (Suc r) (rawInput e),
        states := set_tone_raw i None (map (shift_raw r) (set_tone i ToneNone (states e)))\<rparr>)))"
    using assms raw by (simp add: ProcessTone_def EraseConsumedRaw_def Let_def)
  show "fst (ProcessTone t c None e)" by (simp add: eq)
  show "rawInput (snd (ProcessTone t c None e)) = take r (rawInput e) @ drop (Suc r) (rawInput e)"
    by (simp add: eq escapeWith_def ProcessKey_def ProcessChar_def)
  show "escape (snd (ProcessTone t c None e)) = EscTone" by (simp add: eq escapeWith_def)
  have "Peek (escapeWith k e') = Peek e'" for k e' by (simp add: escapeWith_def Peek_def)
  then show "Peek (snd (ProcessTone t c None e)) = ComposeAll (set_tone i ToneNone (states e)) @ [c]"
    by (simp add: eq Peek_ProcessKey[OF assms(6)]) (simp add: Peek_def)
qed

lemma tone_twice:
  assumes "toneTarget e = Some i" and "csTone (states e ! i) \<noteq> t" and "t \<noteq> ToneNone"
    and "rawInput e = rs @ [c]" and "c' \<noteq> 0"
    and e1: "e1 = recordKey c' (snd (ProcessTone t c None e))"
    and e2: "e2 = snd (ProcessTone t c' None e1)"
  shows "rawInput e2 = rs @ [c']" and "Peek e2 = ComposeAll (set_tone i ToneNone (states e)) @ [c']"
    and "escape e2 = EscTone"
proof -
  let ?f = "\<lambda>s. s\<lparr>csTone := t, csToneRawIdx := Some (length rs)\<rparr>"
  have i: "i < length (states e)" "i \<in> set (nucleus_indices (states e))"
    using assms(1) FindToneTarget_Some FindToneTarget_in by (auto simp: toneTarget_def)
  have sts: "states e1 = upd_at i ?f (states e)" and raw: "rawInput e1 = rs @ [c, c']"
    and cfg: "config e1 = config e"
    unfolding e1 by (simp_all add: ProcessTone_set[OF assms(1-3)] recordKey_def escapeWith_def assms(4))
  have target: "toneTarget e1 = Some i"
    using FindToneTarget_upd[OF keeps_vowel_tone i(2)] assms(1) by (simp add: toneTarget_def sts cfg)
  have "csTone (states e1 ! i) = t" "csToneRawIdx (states e1 ! i) = Some (length rs)"
    "length rs < length (rawInput e1)"
    using i by (simp_all add: sts raw nth_upd_at)
  note esc = ProcessTone_escape[OF target this(1) assms(3) this(2,3) assms(5)]
  show "rawInput e2 = rs @ [c']" unfolding e2 esc by (simp add: raw)
  show "escape e2 = EscTone" unfolding e2 by (rule esc)
  have "ComposeAll (set_tone i ToneNone (states e1)) = ComposeAll (set_tone i ToneNone (states e))"
    unfolding sts set_tone_again unfolding set_tone_def by (rule ComposeAll_upd_cong) simp
  then show "Peek e2 = ComposeAll (set_tone i ToneNone (states e)) @ [c']"
    unfolding e2 esc by simp
qed

subsection \<open>Properties\<close>

text \<open>C15: With the English bypass and the quick consonants off, in a word the engine takes for English a key of
  one of the five tones is just a letter: the text on the screen and the raw keys grow by that key, and
  the word stays English. The word is not empty, no tone of it was escaped and no quick start consonant is
  pending; the key that clears a tone and a digit that continues a run of VNI digits are other keys.\<close>

theorem English_tone_key_literal:
  assumes "IsEnglishWord e" and "\<not> allowEnglishBypass (config e)" and "\<not> IsToneEscaped e"
    and "states e \<noteq> []" and "quickStartKey e = 0" and "\<not> quickConsonant (config e)"
    and "IsToneAction (key_action (towlower c) e)" and "key_action (towlower c) e \<noteq> ClearTone"
    and "\<not> vni_digit_sequence c e" and "c \<noteq> 0"
  shows "Peek (PushChar c e) = Peek e @ [c] \<and> rawInput (PushChar c e) = rawInput e @ [c] \<and>
    IsEnglishWord (PushChar c e)"
proof -
  let ?e = "(recordKey c e)\<lparr>qc := quick_flags (towlower c) (qc (recordKey c e))\<rparr>"
  have "PushChar c e = asLiteral (towlower c) (iswupper c) ?e"
    using assms by (intro English_tone_key) (simp_all add: IsEnglishWord_def IsToneEscaped_def)
  moreover have "Peek ?e = Peek e" by (simp add: Peek_def recordKey_def)
  ultimately show ?thesis
    using Peek_asLiteral[OF assms(10), of ?e] assms(1)
    by (simp add: asLiteral_def UpdateSpellState_def ProcessChar_def recordKey_def IsEnglishWord_def)
qed

theorem English_tone_key_literal_witness:
  "Peek (PushChar L_s (pushAll [L_c, L_l, L_a] (newEngine defaultConfig))) = [L_c, L_l, L_a, L_s]"
proof -
  let ?e = "pushAll [L_c, L_l, L_a] (newEngine defaultConfig)"
  have "IsEnglishWord ?e \<and> \<not> allowEnglishBypass (config ?e) \<and> \<not> IsToneEscaped ?e \<and> states ?e \<noteq> [] \<and>
      quickStartKey ?e = 0 \<and> \<not> quickConsonant (config ?e) \<and>
      IsToneAction (key_action (towlower L_s) ?e) \<and> key_action (towlower L_s) ?e \<noteq> ClearTone \<and>
      \<not> vni_digit_sequence L_s ?e \<and> Peek ?e = [L_c, L_l, L_a]"
    by code_simp
  then show ?thesis using English_tone_key_literal[of ?e L_s] by simp
qed

text \<open>C14: Pressing the same tone key twice undoes the tone and types the key: the tone is gone from the
  vowel it was put on, the second key appears as a literal, the first one is struck from the raw
  keys, and the escape is recorded so that the next tone key is a literal too.\<close>

theorem same_tone_twice:
  assumes "toneTarget e = Some i" and "csTone (states e ! i) \<noteq> t" and "t \<noteq> ToneNone"
    and "rawInput e = rs @ [c]" and "c' \<noteq> 0"
  shows "let e1 = snd (ProcessTone t c None e); e2 = snd (ProcessTone t c' None (recordKey c' e1)) in
    rawInput e2 = rs @ [c'] \<and> Peek e2 = ComposeAll (set_tone i ToneNone (states e)) @ [c'] \<and>
    IsToneEscaped e2"
  using tone_twice[OF assms refl refl] by (simp add: IsToneEscaped_def isEscaped_def Let_def)

theorem same_tone_twice_witness:
  "let e = recordKey L_s (pushAll [L_b, L_a] (newEngine defaultConfig));
       e1 = snd (ProcessTone Acute L_s None e);
       e2 = snd (ProcessTone Acute L_s None (recordKey L_s e1))
   in rawInput e2 = [L_b, L_a, L_s] \<and> Peek e2 = [L_b, L_a, L_s] \<and> IsToneEscaped e2"
proof -
  let ?e = "recordKey L_s (pushAll [L_b, L_a] (newEngine defaultConfig))"
  have "toneTarget ?e = Some 1 \<and> csTone (states ?e ! 1) = ToneNone \<and> rawInput ?e = [L_b, L_a] @ [L_s] \<and>
      ComposeAll (set_tone 1 ToneNone (states ?e)) = [L_b, L_a]"
    by code_simp
  then show ?thesis using same_tone_twice[of ?e 1 Acute "[L_b, L_a]" L_s L_s] by (simp add: Let_def)
qed

end
