(* ===== verification/ModifierLaws.thy ===== *)
theory ModifierLaws
  imports ToneKeys
begin

text \<open>
  Facts about the modifier handlers: the proposals that declare no tone relocation indeed move no
  tone, the stroke key cycles d, d with stroke, literal dd, and undoing all marks leaves the bare
  letters.
\<close>

lemma csTone_set_mod: "map csTone (set_mod i m ss) = map csTone ss"
  unfolding set_mod_def by (rule map_upd_at) simp

lemma csTone_shift_raw: "map csTone (map (shift_raw k) ss) = map csTone ss"
  by (simp add: shift_raw_def)

lemma csTone_ProcessKey: "map csTone (states (ProcessKey c e)) = map csTone (states e) @ [ToneNone]"
  by (simp add: ProcessKey_def ProcessChar_def)

lemma csTone_undoInsert:
  "map csTone (states (undoInsert c k e)) = map csTone (butlast (states e)) @ [ToneNone]"
proof -
  have "map csTone (states (EraseConsumedRaw i e')) = map csTone (states e')" for i e'
    unfolding EraseConsumedRaw_def using csTone_shift_raw by auto
  then show ?thesis
    by (simp add: undoInsert_def Let_def escapeWith_def csTone_ProcessKey popState_def)
qed

text \<open>The tones of the states that were there before, the last one aside.\<close>

definition tones_kept :: "Engine \<Rightarrow> Engine \<Rightarrow> bool" where
  "tones_kept e e' \<longleftrightarrow>
    take (length (states e) - 1) (map csTone (states e')) = take (length (states e) - 1) (map csTone (states e))"

lemma tones_keptI:
  "map csTone (states e') = map csTone (states e) @ ts \<Longrightarrow> tones_kept e e'"
  "map csTone (states e') = map csTone (butlast (states e)) @ ts \<Longrightarrow> tones_kept e e'"
  by (simp_all add: tones_kept_def butlast_conv_take take_map)

lemma tones_kept_refl: "tones_kept e e"
  by (simp add: tones_kept_def)

lemma bracket_keeps_tones: "tones_kept e (snd (HandleHornInsert a c e))"
  by (auto simp: HandleHornInsert_def Let_def tones_kept_refl csTone_undoInsert pushState_def
      intro: tones_keptI)

lemma stroke_keeps_tones: "tones_kept e (snd (HandleStrokeD a c e))"
proof -
  have "map csTone (states (setMod i m e)) = map csTone (states e) @ []" for i m
    by (simp add: setMod_def csTone_set_mod)
  moreover have "map csTone (states (ProcessKey c (escapeWith k (setMod i m e)))) =
      map csTone (states e) @ [ToneNone]" for i m k
    by (simp add: csTone_ProcessKey escapeWith_def setMod_def csTone_set_mod)
  ultimately show ?thesis
    unfolding HandleStrokeD_def
    by (auto simp: tones_kept_refl Let_def split: option.split intro: tones_keptI)
qed

subsection \<open>Properties\<close>

text \<open>The relocation policy the modifier proposals declare is kept where it promises that nothing
  moves: a proposal of kind \<open>None\<close> leaves the tone of every earlier state of the buffer where it is,
  in every branch of its handler.\<close>

theorem no_relocation_moves_no_tone:
  assumes "p \<in> {adjacentCircumflexProposal, hornModifierProposal, strokeDProposal, bracketProposal,
      vniCircumflexProposal, vniHornProposal, vniBreveProposal}"
    and "relocationKind p = RelocNone"
  shows "take (length (states e) - 1) (map csTone (states (snd (tryApply p a c e)))) =
    take (length (states e) - 1) (map csTone (states e))"
  using assms bracket_keeps_tones[of e a c] stroke_keeps_tones[of e a c]
  by (auto simp: proposal_defs tones_kept_def)

theorem no_relocation_moves_no_tone_witness:
  "take 1 (map csTone (states (snd (tryApply strokeDProposal StrokeD L_d (pushAll [L_d, L_a] (newEngine defaultConfig))))))
   = [ToneNone]"
proof -
  let ?e = "pushAll [L_d, L_a] (newEngine defaultConfig)"
  have "map csTone (states ?e) = [ToneNone, ToneNone] \<and> length (states ?e) = 2" by code_simp
  then show ?thesis
    using no_relocation_moves_no_tone[of strokeDProposal ?e StrokeD L_d] by (simp add: strokeDProposal_def)
qed

text \<open>Undoing all marks leaves exactly the bare letters: every state keeps its base letter, its case and
  its place in the raw keys, no modifier and no tone is left, and the key counts as handled, with an
  escape recorded, exactly if there was a mark to undo.\<close>

theorem undo_all_marks:
  "let r = HandleUndoAllMarks a c e; e' = snd r in
    map csBase (states e') = map csBase (states e) \<and> map csUpper (states e') = map csUpper (states e) \<and>
    map csRawIdx (states e') = map csRawIdx (states e) \<and>
    \<not> list_ex (\<lambda>s. HasModifier s \<or> HasTone s) (states e') \<and>
    fst r = list_ex (\<lambda>s. HasModifier s \<or> HasTone s) (states e) \<and>
    escape e' = (if fst r then EscTone else escape e)"
proof -
  have "map csBase (map clear_marks ss) = map csBase ss" "map csUpper (map clear_marks ss) = map csUpper ss"
    "map csRawIdx (map clear_marks ss) = map csRawIdx ss"
    "\<not> list_ex (\<lambda>s. HasModifier s \<or> HasTone s) (map clear_marks ss)" for ss
    by (auto simp: clear_marks_def HasModifier_def HasTone_def list_ex_iff)
  then show ?thesis
    by (auto simp: HandleUndoAllMarks_def HasModifier_def HasTone_def escapeWith_def Let_def
        simp del: map_map list.map_comp)
qed

end
