(* ===== verification/ValidatorShape.thy ===== *)
theory ValidatorShape
  imports Validator EnglishProtection
begin

text \<open>
  What the verdict \<open>Valid\<close> means. A buffer the validator accepts is an onset, a nucleus of one to
  three vowels that is an entry of the nucleus table and a coda of at most two consonants the
  nucleus allows; it carries at most one tone, on a modified vowel if there is one. English
  protection never raises its hard bias on such a buffer.
\<close>

subsection \<open>Tone and modifier placement\<close>

text \<open>The declarative form of the scan of \<open>CheckToneModInvariant\<close>.\<close>

definition toned_vowels :: "CharState list \<Rightarrow> CharState list" where
  "toned_vowels ss = filter (\<lambda>s. IsVowel s \<and> HasTone s) ss"

definition tones_ok :: "CharState list \<Rightarrow> bool" where
  "tones_ok ss \<longleftrightarrow>
    length (toned_vowels ss) \<le> 1 \<and>
    ((\<exists>s \<in> set ss. IsVowel s \<and> HasModifier s) \<longrightarrow> (\<forall>t \<in> set (toned_vowels ss). HasModifier t))"

lemma tone_mod_scan_eq:
  "tone_mod_scan ss m t =
    (let ts = (case t of Some s \<Rightarrow> [s] | None \<Rightarrow> []) @ toned_vowels ss in
     if length ts \<le> 1 then
       Some (m \<or> (\<exists>s \<in> set ss. IsVowel s \<and> HasModifier s), if ts = [] then None else Some (hd ts))
     else None)"
  by (induction ss arbitrary: m t) (auto simp: toned_vowels_def Let_def split: option.split)

lemma CheckToneModInvariant_eq: "CheckToneModInvariant ss = tones_ok ss"
  by (cases "toned_vowels ss")
     (auto simp: CheckToneModInvariant_def tones_ok_def tone_mod_scan_eq Let_def split: if_splits)

subsection \<open>Decompositions\<close>

text \<open>Onset of the first \<open>k\<close> states, nucleus, coda.\<close>

definition nucleus :: "CharState list \<Rightarrow> nat \<Rightarrow> CharState list" where
  "nucleus ss k = takeWhile IsVowel (drop k ss)"

definition coda :: "CharState list \<Rightarrow> nat \<Rightarrow> CharState list" where
  "coda ss k = dropWhile IsVowel (drop k ss)"

lemma nucleus_coda: "ss = take k ss @ nucleus ss k @ coda ss k"
  by (simp add: nucleus_def coda_def)

definition coda_fits :: "CharState list \<Rightarrow> u32 \<Rightarrow> CharState list \<Rightarrow> bool" where
  "coda_fits ss key c \<longleftrightarrow>
    c = [] \<or>
    ParseFinalConsonant c = length c \<and>
    (GetAllowedFinals key = 0 \<or> FinalConsonantBit c (length c) = 0 \<or>
     GetAllowedFinals key AND FinalConsonantBit c (length c) \<noteq> 0) \<and>
    (IsStopFinal c (length c) \<longrightarrow> GetTone ss \<in> {ToneNone, Acute, Dot})"

text \<open>A syllable whose onset is the first \<open>k\<close> states.\<close>

definition syllable_at :: "CharState list \<Rightarrow> nat \<Rightarrow> bool" where
  "syllable_at ss k \<longleftrightarrow>
    (\<exists>key entry. vowel_key (nucleus ss k) = Some key \<and> FindVowel key = Some entry \<and>
       (coda ss k = [] \<or> canEnd entry) \<and> coda_fits ss key (coda ss k))"

lemma ParseFinalConsonant_le: "ParseFinalConsonant ss \<le> length ss"
  by (cases ss) (auto simp: ParseFinalConsonant_def Let_def)

lemma validate_final_Valid:
  assumes "validate_final ss vs key c = Valid" shows "c \<noteq> [] \<and> coda_fits ss key c"
proof -
  have "ParseFinalConsonant c \<noteq> 0" "\<not> ParseFinalConsonant c < length c"
    using assms by (auto simp: validate_final_def Let_def split: if_splits)
  then have len: "ParseFinalConsonant c = length c" "c \<noteq> []"
    using ParseFinalConsonant_le[of c] by auto
  then show ?thesis
    using assms by (auto simp: validate_final_def coda_fits_def Let_def split: if_splits)
qed

lemma ValidateDecomposition_Valid:
  assumes "ValidateDecomposition ss k = Valid" shows "syllable_at ss k"
  using assms
  unfolding ValidateDecomposition_def Let_def nucleus_def[symmetric] coda_def[symmetric]
  by (auto simp: syllable_at_def coda_fits_def dest: validate_final_Valid
      split: if_splits option.splits)

lemma vowel_key_length: "vowel_key vs = Some k \<Longrightarrow> 1 \<le> length vs \<and> length vs \<le> 3"
  by (induction vs rule: vowel_key.induct) auto

lemma ParseInitialConsonant_le: "ParseInitialConsonant ss z \<le> 3"
  by (simp add: ParseInitialConsonant_def Let_def)

text \<open>The onsets of a valid syllable: what \<open>ParseInitialConsonant\<close> found, or \<open>gi\<close>, \<open>qu\<close>, \<open>g\<close>.\<close>

definition onset_ok :: "CharState list \<Rightarrow> bool \<Rightarrow> nat \<Rightarrow> bool" where
  "onset_ok ss z k \<longleftrightarrow>
    k = ParseInitialConsonant ss z \<and> (0 < k \<or> IsVowel (ss ! 0)) \<or>
    k = 1 \<and> IsD (ss ! 0) \<or>
    (k = 1 \<or> k = 2) \<and> 2 \<le> length ss \<and> csBase (ss ! 0) = L_g \<and> csBase (ss ! 1) = L_i \<or>
    k = 2 \<and> 2 \<le> length ss \<and> csBase (ss ! 0) = L_q \<and> csBase (ss ! 1) = L_u"

lemma dual_gi_Valid:
  assumes "dual_gi ss r = Valid"
  shows "r = Valid \<or> ValidateDecomposition ss 1 = Valid \<or> ValidateDecomposition ss 2 = Valid"
  using assms by (auto simp: dual_gi_def Let_def split: if_splits)

lemma dual_qu_Valid: "dual_qu ss r = Valid \<Longrightarrow> r = Valid \<or> ValidateDecomposition ss 2 = Valid"
  by (auto simp: dual_qu_def Let_def split: if_splits)

lemma ValidateImpl_Valid:
  assumes "ValidateImpl ss z = Valid" shows "\<exists>k. onset_ok ss z k \<and> syllable_at ss k"
proof -
  define p where "p = ParseInitialConsonant ss z"
  define n where "n = (if p = 0 \<and> \<not> IsVowel (ss ! 0) then 1 else p)"
  define r where "r = ValidateDecomposition ss n"
  have eq: "ValidateImpl ss z =
    (if ss = [] then ValidPrefix
     else if p = 0 \<and> \<not> IsVowel (ss ! 0) \<and> \<not> (IsD (ss ! 0) \<and> csMod (ss ! 0) = ModNone) then Invalid
     else if 0 < n \<and> n = length ss then (if IsValidConsonantPrefix ss z then ValidPrefix else Invalid)
     else if 0 < n \<and> n < length ss \<and> \<not> IsVowel (ss ! n) then
       (if IsValidConsonantPrefix ss z then ValidPrefix else Invalid)
     else if onset_conflict ss n then Invalid
     else if 2 \<le> length ss \<and> csBase (ss ! 0) = L_g \<and> csBase (ss ! 1) = L_i \<and> IsVowel (ss ! 1)
     then dual_gi ss r
     else if 2 \<le> length ss \<and> csBase (ss ! 0) = L_q \<and> csBase (ss ! 1) = L_u then dual_qu ss r
     else r)"
    by (simp only: ValidateImpl_def Let_def p_def n_def r_def)
  have n: "onset_ok ss z n"
    using assms by (auto simp: eq onset_ok_def n_def p_def[symmetric] split: if_split_asm)
  consider (gi) "2 \<le> length ss" "csBase (ss ! 0) = L_g" "csBase (ss ! 1) = L_i" "dual_gi ss r = Valid"
    | (qu) "2 \<le> length ss" "csBase (ss ! 0) = L_q" "csBase (ss ! 1) = L_u" "dual_qu ss r = Valid"
    | (plain) "r = Valid"
    using assms by (auto simp: eq split: if_split_asm)
  then show ?thesis
  proof cases
    case gi
    with n dual_gi_Valid[OF gi(4)] ValidateDecomposition_Valid[of ss] show ?thesis
      unfolding r_def onset_ok_def by blast
  next
    case qu
    with n dual_qu_Valid[OF qu(4)] ValidateDecomposition_Valid[of ss] show ?thesis
      unfolding r_def onset_ok_def by blast
  next
    case plain
    with n ValidateDecomposition_Valid[of ss n] show ?thesis unfolding r_def by blast
  qed
qed

lemma ValidateSyllableState_Valid:
  assumes "ValidateSyllableState ss z = Valid"
  obtains k where "onset_ok ss z k" and "syllable_at ss k" and "tones_ok ss"
  using assms ValidateImpl_Valid[of ss z]
  by (auto simp: ValidateSyllableState_def CheckToneModInvariant_eq Let_def split: if_splits)

lemma onset_le: "onset_ok ss z k \<Longrightarrow> k \<le> 3"
  using ParseInitialConsonant_le[of ss z] by (auto simp: onset_ok_def)

lemma ParseFinalConsonant_le2: "ParseFinalConsonant c \<le> 2"
  by (simp add: ParseFinalConsonant_def Let_def)

lemma coda_le: "syllable_at ss k \<Longrightarrow> length (coda ss k) \<le> 2"
  using ParseFinalConsonant_le2[of "coda ss k"] by (auto simp: syllable_at_def coda_fits_def)

lemma syllable_length:
  assumes "onset_ok ss z k" and "syllable_at ss k" shows "length ss \<le> 8"
proof -
  have "length ss = min (length ss) k + length (nucleus ss k) + length (coda ss k)"
    using arg_cong[OF nucleus_coda[of ss k], of length] by simp
  moreover have "length (nucleus ss k) \<le> 3"
    using assms(2) vowel_key_length by (auto simp: syllable_at_def)
  ultimately show ?thesis using onset_le[OF assms(1)] coda_le[OF assms(2)] by linarith
qed

subsection \<open>English protection on valid syllables\<close>

lemma coda_cases:
  assumes "syllable_at ss k"
  obtains (none) "coda ss k = []"
    | (one) c where "coda ss k = [c]" "\<not> IsVowel c" "csBase c \<in> {L_c, L_k, L_m, L_n, L_p, L_t}"
    | (two) c d where "coda ss k = [c, d]" "\<not> IsVowel c" "\<not> IsVowel d"
        "(csBase c, csBase d) \<in> {(L_c, L_h), (L_n, L_g), (L_n, L_h)}"
proof -
  have fits: "coda ss k = [] \<or> ParseFinalConsonant (coda ss k) = length (coda ss k)"
    using assms by (auto simp: syllable_at_def coda_fits_def)
  have "length (coda ss k) \<le> 2" using assms by (rule coda_le)
  then consider "coda ss k = []" | c where "coda ss k = [c]" | c d where "coda ss k = [c, d]"
    by (cases "coda ss k" rule: remdups_adj.cases) auto
  then show ?thesis
  proof cases
    case (2 c)
    with fits show ?thesis
      by (intro one[of c]) (auto simp: ParseFinalConsonant_def Let_def split: if_splits)
  next
    case (3 c d)
    with fits show ?thesis
      by (intro two[of c d]) (auto simp: ParseFinalConsonant_def Let_def split: if_splits)
  qed (rule none)
qed

lemma nucleus_vowels:
  assumes "syllable_at ss k"
  shows "nucleus ss k \<noteq> []" and "\<forall>s \<in> set (nucleus ss k). IsVowel s" and "k < length ss \<and> IsVowel (ss ! k)"
proof -
  show ne: "nucleus ss k \<noteq> []" using assms by (auto simp: syllable_at_def)
  show "\<forall>s \<in> set (nucleus ss k). IsVowel s" by (auto simp: nucleus_def dest: set_takeWhileD)
  from ne have "drop k ss \<noteq> []" "IsVowel (hd (drop k ss))"
    by (cases "drop k ss"; auto simp: nucleus_def split: if_splits)+
  then show "k < length ss \<and> IsVowel (ss ! k)" by (simp add: hd_drop_conv_nth)
qed

definition initial_pairs :: "(wchar \<times> wchar) list" where
  "initial_pairs =
    [(L_c, L_h), (L_g, L_h), (L_g, L_i), (L_k, L_h), (L_n, L_g), (L_n, L_h), (L_p, L_h), (L_q, L_u),
     (L_t, L_h), (L_t, L_r)]"

lemma pair_branches:
  "1 < (if A1 then 0 else if A2 then 1 else if A3 then 0 else if L3 \<and> N0 \<and> N1 \<and> R then 3
        else if L2 \<and> V \<and> D \<and> Q then 2 else if S then 1 else 0 :: nat) \<Longrightarrow> N0 \<and> N1 \<or> Q"
  by (simp split: if_splits)

lemma ParseInitialConsonant_pair:
  assumes "1 < ParseInitialConsonant ss z"
  shows "(csBase (ss ! 0), csBase (ss ! 1)) \<in> set initial_pairs"
  using pair_branches[OF assms[unfolded ParseInitialConsonant_def Let_def]]
  by (auto simp: initial_pairs_def)

lemma initial_pairs_not_English:
  "\<forall>(c0, c1) \<in> set initial_pairs. \<not> IsHardEnglishStart c0 c1 \<and> \<not> IsQWithoutU c0 c1"
  by code_simp

lemma valid_start:
  assumes "onset_ok ss z k" and "syllable_at ss k" and "\<not> IsVowel (ss ! 0)" and "\<not> IsVowel (ss ! 1)"
    and "\<not> IsD (ss ! 0)" and "2 \<le> length ss"
  shows "\<not> IsHardEnglishStart (csBase (ss ! 0)) (csBase (ss ! 1)) \<and>
    \<not> IsQWithoutU (csBase (ss ! 0)) (csBase (ss ! 1))"
proof -
  have "k \<noteq> 0" "k \<noteq> 1" using nucleus_vowels(3)[OF assms(2)] assms(3,4) by metis+
  moreover have "IsVowel (ss ! 1)" if "csBase (ss ! 1) = L_i \<or> csBase (ss ! 1) = L_u"
    using that by (auto simp: IsVowel_def)
  ultimately have "1 < ParseInitialConsonant ss z"
    using assms(1,4) by (auto simp: onset_ok_def)
  then have "(csBase (ss ! 0), csBase (ss ! 1)) \<in> set initial_pairs"
    by (rule ParseInitialConsonant_pair)
  then show ?thesis using initial_pairs_not_English by auto
qed

lemma valid_last:
  assumes "syllable_at ss k" and "\<not> IsVowel (last ss)"
  shows "\<not> IsHardEnglishEnd (csBase (last ss))"
proof -
  have "last ss = last (coda ss k)" "coda ss k \<noteq> []"
    using assms nucleus_coda[of ss k] nucleus_vowels[OF assms(1)]
    by (metis last_append append_is_Nil_conv append_Nil2 last_in_set)+
  with assms(1) show ?thesis
    by (elim coda_cases) (auto simp: IsHardEnglishEnd_def Let_def towlower_def)
qed

lemma valid_coda:
  assumes "syllable_at ss k" shows "\<not> IsInvalidVietnameseCoda ss"
proof -
  let ?n = "k + length (nucleus ss k)"
  have k: "k < length ss" using nucleus_vowels(3)[OF assms] by simp
  have len: "length ss = ?n + length (coda ss k)" and "0 < ?n" "0 < length (nucleus ss k)"
    using arg_cong[OF nucleus_coda[of ss k], of length] k nucleus_vowels(1)[OF assms] by auto
  have nuc: "IsVowel (ss ! (?n - 1))"
  proof -
    obtain m where m: "length (nucleus ss k) = Suc m"
      using nucleus_vowels(1)[OF assms] by (cases "nucleus ss k") auto
    have "ss ! (?n - 1) = (take k ss @ nucleus ss k @ coda ss k) ! (k + m)"
      using nucleus_coda[of ss k] m by simp
    also have "\<dots> = nucleus ss k ! m" using k m by (simp add: nth_append)
    finally show ?thesis using nucleus_vowels(2)[OF assms] m by simp
  qed
  have tail: "ss ! (?n + j) = coda ss k ! j" for j
    using k by (subst nucleus_coda[of ss k]) (simp add: nth_append)
  have "\<not> IsVowel (coda ss k ! j)" if "j < length (coda ss k)" for j
    using assms by (cases rule: coda_cases) (use that in \<open>auto simp: less_Suc_eq\<close>)
  then have "\<not> IsVowel (ss ! j)" if "?n \<le> j" "j < length ss" for j
    using that tail[of "j - ?n"] len by simp
  moreover have "?n - 1 < length ss" using len \<open>0 < length (nucleus ss k)\<close> by linarith
  ultimately have stop: "coda_stop ss = Some (?n - 1)"
    using nuc \<open>0 < ?n\<close> by (auto simp: coda_stop_def last_idx_Some)
  have pair: "ss ! (length ss - 2) = coda ss k ! 0 \<and> ss ! (length ss - 1) = coda ss k ! 1"
    if "length (coda ss k) = 2"
    using tail[of 0] tail[of 1] that len by simp
  have codaLen: "length ss - 1 - (?n - 1) = length (coda ss k)"
    using len \<open>0 < ?n\<close> by simp
  show ?thesis
    using assms
    by (cases rule: coda_cases)
       (use pair codaLen in \<open>auto simp: IsInvalidVietnameseCoda_def stop Let_def towlower_def\<close>)
qed

lemma valid_not_English:
  assumes "ValidateSyllableState ss z = Valid" and "bias p \<noteq> HardEnglish"
  shows "bias (CheckEnglishBias ss p) \<noteq> HardEnglish"
proof -
  obtain k where k: "onset_ok ss z k" "syllable_at ss k"
    using assms(1) by (rule ValidateSyllableState_Valid)
  have "ss \<noteq> []" using nucleus_vowels(3)[OF k(2)] by auto
  then have "last ss = ss ! (length ss - 1)" by (rule last_conv_nth)
  then show ?thesis
    using valid_start[OF k] valid_last[OF k(2)] valid_coda[OF k(2)] assms(2)
    by (auto simp: CheckEnglishBias_def Let_def)
qed

subsection \<open>Properties\<close>

text \<open>The syllable \<open>nga\<close> with a tone, for the witnesses.\<close>

definition nga :: "CharState list" where
  "nga = [newCharState\<lparr>csBase := L_n\<rparr>, newCharState\<lparr>csBase := L_g\<rparr>,
          newCharState\<lparr>csBase := L_a, csTone := Dot\<rparr>]"

lemma nga_Valid: "ValidateSyllableState nga False = Valid"
  by code_simp

text \<open>C12: A buffer the validator accepts as a complete syllable has the shape of one: an onset, a
  nucleus of one to three vowels listed in the nucleus table and a coda of at most two consonants,
  eight letters at most; the coda is one the nucleus allows, a stopped coda has no tone but acute or
  dot, and there is at most one tone, on a modified vowel if the syllable has one.\<close>

theorem valid_syllable_shape:
  assumes "ValidateSyllableState ss zwjf = Valid"
  shows "(\<exists>k entry key. k \<le> 3 \<and> ss = take k ss @ nucleus ss k @ coda ss k \<and>
      nucleus ss k \<noteq> [] \<and> length (nucleus ss k) \<le> 3 \<and> list_all IsVowel (nucleus ss k) \<and>
      vowel_key (nucleus ss k) = Some key \<and> FindVowel key = Some entry \<and>
      length (coda ss k) \<le> 2 \<and> (coda ss k \<noteq> [] \<longrightarrow> canEnd entry) \<and> coda_fits ss key (coda ss k)) \<and>
    length ss \<le> 8 \<and> CheckToneModInvariant ss"
proof -
  obtain k where k: "onset_ok ss zwjf k" "syllable_at ss k" "tones_ok ss"
    using assms by (rule ValidateSyllableState_Valid)
  obtain key entry where at: "vowel_key (nucleus ss k) = Some key" "FindVowel key = Some entry"
      "coda ss k = [] \<or> canEnd entry" "coda_fits ss key (coda ss k)"
    using k(2) by (auto simp: syllable_at_def)
  moreover have "length (nucleus ss k) \<le> 3" using vowel_key_length[OF at(1)] by simp
  moreover have "list_all IsVowel (nucleus ss k)"
    using nucleus_vowels(2)[OF k(2)] by (simp add: list_all_iff)
  ultimately show ?thesis
    using nucleus_coda[of ss k] nucleus_vowels(1)[OF k(2)] onset_le[OF k(1)] coda_le[OF k(2)]
      syllable_length[OF k(1,2)] k(3)
    unfolding CheckToneModInvariant_eq by (intro conjI exI[of _ k] exI[of _ entry] exI[of _ key]) auto
qed

theorem valid_syllable_shape_witness: "length nga \<le> 8 \<and> CheckToneModInvariant nga"
  using valid_syllable_shape[OF nga_Valid] by blast

text \<open>The one-pass scan for misplaced tones decides the declarative condition: at most one toned
  vowel, and if any vowel carries a modifier, then so does the toned one.\<close>

theorem CheckToneModInvariant_declarative:
  "CheckToneModInvariant ss =
    (let toned = filter (\<lambda>s. IsVowel s \<and> HasTone s) ss in
     length toned \<le> 1 \<and>
     (list_ex (\<lambda>s. IsVowel s \<and> HasModifier s) ss \<longrightarrow> list_all HasModifier toned))"
  by (simp add: CheckToneModInvariant_eq tones_ok_def toned_vowels_def list_all_iff list_ex_iff Let_def)

theorem CheckToneModInvariant_declarative_witness:
  "CheckToneModInvariant nga =
    (let toned = filter (\<lambda>s. IsVowel s \<and> HasTone s) nga in
     length toned \<le> 1 \<and>
     (list_ex (\<lambda>s. IsVowel s \<and> HasModifier s) nga \<longrightarrow> list_all HasModifier toned))"
  by (rule CheckToneModInvariant_declarative)

text \<open>C17: English protection is no threat to Vietnamese: on a buffer the validator accepts, the
  combined bias check never turns a word into a hard English one.\<close>

theorem valid_syllable_never_English:
  assumes "ValidateSyllableState ss zwjf = Valid" and "bias p \<noteq> HardEnglish"
  shows "bias (CheckEnglishBias ss p) \<noteq> HardEnglish"
  using assms by (rule valid_not_English)

theorem valid_syllable_never_English_witness: "bias (CheckEnglishBias nga engProt_init) \<noteq> HardEnglish"
  by (rule valid_syllable_never_English[OF nga_Valid]) (simp add: engProt_init_def)

end
