(* ===== verification/TextPhonotactics.thy ===== *)
theory TextPhonotactics
  imports Phonotactics
begin

text \<open>
  Facts about the rendered-text half of the phonotactics engine: parsing splits a text without
  losing any of it, and ``can be completed'' is closed under prefixes, as a test that runs on every
  keystroke has to be.
\<close>

subsection \<open>Parsing\<close>

lemma Parse_parts: "psOnset (Parse t) @ psVowels (Parse t) @ psCoda (Parse t) @ psLeftover (Parse t) = t"
  by (simp add: Parse_def Let_def)

lemma Parse_shape:
  shows "\<forall>c \<in> set (psOnset (Parse t)). \<not> is_vowel_char c"
    and "\<forall>c \<in> set (psVowels (Parse t)). is_vowel_char c"
    and "\<forall>c \<in> set (psCoda (Parse t)). \<not> is_vowel_char c"
    and "length (psCoda (Parse t)) \<le> 2"
    and "psHasVowel (Parse t) = list_ex is_vowel_char t"
proof -
  have take_len: "take (length (takeWhile P ys)) xs = takeWhile P ys" if "ys = take n xs" for P n and xs ys :: wstring
    using that by (metis append_take_drop_id append_eq_conv_conj takeWhile_dropWhile_id append_assoc)
  show "\<forall>c \<in> set (psOnset (Parse t)). \<not> is_vowel_char c"
    by (auto simp: Parse_def Let_def list_ex_iff dest: set_takeWhileD)
  show "\<forall>c \<in> set (psVowels (Parse t)). is_vowel_char c"
    by (auto simp: Parse_def Let_def dest: set_takeWhileD)
  show "\<forall>c \<in> set (psCoda (Parse t)). \<not> is_vowel_char c"
    by (auto simp: Parse_def Let_def take_len dest: set_takeWhileD)
  show "length (psCoda (Parse t)) \<le> 2"
    by (auto simp: Parse_def Let_def take_len intro: order.trans[OF length_takeWhile_le])
  show "psHasVowel (Parse t) = list_ex is_vowel_char t"
    by (simp add: Parse_def Let_def)
qed

subsection \<open>Completion is closed under prefixes\<close>

text \<open>The parts of a text of the shape onset, vowels, coda.\<close>

lemma Parse_eq:
  assumes "\<forall>c \<in> set on. \<not> is_vowel_char c" and "\<forall>c \<in> set vs. is_vowel_char c" and "vs \<noteq> []"
    and "\<forall>c \<in> set cd. \<not> is_vowel_char c" and "length cd \<le> 2"
  shows "Parse (on @ vs @ cd) = \<lparr>psOnset = on, psVowels = vs, psCoda = cd, psLeftover = [], psHasVowel = True\<rparr>"
proof -
  obtain v vs' where vs: "vs = v # vs'" using assms(3) by (cases vs) auto
  have "list_ex is_vowel_char (on @ vs @ cd)" using assms(2) vs by simp
  moreover have "takeWhile (\<lambda>c. \<not> is_vowel_char c) (on @ vs @ cd) = on"
    and "dropWhile (\<lambda>c. \<not> is_vowel_char c) (on @ vs @ cd) = vs @ cd"
    using assms(1,2) vs by (simp_all add: takeWhile_append dropWhile_append)
  moreover have "takeWhile is_vowel_char (vs @ cd) = vs" "dropWhile is_vowel_char (vs @ cd) = cd"
    using assms(2,4) by (cases cd; simp add: takeWhile_append dropWhile_append)+
  moreover have "takeWhile (\<lambda>c. \<not> is_vowel_char c) (take 2 cd) = cd"
    using assms(4,5) by (simp add: takeWhile_eq_all_conv)
  ultimately show ?thesis by (simp add: Parse_def Let_def)
qed

text \<open>The declarative reading of \<open>CanComplete\<close>.\<close>

definition completable :: "wstring \<Rightarrow> bool" where
  "completable t \<longleftrightarrow>
    (\<forall>c \<in> set t. \<not> is_vowel_char c) \<and> IsKnownOnsetPrefix t \<or>
    (\<exists>on vs cd. t = on @ vs @ cd \<and> (\<forall>c \<in> set on. \<not> is_vowel_char c) \<and>
       (\<forall>c \<in> set vs. is_vowel_char c) \<and> vs \<noteq> [] \<and> (\<forall>c \<in> set cd. \<not> is_vowel_char c) \<and>
       IsKnownOnset on \<and> (cd = [] \<or> IsKnownCoda cd))"

lemma IsKnownCoda_le: "IsKnownCoda c \<Longrightarrow> length c \<le> 2"
  by (auto simp: IsKnownCoda_def kValidCodas_def)

lemma CanComplete_eq: "CanComplete t = completable t"
proof
  assume can: "CanComplete t"
  note parts = Parse_parts[of t] and shape = Parse_shape[of t]
  show "completable t"
  proof (cases "psHasVowel (Parse t)")
    case True
    then have "psVowels (Parse t) \<noteq> []"
      by (auto simp: Parse_def Let_def list_ex_iff takeWhile_eq_Nil_iff split: if_splits
          dest: hd_dropWhile)
        (metis dropWhile_eq_Nil_conv hd_dropWhile)
    moreover from True can have "psLeftover (Parse t) = []" "IsKnownOnset (psOnset (Parse t))"
      "psCoda (Parse t) = [] \<or> IsKnownCoda (psCoda (Parse t))"
      by (auto simp: CanComplete_def Let_def Parse_def split: if_splits)
    ultimately show ?thesis
      using parts shape unfolding completable_def by (metis append_Nil2)
  next
    case False
    then have "\<forall>c \<in> set t. \<not> is_vowel_char c" "psOnset (Parse t) = t"
      using shape(5) by (auto simp: list_ex_iff Parse_def)
    then show ?thesis
      using can False by (auto simp: CanComplete_def completable_def Let_def IsKnownOnsetPrefix_def split: if_splits)
  qed
next
  assume "completable t"
  then consider (onset) "\<forall>c \<in> set t. \<not> is_vowel_char c" "IsKnownOnsetPrefix t"
    | (full) on vs cd where "t = on @ vs @ cd" "\<forall>c \<in> set on. \<not> is_vowel_char c"
        "\<forall>c \<in> set vs. is_vowel_char c" "vs \<noteq> []" "\<forall>c \<in> set cd. \<not> is_vowel_char c"
        "IsKnownOnset on" "cd = [] \<or> IsKnownCoda cd"
    unfolding completable_def by blast
  then show "CanComplete t"
  proof cases
    case onset
    then have "\<not> list_ex is_vowel_char t" by (simp add: list_ex_iff)
    with onset show ?thesis by (simp add: CanComplete_def Parse_def)
  next
    case full
    then have "length cd \<le> 2" using IsKnownCoda_le by fastforce
    with full show ?thesis by (simp add: CanComplete_def Parse_eq)
  qed
qed

text \<open>The onset and the coda lexicon contain the prefixes they need.\<close>

lemma onset_butlast: "IsKnownOnset (t @ [c]) \<Longrightarrow> IsKnownOnset t"
  by (auto simp: IsKnownOnset_def kValidOnsets_def append_eq_Cons_conv)

lemma coda_butlast: "IsKnownCoda (t @ [c]) \<Longrightarrow> t = [] \<or> IsKnownCoda t"
  by (auto simp: IsKnownCoda_def kValidCodas_def append_eq_Cons_conv)

lemma IsKnownOnset_prefix:
  assumes "IsKnownOnset t" and "\<forall>c \<in> set t. \<not> is_vowel_char c" shows "IsKnownOnsetPrefix t"
proof (cases "length t = 1")
  case True
  then obtain c where "t = [c]" by (auto simp: length_Suc_conv)
  with assms show ?thesis
    by (auto simp: IsKnownOnsetPrefix_def IsKnownOnset_def kValidOnsets_def is_vowel_char_def)
qed (use assms in \<open>auto simp: IsKnownOnsetPrefix_def\<close>)

lemma onset_prefix_butlast:
  assumes "IsKnownOnsetPrefix (t @ [c])" and "\<forall>c \<in> set t. \<not> is_vowel_char c"
  shows "IsKnownOnsetPrefix t"
proof (cases t)
  case Nil
  then show ?thesis by (simp add: IsKnownOnsetPrefix_def)
next
  case (Cons a list)
  then have "IsKnownOnset (t @ [c])" using assms(1) by (simp add: IsKnownOnsetPrefix_def)
  then show ?thesis using assms(2) by (blast intro: IsKnownOnset_prefix onset_butlast)
qed

lemma completable_butlast: "completable (t @ [c]) \<Longrightarrow> completable t"
proof -
  assume "completable (t @ [c])"
  then consider (onset) "\<forall>x \<in> set (t @ [c]). \<not> is_vowel_char x" "IsKnownOnsetPrefix (t @ [c])"
    | (full) on vs cd where "t @ [c] = on @ vs @ cd" "\<forall>c \<in> set on. \<not> is_vowel_char c"
        "\<forall>c \<in> set vs. is_vowel_char c" "vs \<noteq> []" "\<forall>c \<in> set cd. \<not> is_vowel_char c"
        "IsKnownOnset on" "cd = [] \<or> IsKnownCoda cd"
    unfolding completable_def by blast
  then show "completable t"
  proof cases
    case onset
    then show ?thesis using onset_prefix_butlast[of t c] by (simp add: completable_def)
  next
    case full
    show ?thesis
    proof (cases cd rule: rev_cases)
      case (snoc cd' d)
      then have "t = on @ vs @ cd'" "cd' = [] \<or> IsKnownCoda cd'"
        using full coda_butlast[of cd' d] by auto
      then show ?thesis
        unfolding completable_def using full(2-6) snoc
        by (intro disjI2 exI[of _ on] exI[of _ vs] exI[of _ cd']) auto
    next
      case Nil
      obtain vs' v where vs: "vs = vs' @ [v]" using full(4) by (cases vs rule: rev_cases) auto
      then have t: "t = on @ vs'" using full(1) Nil by simp
      show ?thesis
      proof (cases "vs' = []")
        case True
        then show ?thesis
          using t full(2,6) IsKnownOnset_prefix[of on] by (simp add: completable_def)
      next
        case False
        then show ?thesis
          unfolding completable_def using t full(2,3,6) vs
          by (intro disjI2 exI[of _ on] exI[of _ vs'] exI[of _ "[]"]) auto
      qed
    qed
  qed
qed

lemma completable_append: "completable (t @ u) \<Longrightarrow> completable t"
  by (induction u rule: rev_induct) (auto intro: completable_butlast simp flip: append_assoc)

subsection \<open>Properties\<close>

text \<open>Parsing a text into onset, vowels, coda and rest loses nothing and misplaces nothing: the
  parts spell the text, the onset and the coda hold no vowel, the vowels nothing else, and the coda
  has at most two letters.\<close>

theorem Parse_lossless:
  "psOnset (Parse t) @ psVowels (Parse t) @ psCoda (Parse t) @ psLeftover (Parse t) = t \<and>
   \<not> list_ex is_vowel_char (psOnset (Parse t)) \<and> list_all is_vowel_char (psVowels (Parse t)) \<and>
   \<not> list_ex is_vowel_char (psCoda (Parse t)) \<and> length (psCoda (Parse t)) \<le> 2 \<and>
   psHasVowel (Parse t) = list_ex is_vowel_char t"
  using Parse_parts[of t] Parse_shape[of t] by (simp add: list_all_iff list_ex_iff)

text \<open>A text that can be completed to a syllable could be completed at every moment it was being
  typed: \<open>CanComplete\<close> holds of every prefix of a text it holds of.\<close>

theorem CanComplete_prefix_closed:
  assumes "CanComplete (t @ u)" shows "CanComplete t"
  using completable_append[of t u] assms by (simp add: CanComplete_eq)

theorem CanComplete_prefix_closed_witness: "CanComplete [L_n, L_g]"
proof -
  have "CanComplete [L_n, L_g, L_h, L_i, L_ecirc, L_n, L_g]" by code_simp
  then show ?thesis using CanComplete_prefix_closed[of "[L_n, L_g]" "[L_h, L_i, L_ecirc, L_n, L_g]"] by simp
qed

end
