(* ===== verification/TonePlacement.thy ===== *)
theory TonePlacement
  imports EngineInvariant ValidatorShape TextPhonotactics
begin

text \<open>
  Where the tone goes. The placement engine is a service behind the interface \<open>IPhonotactics\<close>; the
  locale \<open>tone_placement\<close> states what the typing engine relies on (an answer in range for every
  nucleus, horned vowels first, then circumflexed and breved ones) and derives what it gets from
  it: every buffer with a nucleus vowel has a tone target, and the target is a modified vowel
  whenever the nucleus has one. The interpretation shows that the default engine keeps the contract.
  The last section shows that the text half and the state half of the phonotactics engine read the
  same row of the rule tables.
\<close>

subsection \<open>The contract\<close>

definition vmod :: "wchar \<Rightarrow> VowelMod" where
  "vmod c = viMod (Decompose c)"

locale tone_placement =
  fixes tp :: "wstring \<Rightarrow> wstring \<Rightarrow> bool \<Rightarrow> nat option"
  assumes in_range: "tp vs cd m = Some k \<Longrightarrow> k < length vs"
    and total: "vs \<noteq> [] \<Longrightarrow> list_all is_vowel_char vs \<Longrightarrow> tp vs cd m \<noteq> None"
    and horn_first: "tp vs cd m = Some k \<Longrightarrow> list_all is_vowel_char vs \<Longrightarrow> length vs \<le> kVowelCap \<Longrightarrow>
        c \<in> set vs \<Longrightarrow> vmod c = VHorn \<Longrightarrow> vmod (vs ! k) = VHorn"
    and modified_next: "tp vs cd m = Some k \<Longrightarrow> list_all is_vowel_char vs \<Longrightarrow> length vs \<le> kVowelCap \<Longrightarrow>
        c \<in> set vs \<Longrightarrow> vmod c \<noteq> VNone \<Longrightarrow> vmod (vs ! k) \<noteq> VNone"
begin

lemma target_total:
  assumes "nucleus_indices ss \<noteq> []"
    and "list_all is_vowel_char (map (\<lambda>i. canonical_vowel (ss ! i)) (nucleus_indices ss))"
  shows "FindToneTargetWith tp m ss \<noteq> None"
proof -
  let ?vs = "map (\<lambda>i. canonical_vowel (ss ! i)) (nucleus_indices ss)"
  let ?cd = "coda_text ss (last (nucleus_indices ss))"
  obtain k where "tp ?vs ?cd m = Some k" using total[of ?vs ?cd m] assms by auto
  moreover from this have "k < length (nucleus_indices ss)" using in_range by force
  ultimately show ?thesis using assms(1) by (simp add: FindToneTargetWith_def Let_def)
qed

lemma target_answer:
  assumes "FindToneTargetWith tp m ss = Some i"
  obtains k where "tp (map (\<lambda>i. canonical_vowel (ss ! i)) (nucleus_indices ss))
      (coda_text ss (last (nucleus_indices ss))) m = Some k"
    and "k < length (nucleus_indices ss)" and "i = nucleus_indices ss ! k"
  using assms by (auto simp: FindToneTargetWith_def Let_def split: if_splits option.splits)

lemma target_modified:
  assumes "FindToneTargetWith tp m ss = Some i"
    and "list_all is_vowel_char (map (\<lambda>i. canonical_vowel (ss ! i)) (nucleus_indices ss))"
    and "j \<in> set (nucleus_indices ss)"
  shows "vmod (canonical_vowel (ss ! j)) = VHorn \<Longrightarrow> vmod (canonical_vowel (ss ! i)) = VHorn"
    and "vmod (canonical_vowel (ss ! j)) \<noteq> VNone \<Longrightarrow> vmod (canonical_vowel (ss ! i)) \<noteq> VNone"
proof -
  let ?vs = "map (\<lambda>i. canonical_vowel (ss ! i)) (nucleus_indices ss)"
  obtain k where k: "tp ?vs (coda_text ss (last (nucleus_indices ss))) m = Some k"
    "k < length (nucleus_indices ss)" "i = nucleus_indices ss ! k"
    using assms(1) by (rule target_answer)
  have "length ?vs \<le> kVowelCap" by (simp add: nucleus_indices_def)
  moreover have "canonical_vowel (ss ! j) \<in> set ?vs" using assms(3) by simp
  moreover have "?vs ! k = canonical_vowel (ss ! i)" using k(2,3) by simp
  ultimately show
    "vmod (canonical_vowel (ss ! j)) = VHorn \<Longrightarrow> vmod (canonical_vowel (ss ! i)) = VHorn"
    "vmod (canonical_vowel (ss ! j)) \<noteq> VNone \<Longrightarrow> vmod (canonical_vowel (ss ! i)) \<noteq> VNone"
    using horn_first[OF k(1) assms(2)] modified_next[OF k(1) assms(2)] by metis+
qed

end

subsection \<open>The default engine keeps it\<close>

lemma rule_answer:
  "(case p of (Some x, Some y) \<Rightarrow> (if r x y = (1 :: nat) then Some f else if r x y = 2 then Some l else None)
    | _ \<Rightarrow> None) = Some k \<Longrightarrow> k = f \<or> k = l"
  by (auto split: option.splits if_splits prod.splits)

lemma diphthong_position_bound:
  assumes "2 \<le> length vs" and "diphthong_position vs b m = Some k" shows "k < length vs"
  using rule_answer[OF assms(2)[unfolded diphthong_position_def Let_def]] assms(1)
  by (auto split: if_splits)

text \<open>The vowels the placement looks at, and its answer when none of them is modified.\<close>

definition placed_vowels :: "wstring \<Rightarrow> VowelInfo list" where
  "placed_vowels vs = take 16 (filter (\<lambda>v. viBase v \<noteq> 0) (map Decompose vs))"

definition unmarked_position :: "VowelInfo list \<Rightarrow> bool \<Rightarrow> bool \<Rightarrow> nat" where
  "unmarked_position vs codaEmpty modern =
    (let count = length vs in
     if 2 \<le> count then
       (if modern \<and> 3 \<le> count \<and>
           IsTriphthong (viBase (vs ! (count - 3))) (viBase (vs ! (count - 2))) (viBase (vs ! (count - 1)))
        then count - 2
        else if count = 3 \<and> viMod (vs ! 0) = VNone \<and> viMod (vs ! 1) = VNone \<and> viMod (vs ! 2) = VNone \<and>
           IsBareSmartTriphthongTail (viBase (vs ! 0)) (viBase (vs ! 1)) (viBase (vs ! 2))
        then count - 1
        else (case diphthong_position vs codaEmpty modern of Some i \<Rightarrow> i | None \<Rightarrow> count - 1))
     else count - 1)"

lemma Some_unmarked_position:
  "Some (unmarked_position vs b m) =
    (if 2 \<le> length vs then
       (if m \<and> 3 \<le> length vs \<and>
           IsTriphthong (viBase (vs ! (length vs - 3))) (viBase (vs ! (length vs - 2)))
             (viBase (vs ! (length vs - 1)))
        then Some (length vs - 2)
        else if length vs = 3 \<and> viMod (vs ! 0) = VNone \<and> viMod (vs ! 1) = VNone \<and> viMod (vs ! 2) = VNone \<and>
           IsBareSmartTriphthongTail (viBase (vs ! 0)) (viBase (vs ! 1)) (viBase (vs ! 2))
        then Some (length vs - 1)
        else (case diphthong_position vs b m of Some i \<Rightarrow> Some i | None \<Rightarrow> Some (length vs - 1)))
     else Some (length vs - 1))"
  by (simp only: unmarked_position_def Let_def if_distrib[of Some] option.case_distrib[of Some])

lemma TonePosition_eq:
  "TonePosition vs cd m =
    (if placed_vowels vs = [] then None
     else (case last_idx (\<lambda>i. viMod (placed_vowels vs ! i) = VHorn) (length (placed_vowels vs)) of
       Some i \<Rightarrow> Some i
     | None \<Rightarrow>
         (case first_idx (\<lambda>i. viMod (placed_vowels vs ! i) = VCircumflex \<or>
                 viMod (placed_vowels vs ! i) = VBreve) (length (placed_vowels vs)) of
            Some i \<Rightarrow> Some i
          | None \<Rightarrow> Some (unmarked_position (placed_vowels vs) (cd = []) m))))"
  by (simp only: TonePosition_def ComputeTonePosition_def Some_unmarked_position Let_def
      placed_vowels_def[symmetric] length_0_conv)

lemma unmarked_position_bound:
  assumes "ds \<noteq> []" shows "unmarked_position ds b m < length ds"
proof -
  have "0 < length ds" using assms by simp
  then show ?thesis
    using diphthong_position_bound[of ds b m]
    by (cases "diphthong_position ds b m"; cases "2 \<le> length ds") (simp_all add: unmarked_position_def Let_def)
qed

lemma placed_vowels_le: "length (placed_vowels vs) \<le> length vs"
  using order.trans[OF min.cobounded1 length_filter_le[of "\<lambda>v. viBase v \<noteq> 0" "map Decompose vs"]]
  by (simp add: placed_vowels_def)

lemma TonePosition_bound:
  assumes "TonePosition vs cd m = Some k" shows "k < length (placed_vowels vs)"
  using assms unmarked_position_bound[of "placed_vowels vs" "cd = []" m]
  by (auto simp: TonePosition_eq dest: last_idxD first_idxD split: if_split_asm option.splits)

lemma placed_all:
  assumes "list_all is_vowel_char vs" shows "placed_vowels vs = take 16 (map Decompose vs)"
proof -
  have "filter (\<lambda>v. viBase v \<noteq> 0) (map Decompose vs) = map Decompose vs"
    by (rule filter_True) (use assms in \<open>auto simp: list_all_iff is_vowel_char_def\<close>)
  then show ?thesis by (simp add: placed_vowels_def)
qed

lemma TonePosition_total:
  assumes "vs \<noteq> []" and "list_all is_vowel_char vs" shows "TonePosition vs cd m \<noteq> None"
  using assms by (simp add: TonePosition_eq placed_all Let_def split: option.split)

lemma TonePosition_horn:
  assumes "TonePosition vs cd m = Some k" and "list_all is_vowel_char vs" and "length vs \<le> kVowelCap"
    and "c \<in> set vs" and "vmod c = VHorn"
  shows "vmod (vs ! k) = VHorn"
proof -
  have ds: "placed_vowels vs = map Decompose vs"
    using assms(2,3) by (simp add: placed_all kVowelCap_def)
  obtain j where j: "j < length vs" "vmod (vs ! j) = VHorn"
    using assms(4,5) by (metis in_set_conv_nth)
  then have "last_idx (\<lambda>i. viMod (map Decompose vs ! i) = VHorn) (length vs) \<noteq> None"
    by (auto simp: last_idx_None vmod_def)
  then obtain i where i: "last_idx (\<lambda>i. viMod (map Decompose vs ! i) = VHorn) (length vs) = Some i"
    by blast
  then have "k = i" using assms(1) j by (auto simp: TonePosition_eq ds Let_def split: if_splits)
  then show ?thesis using last_idxD[OF i] by (simp add: vmod_def)
qed

lemma TonePosition_modified:
  assumes "TonePosition vs cd m = Some k" and "list_all is_vowel_char vs" and "length vs \<le> kVowelCap"
    and "c \<in> set vs" and "vmod c \<noteq> VNone"
  shows "vmod (vs ! k) \<noteq> VNone"
proof (cases "\<exists>c \<in> set vs. vmod c = VHorn")
  case True
  then show ?thesis using TonePosition_horn[OF assms(1-3)] by fastforce
next
  case False
  have ds: "placed_vowels vs = map Decompose vs"
    using assms(2,3) by (simp add: placed_all kVowelCap_def)
  from False have no_horn: "last_idx (\<lambda>i. viMod (map Decompose vs ! i) = VHorn) (length vs) = None"
    by (auto simp: last_idx_None vmod_def)
  have "vmod c = VCircumflex \<or> vmod c = VBreve" using False assms(4,5) by (cases "vmod c") auto
  then obtain j where j: "j < length vs" "vmod (vs ! j) = VCircumflex \<or> vmod (vs ! j) = VBreve"
    using assms(4) by (metis in_set_conv_nth)
  then have "first_idx (\<lambda>i. viMod (map Decompose vs ! i) = VCircumflex \<or>
      viMod (map Decompose vs ! i) = VBreve) (length vs) \<noteq> None"
    by (auto simp: first_idx_None vmod_def)
  then obtain i where i: "first_idx (\<lambda>i. viMod (map Decompose vs ! i) = VCircumflex \<or>
      viMod (map Decompose vs ! i) = VBreve) (length vs) = Some i"
    by blast
  then have "k = i" using assms(1) j by (auto simp: TonePosition_eq ds no_horn Let_def split: if_splits)
  then show ?thesis using first_idxD[OF i] by (auto simp: vmod_def)
qed

interpretation default_tone: tone_placement TonePosition
proof unfold_locales
  show "TonePosition vs cd m = Some k \<Longrightarrow> k < length vs" for vs cd m k
    using TonePosition_bound[of vs cd m k] placed_vowels_le[of vs] by simp
qed (fact TonePosition_total TonePosition_horn TonePosition_modified)+

subsection \<open>Canonical vowels\<close>

text \<open>The rendered vowel of a well-formed state decomposes into its base and modifier.\<close>

fun vowel_mod :: "Modifier \<Rightarrow> VowelMod" where
  "vowel_mod Circumflex = VCircumflex"
| "vowel_mod Breve = VBreve"
| "vowel_mod Horn = VHorn"
| "vowel_mod ModNone = VNone"
| "vowel_mod Stroke = VNone"

lemma canonical_vowel_eq: "IsVowel s \<Longrightarrow> canonical_vowel s = apply_mod s"
  by (auto simp: canonical_vowel_def Compose_def IsEmpty_def IsD_def IsVowel_def apply_tone_def Let_def)

lemma Decompose_canonical:
  assumes "state_wf s" and "IsVowel s"
  shows "Decompose (canonical_vowel s) = VI (csBase s) (vowel_mod (csMod s))"
proof -
  have "state_ok s" using assms(1) by (simp add: state_wf_def)
  then show ?thesis
    using assms(2)
    by (cases "csMod s"; auto simp: canonical_vowel_eq apply_mod_eq state_ok_def mod_fits_def
        Decompose_def IsVowel_def)
qed

lemma canonical_is_vowel: "state_wf s \<Longrightarrow> IsVowel s \<Longrightarrow> is_vowel_char (canonical_vowel s)"
  by (simp add: is_vowel_char_def Decompose_canonical) (simp add: IsVowel_def state_wf_def)

lemma vmod_canonical: "state_wf s \<Longrightarrow> IsVowel s \<Longrightarrow> vmod (canonical_vowel s) = vowel_mod (csMod s)"
  by (simp add: vmod_def Decompose_canonical)

lemma nucleus_indicesD:
  "i \<in> set (nucleus_indices ss) \<Longrightarrow> i < length ss \<and> IsVowel (ss ! i) \<and> \<not> IsClusterConsonant ss i"
  by (auto simp: nucleus_indices_def dest: in_set_takeD)

lemma canonical_nucleus:
  assumes "list_all state_wf ss"
  shows "list_all is_vowel_char (map (\<lambda>i. canonical_vowel (ss ! i)) (nucleus_indices ss))"
  using assms nucleus_indicesD[of _ ss] by (auto simp: list_all_iff intro: canonical_is_vowel)

subsection \<open>What the engine gets\<close>

lemma FindToneTarget_total:
  "list_all state_wf ss \<Longrightarrow> nucleus_indices ss \<noteq> [] \<Longrightarrow> FindToneTarget m ss \<noteq> None"
  unfolding FindToneTarget_def by (intro default_tone.target_total canonical_nucleus)

lemma FindToneTarget_modified:
  assumes "list_all state_wf ss" and "FindToneTarget m ss = Some i" and "j \<in> set (nucleus_indices ss)"
  shows "csMod (ss ! j) = Horn \<Longrightarrow> csMod (ss ! i) = Horn"
    and "HasModifier (ss ! j) \<Longrightarrow> HasModifier (ss ! i)"
proof -
  have i: "i < length ss" "IsVowel (ss ! i)" and j: "j < length ss" "IsVowel (ss ! j)"
    using FindToneTarget_Some[OF assms(2)] nucleus_indicesD[OF assms(3)] by auto
  have wf: "state_wf (ss ! i)" "state_wf (ss ! j)" using assms(1) i j by (auto simp: list_all_length)
  have fits: "csMod s \<noteq> Stroke" if "state_wf s" "IsVowel s" for s
    using that by (auto simp: state_wf_def state_ok_def mod_fits_def IsVowel_def)
  have eq: "vmod (canonical_vowel (ss ! i)) = vowel_mod (csMod (ss ! i))"
    "vmod (canonical_vowel (ss ! j)) = vowel_mod (csMod (ss ! j))"
    using wf i j by (simp_all add: vmod_canonical)
  note t = default_tone.target_modified[OF assms(2)[unfolded FindToneTarget_def]
      canonical_nucleus[OF assms(1)] assms(3), unfolded eq]
  show "csMod (ss ! j) = Horn \<Longrightarrow> csMod (ss ! i) = Horn"
    using t(1) by (cases "csMod (ss ! i)") auto
  show "HasModifier (ss ! j) \<Longrightarrow> HasModifier (ss ! i)"
    using t(2) fits[OF wf(2) j(2)] by (cases "csMod (ss ! i)"; cases "csMod (ss ! j)") (auto simp: HasModifier_def)
qed

subsection \<open>The two halves read the same tables\<close>

lemma vowel_mod_ordinal: "vowel_mod_value (vowel_mod m) = ModOrdinal m"
  by (cases m) simp_all

lemma BaseIndex_vowel: "IsVowel s \<Longrightarrow> BaseIndex (csBase s) \<noteq> 0xFF"
  by (auto simp: IsVowel_def BaseIndex_def k_defs)

lemma nucleus_slots_canonical:
  "state_wf s \<Longrightarrow> IsVowel s \<Longrightarrow> length acc < 3 \<Longrightarrow>
   nucleus_slots (canonical_vowel s # chs) acc =
   nucleus_slots chs (acc @ [VowelSlot (BaseIndex (csBase s)) (ModOrdinal (csMod s))])"
  using BaseIndex_vowel[of s]
  by (simp add: Decompose_canonical vowel_mod_ordinal kInvalidBaseIndex_def Let_def) (simp add: state_wf_def)

lemma vowel_key_agrees:
  assumes "list_all state_wf vs" and "list_all IsVowel vs" and "vowel_key vs = Some key"
  shows "WstringViewToVowelKey (map canonical_vowel vs) = key"
proof -
  consider v0 where "vs = [v0]" | v0 v1 where "vs = [v0, v1]" | v0 v1 v2 where "vs = [v0, v1, v2]"
    using vowel_key_length[OF assms(3)] by (cases vs rule: vowel_key.cases) auto
  then show ?thesis
    using assms
    by cases (auto simp: WstringViewToVowelKey_def nucleus_slots_canonical BaseIndex_vowel Let_def
        simp del: nucleus_slots.simps(2))
qed

lemma final_bit_agrees:
  "length c \<le> 2 \<Longrightarrow> c \<noteq> [] \<Longrightarrow> CodaToFinalBit (map csBase c) = FinalConsonantBit c (length c)"
  by (cases c rule: remdups_adj.cases) (auto simp: CodaToFinalBit_def FinalConsonantBit_def Let_def)

lemma coda_rule_agrees:
  assumes "list_all state_wf ss" and "syllable_at ss k"
  shows "IsCodaValidForNucleus DefaultPhonologyRules (map canonical_vowel (nucleus ss k)) (map csBase (coda ss k))"
proof (cases "coda ss k = []")
  case False
  obtain key where key: "vowel_key (nucleus ss k) = Some key" and fits: "coda_fits ss key (coda ss k)"
    using assms(2) by (auto simp: syllable_at_def)
  have "list_all state_wf (nucleus ss k)"
    using assms(1) by (auto simp: list_all_iff nucleus_def dest: set_takeWhileD in_set_dropD)
  moreover have "list_all IsVowel (nucleus ss k)"
    using nucleus_vowels(2)[OF assms(2)] by (simp add: list_all_iff)
  ultimately have "WstringViewToVowelKey (map canonical_vowel (nucleus ss k)) = key"
    using key by (rule vowel_key_agrees)
  moreover have "CodaToFinalBit (map csBase (coda ss k)) = FinalConsonantBit (coda ss k) (length (coda ss k))"
    using coda_le[OF assms(2)] False by (rule final_bit_agrees)
  ultimately show ?thesis
    using fits False
    by (auto simp: IsCodaValidForNucleus_def DefaultPhonologyRules_def coda_fits_def Let_def)
qed (simp add: IsCodaValidForNucleus_def)

subsection \<open>Properties\<close>

text \<open>C10: Every buffer with a nucleus vowel has a place for the tone. The place is a vowel of the
  nucleus, never the glide of a \<open>gi\<close> or \<open>qu\<close> onset, and it is a horned vowel if the nucleus has
  one, and a modified one if it has one.\<close>

theorem tone_target_sound:
  assumes "list_all state_wf ss" and "j \<in> set (nucleus_indices ss)"
  shows "\<exists>i. FindToneTarget modern ss = Some i \<and> i < length ss \<and> IsVowel (ss ! i) \<and>
    \<not> IsClusterConsonant ss i \<and> (IsHorn (ss ! j) \<longrightarrow> IsHorn (ss ! i)) \<and>
    (HasModifier (ss ! j) \<longrightarrow> HasModifier (ss ! i))"
proof -
  obtain i where i: "FindToneTarget modern ss = Some i"
    using FindToneTarget_total[OF assms(1)] assms(2) by fastforce
  then show ?thesis
    using FindToneTarget_Some[OF i] FindToneTarget_modified[OF assms(1) i assms(2)]
    by (auto simp: IsHorn_def)
qed

theorem tone_target_sound_witness: "\<exists>i. FindToneTarget True nga = Some i \<and> IsVowel (nga ! i)"
proof -
  have "list_all state_wf nga \<and> 2 \<in> set (nucleus_indices nga)" by code_simp
  then show ?thesis using tone_target_sound[of nga 2 True] by blast
qed

text \<open>C20: The placement engine answers with a position inside the vowel sequence, and it answers
  whenever the sequence holds a vowel at all.\<close>

theorem TonePosition_in_range:
  assumes "list_ex is_vowel_char vowelSeq"
  shows "\<exists>k. TonePosition vowelSeq coda' modern = Some k \<and> k < length vowelSeq \<and> k < 16"
proof -
  have "placed_vowels vowelSeq \<noteq> []"
    using assms by (auto simp: placed_vowels_def filter_empty_conv list_ex_iff is_vowel_char_def)
  then have "TonePosition vowelSeq coda' modern \<noteq> None" by (simp add: TonePosition_eq split: option.split)
  then obtain k where k: "TonePosition vowelSeq coda' modern = Some k" by blast
  have "length (placed_vowels vowelSeq) \<le> 16" by (simp add: placed_vowels_def)
  then show ?thesis using TonePosition_bound[OF k] placed_vowels_le[of vowelSeq] k by auto
qed

theorem TonePosition_in_range_witness: "\<exists>k. TonePosition [L_i, L_ecirc] [L_t] True = Some k \<and> k < 2"
  using TonePosition_in_range[of "[L_i, L_ecirc]" "[L_t]" True]
  by (auto simp: is_vowel_char_def Decompose_def)

text \<open>The two halves of the phonotactics engine agree on codas: the packed key of a rendered
  nucleus is the key of the states it was rendered from, and every coda the state validator accepts
  passes the coda rule of the text half.\<close>

theorem coda_rules_agree:
  assumes "list_all state_wf ss" and "ValidateSyllableState ss zwjf = Valid"
  shows "\<exists>k key. vowel_key (nucleus ss k) = Some key \<and>
    WstringViewToVowelKey (map canonical_vowel (nucleus ss k)) = key \<and>
    IsCodaValidForNucleus DefaultPhonologyRules (map canonical_vowel (nucleus ss k)) (map csBase (coda ss k))"
proof -
  obtain k where k: "syllable_at ss k" using assms(2) by (rule ValidateSyllableState_Valid)
  then obtain key where key: "vowel_key (nucleus ss k) = Some key" by (auto simp: syllable_at_def)
  have "list_all state_wf (nucleus ss k)"
    using assms(1) by (auto simp: list_all_iff nucleus_def dest: set_takeWhileD in_set_dropD)
  moreover have "list_all IsVowel (nucleus ss k)" using nucleus_vowels(2)[OF k] by (simp add: list_all_iff)
  ultimately show ?thesis using vowel_key_agrees key coda_rule_agrees[OF assms(1) k] by blast
qed

theorem coda_rules_agree_witness:
  "\<exists>k. IsCodaValidForNucleus DefaultPhonologyRules (map canonical_vowel (nucleus nga k)) (map csBase (coda nga k))"
proof -
  have "list_all state_wf nga" by code_simp
  then show ?thesis using coda_rules_agree[OF _ nga_Valid] by blast
qed

end
