(* ===== verification/CodeTables.thy ===== *)
theory CodeTables
  imports VietnameseTables TypingActions
begin

text \<open>
  Legacy Vietnamese code tables (\<open>core/engine/CodeTableConverter.cpp\<close>): TCVN3, VNI Windows, Unicode
  compound and code page 1258. A character encodes to one or two units; the reverse maps are built by
  iterating over the forward maps. An \<open>unordered_map\<close> is its list of entries, in an order the C++
  library does not specify, so the builders of the reverse maps take the list as an argument; the
  maps they fill are functions. A code unit has 16 bits, so \<open>first << 16 | second\<close> is
  \<open>first * 65536 + second\<close>.
\<close>

record EncodedChar =
  unit0 :: wchar
  unit1 :: wchar
  unitCount :: nat

abbreviation one_unit :: "wchar \<Rightarrow> EncodedChar" where
  "one_unit ch \<equiv> \<lparr>unit0 = ch, unit1 = 0, unitCount = 1\<rparr>"

type_synonym CodeMap = "(wchar \<times> int) list"
type_synonym ReverseMap = "int \<Rightarrow> wchar option"

subsection \<open>The forward maps\<close>

definition kTcvn3Map :: CodeMap where
  "kTcvn3Map =
    [(0xC2, 0xA2), (0xE2, 0xA9), (0x0102, 0xA1), (0x0103, 0xA8), (0xC1, 0xB8),
     (0xE1, 0xB8), (0xC0, 0xB5), (0xE0, 0xB5), (0x1EA2, 0xB6), (0x1EA3, 0xB6),
     (0xC3, 0xB7), (0xE3, 0xB7), (0x1EA0, 0xB9), (0x1EA1, 0xB9), (0xD4, 0xA4),
     (0xF4, 0xAB), (0x01A0, 0xA5), (0x01A1, 0xAC), (0xD3, 0xE3), (0xF3, 0xE3),
     (0xD2, 0xDF), (0xF2, 0xDF), (0x1ECE, 0xE1), (0x1ECF, 0xE1), (0xD5, 0xE2),
     (0xF5, 0xE2), (0x1ECC, 0xE4), (0x1ECD, 0xE4), (0x01AF, 0xA6), (0x01B0, 0xAD),
     (0xDA, 0xF3), (0xFA, 0xF3), (0xD9, 0xEF), (0xF9, 0xEF), (0x1EE6, 0xF1),
     (0x1EE7, 0xF1), (0x0168, 0xF2), (0x0169, 0xF2), (0x1EE4, 0xF4), (0x1EE5, 0xF4),
     (0xCA, 0xA3), (0xEA, 0xAA), (0xC9, 0xD0), (0xE9, 0xD0), (0xC8, 0xCC),
     (0xE8, 0xCC), (0x1EBA, 0xCE), (0x1EBB, 0xCE), (0x1EBC, 0xCF), (0x1EBD, 0xCF),
     (0x1EB8, 0xD1), (0x1EB9, 0xD1), (0x0110, 0xA7), (0x0111, 0xAE), (0x1EA4, 0xCA),
     (0x1EA5, 0xCA), (0x1EA6, 0xC7), (0x1EA7, 0xC7), (0x1EA8, 0xC8), (0x1EA9, 0xC8),
     (0x1EAA, 0xC9), (0x1EAB, 0xC9), (0x1EAC, 0xCB), (0x1EAD, 0xCB), (0x1EAE, 0xBE),
     (0x1EAF, 0xBE), (0x1EB0, 0xBB), (0x1EB1, 0xBB), (0x1EB2, 0xBC), (0x1EB3, 0xBC),
     (0x1EB4, 0xBD), (0x1EB5, 0xBD), (0x1EB6, 0xC6), (0x1EB7, 0xC6), (0x1ED0, 0xE8),
     (0x1ED1, 0xE8), (0x1ED2, 0xE5), (0x1ED3, 0xE5), (0x1ED4, 0xE6), (0x1ED5, 0xE6),
     (0x1ED6, 0xE7), (0x1ED7, 0xE7), (0x1ED8, 0xE9), (0x1ED9, 0xE9), (0x1EDA, 0xED),
     (0x1EDB, 0xED), (0x1EDC, 0xEA), (0x1EDD, 0xEA), (0x1EDE, 0xEB), (0x1EDF, 0xEB),
     (0x1EE0, 0xEC), (0x1EE1, 0xEC), (0x1EE2, 0xEE), (0x1EE3, 0xEE), (0x1EE8, 0xF8),
     (0x1EE9, 0xF8), (0x1EEA, 0xF5), (0x1EEB, 0xF5), (0x1EEC, 0xF6), (0x1EED, 0xF6),
     (0x1EEE, 0xF7), (0x1EEF, 0xF7), (0x1EF0, 0xF9), (0x1EF1, 0xF9), (0x1EBE, 0xD5),
     (0x1EBF, 0xD5), (0x1EC0, 0xD2), (0x1EC1, 0xD2), (0x1EC2, 0xD3), (0x1EC3, 0xD3),
     (0x1EC4, 0xD4), (0x1EC5, 0xD4), (0x1EC6, 0xD6), (0x1EC7, 0xD6), (0xCD, 0xDD),
     (0xED, 0xDD), (0xCC, 0xD7), (0xEC, 0xD7), (0x1EC8, 0xD8), (0x1EC9, 0xD8),
     (0x0128, 0xDC), (0x0129, 0xDC), (0x1ECA, 0xDE), (0x1ECB, 0xDE), (0xDD, 0xFD),
     (0xFD, 0xFD), (0x1EF2, 0xFA), (0x1EF3, 0xFA), (0x1EF6, 0xFB), (0x1EF7, 0xFB),
     (0x1EF8, 0xFC), (0x1EF9, 0xFC), (0x1EF4, 0xFE), (0x1EF5, 0xFE)]"

definition kVniMap :: CodeMap where
  "kVniMap =
    [(0xC2, 0xC241), (0xE2, 0xE261), (0x0102, 0xCA41), (0x0103, 0xEA61), (0xC1, 0xD941),
     (0xE1, 0xF961), (0xC0, 0xD841), (0xE0, 0xF861), (0x1EA2, 0xDB41), (0x1EA3, 0xFB61),
     (0xC3, 0xD541), (0xE3, 0xF561), (0x1EA0, 0xCF41), (0x1EA1, 0xEF61), (0xD4, 0xC24F),
     (0xF4, 0xE26F), (0x01A0, 0xD4), (0x01A1, 0xF4), (0xD3, 0xD94F), (0xF3, 0xF96F),
     (0xD2, 0xD84F), (0xF2, 0xF86F), (0x1ECE, 0xDB4F), (0x1ECF, 0xFB6F), (0xD5, 0xD54F),
     (0xF5, 0xF56F), (0x1ECC, 0xCF4F), (0x1ECD, 0xEF6F), (0x01AF, 0xD6), (0x01B0, 0xF6),
     (0xDA, 0xD955), (0xFA, 0xF975), (0xD9, 0xD855), (0xF9, 0xF875), (0x1EE6, 0xDB55),
     (0x1EE7, 0xFB75), (0x0168, 0xD555), (0x0169, 0xF575), (0x1EE4, 0xCF55), (0x1EE5, 0xEF75),
     (0xCA, 0xC245), (0xEA, 0xE265), (0xC9, 0xD945), (0xE9, 0xF965), (0xC8, 0xD845),
     (0xE8, 0xF865), (0x1EBA, 0xDB45), (0x1EBB, 0xFB65), (0x1EBC, 0xD545), (0x1EBD, 0xF565),
     (0x1EB8, 0xCF45), (0x1EB9, 0xEF65), (0x0110, 0xD1), (0x0111, 0xF1), (0x1EA4, 0xC141),
     (0x1EA5, 0xE161), (0x1EA6, 0xC041), (0x1EA7, 0xE061), (0x1EA8, 0xC541), (0x1EA9, 0xE561),
     (0x1EAA, 0xC341), (0x1EAB, 0xE361), (0x1EAC, 0xC441), (0x1EAD, 0xE461), (0x1EAE, 0xC941),
     (0x1EAF, 0xE961), (0x1EB0, 0xC841), (0x1EB1, 0xE861), (0x1EB2, 0xDA41), (0x1EB3, 0xFA61),
     (0x1EB4, 0xDC41), (0x1EB5, 0xFC61), (0x1EB6, 0xCB41), (0x1EB7, 0xEB61), (0x1ED0, 0xC14F),
     (0x1ED1, 0xE16F), (0x1ED2, 0xC04F), (0x1ED3, 0xE06F), (0x1ED4, 0xC54F), (0x1ED5, 0xE56F),
     (0x1ED6, 0xC34F), (0x1ED7, 0xE36F), (0x1ED8, 0xC44F), (0x1ED9, 0xE46F), (0x1EDA, 0xD9D4),
     (0x1EDB, 0xF9F4), (0x1EDC, 0xD8D4), (0x1EDD, 0xF8F4), (0x1EDE, 0xDBD4), (0x1EDF, 0xFBF4),
     (0x1EE0, 0xD5D4), (0x1EE1, 0xF5F4), (0x1EE2, 0xCFD4), (0x1EE3, 0xEFF4), (0x1EE8, 0xD9D6),
     (0x1EE9, 0xF9F6), (0x1EEA, 0xD8D6), (0x1EEB, 0xF8F6), (0x1EEC, 0xDBD6), (0x1EED, 0xFBF6),
     (0x1EEE, 0xD5D6), (0x1EEF, 0xF5F6), (0x1EF0, 0xCFD6), (0x1EF1, 0xEFF6), (0x1EBE, 0xC145),
     (0x1EBF, 0xE165), (0x1EC0, 0xC045), (0x1EC1, 0xE065), (0x1EC2, 0xC545), (0x1EC3, 0xE565),
     (0x1EC4, 0xC345), (0x1EC5, 0xE365), (0x1EC6, 0xC445), (0x1EC7, 0xE465), (0xCD, 0xCD),
     (0xED, 0xED), (0xCC, 0xCC), (0xEC, 0xEC), (0x1EC8, 0xC6), (0x1EC9, 0xE6),
     (0x0128, 0xD3), (0x0129, 0xF3), (0x1ECA, 0xD2), (0x1ECB, 0xF2), (0xDD, 0xD959),
     (0xFD, 0xF979), (0x1EF2, 0xD859), (0x1EF3, 0xF879), (0x1EF6, 0xDB59), (0x1EF7, 0xFB79),
     (0x1EF8, 0xD559), (0x1EF9, 0xF579), (0x1EF4, 0xCE), (0x1EF5, 0xEE)]"

definition kUnicodeCompoundMap :: CodeMap where
  "kUnicodeCompoundMap =
    [(0xC2, 0xC2), (0xE2, 0xE2), (0x0102, 0x0102), (0x0103, 0x0103), (0xC1, 0x2041),
     (0xE1, 0x2061), (0xC0, 0x4041), (0xE0, 0x4061), (0x1EA2, 0x6041), (0x1EA3, 0x6061),
     (0xC3, 0x8041), (0xE3, 0x8061), (0x1EA0, 0xA041), (0x1EA1, 0xA061), (0xD4, 0xD4),
     (0xF4, 0xF4), (0x01A0, 0x01A0), (0x01A1, 0x01A1), (0xD3, 0x204F), (0xF3, 0x206F),
     (0xD2, 0x404F), (0xF2, 0x406F), (0x1ECE, 0x604F), (0x1ECF, 0x606F), (0xD5, 0x804F),
     (0xF5, 0x806F), (0x1ECC, 0xA04F), (0x1ECD, 0xA06F), (0x01AF, 0x01AF), (0x01B0, 0x01B0),
     (0xDA, 0x2055), (0xFA, 0x2075), (0xD9, 0x4055), (0xF9, 0x4075), (0x1EE6, 0x6055),
     (0x1EE7, 0x6075), (0x0168, 0x8055), (0x0169, 0x8075), (0x1EE4, 0xA055), (0x1EE5, 0xA075),
     (0xCA, 0xCA), (0xEA, 0xEA), (0xC9, 0x2045), (0xE9, 0x2065), (0xC8, 0x4045),
     (0xE8, 0x4065), (0x1EBA, 0x6045), (0x1EBB, 0x6065), (0x1EBC, 0x8045), (0x1EBD, 0x8065),
     (0x1EB8, 0xA045), (0x1EB9, 0xA065), (0x0110, 0x0110), (0x0111, 0x0111), (0x1EA4, 0x20C2),
     (0x1EA5, 0x20E2), (0x1EA6, 0x40C2), (0x1EA7, 0x40E2), (0x1EA8, 0x60C2), (0x1EA9, 0x60E2),
     (0x1EAA, 0x80C2), (0x1EAB, 0x80E2), (0x1EAC, 0xA0C2), (0x1EAD, 0xA0E2), (0x1EAE, 0x2102),
     (0x1EAF, 0x2103), (0x1EB0, 0x4102), (0x1EB1, 0x4103), (0x1EB2, 0x6102), (0x1EB3, 0x6103),
     (0x1EB4, 0x8102), (0x1EB5, 0x8103), (0x1EB6, 0xA102), (0x1EB7, 0xA103), (0x1ED0, 0x20D4),
     (0x1ED1, 0x20F4), (0x1ED2, 0x40D4), (0x1ED3, 0x40F4), (0x1ED4, 0x60D4), (0x1ED5, 0x60F4),
     (0x1ED6, 0x80D4), (0x1ED7, 0x80F4), (0x1ED8, 0xA0D4), (0x1ED9, 0xA0F4), (0x1EDA, 0x21A0),
     (0x1EDB, 0x21A1), (0x1EDC, 0x41A0), (0x1EDD, 0x41A1), (0x1EDE, 0x61A0), (0x1EDF, 0x61A1),
     (0x1EE0, 0x81A0), (0x1EE1, 0x81A1), (0x1EE2, 0xA1A0), (0x1EE3, 0xA1A1), (0x1EE8, 0x21AF),
     (0x1EE9, 0x21B0), (0x1EEA, 0x41AF), (0x1EEB, 0x41B0), (0x1EEC, 0x61AF), (0x1EED, 0x61B0),
     (0x1EEE, 0x81AF), (0x1EEF, 0x81B0), (0x1EF0, 0xA1AF), (0x1EF1, 0xA1B0), (0x1EBE, 0x20CA),
     (0x1EBF, 0x20EA), (0x1EC0, 0x40CA), (0x1EC1, 0x40EA), (0x1EC2, 0x60CA), (0x1EC3, 0x60EA),
     (0x1EC4, 0x80CA), (0x1EC5, 0x80EA), (0x1EC6, 0xA0CA), (0x1EC7, 0xA0EA), (0xCD, 0x2049),
     (0xED, 0x2069), (0xCC, 0x4049), (0xEC, 0x4069), (0x1EC8, 0x6049), (0x1EC9, 0x6069),
     (0x0128, 0x8049), (0x0129, 0x8069), (0x1ECA, 0xA049), (0x1ECB, 0xA069), (0xDD, 0x2059),
     (0xFD, 0x2079), (0x1EF2, 0x4059), (0x1EF3, 0x4079), (0x1EF6, 0x6059), (0x1EF7, 0x6079),
     (0x1EF8, 0x8059), (0x1EF9, 0x8079), (0x1EF4, 0xA059), (0x1EF5, 0xA079)]"

definition kCp1258Map :: CodeMap where
  "kCp1258Map =
    [(0xC2, 0xC2), (0xE2, 0xE2), (0x0102, 0xC3), (0x0103, 0xE3), (0xC1, 0xEC41),
     (0xE1, 0xEC61), (0xC0, 0xCC41), (0xE0, 0xCC61), (0x1EA2, 0xD241), (0x1EA3, 0xD261),
     (0xC3, 0xDE41), (0xE3, 0xDE61), (0x1EA0, 0xF241), (0x1EA1, 0xF261), (0xD4, 0xD4),
     (0xF4, 0xF4), (0x01A0, 0xD5), (0x01A1, 0xF5), (0xD3, 0xEC4F), (0xF3, 0xEC6F),
     (0xD2, 0xCC4F), (0xF2, 0xCC6F), (0x1ECE, 0xD24F), (0x1ECF, 0xD26F), (0xD5, 0xDE4F),
     (0xF5, 0xDE6F), (0x1ECC, 0xF24F), (0x1ECD, 0xF26F), (0x01AF, 0xDD), (0x01B0, 0xFD),
     (0xDA, 0xEC55), (0xFA, 0xEC75), (0xD9, 0xCC55), (0xF9, 0xCC75), (0x1EE6, 0xD255),
     (0x1EE7, 0xD275), (0x0168, 0xDE55), (0x0169, 0xDE75), (0x1EE4, 0xF255), (0x1EE5, 0xF275),
     (0xCA, 0xCA), (0xEA, 0xEA), (0xC9, 0xEC45), (0xE9, 0xEC65), (0xC8, 0xCC45),
     (0xE8, 0xCC65), (0x1EBA, 0xD245), (0x1EBB, 0xD265), (0x1EBC, 0xDE45), (0x1EBD, 0xDE65),
     (0x1EB8, 0xF245), (0x1EB9, 0xF265), (0x0110, 0xD0), (0x0111, 0xF0), (0x1EA4, 0xECC2),
     (0x1EA5, 0xECE2), (0x1EA6, 0xCCC2), (0x1EA7, 0xCCE2), (0x1EA8, 0xD2C2), (0x1EA9, 0xD2E2),
     (0x1EAA, 0xDEC2), (0x1EAB, 0xDEE2), (0x1EAC, 0xF2C2), (0x1EAD, 0xF2E2), (0x1EAE, 0xECC3),
     (0x1EAF, 0xECE3), (0x1EB0, 0xCCC3), (0x1EB1, 0xCCE3), (0x1EB2, 0xD2C3), (0x1EB3, 0xD2E3),
     (0x1EB4, 0xDEC3), (0x1EB5, 0xDEE3), (0x1EB6, 0xF2C3), (0x1EB7, 0xF2E3), (0x1ED0, 0xECD4),
     (0x1ED1, 0xECF4), (0x1ED2, 0xCCD4), (0x1ED3, 0xCCF4), (0x1ED4, 0xD2D4), (0x1ED5, 0xD2F4),
     (0x1ED6, 0xDED4), (0x1ED7, 0xDEF4), (0x1ED8, 0xF2D4), (0x1ED9, 0xF2F4), (0x1EDA, 0xECD5),
     (0x1EDB, 0xECF5), (0x1EDC, 0xCCD5), (0x1EDD, 0xCCF5), (0x1EDE, 0xD2D5), (0x1EDF, 0xD2F5),
     (0x1EE0, 0xDED5), (0x1EE1, 0xDEF5), (0x1EE2, 0xF2D5), (0x1EE3, 0xF2F5), (0x1EE8, 0xECDD),
     (0x1EE9, 0xECFD), (0x1EEA, 0xCCDD), (0x1EEB, 0xCCFD), (0x1EEC, 0xD2DD), (0x1EED, 0xD2FD),
     (0x1EEE, 0xDEDD), (0x1EEF, 0xDEFD), (0x1EF0, 0xF2DD), (0x1EF1, 0xF2FD), (0x1EBE, 0xECCA),
     (0x1EBF, 0xECEA), (0x1EC0, 0xCCCA), (0x1EC1, 0xCCEA), (0x1EC2, 0xD2CA), (0x1EC3, 0xD2EA),
     (0x1EC4, 0xDECA), (0x1EC5, 0xDEEA), (0x1EC6, 0xF2CA), (0x1EC7, 0xF2EA), (0xCD, 0xEC49),
     (0xED, 0xEC69), (0xCC, 0xCC49), (0xEC, 0xCC69), (0x1EC8, 0xD249), (0x1EC9, 0xD269),
     (0x0128, 0xDE49), (0x0129, 0xDE69), (0x1ECA, 0xF249), (0x1ECB, 0xF269), (0xDD, 0xEC59),
     (0xFD, 0xEC79), (0x1EF2, 0xCC59), (0x1EF3, 0xCC79), (0x1EF6, 0xD259), (0x1EF7, 0xD279),
     (0x1EF8, 0xDE59), (0x1EF9, 0xDE79), (0x1EF4, 0xF259), (0x1EF5, 0xF279)]"

subsection \<open>Encoding\<close>

definition kCombiningMarks :: "wchar list" where
  "kCombiningMarks = [0x0301, 0x0300, 0x0309, 0x0303, 0x0323]"

definition LoByte :: "int \<Rightarrow> int" where
  "LoByte v = v mod 256"

definition HiByte :: "int \<Rightarrow> int" where
  "HiByte v = v div 256 mod 256"

definition DecodeLoHi :: "int \<Rightarrow> EncodedChar" where
  "DecodeLoHi v =
    (if v \<le> 0xFF then one_unit v
     else \<lparr>unit0 = LoByte v, unit1 = HiByte v, unitCount = 2\<rparr>)"

definition DecodeCompound :: "int \<Rightarrow> EncodedChar" where
  "DecodeCompound v =
    (let hi = HiByte v; lo = LoByte v in
     if hi < 0x20 then one_unit v
     else (let markIndex = hi div 32 - 1 in
       if 0 \<le> markIndex \<and> markIndex < 5
       then \<lparr>unit0 = lo, unit1 = kCombiningMarks ! nat markIndex, unitCount = 2\<rparr>
       else one_unit v))"

definition ConvertChar :: "wchar \<Rightarrow> CodeTable \<Rightarrow> EncodedChar" where
  "ConvertChar ch table =
    (case table of
       Unicode \<Rightarrow> one_unit ch
     | TCVN3 \<Rightarrow> (case map_of kTcvn3Map ch of Some v \<Rightarrow> one_unit v | None \<Rightarrow> one_unit ch)
     | VNIWindows \<Rightarrow> (case map_of kVniMap ch of Some v \<Rightarrow> DecodeLoHi v | None \<Rightarrow> one_unit ch)
     | UnicodeCompound \<Rightarrow>
         (case map_of kUnicodeCompoundMap ch of Some v \<Rightarrow> DecodeCompound v | None \<Rightarrow> one_unit ch)
     | VietnameseLocale \<Rightarrow> (case map_of kCp1258Map ch of Some v \<Rightarrow> DecodeLoHi v | None \<Rightarrow> one_unit ch))"

text \<open>What one encoded character appends to the output.\<close>

definition emit :: "EncodedChar \<Rightarrow> wstring" where
  "emit enc = unit0 enc # (if unitCount enc = 2 then [unit1 enc] else [])"

definition EncodeString :: "wstring \<Rightarrow> CodeTable \<Rightarrow> wstring" where
  "EncodeString input to =
    (if to = Unicode then input else concat (map (\<lambda>ch. emit (ConvertChar ch to)) input))"

subsection \<open>Reverse maps\<close>

definition IsLowerViet :: "wchar \<Rightarrow> bool" where
  "IsLowerViet ch \<longleftrightarrow> ToLowerVietnamese ch = ch \<and> ToUpperVietnamese ch \<noteq> ch"

text \<open>Insert, or replace a capital by a small letter.\<close>

definition rev_put :: "int \<Rightarrow> wchar \<Rightarrow> ReverseMap \<Rightarrow> ReverseMap" where
  "rev_put k w m =
    (case m k of
       None \<Rightarrow> m(k \<mapsto> w)
     | Some w' \<Rightarrow> if IsLowerViet w \<and> \<not> IsLowerViet w' then m(k \<mapsto> w) else m)"

definition BuildTcvn3Reverse :: "CodeMap \<Rightarrow> ReverseMap" where
  "BuildTcvn3Reverse forward = fold (\<lambda>(unicode, tcvn3). rev_put tcvn3 unicode) forward Map.empty"

definition pairKey :: "wchar \<Rightarrow> wchar \<Rightarrow> int" where
  "pairKey first second = first * 65536 + second"

record ReversePairMap =
  revSingle :: ReverseMap
  revPair :: ReverseMap

definition rev_pair_step :: "wchar \<times> int \<Rightarrow> ReversePairMap \<Rightarrow> ReversePairMap" where
  "rev_pair_step entry r =
    (let wch = fst entry; encoded = snd entry in
     if encoded \<le> 0xFF then r\<lparr>revSingle := rev_put encoded wch (revSingle r)\<rparr>
     else r\<lparr>revPair := rev_put (pairKey (LoByte encoded) (HiByte encoded)) wch (revPair r)\<rparr>)"

definition BuildReversePairMap :: "CodeMap \<Rightarrow> ReversePairMap" where
  "BuildReversePairMap forward =
    fold rev_pair_step forward \<lparr>revSingle = Map.empty, revPair = Map.empty\<rparr>"

definition compound_step :: "wchar \<times> int \<Rightarrow> ReverseMap \<Rightarrow> ReverseMap" where
  "compound_step entry m =
    (let decoded = DecodeCompound (snd entry) in
     if unitCount decoded = 2 then rev_put (pairKey (unit0 decoded) (unit1 decoded)) (fst entry) m
     else m)"

definition BuildCompoundReverse :: "CodeMap \<Rightarrow> ReverseMap" where
  "BuildCompoundReverse forward = fold compound_step forward Map.empty"

definition IsCombiningMark :: "wchar \<Rightarrow> bool" where
  "IsCombiningMark ch \<longleftrightarrow> ch = 0x0300 \<or> ch = 0x0301 \<or> ch = 0x0303 \<or> ch = 0x0309 \<or> ch = 0x0323"

subsection \<open>Decoding\<close>

text \<open>The three loops of \<open>DecodeString\<close>, over the rest of the input.\<close>

definition lookup_or :: "ReverseMap \<Rightarrow> wchar \<Rightarrow> wchar" where
  "lookup_or m ch = (case m ch of Some w \<Rightarrow> w | None \<Rightarrow> ch)"

fun decode_compound :: "ReverseMap \<Rightarrow> wstring \<Rightarrow> wstring" where
  "decode_compound m (a # b # rest) =
    (case (if IsCombiningMark b then m (pairKey a b) else None) of
       Some w \<Rightarrow> w # decode_compound m rest
     | None \<Rightarrow> a # decode_compound m (b # rest))"
| "decode_compound m [a] = [a]"
| "decode_compound m [] = []"

fun decode_pairs :: "ReversePairMap \<Rightarrow> wstring \<Rightarrow> wstring" where
  "decode_pairs maps (a # b # rest) =
    (case revPair maps (pairKey a b) of
       Some w \<Rightarrow> w # decode_pairs maps rest
     | None \<Rightarrow> lookup_or (revSingle maps) a # decode_pairs maps (b # rest))"
| "decode_pairs maps [a] = [lookup_or (revSingle maps) a]"
| "decode_pairs maps [] = []"

definition DecodeString :: "wstring \<Rightarrow> CodeTable \<Rightarrow> wstring" where
  "DecodeString input from' =
    (if from' = Unicode then input
     else if from' = TCVN3 then map (lookup_or (BuildTcvn3Reverse kTcvn3Map)) input
     else if from' = UnicodeCompound then decode_compound (BuildCompoundReverse kUnicodeCompoundMap) input
     else decode_pairs (BuildReversePairMap (if from' = VNIWindows then kVniMap else kCp1258Map)) input)"

subsection \<open>Case and diacritics\<close>

definition IsAlpha :: "wchar \<Rightarrow> bool" where
  "IsAlpha ch \<longleftrightarrow>
    65 \<le> ch \<and> ch \<le> 90 \<or> L_a \<le> ch \<and> ch \<le> L_z \<or> 0xC0 \<le> ch \<and> ch \<le> 0x24F \<or> 0x1EA0 \<le> ch \<and> ch \<le> 0x1EF9"

definition rowBase :: "wchar list" where
  "rowBase = [L_a, L_a, L_a, L_e, L_e, L_i, L_o, L_o, L_o, L_u, L_u, L_y]"

text \<open>The assignments \<open>m[ch] = base\<close> of the diacritics map, in order; the last one for a key holds.\<close>

definition diacritics_entries :: "(wchar \<times> wchar) list" where
  "diacritics_entries =
    concat (map (\<lambda>row. concat (map (\<lambda>tone.
        let lower = kTonedVowel ! row ! tone; upper = ToUpperVietnamese lower in
        if lower = 0 then [] else [(lower, rowBase ! row), (upper, towupper (rowBase ! row))])
      [0..<5])) [0..<12]) @
    [(0xE2, L_a), (0xC2, 65), (0x103, L_a), (0x102, 65), (0xEA, L_e), (0xCA, 69),
     (0xF4, L_o), (0xD4, 79), (0x1A1, L_o), (0x1A0, 79), (0x1B0, L_u), (0x1AF, 85),
     (0x111, L_d), (0x110, 68)]"

definition GetDiacriticsMap :: "wchar \<Rightarrow> wchar option" where
  "GetDiacriticsMap = map_of (rev diacritics_entries)"

definition RemoveDiacritics :: "wstring \<Rightarrow> wstring" where
  "RemoveDiacritics input = map (\<lambda>ch. case GetDiacriticsMap ch of Some b \<Rightarrow> b | None \<Rightarrow> ch) input"

definition ToUpper :: "wstring \<Rightarrow> wstring" where
  "ToUpper input = map ToUpperVietnamese input"

definition ToLower :: "wstring \<Rightarrow> wstring" where
  "ToLower input = map ToLowerVietnamese input"

text \<open>The loops of \<open>ToSentenceCase\<close> and \<open>ToTitleCase\<close>, with the flag they carry.\<close>

primrec sentence_loop :: "wstring \<Rightarrow> bool \<Rightarrow> wstring" where
  "sentence_loop [] atStart = []"
| "sentence_loop (ch # rest) atStart =
    (if atStart \<and> IsAlpha ch then ToUpperVietnamese ch # sentence_loop rest False
     else (if IsAlpha ch then ToLowerVietnamese ch else ch) #
       sentence_loop rest (atStart \<or> ch = 46 \<or> ch = 33 \<or> ch = 63 \<or> ch = 10))"

definition ToSentenceCase :: "wstring \<Rightarrow> wstring" where
  "ToSentenceCase input = sentence_loop input True"

primrec title_loop :: "wstring \<Rightarrow> bool \<Rightarrow> wstring" where
  "title_loop [] afterSpace = []"
| "title_loop (ch # rest) afterSpace =
    (if afterSpace \<and> IsAlpha ch then ToUpperVietnamese ch # title_loop rest False
     else (if IsAlpha ch then ToLowerVietnamese ch else ch) # title_loop rest (iswspace ch))"

definition ToTitleCase :: "wstring \<Rightarrow> wstring" where
  "ToTitleCase input = title_loop input True"

end
