(* ===== verification/CodeTableLaws.thy ===== *)
theory CodeTableLaws
  imports CodeTables CharStates "HOL-Library.Multiset"
begin

text \<open>
  Encoding a text in a legacy code table and decoding it again. The locale \<open>code_table\<close> states what
  makes a table decodable unit by unit; VNI, code page 1258 and Unicode compound satisfy it on every
  text of Vietnamese letters and ASCII. TCVN3 keeps the letters but not their case. The reverse maps
  do not depend on the order in which the C++ library iterates over the forward maps.
\<close>

subsection \<open>The contract of a decodable table\<close>

locale code_table =
  fixes enc :: "wchar \<Rightarrow> wstring" and dec :: "wstring \<Rightarrow> wstring" and D :: "wchar set"
  assumes dec_Nil: "dec [] = []"
    and dec_step: "c \<in> D \<Longrightarrow> u = [] \<or> (\<exists>d \<in> D. \<exists>v. u = enc d @ v) \<Longrightarrow> dec (enc c @ u) = c # dec u"
begin

lemma round_trip: "set s \<subseteq> D \<Longrightarrow> dec (concat (map enc s)) = s"
proof (induction s)
  case (Cons c s)
  have "concat (map enc s) = [] \<or> (\<exists>d \<in> D. \<exists>v. concat (map enc s) = enc d @ v)"
    using Cons.prems by (cases s) auto
  then show ?case using Cons dec_step[of c "concat (map enc s)"] by simp
qed (simp add: dec_Nil)

end

subsection \<open>Filling a reverse map\<close>

definition fill :: "(int \<times> wchar) list \<Rightarrow> ReverseMap" where
  "fill es = fold (\<lambda>(k, w). rev_put k w) es Map.empty"

text \<open>The entry a key ends up with: its first small letter, or else its first letter.\<close>

definition pick :: "wchar list \<Rightarrow> wchar option" where
  "pick ws = (if ws = [] then None
    else Some (case find IsLowerViet ws of Some w \<Rightarrow> w | None \<Rightarrow> hd ws))"

definition class_of :: "(int \<times> wchar) list \<Rightarrow> int \<Rightarrow> wchar list" where
  "class_of es k = map snd (filter (\<lambda>e. fst e = k) es)"

lemma pick_snoc:
  "pick (ws @ [w]) =
    (case pick ws of None \<Rightarrow> Some w | Some w' \<Rightarrow> if IsLowerViet w \<and> \<not> IsLowerViet w' then Some w else Some w')"
proof -
  have f: "find IsLowerViet (ws @ [w]) =
      (case find IsLowerViet ws of Some x \<Rightarrow> Some x | None \<Rightarrow> if IsLowerViet w then Some w else None)"
    by (induction ws) auto
  have g: "IsLowerViet x" if "find IsLowerViet ws = Some x" for x
    using that by (auto simp: find_Some_iff)
  have h: "\<not> IsLowerViet (hd ws)" if "find IsLowerViet ws = None" "ws \<noteq> []"
    using that by (cases ws) (auto simp: find_None_iff)
  show ?thesis
    by (cases "ws = []"; cases "find IsLowerViet ws") (auto simp: pick_def f dest: g h)
qed

lemma fill_eq: "fill es k = pick (class_of es k)"
proof (induction es rule: rev_induct)
  case Nil
  then show ?case by (simp add: fill_def class_of_def pick_def)
next
  case (snoc e es)
  obtain k' w where e: "e = (k', w)" by (cases e)
  have "fill (es @ [e]) = rev_put k' w (fill es)" by (simp add: fill_def e)
  moreover have "class_of (es @ [e]) k = class_of es k @ (if k' = k then [w] else [])"
    by (simp add: class_of_def e)
  ultimately show ?case
    using snoc by (auto simp: rev_put_def pick_snoc split: option.split)
qed

lemma fill_distinct: "distinct (map fst es) \<Longrightarrow> fill es = map_of es"
proof (rule ext)
  fix k
  assume d: "distinct (map fst es)"
  show "fill es k = map_of es k"
  proof (cases "map_of es k")
    case None
    then have "class_of es k = []" by (auto simp: class_of_def map_of_eq_None_iff filter_empty_conv)
    with None show ?thesis by (simp add: fill_eq pick_def)
  next
    case (Some w)
    have "class_of es k = [w]"
      using d Some
      by (induction es) (auto simp: class_of_def filter_empty_conv image_iff split: if_splits dest: map_of_SomeD)
    with Some show ?thesis by (simp add: fill_eq pick_def split: option.split)
  qed
qed

text \<open>Two letters of different case, or one letter, under each key: the order is irrelevant.\<close>

definition order_free :: "(int \<times> wchar) list \<Rightarrow> bool" where
  "order_free es \<longleftrightarrow>
    list_all (\<lambda>k. let ws = class_of es k in
      length ws \<le> 1 \<or> length (filter IsLowerViet ws) = 1) (map fst es)"

lemma pick_order:
  assumes "mset ws = mset vs" and "length ws \<le> 1 \<or> length (filter IsLowerViet ws) = 1"
  shows "pick ws = pick vs"
proof (cases "length ws \<le> 1")
  case True
  then have "ws = vs" using assms(1)
    by (cases ws) (auto simp: length_Suc_conv dest: mset_eq_length)
  then show ?thesis by simp
next
  case False
  then obtain w where w: "filter IsLowerViet ws = [w]" using assms(2) by (auto simp: length_Suc_conv)
  have "mset (filter IsLowerViet vs) = mset [w]" using assms(1) w by (metis mset_filter)
  then have v: "filter IsLowerViet vs = [w]" by (cases "filter IsLowerViet vs") auto
  have "find P xs = Some x" if "filter P xs = [x]" for P and xs :: "wchar list" and x
    using that by (induction xs) (auto split: if_splits)
  then show ?thesis using w v by (auto simp: pick_def)
qed

lemma fill_order:
  assumes "order_free es" and "mset es = mset es'" shows "fill es = fill es'"
proof (rule ext)
  fix k
  have same: "mset (class_of es k) = mset (class_of es' k)"
    unfolding class_of_def mset_map mset_filter by (simp only: assms(2))
  show "fill es k = fill es' k"
  proof (cases "k \<in> fst ` set es")
    case True
    then show ?thesis
      using assms(1) pick_order[OF same] by (auto simp: fill_eq order_free_def list_all_iff Let_def)
  next
    case False
    then have "class_of es k = []" by (force simp: class_of_def filter_empty_conv)
    then show ?thesis using same by (simp add: fill_eq)
  qed
qed

subsection \<open>The reverse maps of the source\<close>

lemma BuildTcvn3Reverse_fill: "BuildTcvn3Reverse m = fill (map (\<lambda>(u, v). (v, u)) m)"
  by (simp add: BuildTcvn3Reverse_def fill_def fold_map case_prod_unfold comp_def)

text \<open>The entries of the two maps of a \<open>ReversePairMap\<close>.\<close>

definition single_entries :: "CodeMap \<Rightarrow> (int \<times> wchar) list" where
  "single_entries m = map (\<lambda>(u, v). (v, u)) (filter (\<lambda>(u, v). v \<le> 0xFF) m)"

definition pair_entries :: "CodeMap \<Rightarrow> (int \<times> wchar) list" where
  "pair_entries m = map (\<lambda>(u, v). (pairKey (LoByte v) (HiByte v), u)) (filter (\<lambda>(u, v). \<not> v \<le> 0xFF) m)"

lemma BuildReversePairMap_fill:
  "BuildReversePairMap m = \<lparr>revSingle = fill (single_entries m), revPair = fill (pair_entries m)\<rparr>"
proof (induction m rule: rev_induct)
  case Nil
  then show ?case by (simp add: BuildReversePairMap_def fill_def single_entries_def pair_entries_def)
next
  case (snoc e m)
  then show ?case
    by (cases e)
       (simp add: BuildReversePairMap_def rev_pair_step_def fill_def single_entries_def pair_entries_def Let_def)
qed

definition compound_entries :: "CodeMap \<Rightarrow> (int \<times> wchar) list" where
  "compound_entries m =
    map (\<lambda>(u, v). (pairKey (unit0 (DecodeCompound v)) (unit1 (DecodeCompound v)), u))
      (filter (\<lambda>(u, v). unitCount (DecodeCompound v) = 2) m)"

lemma BuildCompoundReverse_fill: "BuildCompoundReverse m = fill (compound_entries m)"
proof (induction m rule: rev_induct)
  case Nil
  then show ?case by (simp add: BuildCompoundReverse_def fill_def compound_entries_def)
next
  case (snoc e m)
  then show ?case
    by (cases e) (simp add: BuildCompoundReverse_def compound_step_def fill_def compound_entries_def Let_def)
qed

subsection \<open>VNI and code page 1258\<close>

text \<open>
  A table of pairs is decodable: letters and codes are distinct and outside ASCII, and no unit that
  starts a character is the second unit of another.
\<close>

definition table_letters :: "CodeMap \<Rightarrow> wchar set" where
  "table_letters m = {c. 0 \<le> c \<and> c < 128} \<union> fst ` set m"

definition second_units :: "CodeMap \<Rightarrow> wchar list" where
  "second_units m = map (\<lambda>(u, v). HiByte v) (filter (\<lambda>(u, v). \<not> v \<le> 0xFF) m)"

definition pair_table_ok :: "CodeMap \<Rightarrow> bool" where
  "pair_table_ok m \<longleftrightarrow>
    distinct (map fst m) \<and> distinct (map fst (single_entries m)) \<and> distinct (map fst (pair_entries m)) \<and>
    list_all (\<lambda>(u, v). 128 \<le> u \<and> 128 \<le> v \<and> v < 65536 \<and> (\<not> v \<le> 0xFF \<longrightarrow> 128 \<le> HiByte v)) m \<and>
    (let his = remdups (second_units m) in list_all (\<lambda>(u, v). unit0 (DecodeLoHi v) \<notin> set his) m)"

lemma pair_tables_ok: "pair_table_ok kVniMap" "pair_table_ok kCp1258Map"
  by code_simp+

definition enc_pair :: "CodeMap \<Rightarrow> wchar \<Rightarrow> wstring" where
  "enc_pair m ch = emit (case map_of m ch of Some v \<Rightarrow> DecodeLoHi v | None \<Rightarrow> one_unit ch)"

lemma pairKey_mod: "0 \<le> b \<Longrightarrow> b < 65536 \<Longrightarrow> pairKey a b mod 65536 = b"
  by (simp add: pairKey_def)

lemma byte_ranges: "0 \<le> HiByte v" "HiByte v < 256" "0 \<le> LoByte v" "LoByte v < 256"
  by (simp_all add: HiByte_def LoByte_def)

text \<open>The first unit of an encoded letter is not a second unit.\<close>

lemma first_unit:
  assumes ok: "pair_table_ok m" and d: "d \<in> table_letters m"
  shows "\<exists>y w. enc_pair m d = y # w \<and> 0 \<le> y \<and> y < 65536 \<and> y \<notin> set (second_units m)"
proof (cases "map_of m d")
  case None
  then have "0 \<le> d" "d < 128" using d by (auto simp: table_letters_def map_of_eq_None_iff)
  moreover have "d \<notin> set (second_units m)"
    using ok \<open>d < 128\<close> by (force simp: pair_table_ok_def second_units_def list_all_iff)
  ultimately show ?thesis by (simp add: enc_pair_def None emit_def)
next
  case (Some v)
  then have v: "(d, v) \<in> set m" by (rule map_of_SomeD)
  then have "unit0 (DecodeLoHi v) \<notin> set (second_units m)" and "128 \<le> v" "v < 65536"
    using ok by (auto simp: pair_table_ok_def list_all_iff Let_def)
  then show ?thesis
    by (simp add: enc_pair_def Some emit_def DecodeLoHi_def byte_ranges split: if_splits)
       (use byte_ranges(4)[of v] in linarith)
qed

lemma rev_single:
  assumes ok: "pair_table_ok m"
  shows "(c, v) \<in> set m \<Longrightarrow> v \<le> 0xFF \<Longrightarrow> fill (single_entries m) v = Some c"
    and "x < 128 \<Longrightarrow> fill (single_entries m) x = None"
    and "(c, v) \<in> set m \<Longrightarrow> \<not> v \<le> 0xFF \<Longrightarrow> fill (pair_entries m) (pairKey (LoByte v) (HiByte v)) = Some c"
    and "0 \<le> y \<Longrightarrow> y < 65536 \<Longrightarrow> y \<notin> set (second_units m) \<Longrightarrow> fill (pair_entries m) (pairKey x y) = None"
proof -
  have d: "distinct (map fst (single_entries m))" "distinct (map fst (pair_entries m))"
    using ok by (simp_all add: pair_table_ok_def)
  show "fill (single_entries m) v = Some c" if "(c, v) \<in> set m" "v \<le> 0xFF"
    using that d(1) by (subst fill_distinct) (force simp: single_entries_def)+
  show "fill (single_entries m) x = None" if "x < 128"
    using that d(1) ok
    by (subst fill_distinct)
       (force simp: map_of_eq_None_iff single_entries_def pair_table_ok_def list_all_iff)+
  show "fill (pair_entries m) (pairKey (LoByte v) (HiByte v)) = Some c" if "(c, v) \<in> set m" "\<not> v \<le> 0xFF"
    using that d(2) by (subst fill_distinct) (force simp: pair_entries_def)+
  show "fill (pair_entries m) (pairKey x y) = None" if "0 \<le> y" "y < 65536" "y \<notin> set (second_units m)"
  proof -
    have "pairKey x y \<noteq> pairKey (LoByte v) (HiByte v)" if "(c, v) \<in> set m" "\<not> v \<le> 0xFF" for c v
    proof
      assume e: "pairKey x y = pairKey (LoByte v) (HiByte v)"
      have "y = pairKey x y mod 65536" using \<open>0 \<le> y\<close> \<open>y < 65536\<close> by (simp add: pairKey_mod)
      also have "\<dots> = HiByte v" unfolding e using byte_ranges[of v] by (simp add: pairKey_mod)
      finally show False using \<open>y \<notin> set (second_units m)\<close> that by (force simp: second_units_def)
    qed
    then have "pairKey x y \<notin> fst ` set (pair_entries m)" by (fastforce simp: pair_entries_def)
    then show ?thesis by (simp only: fill_distinct[OF d(2)] map_of_eq_None_iff not_False_eq_True)
  qed
qed

lemma pair_table_decodes:
  assumes ok: "pair_table_ok m"
  shows "code_table (enc_pair m) (decode_pairs (BuildReversePairMap m)) (table_letters m)"
proof
  show "decode_pairs (BuildReversePairMap m) [] = []" by simp
next
  fix c u
  assume c: "c \<in> table_letters m"
    and u: "u = [] \<or> (\<exists>d\<in>table_letters m. \<exists>v. u = enc_pair m d @ v)"
  note rv = rev_single[OF ok]
  let ?d = "decode_pairs (BuildReversePairMap m)"
  have single: "?d (x # u) = c # ?d u" if "lookup_or (fill (single_entries m)) x = c" for x
  proof (cases u)
    case Nil
    with that show ?thesis by (simp add: BuildReversePairMap_fill)
  next
    case (Cons y w)
    then obtain d v where "d \<in> table_letters m" "u = enc_pair m d @ v" using u by auto
    then have "0 \<le> y" "y < 65536" "y \<notin> set (second_units m)"
      using first_unit[OF ok] Cons by fastforce+
    then show ?thesis using that by (simp add: Cons BuildReversePairMap_fill rv(4))
  qed
  show "?d (enc_pair m c @ u) = c # ?d u"
  proof (cases "map_of m c")
    case None
    then have "c < 128" using c by (auto simp: table_letters_def map_of_eq_None_iff)
    then show ?thesis using single[of c] rv(2)[of c]
      by (simp add: enc_pair_def None emit_def lookup_or_def)
  next
    case (Some v)
    then have v: "(c, v) \<in> set m" by (rule map_of_SomeD)
    show ?thesis
    proof (cases "v \<le> 0xFF")
      case True
      then show ?thesis using single[of v] rv(1)[OF v True]
        by (simp add: enc_pair_def Some emit_def lookup_or_def DecodeLoHi_def)
    next
      case False
      then show ?thesis using rv(3)[OF v False]
        by (simp add: enc_pair_def Some emit_def DecodeLoHi_def BuildReversePairMap_fill)
    qed
  qed
qed

interpretation vni: code_table
  "enc_pair kVniMap" "decode_pairs (BuildReversePairMap kVniMap)" "table_letters kVniMap"
  by (rule pair_table_decodes) (rule pair_tables_ok)

interpretation cp1258: code_table
  "enc_pair kCp1258Map" "decode_pairs (BuildReversePairMap kCp1258Map)" "table_letters kCp1258Map"
  by (rule pair_table_decodes) (rule pair_tables_ok)

subsection \<open>Unicode compound\<close>

definition enc_compound :: "CodeMap \<Rightarrow> wchar \<Rightarrow> wstring" where
  "enc_compound m ch = emit (case map_of m ch of Some v \<Rightarrow> DecodeCompound v | None \<Rightarrow> one_unit ch)"

definition compound_table_ok :: "CodeMap \<Rightarrow> bool" where
  "compound_table_ok m \<longleftrightarrow>
    distinct (map fst (compound_entries m)) \<and>
    list_all (\<lambda>(u, v). let e = DecodeCompound v in
      \<not> IsCombiningMark (unit0 e) \<and>
      (if unitCount e = 2 then IsCombiningMark (unit1 e) else unit0 e = u)) m"

lemma compound_table: "compound_table_ok kUnicodeCompoundMap"
  by code_simp

lemma compound_first_unit:
  assumes ok: "compound_table_ok m" and d: "d \<in> table_letters m"
  shows "\<exists>y w. enc_compound m d = y # w \<and> \<not> IsCombiningMark y"
proof (cases "map_of m d")
  case None
  then have "d < 128" using d by (auto simp: table_letters_def map_of_eq_None_iff)
  then show ?thesis by (simp add: enc_compound_def None emit_def IsCombiningMark_def)
next
  case (Some v)
  then show ?thesis
    using ok by (force simp: enc_compound_def emit_def compound_table_ok_def list_all_iff Let_def dest: map_of_SomeD)
qed

lemma compound_table_decodes:
  assumes ok: "compound_table_ok m"
  shows "code_table (enc_compound m) (decode_compound (BuildCompoundReverse m)) (table_letters m)"
proof
  show "decode_compound (BuildCompoundReverse m) [] = []" by simp
next
  fix c u
  assume c: "c \<in> table_letters m"
    and u: "u = [] \<or> (\<exists>d\<in>table_letters m. \<exists>v. u = enc_compound m d @ v)"
  let ?d = "decode_compound (BuildCompoundReverse m)"
  have single: "?d (c # u) = c # ?d u"
  proof (cases u)
    case (Cons y w)
    then have "\<not> IsCombiningMark y" using u compound_first_unit[OF ok] by fastforce
    then show ?thesis by (simp add: Cons)
  qed simp
  show "?d (enc_compound m c @ u) = c # ?d u"
  proof (cases "map_of m c")
    case None
    then show ?thesis using single by (simp add: enc_compound_def None emit_def)
  next
    case (Some v)
    let ?e = "DecodeCompound v"
    have v: "(c, v) \<in> set m" using Some by (rule map_of_SomeD)
    then have e: "if unitCount ?e = 2 then IsCombiningMark (unit1 ?e) else unit0 ?e = c"
      using ok by (force simp: compound_table_ok_def list_all_iff Let_def)
    show ?thesis
    proof (cases "unitCount ?e = 2")
      case True
      have "fill (compound_entries m) (pairKey (unit0 ?e) (unit1 ?e)) = Some c"
        using ok v True by (subst fill_distinct) (force simp: compound_table_ok_def compound_entries_def)+
      then show ?thesis using e True
        by (simp add: enc_compound_def Some emit_def BuildCompoundReverse_fill)
    next
      case False
      then show ?thesis using e single by (simp add: enc_compound_def Some emit_def)
    qed
  qed
qed

interpretation compound: code_table
  "enc_compound kUnicodeCompoundMap" "decode_compound (BuildCompoundReverse kUnicodeCompoundMap)"
  "table_letters kUnicodeCompoundMap"
  by (rule compound_table_decodes) (rule compound_table)

subsection \<open>The converter\<close>

text \<open>The forward map of a table; Unicode and unknown letters pass unchanged.\<close>

definition table_of :: "CodeTable \<Rightarrow> CodeMap" where
  "table_of t =
    (case t of Unicode \<Rightarrow> [] | TCVN3 \<Rightarrow> kTcvn3Map | VNIWindows \<Rightarrow> kVniMap
     | UnicodeCompound \<Rightarrow> kUnicodeCompoundMap | VietnameseLocale \<Rightarrow> kCp1258Map)"

lemma enc_pair_ConvertChar:
  "emit (ConvertChar ch VNIWindows) = enc_pair kVniMap ch"
  "emit (ConvertChar ch VietnameseLocale) = enc_pair kCp1258Map ch"
  "emit (ConvertChar ch UnicodeCompound) = enc_compound kUnicodeCompoundMap ch"
  by (simp_all add: ConvertChar_def enc_pair_def enc_compound_def)

text \<open>The four tables have the same 134 letters.\<close>

lemma tables_same_letters:
  "t \<noteq> Unicode \<Longrightarrow> table_letters (table_of t) = table_letters kVniMap"
proof -
  have "map fst kTcvn3Map = map fst kVniMap" "map fst kUnicodeCompoundMap = map fst kVniMap"
    "map fst kCp1258Map = map fst kVniMap"
    by (simp_all add: kTcvn3Map_def kVniMap_def kUnicodeCompoundMap_def kCp1258Map_def)
  then have "fst ` set kTcvn3Map = fst ` set kVniMap" "fst ` set kUnicodeCompoundMap = fst ` set kVniMap"
    "fst ` set kCp1258Map = fst ` set kVniMap"
    by (metis set_map)+
  then show "t \<noteq> Unicode \<Longrightarrow> table_letters (table_of t) = table_letters kVniMap"
    by (cases t) (simp_all add: table_of_def table_letters_def)
qed

text \<open>C22: A text of ASCII characters and Vietnamese letters that is encoded in VNI Windows, Unicode
  compound or code page 1258 and decoded from the same table comes back unchanged, case included.\<close>

theorem encode_decode:
  assumes "set s \<subseteq> table_letters kVniMap" and "t \<noteq> TCVN3"
  shows "DecodeString (EncodeString s t) t = s"
proof (cases "t = Unicode")
  case False
  then have s: "set s \<subseteq> table_letters (table_of t)" using assms(1) tables_same_letters by simp
  show ?thesis
    using s assms(2) False
    by (cases t)
       (simp_all add: DecodeString_def EncodeString_def enc_pair_ConvertChar table_of_def
         vni.round_trip cp1258.round_trip compound.round_trip)
qed (simp add: DecodeString_def EncodeString_def)

lemma encode_decode_witness:
  "DecodeString (EncodeString [0x56, 0x69, 0x1EC7, 0x74] VNIWindows) VNIWindows = [0x56, 0x69, 0x1EC7, 0x74]"
  by (rule encode_decode) (simp_all add: table_letters_def kVniMap_def)

subsection \<open>TCVN3\<close>

definition tcvn3_entries :: "(int \<times> wchar) list" where
  "tcvn3_entries = map (\<lambda>(u, v). (v, u)) kTcvn3Map"

text \<open>The letters of neighbouring entries with one code; when the codes of the runs differ, these are
  all the letters of each code.\<close>

fun runs :: "(int \<times> wchar) list \<Rightarrow> (int \<times> wchar list) list" where
  "runs [] = []"
| "runs ((v, u) # es) =
    (case runs es of
       [] \<Rightarrow> [(v, [u])]
     | (v', ws) # gs \<Rightarrow> if v = v' then (v, u # ws) # gs else (v, [u]) # (v', ws) # gs)"

lemma class_of_runs:
  "distinct (map fst (runs es)) \<Longrightarrow> class_of es k = (case map_of (runs es) k of None \<Rightarrow> [] | Some ws \<Rightarrow> ws)"
proof (induction es)
  case (Cons e es)
  obtain v u where e: "e = (v, u)" by (cases e)
  show ?case
  proof (cases "runs es")
    case Nil
    then show ?thesis using Cons by (auto simp: e class_of_def)
  next
    case gs: (Cons g gs)
    obtain v' ws where g: "g = (v', ws)" by (cases g)
    have "class_of es k = (case map_of (runs es) k of None \<Rightarrow> [] | Some ws \<Rightarrow> ws)"
      using Cons by (auto simp: e gs g split: if_splits)
    then show ?thesis using Cons.prems
      by (auto simp: e gs g class_of_def split: if_splits option.splits dest: map_of_SomeD) force
  qed
qed (simp add: class_of_def)

definition classes_ok :: "(int \<times> wchar) list \<Rightarrow> bool" where
  "classes_ok es \<longleftrightarrow> distinct (map fst (runs es)) \<and>
    list_all (\<lambda>(v, ws). (length ws \<le> 1 \<or> length (filter IsLowerViet ws) = 1) \<and>
      list_all (\<lambda>w. ToUpperVietnamese w = ToUpperVietnamese (hd ws)) ws) (runs es)"

lemma tcvn3_classes: "classes_ok tcvn3_entries"
  by code_simp

lemma classes_ok_class_of:
  assumes "classes_ok es" and "u \<in> set (class_of es k)"
  shows "length (class_of es k) \<le> 1 \<or> length (filter IsLowerViet (class_of es k)) = 1"
    and "w \<in> set (class_of es k) \<Longrightarrow> ToUpperVietnamese w = ToUpperVietnamese u"
proof -
  have "distinct (map fst (runs es))" using assms(1) by (simp add: classes_ok_def)
  note c = class_of_runs[OF this, of k]
  from c assms(2) obtain ws where "map_of (runs es) k = Some ws" "class_of es k = ws"
    by (cases "map_of (runs es) k") auto
  then have *: "(k, class_of es k) \<in> set (runs es)" by (auto dest: map_of_SomeD)
  show "length (class_of es k) \<le> 1 \<or> length (filter IsLowerViet (class_of es k)) = 1"
    using assms(1) * by (auto simp: classes_ok_def list_all_iff)
  show "ToUpperVietnamese w = ToUpperVietnamese u" if "w \<in> set (class_of es k)"
  proof -
    have "\<forall>w \<in> set (class_of es k). ToUpperVietnamese w = ToUpperVietnamese (hd (class_of es k))"
      using assms(1) * by (auto simp: classes_ok_def list_all_iff)
    with that assms(2) show ?thesis by metis
  qed
qed

lemma classes_ok_order_free: "classes_ok es \<Longrightarrow> order_free es"
  unfolding order_free_def list_all_iff Let_def
proof
  fix k assume "classes_ok es" "k \<in> set (map fst es)"
  then obtain u where "u \<in> set (class_of es k)" by (force simp: class_of_def)
  from classes_ok_class_of(1)[OF \<open>classes_ok es\<close> this]
  show "length (class_of es k) \<le> 1 \<or> length (filter IsLowerViet (class_of es k)) = 1" .
qed

lemmas tcvn3_order_free = classes_ok_order_free[OF tcvn3_classes]

lemma pick_in: "ws \<noteq> [] \<Longrightarrow> \<exists>w \<in> set ws. pick ws = Some w"
  by (auto simp: pick_def find_Some_iff split: option.split)

lemma tcvn3_reverse_case:
  assumes "(u, v) \<in> set kTcvn3Map"
  shows "ToUpperVietnamese (lookup_or (fill tcvn3_entries) v) = ToUpperVietnamese u"
proof -
  have e: "(v, u) \<in> set tcvn3_entries" using assms by (force simp: tcvn3_entries_def)
  then have "u \<in> set (class_of tcvn3_entries v)" by (force simp: class_of_def)
  then have "class_of tcvn3_entries v \<noteq> []" by auto
  then obtain w where "w \<in> set (class_of tcvn3_entries v)" "fill tcvn3_entries v = Some w"
    using pick_in unfolding fill_eq by blast
  then show ?thesis
    using classes_ok_class_of(2)[OF tcvn3_classes \<open>u \<in> set (class_of tcvn3_entries v)\<close>]
    by (simp add: lookup_or_def)
qed

lemma tcvn3_reverse_ascii:
  assumes "c < 128" shows "lookup_or (fill tcvn3_entries) c = c"
proof -
  have "list_all (\<lambda>(u, v). 128 \<le> v) kTcvn3Map" by (simp add: kTcvn3Map_def)
  then have "class_of tcvn3_entries c = []"
    using assms by (force simp: class_of_def tcvn3_entries_def filter_empty_conv list_all_iff)
  then show ?thesis by (simp add: lookup_or_def fill_eq pick_def)
qed

text \<open>TCVN3 gives a small and a capital toned letter one code: decoding what was encoded keeps
  every letter and may lose only its case, and the decoder then answers the small letter.\<close>

theorem tcvn3_round_trip:
  assumes "set s \<subseteq> table_letters kVniMap"
  shows "map ToUpperVietnamese (DecodeString (EncodeString s TCVN3) TCVN3) = map ToUpperVietnamese s"
proof -
  let ?d = "lookup_or (fill tcvn3_entries)"
  have one: "\<exists>y. emit (ConvertChar c TCVN3) = [y] \<and> ToUpperVietnamese (?d y) = ToUpperVietnamese c"
    if "c \<in> table_letters kVniMap" for c
  proof (cases "map_of kTcvn3Map c")
    case None
    have "c \<in> table_letters kTcvn3Map" using that tables_same_letters[of TCVN3] by (simp add: table_of_def)
    then have "c < 128" using None by (auto simp: table_letters_def map_of_eq_None_iff)
    then show ?thesis using None tcvn3_reverse_ascii by (simp add: ConvertChar_def emit_def)
  next
    case (Some v)
    then show ?thesis using tcvn3_reverse_case
      by (auto simp: ConvertChar_def emit_def dest!: map_of_SomeD)
  qed
  have "map ToUpperVietnamese (map ?d (concat (map (\<lambda>ch. emit (ConvertChar ch TCVN3)) s))) = map ToUpperVietnamese s"
    using assms
  proof (induction s)
    case (Cons c s)
    then show ?case using one[of c] by auto
  qed simp
  then show ?thesis by (simp add: DecodeString_def EncodeString_def BuildTcvn3Reverse_fill tcvn3_entries_def)
qed

lemma tcvn3_round_trip_witness:
  "map ToUpperVietnamese (DecodeString (EncodeString [0x1EC6, 0x41] TCVN3) TCVN3) = map ToUpperVietnamese [0x1EC6, 0x41]
    \<and> DecodeString (EncodeString [0x1EC6, 0x41] TCVN3) TCVN3 = [0x1EC7, 0x41]"
proof
  show "map ToUpperVietnamese (DecodeString (EncodeString [0x1EC6, 0x41] TCVN3) TCVN3) = map ToUpperVietnamese [0x1EC6, 0x41]"
    by (rule tcvn3_round_trip) (simp add: table_letters_def kVniMap_def)
qed code_simp

subsection \<open>The order of the forward map is irrelevant\<close>

lemma distinct_order_free:
  assumes "distinct (map fst es)" shows "order_free es"
proof -
  have "length (class_of es k) \<le> 1" for k
    using assms
  proof (induction es)
    case (Cons e es)
    have "class_of es k = []" if "fst e = k"
      using that Cons.prems by (cases e) (auto simp: class_of_def filter_empty_conv image_iff)
    then show ?case using Cons by (auto simp: class_of_def)
  qed (simp add: class_of_def)
  then show ?thesis by (simp add: order_free_def list_all_iff Let_def)
qed

lemma tables_order_free:
  "order_free (single_entries kVniMap)" "order_free (pair_entries kVniMap)"
  "order_free (single_entries kCp1258Map)" "order_free (pair_entries kCp1258Map)"
  "order_free (compound_entries kUnicodeCompoundMap)"
  using pair_tables_ok compound_table
  by (simp_all add: pair_table_ok_def compound_table_ok_def distinct_order_free)

lemma mset_entries:
  assumes "mset m = mset m'"
  shows "mset (single_entries m) = mset (single_entries m')"
    "mset (pair_entries m) = mset (pair_entries m')"
    "mset (compound_entries m) = mset (compound_entries m')"
  unfolding single_entries_def pair_entries_def compound_entries_def mset_map mset_filter
  by (simp_all only: assms)

text \<open>The reverse maps are built by iterating over unordered forward maps, where a TCVN3 code is
  shared by two letters: in whatever order the entries come, the same reverse map results.\<close>

theorem reverse_maps_order:
  "(mset m = mset kTcvn3Map \<longrightarrow> BuildTcvn3Reverse m = BuildTcvn3Reverse kTcvn3Map) \<and>
   (mset m = mset kVniMap \<longrightarrow> BuildReversePairMap m = BuildReversePairMap kVniMap) \<and>
   (mset m = mset kCp1258Map \<longrightarrow> BuildReversePairMap m = BuildReversePairMap kCp1258Map) \<and>
   (mset m = mset kUnicodeCompoundMap \<longrightarrow>
     BuildCompoundReverse m = BuildCompoundReverse kUnicodeCompoundMap)"
proof (intro conjI impI)
  assume "mset m = mset kTcvn3Map"
  then have "mset tcvn3_entries = mset (map (\<lambda>(u, v). (v, u)) m)"
    by (simp only: mset_map tcvn3_entries_def)
  from fill_order[OF tcvn3_order_free this] show "BuildTcvn3Reverse m = BuildTcvn3Reverse kTcvn3Map"
    by (simp only: BuildTcvn3Reverse_fill tcvn3_entries_def)
next
  assume "mset m = mset kVniMap"
  note e = mset_entries(1,2)[OF this[symmetric]]
  from fill_order[OF tables_order_free(1) e(1)] fill_order[OF tables_order_free(2) e(2)]
  show "BuildReversePairMap m = BuildReversePairMap kVniMap" by (simp only: BuildReversePairMap_fill)
next
  assume "mset m = mset kCp1258Map"
  note e = mset_entries(1,2)[OF this[symmetric]]
  from fill_order[OF tables_order_free(3) e(1)] fill_order[OF tables_order_free(4) e(2)]
  show "BuildReversePairMap m = BuildReversePairMap kCp1258Map" by (simp only: BuildReversePairMap_fill)
next
  assume "mset m = mset kUnicodeCompoundMap"
  from fill_order[OF tables_order_free(5) mset_entries(3)[OF this[symmetric]]]
  show "BuildCompoundReverse m = BuildCompoundReverse kUnicodeCompoundMap"
    by (simp only: BuildCompoundReverse_fill)
qed

lemma reverse_maps_order_witness:
  "BuildTcvn3Reverse (rev kTcvn3Map) = BuildTcvn3Reverse kTcvn3Map"
  using reverse_maps_order[of "rev kTcvn3Map"] by simp

subsection \<open>The base letter of a compound code\<close>

text \<open>
  The base of a two-unit compound code is its low byte only, although the forward map stores the base
  in thirteen bits: o-horn with acute becomes an inverted exclamation mark and an accent.
\<close>

lemma compound_base_truncated:
  "EncodeString [0x1EDB] UnicodeCompound = [0xA1, 0x301]"
  "EncodeString [0x1EAF] UnicodeCompound = [0x03, 0x301]"
  "map_of kUnicodeCompoundMap 0x1EDB = Some (0x2000 + L_ohorn)"
  by code_simp+

end
