(* ===== verification/KeystrokeDecisions.thy ===== *)
theory KeystrokeDecisions
  imports TypingActions
begin

text \<open>
  The pure decisions the keyboard hook takes per keystroke, one header of \<open>src/core\<close> each:
  \<open>AutoCapDecision.h\<close>, \<open>AutoCapStateTransition.h\<close>, \<open>CjkSwitchDecision.h\<close>, \<open>CommitUndoExemption.h\<close>,
  \<open>DigitLedWordDecision.h\<close>, \<open>FormulaSegmentDecision.h\<close>, \<open>PerAppModeDecision.h\<close> and \<open>MacroPrefix.h\<close>,
  with the parts of \<open>app/system/HookEngine.cpp\<close> that feed them a key and apply their answer.
  A virtual key code is an integer.
\<close>

type_synonym vkey = int

subsection \<open>Automatic capitals: the text before the caret\<close>

datatype CapTrigger = CapNone | DocStart | LineStart | SentenceEnd

text \<open>The loop over the text, from its end; the flag is \<open>skippedWhitespace\<close>.\<close>

fun cap_scan :: "wstring \<Rightarrow> bool \<Rightarrow> CapTrigger" where
  "cap_scan [] skipped = DocStart"
| "cap_scan (c # before) skipped =
    (if c = 32 \<or> c = 9 then cap_scan before True
     else if c = 10 \<or> c = 13 then LineStart
     else if (c = 46 \<or> c = 63 \<or> c = 33) \<and> skipped then SentenceEnd
     else CapNone)"

definition ClassifyCapTrigger :: "wstring \<Rightarrow> CapTrigger" where
  "ClassifyCapTrigger buf = cap_scan (rev buf) False"

definition ComputeShouldAutoCap :: "wstring \<Rightarrow> bool" where
  "ComputeShouldAutoCap buf \<longleftrightarrow> ClassifyCapTrigger buf \<noteq> CapNone"

subsection \<open>Automatic capitals: the keystroke machine\<close>

datatype AutoCapState = CapIdle | AfterPunct | ReadyToCapitalize

abbreviation kVkReturn :: vkey where "kVkReturn \<equiv> 0x0D"
abbreviation kVkSpace :: vkey where "kVkSpace \<equiv> 0x20"
abbreviation kVkOemPeriod :: vkey where "kVkOemPeriod \<equiv> 0xBE"
abbreviation kVkOemSlash :: vkey where "kVkOemSlash \<equiv> 0xBF"
abbreviation kVk1 :: vkey where "kVk1 \<equiv> 0x31"

definition is_alpha_vk :: "vkey \<Rightarrow> bool" where
  "is_alpha_vk vk \<longleftrightarrow> 0x41 \<le> vk \<and> vk \<le> 0x5A"

definition ComputeAutoCapStateTransition ::
  "AutoCapState \<Rightarrow> vkey \<Rightarrow> bool \<Rightarrow> bool \<Rightarrow> bool \<Rightarrow> bool \<Rightarrow> AutoCapState" where
  "ComputeAutoCapStateTransition current vk shift ctrl alt win =
    (if ctrl \<or> alt \<or> win then current
     else if vk = kVkOemPeriod \<or> vk = kVkOemSlash \<and> shift \<or> vk = kVk1 \<and> shift then AfterPunct
     else if vk = kVkSpace \<and> (current = AfterPunct \<or> current = ReadyToCapitalize) then ReadyToCapitalize
     else if vk = kVkReturn then ReadyToCapitalize
     else if is_alpha_vk vk then (if current = ReadyToCapitalize then current else CapIdle)
     else CapIdle)"

text \<open>
  The start of \<open>HandleAlphaKey\<close>: the case of the letter and, at the first letter of a word, the
  capital. \<open>anchor\<close> is the snapshot of the text service when one is available: whether the caret
  stands at the start of a sentence or of a line. The result is the character, whether it was
  capitalised, and the state of the machine.
\<close>

definition capitalise_letter ::
  "bool \<Rightarrow> bool \<Rightarrow> (bool \<times> bool) option \<Rightarrow> AutoCapState \<Rightarrow> vkey \<Rightarrow> bool \<Rightarrow> bool \<Rightarrow> wchar \<times> bool \<times> AutoCapState" where
  "capitalise_letter capsOn engineEmpty anchor st vk shift capsLock =
    (let originalCh = (if shift \<noteq> capsLock then vk else towlower vk) in
     if capsOn \<and> engineEmpty then
       (let keystrokePending = (st = ReadyToCapitalize);
            shouldCap = (case anchor of Some (sentence, line) \<Rightarrow> sentence \<or> line | None \<Rightarrow> keystrokePending);
            ch = (if shouldCap then towupper originalCh else originalCh)
        in (ch, shouldCap \<and> ch \<noteq> originalCh,
            if anchor \<noteq> None \<or> keystrokePending then CapIdle else st))
     else (originalCh, False, st))"

subsection \<open>The CJK layout switch\<close>

datatype CjkTransition = CjkStay | EnterCjk | LeaveCjk

datatype CjkBeep = Quiet | BeepOk | BeepAsterisk

record CjkSwitchInputs =
  isCompatibleNow :: bool
  inLayoutSuppressed :: bool
  inModeBeforeCjk :: bool
  inVietnameseMode :: bool
  isExcluded :: bool
  isForcedVietnamese :: bool
  cjkAutoSwitchEnabled :: bool

record CjkSwitchOutputs =
  cjkTransition :: CjkTransition
  newLayoutSuppressed :: bool
  newModeBeforeCjk :: bool
  newVietnameseMode :: bool
  needCommitComposition :: bool
  needNotifyMode :: bool
  cjkBeep :: CjkBeep

definition DecideCjkSwitch :: "CjkSwitchInputs \<Rightarrow> CjkSwitchOutputs" where
  "DecideCjkSwitch i =
    (let out = \<lparr>cjkTransition = CjkStay, newLayoutSuppressed = inLayoutSuppressed i,
                newModeBeforeCjk = inModeBeforeCjk i, newVietnameseMode = inVietnameseMode i,
                needCommitComposition = False, needNotifyMode = False, cjkBeep = Quiet\<rparr> in
     if \<not> cjkAutoSwitchEnabled i then out
     else if isExcluded i \<or> isForcedVietnamese i then out
     else if \<not> isCompatibleNow i \<and> \<not> inLayoutSuppressed i then
       (let out = out\<lparr>cjkTransition := EnterCjk, newLayoutSuppressed := True,
                      newModeBeforeCjk := inVietnameseMode i, needCommitComposition := True\<rparr> in
        if inVietnameseMode i
        then out\<lparr>newVietnameseMode := False, needNotifyMode := True, cjkBeep := BeepAsterisk\<rparr>
        else out)
     else if isCompatibleNow i \<and> inLayoutSuppressed i then
       (let out = out\<lparr>cjkTransition := LeaveCjk, newLayoutSuppressed := False\<rparr>;
            out = (if inModeBeforeCjk i \<noteq> inVietnameseMode i
                   then out\<lparr>newVietnameseMode := inModeBeforeCjk i,
                            cjkBeep := (if inModeBeforeCjk i then BeepOk else BeepAsterisk)\<rparr>
                   else out)
        in out\<lparr>needNotifyMode := True\<rparr>)
     else out)"

text \<open>
  The members of the hook that \<open>OnLayoutChanged\<close> reads and writes. The cached layout is the one
  \<open>CheckLayoutChange\<close> compares with before it calls \<open>OnLayoutChanged\<close>.
\<close>

record HookMode =
  vietnameseMode :: bool
  layoutSuppressed :: bool
  modeBeforeCjk :: bool
  cachedIsCompatLayout :: bool

definition OnLayoutChanged :: "bool \<Rightarrow> bool \<Rightarrow> bool \<Rightarrow> bool \<Rightarrow> 'a HookMode_scheme \<Rightarrow> 'a HookMode_scheme" where
  "OnLayoutChanged excluded forcedVn autoSwitch compatible h =
    (let out = DecideCjkSwitch \<lparr>isCompatibleNow = compatible, inLayoutSuppressed = layoutSuppressed h,
                 inModeBeforeCjk = modeBeforeCjk h, inVietnameseMode = vietnameseMode h,
                 isExcluded = excluded, isForcedVietnamese = forcedVn,
                 cjkAutoSwitchEnabled = autoSwitch\<rparr> in
     if cjkTransition out = CjkStay then h
     else h\<lparr>layoutSuppressed := newLayoutSuppressed out, modeBeforeCjk := newModeBeforeCjk out,
            vietnameseMode := newVietnameseMode out\<rparr>)"

definition CheckLayoutChange :: "bool \<Rightarrow> bool \<Rightarrow> bool \<Rightarrow> bool \<Rightarrow> 'a HookMode_scheme \<Rightarrow> 'a HookMode_scheme" where
  "CheckLayoutChange excluded forcedVn autoSwitch compatible h =
    (if compatible \<noteq> cachedIsCompatLayout h
     then OnLayoutChanged excluded forcedVn autoSwitch compatible (h\<lparr>cachedIsCompatLayout := compatible\<rparr>)
     else h)"

subsection \<open>Keys that may modify the committed word\<close>

definition IsCommitUndoExemptAction :: "TypingAction \<Rightarrow> bool" where
  "IsCommitUndoExemptAction action =
    (if IsToneAction action then True
     else if IsTelexModifierAction action then True
     else if IsVniModifierAction action then True
     else if action = HornOrInsertU \<or> action = HornOrInsertUNoStart \<or> action = UndoAllMarks then True
     else False)"

abbreviation kVkEscape :: vkey where "kVkEscape \<equiv> 0x1B"

definition isTelexModifierLetter :: "vkey \<Rightarrow> InputMethod \<Rightarrow> bool" where
  "isTelexModifierLetter vk meth \<longleftrightarrow>
    (meth = Telex \<or> meth = SimpleTelex \<or> meth = Combined) \<and>
    (vk = 83 \<or> vk = 70 \<or> vk = 82 \<or> vk = 88 \<or> vk = 74 \<or> vk = 90 \<or>
     vk = 65 \<or> vk = 69 \<or> vk = 79 \<or> vk = 87 \<or> vk = 68)"

definition isVniModifierDigit :: "vkey \<Rightarrow> InputMethod \<Rightarrow> bool \<Rightarrow> bool" where
  "isVniModifierDigit vk meth shiftHeld \<longleftrightarrow>
    (meth = VNI \<or> meth = Combined) \<and> 48 \<le> vk \<and> vk \<le> 57 \<and> \<not> shiftHeld"

definition IsCommitUndoExemptKey :: "vkey \<Rightarrow> InputMethod \<Rightarrow> bool \<Rightarrow> bool \<Rightarrow> bool \<Rightarrow> bool" where
  "IsCommitUndoExemptKey vk meth shiftHeld escIsCancelTrigger isCustomModifier \<longleftrightarrow>
    isTelexModifierLetter vk meth \<or> isVniModifierDigit vk meth shiftHeld \<or>
    (meth = UserDefined \<and> isCustomModifier) \<or> (vk = kVkEscape \<and> escIsCancelTrigger)"

subsection \<open>Words that start with a digit\<close>

datatype DigitLedDecision = DigContinue | DigArm | DigBypass | DigReset

definition IsDigitLedBoundary :: "vkey \<Rightarrow> bool" where
  "IsDigitLedBoundary vk =
    (if vk = 0x20 \<or> vk = 0x0D \<or> vk = 0x09 \<or> vk = 0x1B then True
     else if vk = 0x08 \<or> vk = 0x2E then True
     else if 0x25 \<le> vk \<and> vk \<le> 0x28 then True
     else if vk = 0x24 \<or> vk = 0x23 \<or> vk = 0x21 \<or> vk = 0x22 then True
     else False)"

record DigitLedInputs =
  dlVk :: vkey
  dlShift :: bool
  dlEngineEmpty :: bool
  dlMethod :: InputMethod
  currentlyArmed :: bool

definition DecideDigitLed :: "DigitLedInputs \<Rightarrow> DigitLedDecision" where
  "DecideDigitLed i =
    (if currentlyArmed i then (if IsDigitLedBoundary (dlVk i) then DigReset else DigBypass)
     else if dlShift i then DigContinue
     else if \<not> dlEngineEmpty i then DigContinue
     else if dlVk i < 0x30 \<or> 0x39 < dlVk i then DigContinue
     else if dlMethod i \<noteq> VNI \<and> dlMethod i \<noteq> Combined \<and> dlMethod i \<noteq> UserDefined then DigContinue
     else DigArm)"

text \<open>Step 5b of \<open>DispatchKeyAction\<close>: the new flag, and whether the key passes through.\<close>

definition digit_led_step :: "InputMethod \<Rightarrow> bool \<Rightarrow> bool \<Rightarrow> vkey \<Rightarrow> bool \<Rightarrow> bool \<times> bool" where
  "digit_led_step meth engineEmpty armed vk shift =
    (case DecideDigitLed \<lparr>dlVk = vk, dlShift = shift, dlEngineEmpty = engineEmpty, dlMethod = meth,
       currentlyArmed = armed\<rparr> of
       DigArm \<Rightarrow> (True, True)
     | DigBypass \<Rightarrow> (armed, True)
     | DigReset \<Rightarrow> (False, True)
     | DigContinue \<Rightarrow> (armed, False))"

subsection \<open>Formula cells\<close>

record FormulaSegmentState =
  atSegmentStart :: bool
  inFormula :: bool

definition newFormulaSegment :: FormulaSegmentState where
  "newFormulaSegment = \<lparr>atSegmentStart = True, inFormula = False\<rparr>"

datatype FormulaKeyKind = Boundary | Navigate | Passive | EqualsStart | OtherContent

fun NextFormulaSegmentState :: "FormulaSegmentState \<Rightarrow> FormulaKeyKind \<Rightarrow> FormulaSegmentState" where
  "NextFormulaSegmentState s Boundary = \<lparr>atSegmentStart = True, inFormula = False\<rparr>"
| "NextFormulaSegmentState s Navigate =
    (if inFormula s then \<lparr>atSegmentStart = False, inFormula = True\<rparr>
     else \<lparr>atSegmentStart = True, inFormula = False\<rparr>)"
| "NextFormulaSegmentState s Passive = s"
| "NextFormulaSegmentState s EqualsStart =
    (if atSegmentStart s then \<lparr>atSegmentStart = False, inFormula = True\<rparr>
     else \<lparr>atSegmentStart = False, inFormula = inFormula s\<rparr>)"
| "NextFormulaSegmentState s OtherContent =
    (if atSegmentStart s then \<lparr>atSegmentStart = False, inFormula = False\<rparr>
     else \<lparr>atSegmentStart = False, inFormula = inFormula s\<rparr>)"

text \<open>The classification in \<open>HookEngine::UpdateFormulaSegment\<close>.\<close>

definition formula_key_kind :: "FormulaSegmentState \<Rightarrow> vkey \<Rightarrow> bool \<Rightarrow> FormulaKeyKind" where
  "formula_key_kind s vk shift =
    (if vk = 0x0D \<or> vk = 0x09 \<or> vk = 0x1B \<or> vk = 0x21 \<or> vk = 0x22 then Boundary
     else if 0x25 \<le> vk \<and> vk \<le> 0x28 \<or> vk = 0x24 \<or> vk = 0x23 then Navigate
     else if vk = 0x10 \<or> vk = 0x11 \<or> vk = 0x12 \<or> vk = 0x5B \<or> vk = 0x5C \<or> vk = 0x14 \<or>
             vk = 0x08 \<or> vk = 0x2E then Passive
     else if atSegmentStart s \<and> vk = 0xBB \<and> \<not> shift then EqualsStart
     else OtherContent)"

definition UpdateFormulaSegment :: "bool \<Rightarrow> FormulaSegmentState \<Rightarrow> vkey \<Rightarrow> bool \<Rightarrow> FormulaSegmentState" where
  "UpdateFormulaSegment hostIsFormulaCapable s vk shift =
    (if \<not> hostIsFormulaCapable then s
     else NextFormulaSegmentState s (formula_key_kind s vk shift))"

subsection \<open>Mode lock of an application\<close>

datatype PerAppMode = NoLock | ForceEnglish | ForceVietnamese

definition DecidePerAppMode :: "bool \<Rightarrow> bool \<Rightarrow> PerAppMode" where
  "DecidePerAppMode inExcludedSet inForcedVietnameseSet =
    (if inExcludedSet then ForceEnglish
     else if inForcedVietnameseSet then ForceVietnamese
     else NoLock)"

subsection \<open>Prefixes of macros with spaces\<close>

definition hasUpper :: "wstring \<Rightarrow> bool" where
  "hasUpper s \<longleftrightarrow> list_ex iswupper s"

definition macro_prefix_key :: "wstring \<Rightarrow> wstring \<Rightarrow> bool" where
  "macro_prefix_key candidate key \<longleftrightarrow>
    length candidate \<le> length key \<and>
    (if hasUpper key then take (length candidate) key = candidate
     else take (length candidate) key = map towlower candidate)"

text \<open>The set of keys is a list here: the loop answers whether some key matches.\<close>

definition IsSpaceMacroPrefix :: "wstring \<Rightarrow> wstring list \<Rightarrow> bool" where
  "IsSpaceMacroPrefix candidate spaceKeys =
    (if spaceKeys = [] \<or> candidate = [] then False
     else list_ex (macro_prefix_key candidate) spaceKeys)"

end
