(* ===== verification/KeystrokeLaws.thy ===== *)
theory KeystrokeLaws
  imports KeystrokeDecisions
begin

text \<open>
  What the keystroke decisions guarantee: the keystroke machine of the automatic capitals agrees with
  the inspection of the text, a CJK layout suspends the Vietnamese mode and gives it back, the list of
  keys exempt from the commit-undo cancellation is the list of keys the engine treats as marks, and
  the digit-led and formula machines recognise what their headers describe.
\<close>

subsection \<open>Automatic capitals\<close>

text \<open>A key of a US layout: its code, whether Shift is held, and the character it types.\<close>

definition us_key :: "vkey \<times> bool \<times> wchar \<Rightarrow> bool" where
  "us_key k = (case k of (vk, sh, c) \<Rightarrow>
    if vk = kVkOemPeriod then c = (if sh then 62 else 46)
    else if vk = kVkOemSlash then c = (if sh then 63 else 47)
    else if vk = kVk1 then c = (if sh then 33 else 49)
    else if vk = kVkSpace then c = 32
    else if vk = kVkReturn then c = 10 \<or> c = 13
    else c \<notin> {9, 10, 13, 32, 33, 46, 63})"

text \<open>
  One plain key through the hook: the transition, and for a letter the consumption at the start of
  \<open>HandleAlphaKey\<close>. The second component says whether the engine is empty: a letter fills it, and
  space and Enter commit the word; \<open>e\<close> says what other keys do.
\<close>

definition cap_key :: "(vkey \<times> bool \<times> wchar) \<times> bool \<Rightarrow> AutoCapState \<times> bool \<Rightarrow> AutoCapState \<times> bool" where
  "cap_key k s = (case (k, s) of (((vk, sh, c), e), (st, engineEmpty)) \<Rightarrow>
    let st' = ComputeAutoCapStateTransition st vk sh False False False in
    if is_alpha_vk vk then (snd (snd (capitalise_letter True engineEmpty None st' vk sh False)), False)
    else (st', vk = kVkSpace \<or> vk = kVkReturn \<or> e))"

text \<open>The state the machine should be in after a text.\<close>

definition cap_spec :: "wstring \<Rightarrow> AutoCapState" where
  "cap_spec s =
    (if ComputeShouldAutoCap s then ReadyToCapitalize
     else if s \<noteq> [] \<and> last s \<in> {33, 46, 63} then AfterPunct else CapIdle)"

lemma cap_scan_skipped:
  "cap_scan r True \<noteq> CapNone \<longleftrightarrow> cap_scan r False \<noteq> CapNone \<or> (r \<noteq> [] \<and> hd r \<in> {33, 46, 63})"
  by (cases r) auto

lemma cap_spec_snoc:
  "cap_spec (s @ [c]) =
    (if c = 32 \<or> c = 9 then (if cap_spec s = CapIdle then CapIdle else ReadyToCapitalize)
     else if c = 10 \<or> c = 13 then ReadyToCapitalize
     else if c \<in> {33, 46, 63} then AfterPunct else CapIdle)"
proof (cases "c = 32 \<or> c = 9")
  case True
  then have "ComputeShouldAutoCap (s @ [c]) \<longleftrightarrow> cap_scan (rev s) True \<noteq> CapNone"
    by (auto simp: ComputeShouldAutoCap_def ClassifyCapTrigger_def)
  also have "\<dots> \<longleftrightarrow> ComputeShouldAutoCap s \<or> (s \<noteq> [] \<and> last s \<in> {33, 46, 63})"
    by (simp add: cap_scan_skipped ComputeShouldAutoCap_def ClassifyCapTrigger_def hd_rev)
  finally show ?thesis using True by (auto simp: cap_spec_def)
qed (auto simp: cap_spec_def ComputeShouldAutoCap_def ClassifyCapTrigger_def)

lemma cap_key_step:
  assumes k: "us_key (vk, sh, c)" "\<not> (vk = kVkOemPeriod \<and> sh)" and e: "st = ReadyToCapitalize \<longrightarrow> em"
    and s: "st = cap_spec s"
  shows "cap_key ((vk, sh, c), e) (st, em) = (cap_spec (s @ [c]), snd (cap_key ((vk, sh, c), e) (st, em))) \<and>
    (cap_spec (s @ [c]) = ReadyToCapitalize \<longrightarrow> snd (cap_key ((vk, sh, c), e) (st, em)))"
proof (cases "is_alpha_vk vk")
  case True
  then have "c \<notin> {9, 10, 13, 32, 33, 46, 63}" using k by (auto simp: us_key_def is_alpha_vk_def split: if_splits)
  moreover have "ComputeAutoCapStateTransition st vk sh False False False =
      (if st = ReadyToCapitalize then st else CapIdle)"
    using True by (auto simp: ComputeAutoCapStateTransition_def is_alpha_vk_def)
  ultimately show ?thesis using True e
    by (auto simp: cap_spec_snoc cap_key_def capitalise_letter_def Let_def)
next
  case False
  have "ComputeAutoCapStateTransition (cap_spec s) vk sh False False False = cap_spec (s @ [c])"
  proof (cases "vk \<in> {kVkOemPeriod, kVkOemSlash, kVk1, kVkSpace, kVkReturn}")
    case True
    then show ?thesis using k
      by (elim insertE; cases sh; cases "cap_spec s")
         (auto simp: cap_spec_snoc ComputeAutoCapStateTransition_def us_key_def is_alpha_vk_def)
  next
    case other: False
    then have "c \<notin> {9, 10, 13, 32, 33, 46, 63}" using k by (simp add: us_key_def)
    then show ?thesis using other False by (simp add: cap_spec_snoc ComputeAutoCapStateTransition_def)
  qed
  moreover have "cap_spec (s @ [c]) = ReadyToCapitalize \<longrightarrow> vk = kVkSpace \<or> vk = kVkReturn"
    using k False by (auto simp: cap_spec_snoc us_key_def split: if_splits)
  ultimately show ?thesis using False by (auto simp: s cap_key_def Let_def)
qed

lemma cap_keys_run:
  "list_all (\<lambda>(k, e). us_key k \<and> \<not> (fst k = kVkOemPeriod \<and> fst (snd k))) ks \<Longrightarrow>
    cap_spec s = ReadyToCapitalize \<longrightarrow> em \<Longrightarrow>
    fst (fold cap_key ks (cap_spec s, em)) = cap_spec (s @ map (\<lambda>(k, e). snd (snd k)) ks)"
proof (induction ks arbitrary: s em)
  case (Cons x ks)
  obtain vk sh c e where x: "x = ((vk, sh, c), e)" by (metis prod.collapse)
  let ?n = "cap_key ((vk, sh, c), e) (cap_spec s, em)"
  have k: "us_key (vk, sh, c)" "\<not> (vk = kVkOemPeriod \<and> sh)" using Cons.prems by (auto simp: x)
  note st = cap_key_step[OF k Cons.prems(2) refl, of e]
  have "fst (fold cap_key ks (cap_spec (s @ [c]), snd ?n)) =
      cap_spec ((s @ [c]) @ map (\<lambda>(k, e). snd (snd k)) ks)"
    using Cons.IH[of "s @ [c]" "snd ?n"] Cons.prems st by (simp add: x)
  then show ?case using st by (simp add: x)
qed simp

text \<open>From the first Enter on, the keystroke machine is armed exactly when the inspection of the
  text before the caret asks for a capital, whatever keys of a US layout are typed and whatever words
  they form, if no shifted period is among them.\<close>

theorem caps_keystrokes_agree:
  assumes "us_key (kVkReturn, sh, nl)"
    and "list_all (\<lambda>(k, e). us_key k \<and> \<not> (fst k = kVkOemPeriod \<and> fst (snd k))) ks"
  shows "fst (fold cap_key (((kVkReturn, sh, nl), e) # ks) (st, em)) = ReadyToCapitalize \<longleftrightarrow>
    ComputeShouldAutoCap (nl # map (\<lambda>(k, e). snd (snd k)) ks)"
proof -
  have "cap_spec [nl] = ReadyToCapitalize"
    using assms(1) cap_spec_snoc[of "[]" nl] by (auto simp: us_key_def)
  moreover have "cap_key ((kVkReturn, sh, nl), e) (st, em) = (ReadyToCapitalize, True)"
    by (simp add: cap_key_def ComputeAutoCapStateTransition_def is_alpha_vk_def)
  ultimately have "fst (fold cap_key (((kVkReturn, sh, nl), e) # ks) (st, em)) =
      cap_spec ([nl] @ map (\<lambda>(k, e). snd (snd k)) ks)"
    using cap_keys_run[OF assms(2), of "[nl]" True] by simp
  then show ?thesis by (simp add: cap_spec_def)
qed

lemma caps_keystrokes_agree_witness:
  "fst (fold cap_key [((kVkReturn, False, 10), True), ((0x41, True, 65), True), ((kVkOemPeriod, False, 46), True),
      ((kVkSpace, False, 32), True)] (CapIdle, True)) = ReadyToCapitalize \<longleftrightarrow>
    ComputeShouldAutoCap [10, 65, 46, 32]"
  using caps_keystrokes_agree[of False 10
    "[((0x41, True, 65), True), ((kVkOemPeriod, False, 46), True), ((kVkSpace, False, 32), True)]" True CapIdle True]
  by (simp add: us_key_def)

text \<open>A shifted period types the greater-than sign, and yet arms the machine.\<close>

lemma shifted_period_arms:
  "fst (fold cap_key [((kVkReturn, False, 10), True), ((0x41, True, 65), True), ((kVkOemPeriod, True, 62), True),
      ((kVkSpace, False, 32), True)] (CapIdle, True)) = ReadyToCapitalize \<and>
    us_key (kVkOemPeriod, True, 62) \<and> \<not> ComputeShouldAutoCap [10, 65, 62, 32]"
  by (simp add: cap_key_def ComputeAutoCapStateTransition_def is_alpha_vk_def capitalise_letter_def Let_def
    us_key_def ComputeShouldAutoCap_def ClassifyCapTrigger_def)

subsection \<open>The CJK layout switch\<close>

lemma CheckLayoutChange_open:
  "CheckLayoutChange False False True compatible h =
    (if compatible = cachedIsCompatLayout h then h
     else if \<not> compatible \<and> \<not> layoutSuppressed h then
       h\<lparr>cachedIsCompatLayout := compatible, layoutSuppressed := True, modeBeforeCjk := vietnameseMode h,
         vietnameseMode := False\<rparr>
     else if compatible \<and> layoutSuppressed h then
       h\<lparr>cachedIsCompatLayout := compatible, layoutSuppressed := False, vietnameseMode := modeBeforeCjk h\<rparr>
     else h\<lparr>cachedIsCompatLayout := compatible\<rparr>)"
  by (cases h) (auto simp: CheckLayoutChange_def OnLayoutChanged_def DecideCjkSwitch_def Let_def)

text \<open>While the automatic CJK switch is on and no application lock is, the Vietnamese mode after
  any sequence of layout changes is the user's mode if the current layout is compatible, and off
  otherwise.\<close>

theorem cjk_layouts_restore_mode:
  assumes "cachedIsCompatLayout h" and "\<not> layoutSuppressed h"
  shows "vietnameseMode (fold (CheckLayoutChange False False True) layouts h) \<longleftrightarrow>
    vietnameseMode h \<and> last (True # layouts)"
proof -
  let ?run = "\<lambda>ls. fold (CheckLayoutChange False False True) ls h"
  have "cachedIsCompatLayout (?run layouts) = last (True # layouts) \<and>
    layoutSuppressed (?run layouts) = (\<not> last (True # layouts)) \<and>
    (layoutSuppressed (?run layouts) \<longrightarrow> modeBeforeCjk (?run layouts) = vietnameseMode h) \<and>
    vietnameseMode (?run layouts) = (vietnameseMode h \<and> last (True # layouts))"
    by (induction layouts rule: rev_induct) (use assms in \<open>auto simp: CheckLayoutChange_open\<close>)
  then show ?thesis by blast
qed

lemma cjk_layouts_restore_mode_witness:
  "vietnameseMode (fold (CheckLayoutChange False False True) [False, False, True]
    \<lparr>vietnameseMode = True, layoutSuppressed = False, modeBeforeCjk = False, cachedIsCompatLayout = True\<rparr>)"
  by (subst cjk_layouts_restore_mode) simp_all

text \<open>An application lock keeps the mode: no layout changes it.\<close>

lemma locked_mode_kept:
  "excluded \<or> forced \<Longrightarrow> vietnameseMode (CheckLayoutChange excluded forced autoSwitch compatible h) = vietnameseMode h"
  by (auto simp: CheckLayoutChange_def OnLayoutChanged_def DecideCjkSwitch_def Let_def)

subsection \<open>Keys that may modify the committed word\<close>

lemma exempt_marks [simp]:
  "IsCommitUndoExemptAction ClearTone" "IsCommitUndoExemptAction ToneAcute" "IsCommitUndoExemptAction ToneGrave"
  "IsCommitUndoExemptAction ToneHook" "IsCommitUndoExemptAction ToneTilde" "IsCommitUndoExemptAction ToneDot"
  "IsCommitUndoExemptAction CircumflexA" "IsCommitUndoExemptAction CircumflexE" "IsCommitUndoExemptAction CircumflexO"
  "IsCommitUndoExemptAction HornW" "IsCommitUndoExemptAction StrokeD"
  "IsCommitUndoExemptAction VniCircumflex" "IsCommitUndoExemptAction VniHorn" "IsCommitUndoExemptAction VniBreve"
  "IsCommitUndoExemptAction VniStroke" "\<not> IsCommitUndoExemptAction ActNone"
  by (simp_all add: IsCommitUndoExemptAction_def IsToneAction_def IsTelexModifierAction_def
    IsVniModifierAction_def action_order)

lemma ClassifyKey_letter:
  "97 \<le> l \<Longrightarrow> l \<le> 122 \<Longrightarrow> IsCommitUndoExemptAction (ClassifyKey l telex vni) \<longleftrightarrow>
    telex \<and> (l = L_s \<or> l = L_f \<or> l = L_r \<or> l = L_x \<or> l = L_j \<or> l = L_z \<or> l = L_a \<or> l = L_e \<or> l = L_o \<or>
      l = L_w \<or> l = L_d)"
  by (simp add: ClassifyKey_def classify_telex_def classify_vni_def)

lemma ClassifyKey_digit:
  "48 \<le> l \<Longrightarrow> l \<le> 57 \<Longrightarrow> IsCommitUndoExemptAction (ClassifyKey l telex vni) \<longleftrightarrow> vni"
proof -
  assume "48 \<le> l" "l \<le> 57"
  then have "l = 48 \<or> l = 49 \<or> l = 50 \<or> l = 51 \<or> l = 52 \<or> l = 53 \<or> l = 54 \<or> l = 55 \<or> l = 56 \<or> l = 57"
    by arith
  then show ?thesis by (elim disjE) (simp_all add: ClassifyKey_def classify_telex_def classify_vni_def)
qed

text \<open>Of the letters and the unshifted digits, the keys exempt from the cancellation of a commit
  undo are exactly those the engine classifies as a tone or a modifier in the same typing method.\<close>

theorem exempt_keys_are_marks:
  assumes "65 \<le> vk \<and> vk \<le> 90 \<or> 48 \<le> vk \<and> vk \<le> 57 \<and> \<not> sh" and "meth \<noteq> UserDefined"
  shows "IsCommitUndoExemptKey vk meth sh esc custom \<longleftrightarrow>
    IsCommitUndoExemptAction (ClassifyKey (towlower vk)
      (meth = Telex \<or> meth = SimpleTelex \<or> meth = Combined) (meth = VNI \<or> meth = Combined))"
  using assms(1)
proof
  assume l: "65 \<le> vk \<and> vk \<le> 90"
  then have "towlower vk = vk + 32" by (simp add: towlower_def)
  then show ?thesis using l assms(2)
    by (cases meth) (auto simp: IsCommitUndoExemptKey_def isTelexModifierLetter_def isVniModifierDigit_def
      ClassifyKey_letter)
next
  assume d: "48 \<le> vk \<and> vk \<le> 57 \<and> \<not> sh"
  then have "towlower vk = vk" by (simp add: towlower_def)
  then show ?thesis using d assms(2)
    by (cases meth) (auto simp: IsCommitUndoExemptKey_def isTelexModifierLetter_def isVniModifierDigit_def
      ClassifyKey_digit)
qed

lemma exempt_keys_are_marks_witness:
  "IsCommitUndoExemptKey 83 Telex False False False \<and> \<not> IsCommitUndoExemptKey 66 Combined True False False"
  using exempt_keys_are_marks[of 83 False Telex False False] exempt_keys_are_marks[of 66 True Combined False False]
  by (simp add: ClassifyKey_def classify_telex_def classify_vni_def towlower_def)

subsection \<open>Digit-led words\<close>

text \<open>The keys of a word after its first digit, up to the boundary key, pass through unchanged.\<close>

fun digit_led_run :: "InputMethod \<Rightarrow> bool \<Rightarrow> (vkey \<times> bool) list \<Rightarrow> bool \<times> bool list" where
  "digit_led_run meth armed [] = (armed, [])"
| "digit_led_run meth armed ((vk, sh) # ks) =
    (let (armed', through) = digit_led_step meth True armed vk sh; (a, ts) = digit_led_run meth armed' ks
     in (a, through # ts))"

lemma digit_led_armed:
  "list_all (\<lambda>(vk, sh). \<not> IsDigitLedBoundary vk) ks \<Longrightarrow>
    digit_led_run meth True ks = (True, map (\<lambda>_. True) ks)"
  by (induction ks) (auto simp: digit_led_step_def DecideDigitLed_def)

lemma digit_led_word:
  assumes "48 \<le> d" "d \<le> 57" "meth \<in> {VNI, Combined, UserDefined}"
    and "list_all (\<lambda>(vk, sh). \<not> IsDigitLedBoundary vk) ks" and "IsDigitLedBoundary b"
  shows "digit_led_run meth False ((d, False) # ks @ [(b, sh)]) = (False, map (\<lambda>_. True) ((d, False) # ks @ [(b, sh)]))"
proof -
  have "digit_led_step meth True False d False = (True, True)"
    using assms(1-3) by (auto simp: digit_led_step_def DecideDigitLed_def)
  moreover have "digit_led_run meth True (ks @ [(b, sh)]) = (False, map (\<lambda>_. True) (ks @ [(b, sh)]))"
    using assms(4,5) by (induction ks) (auto simp: digit_led_step_def DecideDigitLed_def)
  ultimately show ?thesis by simp
qed

subsection \<open>Formula cells\<close>

text \<open>The content keys of the current segment: since the last boundary, where an arrow key outside a
  formula is a boundary too.\<close>

definition formula_spec :: "FormulaKeyKind list \<Rightarrow> FormulaSegmentState" where
  "formula_spec content = \<lparr>atSegmentStart = (content = []), inFormula = (content \<noteq> [] \<and> hd content = EqualsStart)\<rparr>"

definition segment_step :: "FormulaKeyKind list \<Rightarrow> FormulaKeyKind \<Rightarrow> FormulaKeyKind list" where
  "segment_step content k =
    (if k = Boundary then []
     else if k = Navigate then (if content \<noteq> [] \<and> hd content = EqualsStart then content else [])
     else if k = Passive then content
     else content @ [k])"

text \<open>The two flags refine the list of content keys: the machine knows whether the segment has begun
  and whether its first content key was the equals sign.\<close>

lemma formula_refines: "NextFormulaSegmentState (formula_spec content) k = formula_spec (segment_step content k)"
  by (cases k) (auto simp: formula_spec_def segment_step_def)

lemma formula_run_refines:
  "fold (\<lambda>k s. NextFormulaSegmentState s k) ks newFormulaSegment = formula_spec (fold (\<lambda>k c. segment_step c k) ks [])"
proof (induction ks rule: rev_induct)
  case Nil
  then show ?case by (simp add: newFormulaSegment_def formula_spec_def)
qed (simp add: formula_refines)

subsection \<open>Application locks and macro prefixes\<close>

lemma forced_English_wins: "DecidePerAppMode True v = ForceEnglish"
  by (simp add: DecidePerAppMode_def)

text \<open>A prefix of a matching candidate matches too, so a macro key typed letter by letter keeps its
  buffer from the first letter on.\<close>

lemma macro_prefix_closed:
  assumes "macro_prefix_key (s @ t) key" shows "macro_prefix_key s key"
proof -
  have "take (length (s @ t)) key = (if hasUpper key then s @ t else map towlower (s @ t))"
    and l: "length (s @ t) \<le> length key"
    using assms by (auto simp only: macro_prefix_key_def split: if_splits)
  then have "take (length s) (take (length (s @ t)) key) = (if hasUpper key then s else map towlower s)"
    by (simp only:) simp
  moreover have "take (length s) (take (length (s @ t)) key) = take (length s) key" by simp
  ultimately show ?thesis using l by (simp add: macro_prefix_key_def)
qed

lemma IsSpaceMacroPrefix_closed:
  "IsSpaceMacroPrefix (s @ t) keys \<Longrightarrow> s \<noteq> [] \<Longrightarrow> IsSpaceMacroPrefix s keys"
  by (auto simp: IsSpaceMacroPrefix_def list_ex_iff split: if_splits dest: macro_prefix_closed)

end
