(* ===== verification/HookMailbox.thy ===== *)
theory HookMailbox
  imports Prelude
begin

text \<open>
  The command mailbox between the threads of the program (\<open>app/system/HookCommandMailbox.cpp\<close>): any
  thread posts a bit and possibly a focus snapshot, the hook thread drains. First the calls as
  functions, then their atomic accesses as the steps of an interleaving of any number of producers
  with the hook thread. All accesses of the protocol are sequentially consistent or ordered by it, so
  a step is one access. A posted wake-up is a message of the hook thread's queue (\<open>HookLifecycle.cpp\<close>).
\<close>

unbundle bit_operations_syntax

abbreviation kFocusChanged :: u32 where "kFocusChanged \<equiv> 0x01"
abbreviation kConfigApply :: u32 where "kConfigApply \<equiv> 0x02"
abbreviation kTickPoll :: u32 where "kTickPoll \<equiv> 0x04"
abbreviation kToggleVN :: u32 where "kToggleVN \<equiv> 0x08"

subsection \<open>The calls\<close>

text \<open>A snapshot is known by a number here; the mailbox never looks into it.\<close>

record Mailbox =
  mbBits :: u32
  pendingFocus :: "nat option"
  wakePosted :: bool

definition newMailbox :: Mailbox where
  "newMailbox = \<lparr>mbBits = 0, pendingFocus = None, wakePosted = False\<rparr>"

definition ResetLatch :: "Mailbox \<Rightarrow> Mailbox" where
  "ResetLatch m = m\<lparr>mbBits := 0, wakePosted := False\<rparr>"

text \<open>\<open>Post\<close> answers whether it fires the wake function.\<close>

definition Post :: "u32 \<Rightarrow> nat option \<Rightarrow> Mailbox \<Rightarrow> bool \<times> Mailbox" where
  "Post b cls m =
    (let m = (if cls \<noteq> None then m\<lparr>pendingFocus := cls\<rparr> else m);
         m = m\<lparr>mbBits := mbBits m OR b\<rparr>
     in (\<not> wakePosted m, m\<lparr>wakePosted := True\<rparr>))"

definition DrainBits :: "Mailbox \<Rightarrow> u32 \<times> Mailbox" where
  "DrainBits m = (let m = m\<lparr>wakePosted := False\<rparr> in (mbBits m, m\<lparr>mbBits := 0\<rparr>))"

definition ConsumePendingFocus :: "Mailbox \<Rightarrow> nat option \<times> Mailbox" where
  "ConsumePendingFocus m = (pendingFocus m, m\<lparr>pendingFocus := None\<rparr>)"

subsection \<open>Dispatch on the hook thread\<close>

text \<open>
  The handlers \<open>DrainHookCommands\<close> calls, over a state of the hook thread: focus, tick, toggle and
  configuration, and the number of characters in the engine.
\<close>

record 'h Handlers =
  doFocus :: "nat option \<Rightarrow> 'h \<Rightarrow> 'h"
  doTick :: "'h \<Rightarrow> 'h"
  doToggle :: "'h \<Rightarrow> 'h"
  doConfig :: "'h \<Rightarrow> 'h"
  engineCount :: "'h \<Rightarrow> nat"

definition DrainHookCommands :: "'h Handlers \<Rightarrow> bool \<times> 'h \<times> Mailbox \<Rightarrow> bool \<times> 'h \<times> Mailbox" where
  "DrainHookCommands H s =
    (case s of (deferred, h, m) \<Rightarrow>
      let (b, m) = DrainBits m in
      if b = 0 \<and> \<not> deferred then (deferred, h, m)
      else (let deferred = (deferred \<or> b AND kConfigApply \<noteq> 0);
                (h, m) = (if b AND kFocusChanged \<noteq> 0
                          then (let (cls, m) = ConsumePendingFocus m in (doFocus H cls h, m)) else (h, m));
                h = (if b AND kTickPoll \<noteq> 0 then doTick H h else h);
                h = (if b AND kToggleVN \<noteq> 0 then doToggle H h else h)
            in if deferred \<and> engineCount H h = 0 then (False, doConfig H h, m)
               else (deferred, h, m)))"

subsection \<open>Interleavings\<close>

datatype producer = PIdle | PStore u32 nat | PSet u32 | PWake | PFire

datatype consumer = CIdle | CClear | CExchange | CFocus

record Channel = Mailbox +
  wakeMessages :: nat
  producers :: "producer list"
  hookThread :: consumer

definition newChannel :: "nat \<Rightarrow> Channel" where
  "newChannel n = \<lparr>mbBits = 0, pendingFocus = None, wakePosted = False, wakeMessages = 0,
    producers = replicate n PIdle, hookThread = CIdle\<rparr>"

text \<open>The accesses of calls under way, and the hook thread's reaction to a wake-up message.\<close>

inductive channel_step :: "Channel \<Rightarrow> Channel \<Rightarrow> bool" where
  store_focus: "i < length (producers s) \<Longrightarrow> producers s ! i = PStore b f \<Longrightarrow>
    channel_step s (s\<lparr>pendingFocus := Some f, producers := (producers s)[i := PSet b]\<rparr>)"
| set_bit: "i < length (producers s) \<Longrightarrow> producers s ! i = PSet b \<Longrightarrow>
    channel_step s (s\<lparr>mbBits := mbBits s OR b, producers := (producers s)[i := PWake]\<rparr>)"
| latch: "i < length (producers s) \<Longrightarrow> producers s ! i = PWake \<Longrightarrow>
    channel_step s (s\<lparr>wakePosted := True,
      producers := (producers s)[i := (if wakePosted s then PIdle else PFire)]\<rparr>)"
| fire: "i < length (producers s) \<Longrightarrow> producers s ! i = PFire \<Longrightarrow>
    channel_step s (s\<lparr>wakeMessages := Suc (wakeMessages s), producers := (producers s)[i := PIdle]\<rparr>)"
| take_message: "hookThread s = CIdle \<Longrightarrow> wakeMessages s = Suc m \<Longrightarrow>
    channel_step s (s\<lparr>wakeMessages := m, hookThread := CClear\<rparr>)"
| clear_latch: "hookThread s = CClear \<Longrightarrow>
    channel_step s (s\<lparr>wakePosted := False, hookThread := CExchange\<rparr>)"
| exchange_bits: "hookThread s = CExchange \<Longrightarrow>
    channel_step s (s\<lparr>mbBits := 0, hookThread := (if mbBits s AND kFocusChanged \<noteq> 0 then CFocus else CIdle)\<rparr>)"
| consume_focus: "hookThread s = CFocus \<Longrightarrow>
    channel_step s (s\<lparr>pendingFocus := None, hookThread := CIdle\<rparr>)"

text \<open>What the rest of the program starts: a post by an idle producer (a snapshot always comes with
  the focus bit), or a drain before a keystroke.\<close>

inductive channel_event :: "Channel \<Rightarrow> Channel \<Rightarrow> bool" where
  post: "i < length (producers s) \<Longrightarrow> producers s ! i = PIdle \<Longrightarrow>
    cls = None \<or> b AND kFocusChanged \<noteq> 0 \<Longrightarrow>
    channel_event s (s\<lparr>producers := (producers s)[i := (case cls of Some f \<Rightarrow> PStore b f | None \<Rightarrow> PSet b)]\<rparr>)"
| keydown: "hookThread s = CIdle \<Longrightarrow> channel_event s (s\<lparr>hookThread := CClear\<rparr>)"

inductive channel_reachable :: "nat \<Rightarrow> Channel \<Rightarrow> bool" for n where
  channel_init: "channel_reachable n (newChannel n)"
| channel_internal: "channel_reachable n s \<Longrightarrow> channel_step s t \<Longrightarrow> channel_reachable n t"
| channel_external: "channel_reachable n s \<Longrightarrow> channel_event s t \<Longrightarrow> channel_reachable n t"

inductive_cases channel_stepE: "channel_step s t"
inductive_cases channel_eventE: "channel_event s t"

end
