(* ===== verification/HookMailboxLaws.thy ===== *)
theory HookMailboxLaws
  imports HookMailbox
begin

text \<open>
  The mailbox never strands a command: as long as a bit is set, a wake-up is on its way or a drain is
  about to take it, in every interleaving; and whatever the order of the steps, the calls under way
  come to an end and leave the mailbox empty.
\<close>

subsection \<open>Lists of producers\<close>

lemma mem_update_other: "x \<in> set xs \<Longrightarrow> i < length xs \<Longrightarrow> xs ! i \<noteq> x \<Longrightarrow> x \<in> set (xs[i := y])"
  by (metis in_set_conv_nth length_list_update nth_list_update_neq)

lemma mem_update_new: "i < length xs \<Longrightarrow> y \<in> set (xs[i := y])"
  by (rule set_update_memI)

lemma mem_update_old: "x \<in> set (xs[i := y]) \<Longrightarrow> x = y \<or> x \<in> set xs"
  using set_update_subset_insert by fastforce

lemma or_eq_zero: "(a :: u32) OR b = 0 \<longleftrightarrow> a = 0 \<and> b = 0"
  by (auto simp: or_eq_0_iff)

lemma and_or_flag: "((a :: u32) OR b) AND m \<noteq> 0 \<longleftrightarrow> a AND m \<noteq> 0 \<or> b AND m \<noteq> 0"
  by (simp add: bit.conj_disj_distrib2 or_eq_zero)

subsection \<open>The invariant\<close>

definition wake_coming :: "Channel \<Rightarrow> bool" where
  "wake_coming s \<longleftrightarrow> 0 < wakeMessages s \<or> PFire \<in> set (producers s) \<or> hookThread s = CClear"

definition latch_ok :: "Channel \<Rightarrow> bool" where
  "latch_ok s \<longleftrightarrow> (wakePosted s \<longrightarrow> wake_coming s) \<and>
    (mbBits s \<noteq> 0 \<longrightarrow> wake_coming s \<or> PWake \<in> set (producers s) \<or> hookThread s = CExchange)"

definition focus_coming :: "producer list \<Rightarrow> bool" where
  "focus_coming ps \<longleftrightarrow> (\<exists>b. PSet b \<in> set ps \<and> b AND kFocusChanged \<noteq> 0)"

lemma focus_coming_update:
  "focus_coming ps \<Longrightarrow> i < length ps \<Longrightarrow> (\<And>b. ps ! i \<noteq> PSet b) \<Longrightarrow> focus_coming (ps[i := p])"
  unfolding focus_coming_def by (metis mem_update_other)

lemma focus_coming_new:
  "i < length ps \<Longrightarrow> b AND kFocusChanged \<noteq> 0 \<Longrightarrow> focus_coming (ps[i := PSet b])"
  unfolding focus_coming_def by (metis mem_update_new)

lemma focus_coming_set:
  "focus_coming ps \<Longrightarrow> i < length ps \<Longrightarrow> ps ! i = PSet b \<Longrightarrow>
    b AND kFocusChanged \<noteq> 0 \<or> focus_coming (ps[i := p])"
  unfolding focus_coming_def by (metis mem_update_other producer.inject(2))

definition focus_ok :: "Channel \<Rightarrow> bool" where
  "focus_ok s \<longleftrightarrow> (\<forall>b f. PStore b f \<in> set (producers s) \<longrightarrow> b AND kFocusChanged \<noteq> 0) \<and>
    (pendingFocus s \<noteq> None \<longrightarrow> mbBits s AND kFocusChanged \<noteq> 0 \<or>
      focus_coming (producers s) \<or> hookThread s = CFocus)"

lemma latch_ok_step: "channel_step s t \<Longrightarrow> latch_ok s \<Longrightarrow> latch_ok t"
  by (induction rule: channel_step.induct)
     (auto simp: latch_ok_def wake_coming_def mem_update_new mem_update_other or_eq_zero)

lemma latch_ok_event: "channel_event s t \<Longrightarrow> latch_ok s \<Longrightarrow> latch_ok t"
  by (induction rule: channel_event.induct)
     (auto simp: latch_ok_def wake_coming_def mem_update_other split: option.split)

lemma focus_ok_step: "channel_step s t \<Longrightarrow> focus_ok s \<Longrightarrow> focus_ok t"
proof (induction rule: channel_step.induct)
  case (store_focus i s b f)
  then have "PStore b f \<in> set (producers s)" by (metis nth_mem)
  then have "b AND kFocusChanged \<noteq> 0" using store_focus by (auto simp: focus_ok_def)
  then show ?case using store_focus
    by (auto simp: focus_ok_def focus_coming_new dest!: mem_update_old)
next
  case (set_bit i s b)
  then show ?case
    by (auto simp: focus_ok_def and_or_flag dest!: mem_update_old dest: focus_coming_set)
next
  case (latch i s)
  then show ?case
    by (auto simp: focus_ok_def focus_coming_update dest!: mem_update_old)
next
  case (fire i s)
  then show ?case by (auto simp: focus_ok_def focus_coming_update dest!: mem_update_old)
qed (auto simp: focus_ok_def)

lemma focus_ok_event: "channel_event s t \<Longrightarrow> focus_ok s \<Longrightarrow> focus_ok t"
proof (induction rule: channel_event.induct)
  case (post i s cls b)
  then show ?case
    by (cases cls) (auto simp: focus_ok_def focus_coming_update dest!: mem_update_old)
qed (auto simp: focus_ok_def)

lemma reachable_mailbox: "channel_reachable n s \<Longrightarrow> latch_ok s \<and> focus_ok s"
proof (induction rule: channel_reachable.induct)
  case channel_init
  show ?case by (simp add: newChannel_def latch_ok_def focus_ok_def)
qed (auto intro: latch_ok_step latch_ok_event focus_ok_step focus_ok_event)

text \<open>C23: No command is stranded in the mailbox: in every interleaving of any number of producers with
  the hook thread, while a bit is set a wake-up message is queued or about to be posted, or the hook
  thread is in a drain that takes the bit.\<close>

theorem mailbox_never_strands:
  assumes "channel_reachable n s" and "mbBits s \<noteq> 0"
  shows "0 < wakeMessages s \<or> (\<exists>p \<in> set (producers s). p = PWake \<or> p = PFire) \<or>
    hookThread s = CClear \<or> hookThread s = CExchange"
  using reachable_mailbox[OF assms(1)] assms(2) by (auto simp: latch_ok_def wake_coming_def)

subsection \<open>Progress\<close>

fun producer_weight :: "producer \<Rightarrow> nat" where
  "producer_weight PIdle = 0"
| "producer_weight (PStore b f) = 10"
| "producer_weight (PSet b) = 9"
| "producer_weight PWake = 8"
| "producer_weight PFire = 7"

fun consumer_weight :: "consumer \<Rightarrow> nat" where
  "consumer_weight CIdle = 0"
| "consumer_weight CClear = 3"
| "consumer_weight CExchange = 2"
| "consumer_weight CFocus = 1"

definition channel_weight :: "Channel \<Rightarrow> nat" where
  "channel_weight s =
    sum_list (map producer_weight (producers s)) + 6 * wakeMessages s + consumer_weight (hookThread s)"

lemma weight_update:
  assumes "i < length ps" and "producer_weight p + k < producer_weight (ps ! i)"
  shows "sum_list (map producer_weight (ps[i := p])) + k < sum_list (map producer_weight ps)"
proof -
  have "sum_list (map producer_weight (ps[i := p])) =
      sum_list (map producer_weight ps) + producer_weight p - producer_weight (ps ! i)"
    using assms(1) by (simp add: map_update sum_list_update)
  moreover have "producer_weight (ps ! i) \<le> sum_list (map producer_weight ps)"
    using assms(1) by (metis elem_le_sum_list length_map nth_map)
  ultimately show ?thesis using assms(2) by linarith
qed

lemma channel_step_decreases: "channel_step s t \<Longrightarrow> channel_weight t < channel_weight s"
proof (induction rule: channel_step.induct)
  case (store_focus i s b f)
  then show ?case using weight_update[of i "producers s" "PSet b" 0] by (simp add: channel_weight_def)
next
  case (set_bit i s b)
  then show ?case using weight_update[of i "producers s" PWake 0] by (simp add: channel_weight_def)
next
  case (latch i s)
  then show ?case
    using weight_update[of i "producers s" "if wakePosted s then PIdle else PFire" 0] by (simp add: channel_weight_def)
next
  case (fire i s)
  then show ?case using weight_update[of i "producers s" PIdle 6] by (simp add: channel_weight_def)
qed (auto simp: channel_weight_def)

lemma channel_step_enabled:
  assumes "p \<in> set (producers s)" "p \<noteq> PIdle" shows "\<exists>t. channel_step s t"
proof -
  obtain i where i: "i < length (producers s)" "producers s ! i = p" using assms(1) by (metis in_set_conv_nth)
  then show ?thesis using assms(2)
    by (cases p) (metis store_focus set_bit latch fire)+
qed

lemma channel_quiescent:
  assumes "\<nexists>t. channel_step s t"
  shows "set (producers s) \<subseteq> {PIdle} \<and> hookThread s = CIdle \<and> wakeMessages s = 0"
proof -
  have "hookThread s = CIdle"
    using assms by (cases "hookThread s") (blast intro: clear_latch exchange_bits consume_focus)+
  moreover from this have "wakeMessages s = 0"
    using assms by (cases "wakeMessages s") (blast intro: take_message)+
  ultimately show ?thesis using channel_step_enabled assms by auto
qed

lemma steps_reachable: "channel_step\<^sup>*\<^sup>* s t \<Longrightarrow> channel_reachable n s \<Longrightarrow> channel_reachable n t"
  by (induction rule: rtranclp_induct) (auto intro: channel_internal)

text \<open>C24: Every command is taken: from any reachable state the steps under way cannot go on for ever,
  and in whatever order they are taken, once none is left the mailbox holds no bit and no focus
  snapshot, and the hook thread is idle.\<close>

theorem mailbox_drains:
  assumes "channel_reachable n s"
  shows "(\<nexists>f. f 0 = s \<and> (\<forall>k. channel_step (f k) (f (Suc k)))) \<and>
    (\<forall>t. channel_step\<^sup>*\<^sup>* s t \<and> (\<nexists>u. channel_step t u) \<longrightarrow>
      mbBits t = 0 \<and> pendingFocus t = None \<and> wakeMessages t = 0 \<and> hookThread t = CIdle)"
proof (intro conjI allI impI)
  show "\<nexists>f. f 0 = s \<and> (\<forall>k. channel_step (f k) (f (Suc k)))"
  proof
    assume "\<exists>f. f 0 = s \<and> (\<forall>k. channel_step (f k) (f (Suc k)))"
    then obtain f where "\<forall>k. channel_weight (f (Suc k)) < channel_weight (f k)"
      using channel_step_decreases by blast
    then have "\<forall>k. (f (Suc k), f k) \<in> measure channel_weight" by simp
    then show False using wf_measure[of channel_weight] wf_iff_no_infinite_down_chain by blast
  qed
next
  fix t assume t: "channel_step\<^sup>*\<^sup>* s t \<and> (\<nexists>u. channel_step t u)"
  then have inv: "latch_ok t" "focus_ok t"
    using steps_reachable assms reachable_mailbox by blast+
  note q = channel_quiescent[OF conjunct2[OF t]]
  then show "hookThread t = CIdle" "wakeMessages t = 0" by simp_all
  from q inv(1) show b: "mbBits t = 0" by (auto simp: latch_ok_def wake_coming_def)
  from q inv(2) b show "pendingFocus t = None" by (auto simp: focus_ok_def focus_coming_def)
qed

subsection \<open>Witnesses: one post, step by step\<close>

lemma one_post_reachable:
  "channel_reachable 1 \<lparr>mbBits = kFocusChanged, pendingFocus = Some 7, wakePosted = False, wakeMessages = 0,
    producers = [PWake], hookThread = CIdle\<rparr>"
proof -
  have 0: "channel_reachable 1 (newChannel 1)" by (rule channel_init)
  have 1: "channel_event (newChannel 1) ((newChannel 1)\<lparr>producers := [PStore kFocusChanged 7]\<rparr>)"
    using post[of 0 "newChannel 1" "Some 7" kFocusChanged] by (simp add: newChannel_def)
  have 2: "channel_step ((newChannel 1)\<lparr>producers := [PStore kFocusChanged 7]\<rparr>)
      ((newChannel 1)\<lparr>pendingFocus := Some 7, producers := [PSet kFocusChanged]\<rparr>)"
    using store_focus[of 0 "(newChannel 1)\<lparr>producers := [PStore kFocusChanged 7]\<rparr>" kFocusChanged 7]
    by (simp add: newChannel_def)
  have 3: "channel_step ((newChannel 1)\<lparr>pendingFocus := Some 7, producers := [PSet kFocusChanged]\<rparr>)
      ((newChannel 1)\<lparr>mbBits := kFocusChanged, pendingFocus := Some 7, producers := [PWake]\<rparr>)"
    using set_bit[of 0 "(newChannel 1)\<lparr>pendingFocus := Some 7, producers := [PSet kFocusChanged]\<rparr>" kFocusChanged]
    by (simp add: newChannel_def)
  from 0 1 2 3 have "channel_reachable 1 ((newChannel 1)\<lparr>mbBits := kFocusChanged, pendingFocus := Some 7,
      producers := [PWake]\<rparr>)"
    by (blast intro: channel_internal channel_external)
  then show ?thesis by (simp add: newChannel_def)
qed

lemma mailbox_never_strands_witness:
  "\<exists>p \<in> set (producers \<lparr>mbBits = kFocusChanged, pendingFocus = Some 7, wakePosted = False, wakeMessages = 0,
    producers = [PWake], hookThread = CIdle\<rparr>). p = PWake \<or> p = PFire"
  using mailbox_never_strands[OF one_post_reachable] by simp

lemma mailbox_drains_witness:
  "\<nexists>f. f 0 = \<lparr>mbBits = kFocusChanged, pendingFocus = Some 7, wakePosted = False, wakeMessages = 0,
    producers = [PWake], hookThread = CIdle\<rparr> \<and> (\<forall>k. channel_step (f k) (f (Suc k)))"
  using mailbox_drains[OF one_post_reachable] by blast

end
