(* ===== verification/SmartSwitch.thy ===== *)
theory SmartSwitch
  imports Prelude
begin

text \<open>
  The shared table of application modes (\<open>core/SmartSwitchState.h\<close>, \<open>core/SmartSwitchManager.cpp\<close>): a
  fixed array of 64 entries keyed by the FNV-1a hash of the program's name, of which the first \<open>count\<close>
  are valid. Other processes read it while the owner writes, so the writes are also given one by one.
\<close>

unbundle bit_operations_syntax

abbreviation SMART_SWITCH_MAX_ENTRIES :: nat where "SMART_SWITCH_MAX_ENTRIES \<equiv> 64"

record SmartSwitchEntry =
  ssHash :: u32
  ssVietnamese :: u8

record SmartSwitchState =
  ssMagic :: u32
  ssEpoch :: u32
  ssCount :: nat
  ssEntries :: "SmartSwitchEntry list"

abbreviation SMART_SWITCH_MAGIC :: u32 where "SMART_SWITCH_MAGIC \<equiv> 0x57534D53"

definition SmartSwitchInitDefaults :: SmartSwitchState where
  "SmartSwitchInitDefaults =
    \<lparr>ssMagic = SMART_SWITCH_MAGIC, ssEpoch = 0, ssCount = 0,
     ssEntries = replicate SMART_SWITCH_MAX_ENTRIES \<lparr>ssHash = 0, ssVietnamese = 0\<rparr>\<rparr>"

definition SmartSwitchIsValid :: "SmartSwitchState \<Rightarrow> bool" where
  "SmartSwitchIsValid s \<longleftrightarrow> ssMagic s = SMART_SWITCH_MAGIC"

definition FnvHash :: "wstring \<Rightarrow> u32" where
  "FnvHash str = fold (\<lambda>c h. (h XOR of_int (towlower c)) * 16777619) str 2166136261"

text \<open>The loop both operations run: the first valid entry with the hash.\<close>

definition find_entry :: "SmartSwitchState \<Rightarrow> u32 \<Rightarrow> nat option" where
  "find_entry p hash = first_idx (\<lambda>i. ssHash (ssEntries p ! i) = hash) (min (ssCount p) SMART_SWITCH_MAX_ENTRIES)"

text \<open>One memory write.\<close>

datatype SmartWrite = WHash nat u32 | WMode nat u8 | WCount nat | WEpoch u32

fun smart_write :: "SmartWrite \<Rightarrow> SmartSwitchState \<Rightarrow> SmartSwitchState" where
  "smart_write (WHash i h) s = s\<lparr>ssEntries := upd_at i (\<lambda>e. e\<lparr>ssHash := h\<rparr>) (ssEntries s)\<rparr>"
| "smart_write (WMode i v) s = s\<lparr>ssEntries := upd_at i (\<lambda>e. e\<lparr>ssVietnamese := v\<rparr>) (ssEntries s)\<rparr>"
| "smart_write (WCount n) s = s\<lparr>ssCount := n\<rparr>"
| "smart_write (WEpoch e) s = s\<lparr>ssEpoch := e\<rparr>"

definition mode_byte :: "bool \<Rightarrow> u8" where
  "mode_byte v = (if v then 1 else 0)"

definition SetAppMode_writes :: "wstring \<Rightarrow> bool \<Rightarrow> SmartSwitchState \<Rightarrow> SmartWrite list" where
  "SetAppMode_writes exe v p =
    (let hash = FnvHash exe in
     case find_entry p hash of
       Some i \<Rightarrow> [WMode i (mode_byte v), WEpoch (ssEpoch p + 1)]
     | None \<Rightarrow>
         if ssCount p < SMART_SWITCH_MAX_ENTRIES
         then [WHash (ssCount p) hash, WMode (ssCount p) (mode_byte v), WCount (ssCount p + 1),
               WEpoch (ssEpoch p + 1)]
         else [])"

definition LoadFromMap_writes :: "(wstring \<times> bool) list \<Rightarrow> SmartSwitchState \<Rightarrow> SmartWrite list" where
  "LoadFromMap_writes m p =
    (let m = take SMART_SWITCH_MAX_ENTRIES m in
     concat (map (\<lambda>(i, exe, v). [WHash i (FnvHash exe), WMode i (mode_byte v)]) (enumerate 0 m)) @
     [WCount (length m), WEpoch (ssEpoch p + 1)])"

text \<open>A manager has mapped the shared memory or has not.\<close>

type_synonym SmartSwitchManager = "SmartSwitchState option"

definition SetAppMode :: "wstring \<Rightarrow> bool \<Rightarrow> SmartSwitchManager \<Rightarrow> SmartSwitchManager" where
  "SetAppMode exe v m = map_option (\<lambda>p. fold smart_write (SetAppMode_writes exe v p) p) m"

definition GetAppMode :: "wstring \<Rightarrow> SmartSwitchManager \<Rightarrow> bool option" where
  "GetAppMode exe m =
    (case m of
       None \<Rightarrow> None
     | Some p \<Rightarrow> map_option (\<lambda>i. ssVietnamese (ssEntries p ! i) \<noteq> 0) (find_entry p (FnvHash exe)))"

definition LoadFromMap :: "(wstring \<times> bool) list \<Rightarrow> SmartSwitchManager \<Rightarrow> SmartSwitchManager" where
  "LoadFromMap mp m = map_option (\<lambda>p. fold smart_write (LoadFromMap_writes mp p) p) m"

definition IsConnected :: "SmartSwitchManager \<Rightarrow> bool" where
  "IsConnected m = (case m of None \<Rightarrow> False | Some p \<Rightarrow> ssMagic p = SMART_SWITCH_MAGIC)"

end
