(* ===== verification/ModeControl.thy ===== *)
theory ModeControl
  imports KeystrokeDecisions SmartSwitch "HOL-Library.AList"
begin

text \<open>
  The Vietnamese/English mode on the hook thread (\<open>app/system/HookEngine.cpp\<close>): what
  \<open>ApplyFocusOnHookThread\<close>, \<open>ApplyToggleVNOnHookThread\<close>, \<open>ApplyTickPollOnHookThread\<close> and
  \<open>NotifyModeChange\<close> do to the mode, the application locks, the remembered modes and the encoding,
  with the members of \<open>FocusOwner\<close> they use. The engine, the injector and the hooks' bookkeeping are
  not part of this state. The member \<open>appModeMap_\<close> is an association list with distinct keys.
\<close>

record FocusClassification =
  fcHwnd :: nat
  fcPid :: nat
  fcExeName :: wstring
  fcIsExcluded :: bool
  fcIsForcedVietnamese :: bool
  fcIsTsf :: bool
  fcTargetMethod :: InputMethod
  fcTargetCodeTable :: CodeTable
  skipAppTracking :: bool

record ModeState = HookMode +
  isExcludedApp :: bool
  isForcedVnApp :: bool
  isTsfApp :: bool
  excludedPid :: nat
  forcedVnPid :: nat
  lastForegroundPid :: nat
  activeExe :: wstring
  lastRealExe :: wstring
  previousExe :: wstring
  appModeMap :: "(wstring \<times> bool) list"
  smartTable :: SmartSwitchManager
  appModeDirty :: bool
  currentMethod :: InputMethod
  currentCodeTable :: CodeTable
  shownMode :: bool

text \<open>
  What the handlers read from outside: the configuration, the layout of the focused thread (none
  without a foreground window), whether the snapshot has encoding or method overrides, the process of
  the foreground window and our own, and the active-processor flag of the text service.
\<close>

record ModeEnv =
  envConfig :: TypingConfig
  envCompat :: "bool option"
  envNoOverrides :: bool
  envOwnPid :: nat
  envFgPid :: nat
  envTipActive :: bool

abbreviation kMaxSmartSwitchEntries :: nat where "kMaxSmartSwitchEntries \<equiv> 200"

definition displayMode :: "ModeEnv \<Rightarrow> ModeState \<Rightarrow> bool" where
  "displayMode env s =
    (let d = (isForcedVnApp s \<or> \<not> isExcludedApp s \<and> vietnameseMode s) in
     if d \<and> isTsfApp s \<and> \<not> envTipActive env then False else d)"

definition NotifyModeChange :: "ModeEnv \<Rightarrow> ModeState \<Rightarrow> ModeState" where
  "NotifyModeChange env s = s\<lparr>shownMode := displayMode env s\<rparr>"

subsection \<open>Layout\<close>

definition layout_changed :: "ModeEnv \<Rightarrow> bool \<Rightarrow> ModeState \<Rightarrow> ModeState" where
  "layout_changed env compatible s =
    (let out = DecideCjkSwitch \<lparr>isCompatibleNow = compatible, inLayoutSuppressed = layoutSuppressed s,
                 inModeBeforeCjk = modeBeforeCjk s, inVietnameseMode = vietnameseMode s,
                 isExcluded = isExcludedApp s, isForcedVietnamese = isForcedVnApp s,
                 cjkAutoSwitchEnabled = cjkAutoSwitch (envConfig env)\<rparr>;
         s = OnLayoutChanged (isExcludedApp s) (isForcedVnApp s) (cjkAutoSwitch (envConfig env)) compatible s
     in if cjkTransition out \<noteq> CjkStay \<and> needNotifyMode out then NotifyModeChange env s else s)"

definition check_layout :: "ModeEnv \<Rightarrow> ModeState \<Rightarrow> ModeState" where
  "check_layout env s =
    (case envCompat env of
       None \<Rightarrow> s
     | Some compatible \<Rightarrow>
         if compatible \<noteq> cachedIsCompatLayout s
         then layout_changed env compatible (s\<lparr>cachedIsCompatLayout := compatible\<rparr>)
         else s)"

definition ApplyTickPollOnHookThread :: "ModeEnv \<Rightarrow> ModeState \<Rightarrow> ModeState" where
  "ApplyTickPollOnHookThread env s = check_layout env s"

subsection \<open>Remembered modes\<close>

definition SetLastRealExe :: "wstring \<Rightarrow> ModeState \<Rightarrow> ModeState" where
  "SetLastRealExe exe s =
    (if lastRealExe s \<noteq> [] then s\<lparr>previousExe := lastRealExe s, lastRealExe := exe\<rparr>
     else s\<lparr>lastRealExe := exe\<rparr>)"

definition remember_mode :: "wstring \<Rightarrow> bool \<Rightarrow> ModeState \<Rightarrow> ModeState" where
  "remember_mode exe v s =
    s\<lparr>appModeMap := AList.update exe v (appModeMap s), smartTable := SetAppMode exe v (smartTable s),
      appModeDirty := True\<rparr>"

definition save_previous_app :: "ModeEnv \<Rightarrow> ModeState \<Rightarrow> ModeState" where
  "save_previous_app env s =
    (if smartSwitch (envConfig env) \<and> lastRealExe s \<noteq> [] \<and> \<not> isExcludedApp s \<and> \<not> isForcedVnApp s then
       (let s = (if kMaxSmartSwitchEntries \<le> length (appModeMap s) then s\<lparr>appModeMap := []\<rparr> else s)
        in remember_mode (lastRealExe s) (vietnameseMode s) s)
     else s)"

definition restore_mode :: "ModeEnv \<Rightarrow> bool \<Rightarrow> ModeState \<Rightarrow> ModeState" where
  "restore_mode env forced s =
    (if forced then
       (if \<not> vietnameseMode s then NotifyModeChange env (s\<lparr>vietnameseMode := True\<rparr>) else s)
     else if smartSwitch (envConfig env) then
       (case map_of (appModeMap s) (lastRealExe s) of
          Some m \<Rightarrow> if m \<noteq> vietnameseMode s then NotifyModeChange env (s\<lparr>vietnameseMode := m\<rparr>) else s
        | None \<Rightarrow> s)
     else s)"

subsection \<open>Focus\<close>

text \<open>From the smart-switch save on: a real application has the focus.\<close>

definition leave_lock :: "ModeEnv \<Rightarrow> bool \<Rightarrow> ModeState \<Rightarrow> ModeState" where
  "leave_lock env wasLocked s =
    (if wasLocked then
       (let wasSuppressed = layoutSuppressed s; s = layout_changed env (cachedIsCompatLayout s) s
        in if wasSuppressed = layoutSuppressed s then NotifyModeChange env s else s)
     else s)"

definition apply_overrides :: "FocusClassification \<Rightarrow> ModeState \<Rightarrow> ModeState" where
  "apply_overrides cls s = s\<lparr>currentCodeTable := fcTargetCodeTable cls, currentMethod := fcTargetMethod cls\<rparr>"

definition focus_real :: "ModeEnv \<Rightarrow> FocusClassification \<Rightarrow> ModeState \<Rightarrow> ModeState" where
  "focus_real env cls s =
    (let wasExcluded = isExcludedApp s; wasForcedV = isForcedVnApp s;
         s = save_previous_app env s;
         s = SetLastRealExe (fcExeName cls) s;
         s = (if fcPid cls \<noteq> 0 then s\<lparr>lastForegroundPid := fcPid cls\<rparr> else s);
         s = s\<lparr>isExcludedApp := fcIsExcluded cls, isTsfApp := fcIsTsf cls,
               isForcedVnApp := fcIsForcedVietnamese cls\<rparr>;
         s = (if fcIsForcedVietnamese cls then s\<lparr>forcedVnPid := fcPid cls\<rparr> else s)
     in if fcIsExcluded cls then
          (let s = s\<lparr>excludedPid := fcPid cls\<rparr> in if \<not> wasExcluded then NotifyModeChange env s else s)
        else
          (let s = restore_mode env (fcIsForcedVietnamese cls) s;
               s = leave_lock env (wasExcluded \<or> wasForcedV) s
           in if fcIsTsf cls then s else apply_overrides cls s))"

definition track_active :: "ModeEnv \<Rightarrow> FocusClassification \<Rightarrow> ModeState \<Rightarrow> ModeState" where
  "track_active env cls s =
    (if fcExeName cls \<noteq> [] \<and> fcPid cls \<noteq> 0 \<and> fcPid cls \<noteq> envOwnPid env
     then s\<lparr>activeExe := fcExeName cls\<rparr> else s)"

definition ApplyFocusOnHookThread :: "ModeEnv \<Rightarrow> FocusClassification option \<Rightarrow> ModeState \<Rightarrow> ModeState" where
  "ApplyFocusOnHookThread env c s =
    (case c of
       None \<Rightarrow> s
     | Some cls \<Rightarrow>
         if fcHwnd cls = 0 then s
         else
           (let s = track_active env cls (check_layout env s); cfg = envConfig env in
            if skipAppTracking cls then s
            else if \<not> smartSwitch cfg \<and> \<not> excludeApps cfg \<and> \<not> tsfApps cfg \<and> envNoOverrides env then s
            else if fcExeName cls = [] then s
            else focus_real env cls s))"

subsection \<open>The toggle\<close>

definition toggle_mode :: "ModeEnv \<Rightarrow> ModeState \<Rightarrow> ModeState" where
  "toggle_mode env s =
    (let newMode = (\<not> vietnameseMode s); s = s\<lparr>vietnameseMode := newMode\<rparr>;
         s = (if smartSwitch (envConfig env) \<and> activeExe s \<noteq> [] then remember_mode (activeExe s) newMode s else s)
     in NotifyModeChange env s)"

definition ApplyToggleVNOnHookThread :: "ModeEnv \<Rightarrow> ModeState \<Rightarrow> ModeState" where
  "ApplyToggleVNOnHookThread env s =
    (let gate = excludeApps (envConfig env) in
     if gate \<and> isExcludedApp s then
       (if envFgPid env = excludedPid s \<and> excludedPid s \<noteq> 0 then s
        else NotifyModeChange env (s\<lparr>isExcludedApp := False, vietnameseMode := True\<rparr>))
     else if gate \<and> isForcedVnApp s then
       (if envFgPid env = forcedVnPid s \<and> forcedVnPid s \<noteq> 0 then s
        else toggle_mode env (s\<lparr>isForcedVnApp := False\<rparr>))
     else toggle_mode env s)"

subsection \<open>Runs\<close>

datatype ModeEvent = Focus "FocusClassification option" | Toggle | Tick

fun mode_step :: "ModeEnv \<times> ModeEvent \<Rightarrow> ModeState \<Rightarrow> ModeState" where
  "mode_step (env, Focus c) s = ApplyFocusOnHookThread env c s"
| "mode_step (env, Toggle) s = ApplyToggleVNOnHookThread env s"
| "mode_step (env, Tick) s = ApplyTickPollOnHookThread env s"

end
