(* ===== verification/ModeLaws.thy ===== *)
theory ModeLaws
  imports ModeControl
begin

text \<open>
  What the mode handlers guarantee together: the icon shows the effective mode after every event, an
  application lock holds, an application gets back the mode it was left with; and where the CJK switch
  and the remembered modes disagree.
\<close>

subsection \<open>The layout switch on the whole state\<close>

lemma layout_changed_cases:
  "layout_changed env compatible s =
    (if \<not> cjkAutoSwitch (envConfig env) \<or> isExcludedApp s \<or> isForcedVnApp s then s
     else if \<not> compatible \<and> \<not> layoutSuppressed s then
       (if vietnameseMode s
        then NotifyModeChange env (s\<lparr>layoutSuppressed := True, modeBeforeCjk := True, vietnameseMode := False\<rparr>)
        else s\<lparr>layoutSuppressed := True, modeBeforeCjk := False\<rparr>)
     else if compatible \<and> layoutSuppressed s then
       NotifyModeChange env (s\<lparr>layoutSuppressed := False, vietnameseMode := modeBeforeCjk s\<rparr>)
     else s)"
  by (cases s) (auto simp: layout_changed_def OnLayoutChanged_def DecideCjkSwitch_def Let_def)

subsection \<open>The icon\<close>

text \<open>No text-service application is in focus, and a forced application has the Vietnamese mode.\<close>

definition locks_ok :: "ModeState \<Rightarrow> bool" where
  "locks_ok s \<longleftrightarrow> \<not> isTsfApp s \<and> (isForcedVnApp s \<longrightarrow> vietnameseMode s \<and> \<not> isExcludedApp s)"

definition icon_ok :: "ModeState \<Rightarrow> bool" where
  "icon_ok s \<longleftrightarrow> locks_ok s \<and> (shownMode s \<longleftrightarrow> isForcedVnApp s \<or> \<not> isExcludedApp s \<and> vietnameseMode s)"

lemma notify_icon: "locks_ok s \<Longrightarrow> icon_ok (NotifyModeChange env s)"
  by (simp add: icon_ok_def locks_ok_def NotifyModeChange_def displayMode_def)

lemma layout_changed_icon:
  assumes "locks_ok s" and "icon_ok s \<or> \<not> vietnameseMode s \<and> \<not> shownMode s"
  shows "locks_ok (layout_changed env c s)" and "icon_ok s \<Longrightarrow> icon_ok (layout_changed env c s)"
  using assms by (auto simp: layout_changed_cases locks_ok_def icon_ok_def NotifyModeChange_def displayMode_def)

lemma check_layout_icon: "icon_ok s \<Longrightarrow> icon_ok (check_layout env s)"
proof -
  assume i: "icon_ok s"
  then have "icon_ok (s\<lparr>cachedIsCompatLayout := c\<rparr>)" for c by (simp add: icon_ok_def locks_ok_def)
  then show ?thesis using i layout_changed_icon(2)
    by (auto simp: check_layout_def icon_ok_def split: option.split)
qed

lemma leave_lock_icon:
  assumes "locks_ok s" and "\<not> vietnameseMode s \<longrightarrow> \<not> shownMode s"
  shows "icon_ok (leave_lock env True s)"
proof -
  let ?t = "layout_changed env (cachedIsCompatLayout s) s"
  have "locks_ok ?t"
    using assms(1) by (auto simp: layout_changed_cases locks_ok_def NotifyModeChange_def)
  moreover have "icon_ok ?t" if "layoutSuppressed s \<noteq> layoutSuppressed ?t"
    using that assms
    by (auto simp: layout_changed_cases locks_ok_def icon_ok_def NotifyModeChange_def displayMode_def split: if_splits)
  ultimately show ?thesis by (auto simp: leave_lock_def Let_def notify_icon)
qed

lemma save_previous_app_frame [simp]:
  "isTsfApp (save_previous_app env s) = isTsfApp s" "isForcedVnApp (save_previous_app env s) = isForcedVnApp s"
  "isExcludedApp (save_previous_app env s) = isExcludedApp s" "vietnameseMode (save_previous_app env s) = vietnameseMode s"
  "shownMode (save_previous_app env s) = shownMode s" "lastRealExe (save_previous_app env s) = lastRealExe s"
  "activeExe (save_previous_app env s) = activeExe s"
  by (simp_all add: save_previous_app_def remember_mode_def Let_def)

lemma SetLastRealExe_frame [simp]:
  "isTsfApp (SetLastRealExe e s) = isTsfApp s" "isForcedVnApp (SetLastRealExe e s) = isForcedVnApp s"
  "isExcludedApp (SetLastRealExe e s) = isExcludedApp s" "vietnameseMode (SetLastRealExe e s) = vietnameseMode s"
  "shownMode (SetLastRealExe e s) = shownMode s" "lastRealExe (SetLastRealExe e s) = e"
  "appModeMap (SetLastRealExe e s) = appModeMap s" "activeExe (SetLastRealExe e s) = activeExe s"
  by (simp_all add: SetLastRealExe_def)

lemma restore_mode_icon:
  assumes "\<not> isTsfApp s" "\<not> isExcludedApp s" "isForcedVnApp s = forced"
    and "forced \<longrightarrow> vietnameseMode s \<longrightarrow> wasLocked \<or> shownMode s"
    and "\<not> forced \<longrightarrow> wasLocked \<or> (shownMode s \<longleftrightarrow> vietnameseMode s)"
    and "\<not> vietnameseMode s \<longrightarrow> \<not> shownMode s"
  shows "locks_ok (restore_mode env forced s)"
    and "\<not> vietnameseMode (restore_mode env forced s) \<longrightarrow> \<not> shownMode (restore_mode env forced s)"
    and "\<not> wasLocked \<Longrightarrow> icon_ok (restore_mode env forced s)"
  using assms
  by (auto simp: restore_mode_def locks_ok_def icon_ok_def NotifyModeChange_def displayMode_def split: option.split)

lemma focus_real_icon:
  assumes s: "icon_ok s" and c: "\<not> fcIsTsf cls" "\<not> (fcIsExcluded cls \<and> fcIsForcedVietnamese cls)"
  shows "icon_ok (focus_real env cls s)"
proof -
  define t0 where "t0 = SetLastRealExe (fcExeName cls) (save_previous_app env s)"
  define t1 where "t1 = (if fcPid cls \<noteq> 0 then t0\<lparr>lastForegroundPid := fcPid cls\<rparr> else t0)
    \<lparr>isExcludedApp := fcIsExcluded cls, isTsfApp := fcIsTsf cls, isForcedVnApp := fcIsForcedVietnamese cls\<rparr>"
  define t2 where "t2 = (if fcIsForcedVietnamese cls then t1\<lparr>forcedVnPid := fcPid cls\<rparr> else t1)"
  have t2: "isExcludedApp t2 = fcIsExcluded cls" "isTsfApp t2 = fcIsTsf cls"
    "isForcedVnApp t2 = fcIsForcedVietnamese cls" "vietnameseMode t2 = vietnameseMode s" "shownMode t2 = shownMode s"
    by (simp_all add: t2_def t1_def t0_def)
  let ?locked = "isExcludedApp s \<or> isForcedVnApp s"
  have eq: "focus_real env cls s =
    (if fcIsExcluded cls then
       (if \<not> isExcludedApp s then NotifyModeChange env (t2\<lparr>excludedPid := fcPid cls\<rparr>)
        else t2\<lparr>excludedPid := fcPid cls\<rparr>)
     else apply_overrides cls (leave_lock env ?locked (restore_mode env (fcIsForcedVietnamese cls) t2)))"
    using c(1) by (simp add: focus_real_def Let_def t0_def t1_def t2_def)
  show ?thesis
  proof (cases "fcIsExcluded cls")
    case True
    then show ?thesis using s t2 c
      by (simp add: eq icon_ok_def locks_ok_def NotifyModeChange_def displayMode_def) blast
  next
    case False
    let ?r = "restore_mode env (fcIsForcedVietnamese cls) t2"
    have s': "\<not> vietnameseMode s \<longrightarrow> \<not> shownMode s" "?locked \<or> (shownMode s \<longleftrightarrow> vietnameseMode s)"
      using s by (auto simp: icon_ok_def locks_ok_def)
    have r: "locks_ok ?r" "\<not> vietnameseMode ?r \<longrightarrow> \<not> shownMode ?r" "\<not> ?locked \<Longrightarrow> icon_ok ?r"
      using restore_mode_icon[of t2 "fcIsForcedVietnamese cls" ?locked env] s' t2 c False by auto
    have "icon_ok (leave_lock env ?locked ?r)"
    proof (cases ?locked)
      case True
      then show ?thesis using leave_lock_icon[OF r(1,2)] by simp
    next
      case False
      then show ?thesis using r(3) by (simp add: leave_lock_def)
    qed
    then show ?thesis using False by (simp add: eq apply_overrides_def icon_ok_def locks_ok_def)
  qed
qed

lemma toggle_icon:
  "icon_ok s \<Longrightarrow> excludeApps (envConfig env) \<Longrightarrow> icon_ok (ApplyToggleVNOnHookThread env s)"
  by (auto simp: ApplyToggleVNOnHookThread_def toggle_mode_def Let_def remember_mode_def icon_ok_def locks_ok_def
    NotifyModeChange_def displayMode_def)

definition mode_event_ok :: "ModeEnv \<times> ModeEvent \<Rightarrow> bool" where
  "mode_event_ok e = (case e of (env, ev) \<Rightarrow> excludeApps (envConfig env) \<and>
    (case ev of Focus (Some cls) \<Rightarrow> \<not> fcIsTsf cls \<and> \<not> (fcIsExcluded cls \<and> fcIsForcedVietnamese cls) | _ \<Rightarrow> True))"

lemma mode_step_icon:
  assumes "mode_event_ok e" and s: "icon_ok s" shows "icon_ok (mode_step e s)"
proof -
  obtain env ev where e: "e = (env, ev)" by (cases e)
  have active: "icon_ok (track_active env cls (check_layout env s))" for cls
    using check_layout_icon[OF s, of env] by (simp add: track_active_def icon_ok_def locks_ok_def)
  show ?thesis
  proof (cases ev)
    case (Focus c)
    then show ?thesis using assms active focus_real_icon
      by (auto simp: e mode_event_ok_def ApplyFocusOnHookThread_def Let_def split: option.splits)
  next
    case Toggle
    then show ?thesis using assms by (simp add: e toggle_icon mode_event_ok_def)
  next
    case Tick
    then show ?thesis using s by (simp add: e check_layout_icon ApplyTickPollOnHookThread_def)
  qed
qed

text \<open>C25: While application locks are enabled and no text-service application takes the focus, after any
  sequence of focus changes, toggles and layout ticks the icon shows the effective mode (Vietnamese in a
  locked-Vietnamese application, English in an excluded one, else the mode), and a locked-Vietnamese
  application has the Vietnamese mode.\<close>

theorem icon_shows_mode:
  assumes "icon_ok s" and "list_all mode_event_ok es"
  shows "(shownMode (fold mode_step es s) \<longleftrightarrow>
      isForcedVnApp (fold mode_step es s) \<or>
      \<not> isExcludedApp (fold mode_step es s) \<and> vietnameseMode (fold mode_step es s)) \<and>
    (isForcedVnApp (fold mode_step es s) \<longrightarrow> vietnameseMode (fold mode_step es s))"
proof -
  have "icon_ok (fold mode_step es s)"
    using assms by (induction es arbitrary: s) (auto simp: mode_step_icon)
  then show ?thesis by (auto simp: icon_ok_def locks_ok_def)
qed

lemma icon_shows_mode_witness:
  "\<exists>s env cls. icon_ok s \<and> mode_event_ok (env, Focus (Some cls)) \<and> \<not> vietnameseMode s \<and>
    shownMode (fold mode_step [(env, Focus (Some cls)), (env, Toggle)] s)"
proof -
  define s where "s = \<lparr>vietnameseMode = False, layoutSuppressed = False, modeBeforeCjk = True,
    cachedIsCompatLayout = True, isExcludedApp = False, isForcedVnApp = False, isTsfApp = False, excludedPid = 0,
    forcedVnPid = 0, lastForegroundPid = 0, activeExe = [], lastRealExe = [], previousExe = [], appModeMap = [],
    smartTable = None, appModeDirty = False, currentMethod = Telex, currentCodeTable = Unicode,
    shownMode = False\<rparr>"
  define env where "env = \<lparr>envConfig = defaultConfig\<lparr>excludeApps := True\<rparr>, envCompat = Some True,
    envNoOverrides = True, envOwnPid = 1, envFgPid = 7, envTipActive = False\<rparr>"
  define cls where "cls = \<lparr>fcHwnd = 9, fcPid = 7, fcExeName = [97], fcIsExcluded = False,
    fcIsForcedVietnamese = True, fcIsTsf = False, fcTargetMethod = Telex, fcTargetCodeTable = Unicode,
    skipAppTracking = False\<rparr>"
  have s: "icon_ok s" by (simp add: s_def icon_ok_def locks_ok_def)
  have e: "list_all mode_event_ok [(env, Focus (Some cls)), (env, Toggle)]"
    by (simp add: mode_event_ok_def env_def cls_def)
  have "isForcedVnApp (fold mode_step [(env, Focus (Some cls)), (env, Toggle)] s)"
    by (simp add: s_def env_def cls_def ApplyFocusOnHookThread_def ApplyToggleVNOnHookThread_def check_layout_def
      track_active_def focus_real_def save_previous_app_def SetLastRealExe_def restore_mode_def leave_lock_def
      apply_overrides_def NotifyModeChange_def displayMode_def Let_def defaultConfig_def)
  then have "shownMode (fold mode_step [(env, Focus (Some cls)), (env, Toggle)] s)"
    using icon_shows_mode[OF s e] by blast
  moreover have "\<not> vietnameseMode s" by (simp add: s_def)
  ultimately show ?thesis using s e by auto
qed

subsection \<open>Remembered modes\<close>

definition plain_env :: "ModeEnv \<Rightarrow> bool" where
  "plain_env env \<longleftrightarrow> smartSwitch (envConfig env) \<and> \<not> cjkAutoSwitch (envConfig env)"

definition real_focus :: "ModeEnv \<Rightarrow> FocusClassification \<Rightarrow> bool" where
  "real_focus env cls \<longleftrightarrow> fcHwnd cls \<noteq> 0 \<and> fcPid cls \<noteq> 0 \<and> fcPid cls \<noteq> envOwnPid env \<and> fcExeName cls \<noteq> [] \<and>
    \<not> skipAppTracking cls \<and> \<not> fcIsExcluded cls \<and> \<not> fcIsForcedVietnamese cls"

text \<open>Toggles, ticks, and focus changes to unlocked applications other than \<open>A\<close>.\<close>

definition away_event :: "wstring \<Rightarrow> ModeEnv \<times> ModeEvent \<Rightarrow> bool" where
  "away_event A e = (case e of (env, ev) \<Rightarrow> plain_env env \<and>
    (case ev of Focus (Some cls) \<Rightarrow> fcExeName cls \<noteq> A \<and> \<not> fcIsExcluded cls \<and> \<not> fcIsForcedVietnamese cls | _ \<Rightarrow> True))"

definition away :: "wstring \<Rightarrow> bool \<Rightarrow> nat \<Rightarrow> ModeState \<Rightarrow> bool" where
  "away A m n s \<longleftrightarrow> map_of (appModeMap s) A = Some m \<and> length (appModeMap s) \<le> n \<and>
    lastRealExe s \<noteq> A \<and> activeExe s \<noteq> A \<and> \<not> isExcludedApp s \<and> \<not> isForcedVnApp s"

lemma length_AList_update: "length (AList.update k v al) \<le> Suc (length al)"
  by (induction al) auto

lemma check_layout_plain:
  "plain_env env \<Longrightarrow> check_layout env s = s \<or> (\<exists>c. check_layout env s = s\<lparr>cachedIsCompatLayout := c\<rparr>)"
  by (auto simp: check_layout_def layout_changed_cases plain_env_def split: option.split)

lemma focus_real_plain:
  assumes "plain_env env" "real_focus env cls" "\<not> isExcludedApp s" "\<not> isForcedVnApp s"
  shows "appModeMap (focus_real env cls s) = appModeMap (save_previous_app env s)"
    and "lastRealExe (focus_real env cls s) = fcExeName cls" "activeExe (focus_real env cls s) = activeExe s"
    and "\<not> isExcludedApp (focus_real env cls s)" "\<not> isForcedVnApp (focus_real env cls s)"
    and "vietnameseMode (focus_real env cls s) =
      (case map_of (appModeMap (save_previous_app env s)) (fcExeName cls) of Some m \<Rightarrow> m | None \<Rightarrow> vietnameseMode s)"
  using assms
  by (auto simp: focus_real_def real_focus_def plain_env_def restore_mode_def leave_lock_def apply_overrides_def
    NotifyModeChange_def Let_def split: option.split)

lemma save_previous_app_plain:
  assumes "plain_env env" "\<not> isExcludedApp s" "\<not> isForcedVnApp s" "length (appModeMap s) < kMaxSmartSwitchEntries"
  shows "appModeMap (save_previous_app env s) =
    (if lastRealExe s = [] then appModeMap s
     else AList.update (lastRealExe s) (vietnameseMode s) (appModeMap s))"
  using assms by (auto simp: save_previous_app_def plain_env_def remember_mode_def Let_def)

text \<open>The state the focus handler reaches before it treats a real application.\<close>

lemma ApplyFocus_real:
  assumes "plain_env env" "real_focus env cls"
  obtains t where "ApplyFocusOnHookThread env (Some cls) s = focus_real env cls t"
    "appModeMap t = appModeMap s" "lastRealExe t = lastRealExe s" "activeExe t = fcExeName cls"
    "isExcludedApp t = isExcludedApp s" "isForcedVnApp t = isForcedVnApp s" "vietnameseMode t = vietnameseMode s"
proof
  let ?t = "track_active env cls (check_layout env s)"
  show "ApplyFocusOnHookThread env (Some cls) s = focus_real env cls ?t"
    using assms by (simp add: ApplyFocusOnHookThread_def real_focus_def plain_env_def Let_def)
qed (use check_layout_plain[OF assms(1), of s] assms(2) in \<open>auto simp: track_active_def real_focus_def\<close>)

lemma away_step:
  assumes a: "away A m n s" and e: "away_event A e" and n: "n < kMaxSmartSwitchEntries"
  shows "away A m (Suc n) (mode_step e s)"
proof -
  obtain env ev where ev: "e = (env, ev)" by (cases e)
  have p: "plain_env env" using e by (auto simp: away_event_def ev)
  have c: "away A m n (check_layout env s)" using check_layout_plain[OF p, of s] a by (auto simp: away_def)
  have "away A m (Suc n) (ApplyFocusOnHookThread env (Some cls) s)" if f: "ev = Focus (Some cls)" for cls
  proof (cases "fcHwnd cls = 0")
    case hwnd: False
    let ?t = "track_active env cls (check_layout env s)"
    have t: "away A m n ?t" using c e f by (auto simp: away_def track_active_def away_event_def ev)
    show ?thesis
    proof (cases "skipAppTracking cls \<or> fcExeName cls = []")
      case True
      then have "ApplyFocusOnHookThread env (Some cls) s = ?t"
        using p hwnd by (auto simp: ApplyFocusOnHookThread_def plain_env_def Let_def)
      then show ?thesis using t by (simp add: away_def)
    next
      case False
      then have eq: "ApplyFocusOnHookThread env (Some cls) s = focus_real env cls ?t"
        using p hwnd by (auto simp: ApplyFocusOnHookThread_def plain_env_def Let_def)
      have lock: "\<not> fcIsExcluded cls" "\<not> fcIsForcedVietnamese cls" "fcExeName cls \<noteq> A"
        using e f by (auto simp: away_event_def ev)
      have m: "appModeMap (focus_real env cls ?t) = appModeMap (save_previous_app env ?t)"
        "lastRealExe (focus_real env cls ?t) = fcExeName cls" "activeExe (focus_real env cls ?t) = activeExe ?t"
        "\<not> isExcludedApp (focus_real env cls ?t)" "\<not> isForcedVnApp (focus_real env cls ?t)"
        using t lock p False
        by (auto simp: focus_real_def plain_env_def restore_mode_def leave_lock_def apply_overrides_def
          NotifyModeChange_def Let_def away_def split: option.split)
      have "appModeMap (save_previous_app env ?t) = (if lastRealExe ?t = [] then appModeMap ?t
          else AList.update (lastRealExe ?t) (vietnameseMode ?t) (appModeMap ?t))"
        using t n p by (intro save_previous_app_plain) (auto simp: away_def)
      then show ?thesis using t m lock length_AList_update[of "lastRealExe ?t" "vietnameseMode ?t" "appModeMap ?t"]
        by (auto simp: eq away_def update_conv')
    qed
  qed (use a in \<open>simp add: ApplyFocusOnHookThread_def away_def\<close>)
  moreover have "away A m (Suc n) (ApplyToggleVNOnHookThread env s)"
    using a length_AList_update[of "activeExe s" "\<not> vietnameseMode s" "appModeMap s"]
    by (auto simp: ApplyToggleVNOnHookThread_def toggle_mode_def remember_mode_def NotifyModeChange_def Let_def
      away_def update_conv')
  moreover have "away A m (Suc n) s" using a by (auto simp: away_def)
  moreover have "away A m (Suc n) (check_layout env s)" using c by (auto simp: away_def)
  moreover have "ApplyFocusOnHookThread env None s = s" by (simp add: ApplyFocusOnHookThread_def)
  ultimately show ?thesis
    by (cases ev) (auto simp: ev ApplyTickPollOnHookThread_def, metis option.exhaust)
qed

lemma away_run:
  "away A m n s \<Longrightarrow> list_all (away_event A) es \<Longrightarrow> n + length es \<le> kMaxSmartSwitchEntries \<Longrightarrow>
    away A m (n + length es) (fold mode_step es s)"
proof (induction es arbitrary: n s)
  case (Cons e es)
  then have "away A m (Suc n) (mode_step e s)" by (intro away_step) auto
  then show ?case using Cons.IH[of "Suc n"] Cons.prems by simp
qed simp

text \<open>C26: With remembered modes on and the CJK switch off, an unlocked application that loses the focus gets
  back the mode it was left with when it has the focus again, whatever toggles, ticks, helper windows and
  unlocked applications come between (up to the capacity of the map of modes).\<close>

theorem mode_returns:
  assumes away: "plain_env env" "real_focus env other" "fcExeName other \<noteq> lastRealExe s"
    and ret: "plain_env env'" "real_focus env' app" "fcExeName app = lastRealExe s"
    and s: "\<not> isExcludedApp s" "\<not> isForcedVnApp s"
    and es: "list_all (away_event (lastRealExe s)) es"
      "length (appModeMap s) + length es + 2 \<le> kMaxSmartSwitchEntries"
  shows "vietnameseMode (fold mode_step ((env, Focus (Some other)) # es @ [(env', Focus (Some app))]) s) =
    vietnameseMode s"
proof -
  let ?A = "lastRealExe s" and ?m = "vietnameseMode s" and ?n = "Suc (length (appModeMap s))"
  have A: "?A \<noteq> []" using ret(2,3) by (simp add: real_focus_def)
  obtain t where t: "ApplyFocusOnHookThread env (Some other) s = focus_real env other t"
    "appModeMap t = appModeMap s" "lastRealExe t = lastRealExe s" "activeExe t = fcExeName other"
    "isExcludedApp t = isExcludedApp s" "isForcedVnApp t = isForcedVnApp s" "vietnameseMode t = vietnameseMode s"
    using ApplyFocus_real[OF away(1,2)] by metis
  have "appModeMap (save_previous_app env t) = AList.update ?A ?m (appModeMap s)"
    using save_previous_app_plain[of env t] away(1) s es(2) t A by simp
  then have "away ?A ?m ?n (focus_real env other t)"
    using focus_real_plain[OF away(1,2), of t] t s away(3) length_AList_update[of ?A ?m "appModeMap s"]
    by (simp add: away_def update_conv')
  then have u: "away ?A ?m (?n + length es) (fold mode_step es (focus_real env other t))"
    using es by (intro away_run) auto
  let ?u = "fold mode_step es (focus_real env other t)"
  obtain v where v: "ApplyFocusOnHookThread env' (Some app) ?u = focus_real env' app v"
    "appModeMap v = appModeMap ?u" "lastRealExe v = lastRealExe ?u"
    "isExcludedApp v = isExcludedApp ?u" "isForcedVnApp v = isForcedVnApp ?u"
    using ApplyFocus_real[OF ret(1,2)] by metis
  have "map_of (appModeMap (save_previous_app env' v)) ?A = Some ?m"
    using save_previous_app_plain[of env' v] ret(1) u v es(2) by (auto simp: away_def update_conv')
  then have "vietnameseMode (focus_real env' app v) = ?m"
    using focus_real_plain(6)[OF ret(1,2), of v] u v ret(3) by (simp add: away_def)
  then show ?thesis by (simp add: t(1) v(1))
qed

text \<open>An application with the Vietnamese mode and one on a Japanese layout, both unlocked.\<close>

definition demo_env :: "bool \<Rightarrow> bool \<Rightarrow> ModeEnv" where
  "demo_env cjk compatible = \<lparr>envConfig = defaultConfig\<lparr>smartSwitch := True, cjkAutoSwitch := cjk\<rparr>,
    envCompat = Some compatible, envNoOverrides = True, envOwnPid = 1, envFgPid = 7, envTipActive = False\<rparr>"

definition demo_app :: "nat \<Rightarrow> wchar \<Rightarrow> FocusClassification" where
  "demo_app p ch = \<lparr>fcHwnd = p, fcPid = p, fcExeName = [ch], fcIsExcluded = False,
    fcIsForcedVietnamese = False, fcIsTsf = False, fcTargetMethod = Telex, fcTargetCodeTable = Unicode,
    skipAppTracking = False\<rparr>"

definition demo_state :: ModeState where
  "demo_state = \<lparr>vietnameseMode = True, layoutSuppressed = False, modeBeforeCjk = True,
    cachedIsCompatLayout = True, isExcludedApp = False, isForcedVnApp = False, isTsfApp = False, excludedPid = 0,
    forcedVnPid = 0, lastForegroundPid = 0, activeExe = [97], lastRealExe = [97], previousExe = [], appModeMap = [],
    smartTable = None, appModeDirty = False, currentMethod = Telex, currentCodeTable = Unicode,
    shownMode = True\<rparr>"

lemma mode_returns_witness:
  "vietnameseMode (fold mode_step ((demo_env False False, Focus (Some (demo_app 8 98))) #
    [(demo_env False False, Toggle)] @ [(demo_env False True, Focus (Some (demo_app 7 97)))]) demo_state)"
  using mode_returns[of "demo_env False False" "demo_app 8 98" demo_state "demo_env False True" "demo_app 7 97"
    "[(demo_env False False, Toggle)]"]
  by (simp add: demo_env_def demo_app_def demo_state_def plain_env_def real_focus_def away_event_def defaultConfig_def)

text \<open>C27: With remembered modes and the CJK switch on, the layout of the next application is applied before the
  mode of the previous one is saved. So an unlocked application in the Vietnamese mode that loses the focus
  to an application on a CJK layout is remembered as English, and when it has the focus again, on whatever
  layout, it comes back in English, without any toggle in between.\<close>

theorem cjk_overwrites_remembered_mode:
  assumes env: "smartSwitch (envConfig env)" "cjkAutoSwitch (envConfig env)" "envCompat env = Some False"
    and s: "vietnameseMode s" "cachedIsCompatLayout s" "\<not> layoutSuppressed s" "\<not> isExcludedApp s" "\<not> isForcedVnApp s"
      "lastRealExe s \<noteq> []" "length (appModeMap s) + 2 \<le> kMaxSmartSwitchEntries"
    and other: "real_focus env other" "fcExeName other \<noteq> lastRealExe s"
    and ret: "smartSwitch (envConfig env')" "real_focus env' app" "fcExeName app = lastRealExe s"
  shows "map_of (appModeMap (mode_step (env, Focus (Some other)) s)) (lastRealExe s) = Some False \<and>
    \<not> vietnameseMode (fold mode_step [(env, Focus (Some other)), (env', Focus (Some app))] s)"
proof -
  let ?A = "lastRealExe s" let ?u = "mode_step (env, Focus (Some other)) s"
  let ?t = "track_active env other (check_layout env s)"
  have t: "\<not> vietnameseMode ?t" "lastRealExe ?t = ?A" "appModeMap ?t = appModeMap s"
    "\<not> isExcludedApp ?t" "\<not> isForcedVnApp ?t"
    using env s
    by (auto simp: track_active_def check_layout_def layout_changed_cases NotifyModeChange_def)
  have u: "?u = focus_real env other ?t"
    using other env by (simp add: ApplyFocusOnHookThread_def real_focus_def Let_def)
  have saved: "appModeMap (save_previous_app env ?t) = AList.update ?A False (appModeMap s)"
    using t s env by (simp add: save_previous_app_def remember_mode_def Let_def)
  have "appModeMap ?u = AList.update ?A False (appModeMap s)" "lastRealExe ?u = fcExeName other"
    "\<not> isExcludedApp ?u" "\<not> isForcedVnApp ?u"
    using saved other unfolding u
    by (auto simp: focus_real_def real_focus_def restore_mode_def leave_lock_def apply_overrides_def
        SetLastRealExe_def NotifyModeChange_def Let_def t split: option.split)
  then have map: "map_of (appModeMap ?u) ?A = Some False" "length (appModeMap ?u) < kMaxSmartSwitchEntries"
    and u': "lastRealExe ?u = fcExeName other" "\<not> isExcludedApp ?u" "\<not> isForcedVnApp ?u"
    using length_AList_update[of ?A False "appModeMap s"] s by (auto simp: update_conv')
  let ?v = "track_active env' app (check_layout env' ?u)"
  have v: "appModeMap ?v = appModeMap ?u" "lastRealExe ?v = fcExeName other" "\<not> isExcludedApp ?v" "\<not> isForcedVnApp ?v"
    using u' by (auto simp: track_active_def check_layout_def layout_changed_cases NotifyModeChange_def split: option.split)
  have "map_of (appModeMap (save_previous_app env' ?v)) ?A = Some False"
    using v map other ret by (simp add: save_previous_app_def remember_mode_def update_conv' Let_def)
  then have "\<not> vietnameseMode (focus_real env' app ?v)"
    using ret v by (auto simp: focus_real_def real_focus_def restore_mode_def leave_lock_def apply_overrides_def
        SetLastRealExe_def NotifyModeChange_def Let_def split: option.split)
  moreover have "mode_step (env', Focus (Some app)) ?u = focus_real env' app ?v"
    using ret by (simp add: ApplyFocusOnHookThread_def real_focus_def Let_def)
  ultimately show ?thesis using map(1) by simp
qed

lemma cjk_overwrites_remembered_mode_witness:
  "\<not> vietnameseMode (fold mode_step
     [(demo_env True False, Focus (Some (demo_app 8 98))), (demo_env True True, Focus (Some (demo_app 7 97)))] demo_state)"
  using cjk_overwrites_remembered_mode[of "demo_env True False" demo_state "demo_app 8 98" "demo_env True True" "demo_app 7 97"]
  by (simp add: demo_env_def demo_app_def demo_state_def real_focus_def defaultConfig_def)

end
