(* ===== verification/SmartSwitchLaws.thy ===== *)
theory SmartSwitchLaws
  imports SmartSwitch
begin

text \<open>
  The shared table refines a finite map from hashes to modes: storing and looking up behave like the
  map as long as there is room, a reader between any two writes of \<open>SetAppMode\<close> sees the map before or
  after it, and \<open>LoadFromMap\<close>, which overwrites entries that are already visible, is not atomic.
\<close>

subsection \<open>The contract of a table of modes\<close>

locale mode_table =
  fixes look :: "'s \<Rightarrow> 'k \<Rightarrow> bool option" and store :: "'e \<Rightarrow> bool \<Rightarrow> 's \<Rightarrow> 's" and key :: "'e \<Rightarrow> 'k"
    and ok :: "'s \<Rightarrow> bool" and used :: "'s \<Rightarrow> nat" and cap :: nat
  assumes store_ok: "ok s \<Longrightarrow> ok (store e v s)"
    and look_store: "ok s \<Longrightarrow> look s (key e) \<noteq> None \<or> used s < cap \<Longrightarrow>
      look (store e v s) = (look s)(key e \<mapsto> v)"
    and used_store: "ok s \<Longrightarrow> used (store e v s) \<le> (if look s (key e) = None then Suc (used s) else used s)"
begin

lemma run_ok: "ok s \<Longrightarrow> ok (fold (\<lambda>(e, v). store e v) ops s)"
  by (induction ops arbitrary: s) (auto intro: store_ok)

text \<open>As long as the names stored have at most \<open>cap\<close> keys, the last mode stored for a key is the one
  found.\<close>

lemma run_remembers:
  assumes s: "ok s" "look s = Map.empty" "used s = 0"
  shows "card (key ` fst ` set ops) \<le> cap \<Longrightarrow>
    look (fold (\<lambda>(e, v). store e v) ops s) = map_of (rev (map (\<lambda>(e, v). (key e, v)) ops)) \<and>
    used (fold (\<lambda>(e, v). store e v) ops s) \<le> card (key ` fst ` set ops)"
proof (induction ops rule: rev_induct)
  case Nil
  then show ?case using s by simp
next
  case (snoc op ops)
  obtain e v where op: "op = (e, v)" by (cases op)
  let ?s = "fold (\<lambda>(e, v). store e v) ops s" and ?K = "key ` fst ` set ops"
  have fin: "finite ?K" by simp
  have le: "card ?K \<le> card (key ` fst ` set (ops @ [op]))" by (rule card_mono) auto
  then have IH: "look ?s = map_of (rev (map (\<lambda>(e, v). (key e, v)) ops))" "used ?s \<le> card ?K"
    using snoc by auto
  have dom: "look ?s (key e) = None \<longleftrightarrow> key e \<notin> ?K"
    by (auto simp: IH(1) map_of_eq_None_iff image_iff)
  have ok: "ok ?s" using s(1) by (rule run_ok)
  have room: "look ?s (key e) \<noteq> None \<or> used ?s < cap"
  proof (cases "key e \<in> ?K")
    case False
    then have "card (key ` fst ` set (ops @ [op])) = Suc (card ?K)" using fin by (simp add: op)
    then show ?thesis using snoc.prems IH(2) by simp
  qed (use dom in simp)
  have "used (store e v ?s) \<le> card (key ` fst ` set (ops @ [op]))"
    using used_store[OF ok, of e v] IH(2) dom fin by (auto simp: op card_insert_if split: if_splits)
  then show ?case using look_store[OF ok room] IH(1) by (simp add: op)
qed

end

subsection \<open>The table as a map\<close>

definition modes_of :: "SmartSwitchState \<Rightarrow> u32 \<Rightarrow> bool option" where
  "modes_of p h = map_option (\<lambda>i. ssVietnamese (ssEntries p ! i) \<noteq> 0) (find_entry p h)"

lemma GetAppMode_modes_of: "GetAppMode exe (Some p) = modes_of p (FnvHash exe)"
  by (simp add: GetAppMode_def modes_of_def)

definition smart_ok :: "SmartSwitchState \<Rightarrow> bool" where
  "smart_ok p \<longleftrightarrow> length (ssEntries p) = SMART_SWITCH_MAX_ENTRIES \<and> ssCount p \<le> SMART_SWITCH_MAX_ENTRIES"

lemma first_idx_Suc:
  "first_idx P (Suc n) = (case first_idx P n of Some i \<Rightarrow> Some i | None \<Rightarrow> if P n then Some n else None)"
proof -
  have "find P (xs @ ys) = (case find P xs of Some i \<Rightarrow> Some i | None \<Rightarrow> find P ys)" for xs ys :: "nat list"
    by (induction xs) auto
  then show ?thesis by (simp add: first_idx_def split: option.split)
qed

lemma mode_byte_nonzero [simp]: "mode_byte v \<noteq> 0 \<longleftrightarrow> v"
  by (simp add: mode_byte_def)

lemma first_idx_cong': "(\<And>i. i < n \<Longrightarrow> P i = Q i) \<Longrightarrow> first_idx P n = first_idx Q n"
  unfolding first_idx_def by (rule find_cong) auto

lemma find_entry_ok: "smart_ok p \<Longrightarrow> find_entry p h = first_idx (\<lambda>i. ssHash (ssEntries p ! i) = h) (ssCount p)"
  by (simp add: find_entry_def smart_ok_def min_def)

lemma smart_ok_write:
  "smart_ok p \<Longrightarrow> (case w of WCount n \<Rightarrow> n \<le> SMART_SWITCH_MAX_ENTRIES | _ \<Rightarrow> True) \<Longrightarrow> smart_ok (smart_write w p)"
  by (cases w) (auto simp: smart_ok_def)

lemma modes_of_epoch [simp]: "modes_of (p\<lparr>ssEpoch := e\<rparr>) = modes_of p"
  by (simp add: modes_of_def find_entry_def fun_eq_iff)

text \<open>Writing beyond the valid entries is invisible.\<close>

lemma modes_of_beyond:
  assumes "ssCount p \<le> i"
  shows "modes_of (p\<lparr>ssEntries := upd_at i f (ssEntries p)\<rparr>) = modes_of p"
proof -
  have same: "upd_at i f (ssEntries p) ! j = ssEntries p ! j" if "j < ssCount p" for j
    using assms that by (simp add: upd_at_def)
  have "find_entry (p\<lparr>ssEntries := upd_at i f (ssEntries p)\<rparr>) h = find_entry p h" for h
    by (auto simp: find_entry_def same intro!: first_idx_cong')
  moreover have "j < ssCount p" if "find_entry p h = Some j" for j h
    using that by (auto simp: find_entry_def first_idx_Some)
  ultimately show ?thesis
    by (auto simp: modes_of_def fun_eq_iff same split: option.split intro: option.map_cong0)
qed

lemma modes_of_known:
  assumes ok: "smart_ok p" and i: "find_entry p h = Some i"
  shows "modes_of (p\<lparr>ssEntries := upd_at i (\<lambda>e. e\<lparr>ssVietnamese := mode_byte v\<rparr>) (ssEntries p)\<rparr>) =
    (modes_of p)(h \<mapsto> v)"
proof
  fix h'
  let ?p = "p\<lparr>ssEntries := upd_at i (\<lambda>e. e\<lparr>ssVietnamese := mode_byte v\<rparr>) (ssEntries p)\<rparr>"
  have same: "find_entry ?p h'' = find_entry p h''" for h''
    by (simp add: find_entry_def nth_upd_at_same)
  have len: "j < length (ssEntries p)" if "find_entry p h'' = Some j" for j h''
    using that ok by (auto simp: find_entry_ok first_idx_Some smart_ok_def)
  have hit: "ssHash (ssEntries p ! j) = h''" if "find_entry p h'' = Some j" for j h''
    using that by (auto simp: find_entry_def first_idx_Some)
  show "modes_of ?p h' = ((modes_of p)(h \<mapsto> v)) h'"
  proof (cases "find_entry p h'")
    case None
    then show ?thesis using i by (auto simp: modes_of_def same)
  next
    case (Some j)
    then have "j = i \<longleftrightarrow> h' = h" using i hit by auto
    then show ?thesis using Some len[OF Some] i
      by (auto simp: modes_of_def same nth_upd_at)
  qed
qed

lemma modes_of_new:
  assumes ok: "smart_ok p" and free: "find_entry p h = None" "ssCount p < SMART_SWITCH_MAX_ENTRIES"
    and e: "ssHash (ssEntries q ! ssCount p) = h" "ssVietnamese (ssEntries q ! ssCount p) = mode_byte v"
    and rest: "\<And>j. j < ssCount p \<Longrightarrow> ssEntries q ! j = ssEntries p ! j" and q: "ssCount q = Suc (ssCount p)"
  shows "modes_of q = (modes_of p)(h \<mapsto> v)"
proof
  fix h'
  have 1: "find_entry q h' = first_idx (\<lambda>i. ssHash (ssEntries q ! i) = h') (Suc (ssCount p))"
    using free(2) q by (simp add: find_entry_def)
  have 2: "first_idx (\<lambda>i. ssHash (ssEntries q ! i) = h') (ssCount p) = find_entry p h'"
    unfolding find_entry_ok[OF ok] by (rule first_idx_cong') (simp add: rest)
  have lt: "j < ssCount p" if "find_entry p h' = Some j" for j
    using that by (auto simp: find_entry_ok[OF ok] first_idx_Some)
  show "modes_of q h' = ((modes_of p)(h \<mapsto> v)) h'"
    using free(1) e lt
    by (cases "find_entry p h'") (auto simp: modes_of_def 1 first_idx_Suc 2 rest)
qed

subsection \<open>Storing a mode\<close>

definition table_set :: "wstring \<Rightarrow> bool \<Rightarrow> SmartSwitchState \<Rightarrow> SmartSwitchState" where
  "table_set exe v p = fold smart_write (SetAppMode_writes exe v p) p"

lemma SetAppMode_table_set: "SetAppMode exe v (Some p) = Some (table_set exe v p)"
  by (simp add: SetAppMode_def table_set_def)

lemma table_set_ok: "smart_ok p \<Longrightarrow> smart_ok (table_set exe v p)"
  by (auto simp: table_set_def SetAppMode_writes_def Let_def smart_ok_def split: option.split)

text \<open>What readers may find between the writes.\<close>

lemma SetAppMode_prefix:
  assumes ok: "smart_ok p"
  shows "modes_of (fold smart_write (take n (SetAppMode_writes exe v p)) p) \<in>
      {modes_of p, modes_of (table_set exe v p)}"
    and "find_entry p (FnvHash exe) \<noteq> None \<or> ssCount p < SMART_SWITCH_MAX_ENTRIES \<Longrightarrow>
      modes_of (table_set exe v p) = (modes_of p)(FnvHash exe \<mapsto> v)"
proof -
  let ?h = "FnvHash exe" and ?c = "ssCount p"
  have "modes_of (fold smart_write (take n (SetAppMode_writes exe v p)) p) \<in>
      {modes_of p, modes_of (table_set exe v p)} \<and>
    (find_entry p ?h \<noteq> None \<or> ?c < SMART_SWITCH_MAX_ENTRIES \<longrightarrow>
      modes_of (table_set exe v p) = (modes_of p)(?h \<mapsto> v))"
  proof (cases "find_entry p ?h")
    case (Some i)
    consider "n = 0" | "n = 1" | "2 \<le> n" by linarith
    then show ?thesis
      by cases (simp_all add: SetAppMode_writes_def Some table_set_def Let_def modes_of_known[OF ok Some])
  next
    case None
    show ?thesis
    proof (cases "?c < SMART_SWITCH_MAX_ENTRIES")
      case True
      let ?p1 = "p\<lparr>ssEntries := upd_at ?c (\<lambda>e. e\<lparr>ssHash := ?h\<rparr>) (ssEntries p)\<rparr>"
      let ?p2 = "?p1\<lparr>ssEntries := upd_at ?c (\<lambda>e. e\<lparr>ssVietnamese := mode_byte v\<rparr>) (ssEntries ?p1)\<rparr>"
      have ws: "SetAppMode_writes exe v p =
          [WHash ?c ?h, WMode ?c (mode_byte v), WCount (Suc ?c), WEpoch (ssEpoch p + 1)]"
        using None True by (simp add: SetAppMode_writes_def Let_def)
      have p1: "modes_of ?p1 = modes_of p" by (rule modes_of_beyond) simp
      have p2: "modes_of ?p2 = modes_of p" using modes_of_beyond[of ?p1 ?c] p1 by simp
      have len: "?c < length (ssEntries p)" using ok True by (simp add: smart_ok_def)
      have new: "modes_of (?p2\<lparr>ssCount := Suc ?c\<rparr>) = (modes_of p)(?h \<mapsto> v)"
        using len by (intro modes_of_new[OF ok None True]) (simp_all add: nth_upd_at)
      have full: "modes_of (table_set exe v p) = (modes_of p)(?h \<mapsto> v)"
        using new by (simp add: table_set_def ws)
      consider "n = 0" | "n = 1" | "n = 2" | "n = 3" | "4 \<le> n" by linarith
      then show ?thesis
        by cases (use p1 p2 new full in \<open>simp_all add: ws numeral_2_eq_2 numeral_3_eq_3\<close>)
    qed (simp add: SetAppMode_writes_def None table_set_def Let_def)
  qed
  then show "modes_of (fold smart_write (take n (SetAppMode_writes exe v p)) p) \<in>
      {modes_of p, modes_of (table_set exe v p)}"
    and "find_entry p ?h \<noteq> None \<or> ?c < SMART_SWITCH_MAX_ENTRIES \<Longrightarrow>
      modes_of (table_set exe v p) = (modes_of p)(?h \<mapsto> v)"
    by blast+
qed

lemma table_set_used:
  "ssCount (table_set exe v p) \<le> (if modes_of p (FnvHash exe) = None then Suc (ssCount p) else ssCount p)"
  by (auto simp: table_set_def SetAppMode_writes_def modes_of_def Let_def split: option.split)

interpretation smart: mode_table modes_of table_set FnvHash smart_ok ssCount SMART_SWITCH_MAX_ENTRIES
proof
  fix p :: SmartSwitchState and exe v
  assume "smart_ok p"
  then show "smart_ok (table_set exe v p)" by (rule table_set_ok)
  assume "modes_of p (FnvHash exe) \<noteq> None \<or> ssCount p < SMART_SWITCH_MAX_ENTRIES"
  then have "find_entry p (FnvHash exe) \<noteq> None \<or> ssCount p < SMART_SWITCH_MAX_ENTRIES"
    by (auto simp: modes_of_def)
  then show "modes_of (table_set exe v p) = (modes_of p)(FnvHash exe \<mapsto> v)"
    by (rule SetAppMode_prefix(2)[OF \<open>smart_ok p\<close>])
qed (rule table_set_used)

lemma SetAppMode_run:
  "fold (\<lambda>(exe, v). SetAppMode exe v) ops (Some p) = Some (fold (\<lambda>(exe, v). table_set exe v) ops p)"
  by (induction ops arbitrary: p) (auto simp: SetAppMode_table_set)

text \<open>C28: After any sequence of stores into a fresh table of names with at most 64 hashes, the mode of a
  program is the one stored last under its hash, and none if there was none.\<close>

theorem smart_switch_remembers:
  assumes "card (FnvHash ` fst ` set ops) \<le> SMART_SWITCH_MAX_ENTRIES"
  shows "GetAppMode exe (fold (\<lambda>(exe, v). SetAppMode exe v) ops (Some SmartSwitchInitDefaults)) =
    map_of (rev (map (\<lambda>(exe, v). (FnvHash exe, v)) ops)) (FnvHash exe)"
proof -
  have "smart_ok SmartSwitchInitDefaults" "modes_of SmartSwitchInitDefaults = Map.empty"
    "ssCount SmartSwitchInitDefaults = 0"
    by (auto simp: smart_ok_def SmartSwitchInitDefaults_def modes_of_def find_entry_def first_idx_def)
  from smart.run_remembers[OF this assms] show ?thesis
    by (simp add: SetAppMode_run GetAppMode_modes_of)
qed

lemma smart_switch_remembers_witness:
  "GetAppMode [97] (fold (\<lambda>(exe, v). SetAppMode exe v) [([97], True), ([98], False), ([65], False)]
    (Some SmartSwitchInitDefaults)) = Some False"
proof -
  have "card (FnvHash ` fst ` set [([97], True), ([98], False), ([65], False)]) \<le>
      card (set [[97], [98], [65 :: int]])"
    by (intro order_trans[OF card_image_le]) auto
  also have "\<dots> \<le> SMART_SWITCH_MAX_ENTRIES" by simp
  finally show ?thesis
    by (subst smart_switch_remembers) (simp_all add: FnvHash_def towlower_def)
qed

text \<open>A reader of the shared table between any two writes of \<open>SetAppMode\<close> sees every program with its
  mode before the call or every program with its mode after it.\<close>

theorem SetAppMode_atomic:
  assumes "smart_ok p"
  shows "(\<forall>exe. GetAppMode exe (Some (fold smart_write (take n (SetAppMode_writes app v p)) p)) =
      GetAppMode exe (Some p)) \<or>
    (\<forall>exe. GetAppMode exe (Some (fold smart_write (take n (SetAppMode_writes app v p)) p)) =
      GetAppMode exe (SetAppMode app v (Some p)))"
  using SetAppMode_prefix(1)[OF assms, of n app v] by (auto simp: GetAppMode_modes_of SetAppMode_table_set)

lemma SetAppMode_atomic_witness:
  "(\<forall>exe. GetAppMode exe (Some (fold smart_write (take 2 (SetAppMode_writes [97] True SmartSwitchInitDefaults))
      SmartSwitchInitDefaults)) = GetAppMode exe (Some SmartSwitchInitDefaults)) \<or>
    (\<forall>exe. GetAppMode exe (Some (fold smart_write (take 2 (SetAppMode_writes [97] True SmartSwitchInitDefaults))
      SmartSwitchInitDefaults)) = GetAppMode exe (SetAppMode [97] True (Some SmartSwitchInitDefaults)))"
  by (rule SetAppMode_atomic) (simp add: smart_ok_def SmartSwitchInitDefaults_def)

subsection \<open>Loading a map\<close>

text \<open>
  Loading overwrites entries that readers already see: after the first of its writes the program of
  the old entry is gone and the new one has the old one's mode, which neither the old table nor the
  map gives it.
\<close>

lemma LoadFromMap_not_atomic:
  "let p = table_set [97] True SmartSwitchInitDefaults; m = [([98], False), ([97], True)] in
    GetAppMode [98] (Some p) = None \<and>
    GetAppMode [98] (Some (fold smart_write (take 1 (LoadFromMap_writes m p)) p)) = Some True \<and>
    GetAppMode [98] (LoadFromMap m (Some p)) = Some False"
  by code_simp

end
