(* ===== verification/MacroCase.thy ===== *)
theory MacroCase
  imports CodeTables
begin

text \<open>
  The expansion of macros, \<open>src/core/MacroCase.cpp\<close>: which entry of the table the typed keys match,
  how many characters on the screen it replaces, the letter case of the expansion, and the pieces
  in which it is sent. The table is a map from keys to expansions. The case mapper is the one the
  caller injects (\<open>CharUpperBuffW\<close> and \<open>CharLowerBuffW\<close> of the system), a parameter of the model:
  both functions convert a buffer in place, one character at a time.
\<close>

type_synonym MacroTable = "wstring \<rightharpoonup> wstring"

record CaseMapper =
  mapUpper :: "wchar \<Rightarrow> wchar"
  mapLower :: "wchar \<Rightarrow> wchar"

record PlanInputs =
  planBuffer :: wstring
  planComposition :: wstring
  planWidths :: "nat list"
  planTable :: MacroTable
  planCrossCommit :: bool
  planCodeTable :: CodeTable
  planAutoCaps :: bool
  planTrigger :: wchar
  planClipboardThreshold :: nat

record MacroPlan =
  matched :: bool
  isPartOfMacro :: bool
  bsCount :: nat
  expansion :: wstring
  useClipboard :: bool

definition emptyPlan :: MacroPlan where
  "emptyPlan = \<lparr>matched = False, isPartOfMacro = False, bsCount = 0, expansion = [], useClipboard = False\<rparr>"

definition LowerCopy :: "wstring \<Rightarrow> wstring" where
  "LowerCopy s = map towlower s"

subsection \<open>The search for an entry\<close>

text \<open>The entry found, with the local flags \<open>matchedExact\<close>, \<open>matchedViaComposition\<close> and \<open>isPartOfMacro\<close>.\<close>

record MacroHit =
  hitText :: wstring
  hitExact :: bool
  hitViaComposition :: bool
  hitPart :: bool

text \<open>A key as typed, else the key in lower case.\<close>

definition find_either :: "MacroTable \<Rightarrow> wstring \<Rightarrow> wstring \<Rightarrow> bool \<Rightarrow> MacroHit option" where
  "find_either table key lowered part =
    (case table key of
       Some e \<Rightarrow> Some \<lparr>hitText = e, hitExact = True, hitViaComposition = False, hitPart = part\<rparr>
     | None \<Rightarrow> map_option (\<lambda>e. \<lparr>hitText = e, hitExact = False, hitViaComposition = False, hitPart = part\<rparr>)
                 (table lowered))"

definition find_composition :: "MacroTable \<Rightarrow> wstring \<Rightarrow> bool \<Rightarrow> MacroHit option" where
  "find_composition table key part =
    map_option (\<lambda>e. \<lparr>hitText = e, hitExact = False, hitViaComposition = True, hitPart = part\<rparr>) (table key)"

definition orElse :: "'a option \<Rightarrow> 'a option \<Rightarrow> 'a option" where
  "orElse a b = (case a of Some x \<Rightarrow> Some x | None \<Rightarrow> b)"

definition find_macro :: "PlanInputs \<Rightarrow> MacroHit option" where
  "find_macro i =
    (let raw = planBuffer i; lowerKey = LowerCopy raw; table = planTable i; trig = planTrigger i;
         compKey = LowerCopy (planComposition i) in
     orElse (find_either table raw lowerKey (trig > 32))
    (orElse (if trig > 32 \<and> length lowerKey > 1 \<and> last lowerKey = trig
             then find_either table (butlast raw) (butlast lowerKey) False else None)
            (if planComposition i \<noteq> []
             then orElse (if trig > 32 then find_composition table (compKey @ [trig]) True else None)
                         (find_composition table compKey False)
             else None)))"

subsection \<open>The number of characters to erase\<close>

definition shown_width :: "PlanInputs \<Rightarrow> nat" where
  "shown_width i =
    (if planCodeTable i \<noteq> Unicode then sum_list (planWidths i) else length (planComposition i))"

definition buffer_width :: "PlanInputs \<Rightarrow> nat" where
  "buffer_width i =
    (let n = length (planBuffer i) in if planTrigger i > 32 \<and> n > 0 then n - 1 else n)"

definition erase_count :: "PlanInputs \<Rightarrow> MacroHit \<Rightarrow> nat" where
  "erase_count i hit =
    (if hitViaComposition hit then shown_width i
     else if planCrossCommit i then buffer_width i
     else if planComposition i \<noteq> [] then shown_width i
     else buffer_width i)"

subsection \<open>The letter case of the expansion\<close>

text \<open>The test for the two characters of a line break escape, at the front of what is left to scan.\<close>

definition at_newline :: "wstring \<Rightarrow> bool" where
  "at_newline s \<longleftrightarrow> s \<noteq> [] \<and> hd s = 92 \<and> tl s \<noteq> [] \<and> hd (tl s) = L_n"

fun caps_all :: "CaseMapper \<Rightarrow> wstring \<Rightarrow> wstring" where
  "caps_all m [] = []"
| "caps_all m (c # cs) =
    (if at_newline (c # cs) then c # hd cs # caps_all m (tl cs) else mapUpper m c # caps_all m cs)"

fun caps_words :: "CaseMapper \<Rightarrow> bool \<Rightarrow> wstring \<Rightarrow> wstring" where
  "caps_words m newWord [] = []"
| "caps_words m newWord (c # cs) =
    (if at_newline (c # cs) then c # hd cs # caps_words m True (tl cs)
     else if iswspace c then c # caps_words m True cs
     else (if newWord then mapUpper m c else c) # caps_words m False cs)"

definition typed_all_upper :: "wstring \<Rightarrow> bool" where
  "typed_all_upper raw \<longleftrightarrow>
    list_all (\<lambda>c. iswalpha c \<longrightarrow> iswupper c) raw \<and> list_ex iswalpha raw \<and> length raw > 1"

definition match_case :: "CaseMapper \<Rightarrow> wstring \<Rightarrow> wstring \<Rightarrow> wstring" where
  "match_case m raw e =
    (if map (mapLower m) e = e
     then (if typed_all_upper raw then caps_all m e
           else if iswupper (hd raw) then caps_words m True e
           else e)
     else e)"

subsection \<open>The plan\<close>

definition Plan :: "PlanInputs \<Rightarrow> CaseMapper \<Rightarrow> MacroPlan" where
  "Plan i mapper =
    (case find_macro i of
       None \<Rightarrow> emptyPlan
     | Some hit \<Rightarrow>
         (let e = hitText hit;
              e = (if planAutoCaps i \<and> \<not> hitExact hit \<and> \<not> hitViaComposition hit \<and>
                      planBuffer i \<noteq> [] \<and> e \<noteq> []
                   then match_case mapper (planBuffer i) e else e)
          in \<lparr>matched = True, isPartOfMacro = hitPart hit, bsCount = erase_count i hit, expansion = e,
              useClipboard = (planCodeTable i = Unicode \<and> length e > planClipboardThreshold i)\<rparr>))"

subsection \<open>The pieces of an expansion\<close>

fun ExpandEscapesForClipboard :: "wstring \<Rightarrow> wstring" where
  "ExpandEscapesForClipboard [] = []"
| "ExpandEscapesForClipboard (c # cs) =
    (if at_newline (c # cs) then 13 # 10 # ExpandEscapesForClipboard (tl cs)
     else c # ExpandEscapesForClipboard cs)"

record Segment =
  isReturn :: bool
  segText :: wstring

definition returnSegment :: Segment where
  "returnSegment = \<lparr>isReturn = True, segText = []\<rparr>"

definition flush_segment :: "wstring \<Rightarrow> Segment list" where
  "flush_segment cur = (if cur \<noteq> [] then [\<lparr>isReturn = False, segText = cur\<rparr>] else [])"

definition macro_units :: "CodeTable \<Rightarrow> wchar \<Rightarrow> wstring" where
  "macro_units ct c = (if ct \<noteq> Unicode then emit (ConvertChar c ct) else [c])"

fun segments_loop :: "CodeTable \<Rightarrow> wstring \<Rightarrow> wstring \<Rightarrow> Segment list" where
  "segments_loop ct cur [] = flush_segment cur"
| "segments_loop ct cur (c # cs) =
    (if at_newline (c # cs)
     then flush_segment cur @ returnSegment # segments_loop ct [] (tl cs)
     else segments_loop ct (cur @ macro_units ct c) cs)"

definition BuildSegments :: "wstring \<Rightarrow> CodeTable \<Rightarrow> Segment list" where
  "BuildSegments e ct = segments_loop ct [] e"

end
