(* ===== verification/MacroLaws.thy ===== *)
theory MacroLaws
  imports MacroCase
begin

text \<open>
  Laws of the macro expansion: the two routes by which an expansion is sent, the clipboard and the
  key strokes, produce the same text; adapting the letter case keeps every line break; the plan is
  one of the stored expansions up to letter case.
\<close>

subsection \<open>Pieces\<close>

lemma emit_not_Nil [simp]: "emit enc \<noteq> []"
  by (simp add: emit_def)

lemma macro_units_not_Nil [simp]: "macro_units ct c \<noteq> []"
  by (simp add: macro_units_def)

definition segment_text :: "Segment \<Rightarrow> wstring" where
  "segment_text s = (if isReturn s then [13, 10] else segText s)"

lemma segments_text:
  "concat (map segment_text (segments_loop Unicode cur s)) = cur @ ExpandEscapesForClipboard s"
  by (induction s arbitrary: cur rule: ExpandEscapesForClipboard.induct)
    (auto simp: segment_text_def returnSegment_def flush_segment_def macro_units_def)

text \<open>No piece is empty, and two runs of text never follow each other.\<close>

fun well_cut :: "Segment list \<Rightarrow> bool" where
  "well_cut [] \<longleftrightarrow> True"
| "well_cut [s] \<longleftrightarrow> (isReturn s \<longleftrightarrow> segText s = [])"
| "well_cut (s # t # ss) \<longleftrightarrow>
    (isReturn s \<longleftrightarrow> segText s = []) \<and> (isReturn s \<or> isReturn t) \<and> well_cut (t # ss)"

lemma well_cut_return: "well_cut ss \<Longrightarrow> well_cut (returnSegment # ss)"
  by (cases ss) (simp_all add: returnSegment_def)

lemma well_cut_flush: "well_cut ss \<Longrightarrow> well_cut (flush_segment cur @ returnSegment # ss)"
  using well_cut_return[of ss] by (simp add: flush_segment_def returnSegment_def)

lemma segments_well_cut: "well_cut (segments_loop ct cur s)"
  by (induction ct cur s rule: segments_loop.induct)
    (simp_all add: well_cut_flush, simp add: flush_segment_def)

text \<open>Sending an expansion through the clipboard and sending it piece by piece give the same text,
  with a carriage return and line feed for every return key; and the pieces are cut well: none is
  empty, and two runs of text are always separated by a return key.
\<close>

theorem clipboard_and_keys_agree:
  "concat (map segment_text (BuildSegments e Unicode)) = ExpandEscapesForClipboard e \<and>
   well_cut (BuildSegments e ct)"
  by (simp add: BuildSegments_def segments_text segments_well_cut)

subsection \<open>Letter case\<close>

text \<open>
  \<open>respells s t\<close>: \<open>t\<close> has the escapes of \<open>s\<close> at the same places, and one character for every other
  character of \<open>s\<close>.
\<close>

inductive respells :: "wstring \<Rightarrow> wstring \<Rightarrow> bool" where
  respells_Nil: "respells [] []"
| respells_escape: "respells s t \<Longrightarrow> respells (92 # L_n # s) (92 # L_n # t)"
| respells_char: "respells s t \<Longrightarrow> \<not> at_newline (c # s) \<Longrightarrow> \<not> at_newline (d # t) \<Longrightarrow>
    respells (c # s) (d # t)"

lemma respells_refl: "respells s s"
proof (induction s rule: ExpandEscapesForClipboard.induct)
  case (2 c cs)
  then show ?case
    by (cases "at_newline (c # cs)"; cases cs) (auto simp: at_newline_def intro: respells.intros)
qed (rule respells_Nil)

lemma respells_returns:
  "respells s t \<Longrightarrow> (cur = [] \<longleftrightarrow> cur' = []) \<Longrightarrow>
    map isReturn (segments_loop ct cur s) = map isReturn (segments_loop ct cur' t)"
  by (induction arbitrary: cur cur' rule: respells.induct)
    (auto simp: flush_segment_def at_newline_def)

lemma respells_length: "respells s t \<Longrightarrow> length s = length t"
  by (induction rule: respells.induct) simp_all

text \<open>What the documentation of the system promises of its conversion to capitals, as far as it matters here:
  it turns small letters into capitals and leaves every other character alone. So a character it changes
  is no backslash and becomes neither a backslash nor the small letter n.\<close>

definition case_mapper :: "CaseMapper \<Rightarrow> bool" where
  "case_mapper m \<longleftrightarrow>
    (\<forall>c. mapUpper m c = c \<or> c \<noteq> 92 \<and> mapUpper m c \<noteq> 92 \<and> mapUpper m c \<noteq> L_n)"

lemma case_mapperD:
  assumes "case_mapper m"
  shows "mapUpper m c = 92 \<longleftrightarrow> c = 92" "mapUpper m c = L_n \<Longrightarrow> c = L_n"
  using assms by (metis case_mapper_def)+

lemma caps_all_head: "case_mapper m \<Longrightarrow> caps_all m s \<noteq> [] \<Longrightarrow> hd (caps_all m s) = L_n \<Longrightarrow> hd s = L_n"
  by (cases s) (auto simp: at_newline_def split: if_splits dest: case_mapperD(2))

lemma caps_words_head:
  "case_mapper m \<Longrightarrow> caps_words m nw s \<noteq> [] \<Longrightarrow> hd (caps_words m nw s) = L_n \<Longrightarrow> hd s = L_n"
  by (cases s) (auto simp: at_newline_def split: if_splits dest: case_mapperD(2))

lemma caps_all_Nil [simp]: "caps_all m s = [] \<longleftrightarrow> s = []"
  by (cases s) simp_all

lemma caps_words_Nil [simp]: "caps_words m nw s = [] \<longleftrightarrow> s = []"
  by (cases s) simp_all

lemma newline_front: "at_newline (c # d) \<Longrightarrow> c = 92 \<and> d \<noteq> [] \<and> hd d = L_n"
  by (simp add: at_newline_def)

lemma respells_newline:
  "at_newline (c # cs) \<Longrightarrow> respells (tl cs) t \<Longrightarrow> respells (c # cs) (c # hd cs # t)"
  by (cases cs) (auto simp: at_newline_def intro: respells.intros)

lemma caps_all_respells: "case_mapper m \<Longrightarrow> respells s (caps_all m s)"
proof (induction s rule: ExpandEscapesForClipboard.induct)
  case (2 c cs)
  show ?case
  proof (cases "at_newline (c # cs)")
    case True
    with 2 show ?thesis by (simp add: respells_newline)
  next
    case False
    have "\<not> at_newline (mapUpper m c # caps_all m cs)"
      using False caps_all_head[of m cs] "2.prems"
      by (auto simp: at_newline_def case_mapperD(1))
    with False 2 show ?thesis by (simp add: respells_char)
  qed
qed (simp add: respells_Nil)

lemma caps_words_respells: "case_mapper m \<Longrightarrow> respells s (caps_words m nw s)"
proof (induction s arbitrary: nw rule: ExpandEscapesForClipboard.induct)
  case (2 c cs)
  show ?case
  proof (cases "at_newline (c # cs)")
    case True
    with 2 show ?thesis by (simp add: respells_newline)
  next
    case False
    have "\<not> at_newline (d # caps_words m nw' cs)" if "d = 92 \<longrightarrow> c = 92" for d nw'
      using False caps_words_head[of m nw' cs] "2.prems" that by (auto simp: at_newline_def)
    with False 2 show ?thesis by (auto intro!: respells_char simp: case_mapperD(1))
  qed
qed (simp add: respells_Nil)

text \<open>Every character is kept or turned into its capital.\<close>

definition recased :: "CaseMapper \<Rightarrow> wstring \<Rightarrow> wstring \<Rightarrow> bool" where
  "recased m = list_all2 (\<lambda>c d. d = c \<or> d = mapUpper m c)"

lemma recased_refl: "recased m s s"
  by (simp add: recased_def list_all2_refl)

lemma caps_all_recased: "recased m s (caps_all m s)"
proof (induction s rule: ExpandEscapesForClipboard.induct)
  case (2 c cs)
  then show ?case by (cases cs) (auto simp: recased_def at_newline_def)
qed (simp add: recased_def)

lemma caps_words_recased: "recased m s (caps_words m nw s)"
proof (induction s arbitrary: nw rule: ExpandEscapesForClipboard.induct)
  case (2 c cs)
  then show ?case by (cases cs) (auto simp: recased_def at_newline_def)
qed (simp add: recased_def)

lemma match_case_laws:
  "recased m e (match_case m raw e)" "case_mapper m \<Longrightarrow> respells e (match_case m raw e)"
  by (simp_all add: match_case_def respells_refl caps_all_respells caps_words_respells recased_refl
      caps_all_recased caps_words_recased)

subsection \<open>The plan\<close>

text \<open>The keys of the table that the typed text can stand for.\<close>

definition macro_candidates :: "PlanInputs \<Rightarrow> wstring set" where
  "macro_candidates i =
    {planBuffer i, LowerCopy (planBuffer i), butlast (planBuffer i), butlast (LowerCopy (planBuffer i)),
     LowerCopy (planComposition i) @ [planTrigger i], LowerCopy (planComposition i)}"

lemma find_either_Some:
  "find_either t k l p = Some h \<Longrightarrow>
    (t k = Some (hitText h) \<and> hitExact h \<or> t l = Some (hitText h) \<and> \<not> hitExact h) \<and>
    \<not> hitViaComposition h \<and> hitPart h = p"
  by (auto simp: find_either_def split: option.splits)

lemma find_composition_Some:
  "find_composition t k p = Some h \<Longrightarrow>
    t k = Some (hitText h) \<and> \<not> hitExact h \<and> hitViaComposition h \<and> hitPart h = p"
  by (auto simp: find_composition_def)

lemma orElse_Some: "orElse a b = Some x \<longleftrightarrow> a = Some x \<or> a = None \<and> b = Some x"
  by (auto simp: orElse_def split: option.splits)

lemma find_macro_candidate:
  assumes "find_macro i = Some h"
  shows "\<exists>k \<in> macro_candidates i. planTable i k = Some (hitText h)"
  using assms
  by (auto simp: find_macro_def Let_def orElse_Some macro_candidates_def split: if_splits
      dest!: find_either_Some find_composition_Some)

lemma Plan_hit:
  assumes "find_macro i = Some h"
  shows "matched (Plan i m)" "isPartOfMacro (Plan i m) = hitPart h" "bsCount (Plan i m) = erase_count i h"
    "useClipboard (Plan i m) \<longleftrightarrow>
      planCodeTable i = Unicode \<and> planClipboardThreshold i < length (expansion (Plan i m))"
  by (simp_all add: Plan_def assms Let_def)


definition ascii_mapper :: CaseMapper where
  "ascii_mapper = \<lparr>mapUpper = towupper, mapLower = towlower\<rparr>"

lemma ascii_case_mapper: "case_mapper ascii_mapper"
  by (auto simp: case_mapper_def ascii_mapper_def towupper_def towlower_def)

definition sample_inputs :: PlanInputs where
  "sample_inputs =
    \<lparr>planBuffer = [66, 84], planComposition = [66, 84], planWidths = [1, 1],
     planTable = [[L_b, L_t] \<mapsto> [L_b, L_i, 92, L_n, L_t]], planCrossCommit = False,
     planCodeTable = Unicode, planAutoCaps = True, planTrigger = 32, planClipboardThreshold = 200\<rparr>"


end
