(* ===== verification/HotkeyRegistry.thy ===== *)
theory HotkeyRegistry
  imports TypingActions
begin

text \<open>
  The user's hotkeys, \<open>src/core/hotkey/HotkeyRegistry.cpp\<close>, and their labels,
  \<open>src/core/hotkey/HotkeyLabel.cpp\<close>. A virtual key and a modifier mask are 32-bit words. The two
  hash maps of the registry are maps. A TOML document is the tree of values the program reads and
  writes: a table is the list of its rows, of which only the lookup matters here, and \<open>get_as<T>\<close> of the
  TOML library, which answers null for a missing row and for a row of another type, is \<open>get_int\<close> and
  \<open>get_bool\<close>.
\<close>

datatype HotIntent = CancelComposition | SkipMacro | ToggleEnabled

definition kAllIntents :: "HotIntent list" where
  "kAllIntents = [CancelComposition, SkipMacro, ToggleEnabled]"

abbreviation kModCtrl :: u32 where "kModCtrl \<equiv> 1"
abbreviation kModShift :: u32 where "kModShift \<equiv> 2"
abbreviation kModAlt :: u32 where "kModAlt \<equiv> 4"
abbreviation kModWin :: u32 where "kModWin \<equiv> 8"

record Trigger =
  trigVk :: u32
  trigMods :: u32
  doubleTap :: bool

record HotkeyRegistry =
  regTriggers :: "HotIntent \<rightharpoonup> Trigger list"
  regEnabled :: "HotIntent \<rightharpoonup> bool"

definition emptyHotkeys :: HotkeyRegistry where
  "emptyHotkeys = \<lparr>regTriggers = Map.empty, regEnabled = Map.empty\<rparr>"

definition IsModifierKey :: "u32 \<Rightarrow> bool" where
  "IsModifierKey vk \<longleftrightarrow> vk = 0x10 \<or> vk = 0x11 \<or> vk = 0x12 \<or> vk = 0x5B \<or> vk = 0x5C"

definition TriggersFor :: "HotIntent \<Rightarrow> HotkeyRegistry \<Rightarrow> Trigger list" where
  "TriggersFor intent r = (case regTriggers r intent of None \<Rightarrow> [] | Some ts \<Rightarrow> ts)"

definition AddTrigger :: "HotIntent \<Rightarrow> Trigger \<Rightarrow> HotkeyRegistry \<Rightarrow> HotkeyRegistry" where
  "AddTrigger intent t r = r\<lparr>regTriggers := (regTriggers r)(intent \<mapsto> TriggersFor intent r @ [t])\<rparr>"

definition IsEnabled :: "HotIntent \<Rightarrow> HotkeyRegistry \<Rightarrow> bool" where
  "IsEnabled intent r = (case regEnabled r intent of None \<Rightarrow> True | Some b \<Rightarrow> b)"

definition SetEnabled :: "HotIntent \<Rightarrow> bool \<Rightarrow> HotkeyRegistry \<Rightarrow> HotkeyRegistry" where
  "SetEnabled intent b r = r\<lparr>regEnabled := (regEnabled r)(intent \<mapsto> b)\<rparr>"

definition ClearHotkeys :: "HotkeyRegistry \<Rightarrow> HotkeyRegistry" where
  "ClearHotkeys r = r\<lparr>regTriggers := Map.empty, regEnabled := Map.empty\<rparr>"

subsection \<open>Matching\<close>

text \<open>One turn of the loop over the triggers: does this trigger answer true?\<close>

definition trigger_fires :: "u32 \<Rightarrow> u32 \<Rightarrow> bool \<Rightarrow> bool \<Rightarrow> Trigger \<Rightarrow> bool" where
  "trigger_fires vk mods isDoubleTap keyUp t =
    (if trigVk t \<noteq> vk then False
     else if doubleTap t then isDoubleTap \<and> mods = trigMods t
     else if IsModifierKey (trigVk t) then keyUp \<and> \<not> isDoubleTap \<and> mods = trigMods t
     else \<not> keyUp \<and> \<not> isDoubleTap \<and> mods = trigMods t)"

definition Matches :: "HotIntent \<Rightarrow> u32 \<Rightarrow> u32 \<Rightarrow> bool \<Rightarrow> bool \<Rightarrow> HotkeyRegistry \<Rightarrow> bool" where
  "Matches intent vk mods isDoubleTap keyUp r =
    (if \<not> IsEnabled intent r then False
     else case regTriggers r intent of
       None \<Rightarrow> False
     | Some ts \<Rightarrow> list_ex (trigger_fires vk mods isDoubleTap keyUp) ts)"

definition DefaultHotkeys :: HotkeyRegistry where
  "DefaultHotkeys =
    SetEnabled ToggleEnabled True (SetEnabled SkipMacro True (SetEnabled CancelComposition True
      (AddTrigger ToggleEnabled \<lparr>trigVk = 0x12, trigMods = 0, doubleTap = True\<rparr>
      (AddTrigger ToggleEnabled \<lparr>trigVk = 0x11, trigMods = 0, doubleTap = False\<rparr>
      (AddTrigger SkipMacro \<lparr>trigVk = 0x1B, trigMods = 0, doubleTap = False\<rparr>
      (AddTrigger CancelComposition \<lparr>trigVk = 0x1B, trigMods = 0, doubleTap = False\<rparr> emptyHotkeys))))))"

definition FromLegacyFields :: "bool \<Rightarrow> bool \<Rightarrow> u8 \<Rightarrow> HotkeyRegistry" where
  "FromLegacyFields escRestoreRaw tempOffMacroByEsc tempOffMethod =
    (let esc = \<lparr>trigVk = 0x1B, trigMods = 0, doubleTap = False\<rparr>;
         r = emptyHotkeys;
         r = (if escRestoreRaw then AddTrigger CancelComposition esc r else r);
         r = (if tempOffMacroByEsc then AddTrigger SkipMacro esc r else r);
         r = (if tempOffMethod = 1
              then AddTrigger ToggleEnabled \<lparr>trigVk = 0x12, trigMods = 0, doubleTap = True\<rparr> r
              else if tempOffMethod = 2
              then AddTrigger ToggleEnabled \<lparr>trigVk = 0x11, trigMods = 0, doubleTap = False\<rparr> r
              else r)
     in SetEnabled ToggleEnabled (tempOffMethod \<noteq> 0) (SetEnabled SkipMacro tempOffMacroByEsc
          (SetEnabled CancelComposition escRestoreRaw r)))"

subsection \<open>Reading and writing the hotkeys\<close>

datatype Toml = TStr string | TInt "64 word" | TBool bool | TTable "(string \<times> Toml) list" | TArray "Toml list"

definition toml_get :: "(string \<times> Toml) list \<Rightarrow> string \<Rightarrow> Toml option" where
  "toml_get tbl key = map_of tbl key"

definition get_int :: "(string \<times> Toml) list \<Rightarrow> string \<Rightarrow> 64 word option" where
  "get_int tbl key = (case toml_get tbl key of Some (TInt n) \<Rightarrow> Some n | _ \<Rightarrow> None)"

definition get_bool :: "(string \<times> Toml) list \<Rightarrow> string \<Rightarrow> bool option" where
  "get_bool tbl key = (case toml_get tbl key of Some (TBool b) \<Rightarrow> Some b | _ \<Rightarrow> None)"

text \<open>\<open>insert_or_assign\<close>: the row of a key is replaced where it stands, or added.\<close>

definition toml_assign :: "string \<Rightarrow> Toml \<Rightarrow> (string \<times> Toml) list \<Rightarrow> (string \<times> Toml) list" where
  "toml_assign key v tbl =
    (if key \<in> set (map fst tbl) then map (\<lambda>(k, w). if k = key then (k, v) else (k, w)) tbl
     else tbl @ [(key, v)])"

fun IntentToString :: "HotIntent \<Rightarrow> string" where
  "IntentToString CancelComposition = ''cancel-composition''"
| "IntentToString SkipMacro = ''skip-macro''"
| "IntentToString ToggleEnabled = ''toggle-enabled''"

definition ParseIntent :: "string \<Rightarrow> HotIntent option" where
  "ParseIntent s =
    (if s = ''cancel-composition'' then Some CancelComposition
     else if s = ''skip-macro'' then Some SkipMacro
     else if s = ''toggle-enabled'' then Some ToggleEnabled
     else None)"

fun IntentStateKey :: "HotIntent \<Rightarrow> string" where
  "IntentStateKey CancelComposition = ''cancel_composition''"
| "IntentStateKey SkipMacro = ''skip_macro''"
| "IntentStateKey ToggleEnabled = ''toggle_enabled''"

text \<open>The trigger of a row, \<open>None\<close> when the row has no key or the key 0.\<close>

definition read_trigger :: "(string \<times> Toml) list \<Rightarrow> Trigger option" where
  "read_trigger tbl =
    (case get_int tbl ''vk'' of
       None \<Rightarrow> None
     | Some vk \<Rightarrow>
         (if (ucast vk :: u32) = 0 then None
          else Some \<lparr>trigVk = ucast vk,
                     trigMods = (case get_int tbl ''mods'' of Some n \<Rightarrow> ucast n | None \<Rightarrow> 0),
                     doubleTap = (case get_bool tbl ''double_tap'' of Some b \<Rightarrow> b | None \<Rightarrow> False)\<rparr>))"

text \<open>The body of the loop of \<open>Load\<close>: every \<open>continue\<close> leaves the registry as it is.\<close>

definition load_row :: "Toml \<Rightarrow> HotkeyRegistry \<Rightarrow> HotkeyRegistry" where
  "load_row node r =
    (case node of
       TTable row \<Rightarrow>
         (case (toml_get row ''intent'', toml_get row ''trigger'') of
            (Some (TStr s), Some (TTable trig)) \<Rightarrow>
              (case (ParseIntent s, read_trigger trig) of
                 (Some intent, Some t) \<Rightarrow> AddTrigger intent t r
               | _ \<Rightarrow> r)
          | _ \<Rightarrow> r)
     | _ \<Rightarrow> r)"

definition LoadHotkeys :: "Toml list \<Rightarrow> HotkeyRegistry \<Rightarrow> HotkeyRegistry" where
  "LoadHotkeys cfg r = fold load_row cfg (r\<lparr>regTriggers := Map.empty\<rparr>)"

definition save_row :: "HotIntent \<Rightarrow> Trigger \<Rightarrow> Toml" where
  "save_row intent t =
    TTable [(''intent'', TStr (IntentToString intent)),
            (''trigger'', TTable ([(''vk'', TInt (ucast (trigVk t))), (''mods'', TInt (ucast (trigMods t)))] @
                                  (if doubleTap t then [(''double_tap'', TBool True)] else [])))]"

definition SaveHotkeys :: "HotkeyRegistry \<Rightarrow> Toml list \<Rightarrow> Toml list" where
  "SaveHotkeys r cfg =
    cfg @ concat (map (\<lambda>intent. case regTriggers r intent of
                         None \<Rightarrow> [] | Some ts \<Rightarrow> map (save_row intent) ts) kAllIntents)"

definition LoadEnabled :: "(string \<times> Toml) list \<Rightarrow> HotkeyRegistry \<Rightarrow> HotkeyRegistry" where
  "LoadEnabled tbl r =
    fold (\<lambda>intent r. case get_bool tbl (IntentStateKey intent) of
                       Some b \<Rightarrow> r\<lparr>regEnabled := (regEnabled r)(intent \<mapsto> b)\<rparr> | None \<Rightarrow> r)
      kAllIntents (r\<lparr>regEnabled := Map.empty\<rparr>)"

definition SaveEnabled :: "HotkeyRegistry \<Rightarrow> (string \<times> Toml) list \<Rightarrow> (string \<times> Toml) list" where
  "SaveEnabled r tbl =
    fold (\<lambda>intent tbl. toml_assign (IntentStateKey intent) (TBool (IsEnabled intent r)) tbl) kAllIntents tbl"

subsection \<open>Labels\<close>

definition wide :: "string \<Rightarrow> wstring" where
  "wide s = map of_char s"

fun decimal :: "nat \<Rightarrow> wstring" where
  "decimal n = (if n < 10 then [48 + int n] else decimal (n div 10) @ [48 + int (n mod 10)])"

definition WordsTable :: "(u32 \<times> string) list" where
  "WordsTable =
    [(0x08, ''Backspace''), (0x09, ''Tab''), (0x0D, ''Enter''),
     (0x10, ''Shift''), (0x11, ''Ctrl''), (0x12, ''Alt''),
     (0x13, ''Pause''), (0x14, ''Caps''), (0x1B, ''Esc''),
     (0x20, ''Space''),
     (0x21, ''PgUp''), (0x22, ''PgDn''), (0x23, ''End''), (0x24, ''Home''),
     (0x25, ''Left''), (0x26, ''Up''), (0x27, ''Right''), (0x28, ''Down''),
     (0x2C, ''PrtSc''), (0x2D, ''Insert''), (0x2E, ''Delete''),
     (0x5B, ''Win''), (0x5C, ''Win''), (0x5D, ''Menu''),
     (0xBA, '';''), (0xBB, ''=''), (0xBC, '',''), (0xBD, ''-''), (0xBE, ''.''), (0xBF, ''/''),
     (0xC0, [CHR 0x60]), (0xDB, ''[''), (0xDC, [CHR 0x5C]), (0xDD, '']''), (0xDE, [CHR 0x27])]"

definition hex_digit :: "u32 \<Rightarrow> wchar" where
  "hex_digit d = (let n = uint (d AND 0xF) in if n < 10 then 48 + n else 55 + n)"

definition VkToKeyName :: "u32 \<Rightarrow> wstring" where
  "VkToKeyName vk =
    (if vk = 0 then []
     else if 0x30 \<le> vk \<and> vk \<le> 0x39 then [uint vk]
     else if 0x41 \<le> vk \<and> vk \<le> 0x5A then [uint vk]
     else if 0x60 \<le> vk \<and> vk \<le> 0x69 then wide ''Num'' @ decimal (unat (vk - 0x60))
     else if 0x70 \<le> vk \<and> vk \<le> 0x87 then wide ''F'' @ decimal (unat (vk - 0x6F))
     else case find (\<lambda>(k, name). k = vk) WordsTable of
       Some (k, name) \<Rightarrow> wide name
     | None \<Rightarrow> wide ''VK 0x'' @ [hex_digit (drop_bit 12 vk), hex_digit (drop_bit 8 vk),
                                hex_digit (drop_bit 4 vk), hex_digit (drop_bit 0 vk)])"

definition AppendWithPlus :: "wstring \<Rightarrow> wstring \<Rightarrow> wstring" where
  "AppendWithPlus out token = (if out \<noteq> [] then out @ [43] else out) @ token"

definition FormatHotkeyLabel :: "u32 \<Rightarrow> u32 \<Rightarrow> wstring" where
  "FormatHotkeyLabel vk mods =
    (let out = [];
         out = (if mods AND kModCtrl \<noteq> 0 then AppendWithPlus out (wide ''Ctrl'') else out);
         out = (if mods AND kModShift \<noteq> 0 then AppendWithPlus out (wide ''Shift'') else out);
         out = (if mods AND kModAlt \<noteq> 0 then AppendWithPlus out (wide ''Alt'') else out);
         out = (if mods AND kModWin \<noteq> 0 then AppendWithPlus out (wide ''Win'') else out)
     in if vk \<noteq> 0 then AppendWithPlus out (VkToKeyName vk) else out)"

definition LegacyKeyCharToVk :: "wstring \<Rightarrow> u32" where
  "LegacyKeyCharToVk s =
    (if length s \<noteq> 1 then 0
     else (let c = towupper (s ! 0) in
           if 65 \<le> c \<and> c \<le> 90 \<or> 48 \<le> c \<and> c \<le> 57 then word_of_int c else 0))"

end
