(* ===== verification/HotkeyLaws.thy ===== *)
theory HotkeyLaws
  imports HotkeyRegistry
begin

text \<open>
  Laws of the hotkeys: a hotkey fires at most once in a tap, the registry survives being saved and
  loaded, the migrated registry answers as the settings it comes from, and a label names one hotkey.
\<close>

subsection \<open>Matching\<close>

lemma Matches_iff:
  "Matches intent vk mods dt up r \<longleftrightarrow>
    IsEnabled intent r \<and> list_ex (trigger_fires vk mods dt up) (TriggersFor intent r)"
  by (auto simp: Matches_def TriggersFor_def split: option.splits)

lemma trigger_fires_edge:
  "trigger_fires vk mods False up t \<Longrightarrow> up = IsModifierKey vk"
  by (auto simp: trigger_fires_def split: if_splits)

text \<open>A hotkey fires at most once in a tap: a single tap is answered at the release of a modifier
  key and at the press of any other key, never at both, and a disabled hotkey never fires.
\<close>

theorem hotkey_fires_once:
  "(Matches intent vk mods False keyUp r \<longrightarrow> keyUp = IsModifierKey vk) \<and>
   (Matches intent vk mods isDoubleTap keyUp r \<longrightarrow> IsEnabled intent r \<and>
     (\<exists>t \<in> set (TriggersFor intent r). trigVk t = vk \<and> trigMods t = mods \<and> doubleTap t = isDoubleTap))"
  by (auto simp: Matches_iff list_ex_iff dest: trigger_fires_edge)
    (auto simp: trigger_fires_def split: if_splits)

lemma TriggersFor_Add:
  "TriggersFor i (AddTrigger j t r) = (if i = j then TriggersFor j r @ [t] else TriggersFor i r)"
  by (simp add: TriggersFor_def AddTrigger_def)

lemma IsEnabled_Add [simp]: "IsEnabled i (AddTrigger j t r) = IsEnabled i r"
  by (simp add: IsEnabled_def AddTrigger_def)

lemma regEnabled_Add [simp]: "regEnabled (AddTrigger j t r) = regEnabled r"
  by (simp add: AddTrigger_def)

subsection \<open>Saving and loading\<close>

lemma ParseIntent_IntentToString [simp]: "ParseIntent (IntentToString i) = Some i"
  by (cases i) (simp_all add: ParseIntent_def)

lemma ucast_u32 [simp]: "(ucast (ucast (v :: u32) :: 64 word) :: u32) = v"
  by (rule ucast_up_ucast_id) (simp add: is_up)

lemma ucast_eq_0 [simp]: "(ucast (v :: u32) :: 64 word) = 0 \<longleftrightarrow> v = 0"
  by (metis ucast_0 ucast_u32)

lemma load_save_row:
  "trigVk t \<noteq> 0 \<Longrightarrow> load_row (save_row i t) r = AddTrigger i t r"
  by (cases t; cases "doubleTap t")
    (simp_all add: load_row_def save_row_def toml_get_def read_trigger_def get_int_def get_bool_def)

lemma load_save_rows:
  "\<forall>t \<in> set ts. trigVk t \<noteq> 0 \<Longrightarrow>
    TriggersFor j (fold load_row (map (save_row i) ts) r) = TriggersFor j r @ (if j = i then ts else [])"
  by (induction ts arbitrary: r) (auto simp: load_save_row TriggersFor_Add)

lemma regEnabled_rows:
  "\<forall>t \<in> set ts. trigVk t \<noteq> 0 \<Longrightarrow> regEnabled (fold load_row (map (save_row i) ts) r) = regEnabled r"
  by (induction ts arbitrary: r) (simp_all add: load_save_row)

lemma SaveHotkeys_rows:
  "SaveHotkeys r cfg = cfg @ concat (map (\<lambda>i. map (save_row i) (TriggersFor i r)) kAllIntents)"
proof -
  have "(case regTriggers r i of None \<Rightarrow> [] | Some ts \<Rightarrow> map (save_row i) ts) =
      map (save_row i) (TriggersFor i r)" for i
    by (simp add: TriggersFor_def split: option.splits)
  then show ?thesis by (simp add: SaveHotkeys_def)
qed

definition no_zero_key :: "HotkeyRegistry \<Rightarrow> bool" where
  "no_zero_key r \<longleftrightarrow> (\<forall>i. \<forall>t \<in> set (TriggersFor i r). trigVk t \<noteq> 0)"

lemma triggers_survive:
  assumes "no_zero_key r"
  shows "TriggersFor i (LoadHotkeys (SaveHotkeys r []) s) = TriggersFor i r"
    "regEnabled (LoadHotkeys (SaveHotkeys r []) s) = regEnabled s"
  using assms
  by (cases i; simp add: LoadHotkeys_def SaveHotkeys_rows kAllIntents_def no_zero_key_def load_save_rows
      TriggersFor_def[of _ "s\<lparr>regTriggers := Map.empty\<rparr>"])
    (simp_all add: assms[unfolded no_zero_key_def] LoadHotkeys_def SaveHotkeys_rows kAllIntents_def regEnabled_rows)

lemma enabled_survives: "IsEnabled i (LoadEnabled (SaveEnabled r []) s) = IsEnabled i r"
  by (cases i) (simp_all add: LoadEnabled_def SaveEnabled_def kAllIntents_def toml_assign_def get_bool_def
      toml_get_def IsEnabled_def)

lemma LoadEnabled_triggers [simp]: "TriggersFor i (LoadEnabled tbl s) = TriggersFor i s"
  by (simp add: LoadEnabled_def kAllIntents_def TriggersFor_def split: option.splits)

text \<open>Saving the hotkeys and loading them into any registry gives hotkeys that fire at the same
  keys. Only a binding of the key code 0, which no keyboard sends, is lost.
\<close>

theorem hotkeys_survive_saving:
  assumes "no_zero_key r"
  shows "Matches i vk mods dt up
      (LoadEnabled (SaveEnabled r []) (LoadHotkeys (SaveHotkeys r []) s)) = Matches i vk mods dt up r"
  by (simp add: Matches_iff enabled_survives triggers_survive[OF assms])

lemma no_zero_Default: "no_zero_key DefaultHotkeys"
proof -
  have "\<forall>t \<in> set (TriggersFor i DefaultHotkeys). trigVk t \<noteq> 0" for i
    by (cases i) (simp_all add: DefaultHotkeys_def TriggersFor_def SetEnabled_def AddTrigger_def emptyHotkeys_def)
  then show ?thesis by (simp add: no_zero_key_def)
qed

lemma hotkeys_survive_saving_witness:
  "Matches CancelComposition 0x1B 0 False False
     (LoadEnabled (SaveEnabled DefaultHotkeys []) (LoadHotkeys (SaveHotkeys DefaultHotkeys []) emptyHotkeys))"
proof -
  have "Matches CancelComposition 0x1B 0 False False DefaultHotkeys" by code_simp
  then show ?thesis by (simp add: hotkeys_survive_saving[OF no_zero_Default])
qed

text \<open>A row without a key, with the key 0 or with an unknown intent is skipped, and the rows after it are read.\<close>

lemma load_row_bad_intent:
  "ParseIntent s = None \<Longrightarrow> load_row (TTable [(''intent'', TStr s), (''trigger'', trig)]) r = r"
  by (simp add: load_row_def toml_get_def split: Toml.splits)

subsection \<open>Labels\<close>

definition alnum_key :: "wchar \<Rightarrow> bool" where
  "alnum_key c \<longleftrightarrow> 48 \<le> c \<and> c \<le> 57 \<or> 65 \<le> c \<and> c \<le> 90"

fun decimal_value :: "wstring \<Rightarrow> nat \<Rightarrow> nat" where
  "decimal_value [] acc = acc"
| "decimal_value (c # cs) acc = decimal_value cs (10 * acc + nat (c - 48))"

fun hex_value :: "wstring \<Rightarrow> nat \<Rightarrow> nat" where
  "hex_value [] acc = acc"
| "hex_value (c # cs) acc = hex_value cs (16 * acc + nat (if c \<le> 57 then c - 48 else c - 55))"

definition hex_char :: "int \<Rightarrow> wchar" where
  "hex_char n = (if n < 10 then 48 + n else 55 + n)"

lemma hex_digit_div: "hex_digit (drop_bit k vk) = hex_char (uint vk div 2 ^ k mod 16)"
proof -
  have low: "uint (x AND (0xF :: u32)) = uint x mod 16" for x
    using take_bit_eq_mask[of 4 "uint x"]
    by (simp add: unsigned_and_eq mask_numeral take_bit_eq_mod)
  have "uint (drop_bit k vk) = drop_bit k (uint vk)"
    using unsigned_less[of vk, where 'a = int] by (simp add: unsigned_drop_bit_eq take_bit_int_eq_self)
  then have "uint (drop_bit k vk) = uint vk div 2 ^ k"
    by (simp only: drop_bit_eq_div)
  then show ?thesis by (simp add: hex_digit_def hex_char_def Let_def low)
qed

lemma hex_powers: "(2 :: int) ^ 12 = 4096" "(2 :: int) ^ 8 = 256" "(2 :: int) ^ 4 = 16"
  by simp_all

lemma VkToKeyName_code [code]:
  "VkToKeyName vk =
    (if vk = 0 then []
     else if 0x30 \<le> vk \<and> vk \<le> 0x39 then [uint vk]
     else if 0x41 \<le> vk \<and> vk \<le> 0x5A then [uint vk]
     else if 0x60 \<le> vk \<and> vk \<le> 0x69 then wide ''Num'' @ decimal (unat (vk - 0x60))
     else if 0x70 \<le> vk \<and> vk \<le> 0x87 then wide ''F'' @ decimal (unat (vk - 0x6F))
     else case find (\<lambda>(k, name). k = vk) WordsTable of
       Some (k, name) \<Rightarrow> wide name
     | None \<Rightarrow> wide ''VK 0x'' @ map (\<lambda>d. hex_char (uint vk div d mod 16)) [4096, 256, 16, 1])"
  unfolding VkToKeyName_def hex_digit_div list.map by (simp only: power_0 hex_powers)

text \<open>The key a name stands for, read back from the name, with the names of the table as an argument.\<close>

fun name_key :: "(wstring \<times> nat) list \<Rightarrow> wstring \<Rightarrow> wstring \<Rightarrow> wstring \<Rightarrow> nat" where
  "name_key names num_prefix hex_prefix s =
    (if s \<noteq> [] \<and> tl s = [] \<and> alnum_key (hd s) then nat (hd s)
     else if take 3 s = num_prefix then 0x60 + decimal_value (drop 3 s) 0
     else if take 5 s = hex_prefix then hex_value (drop 5 s) 0
     else case map_of names s of Some k \<Rightarrow> k | None \<Rightarrow> 0x6F + decimal_value (tl s) 0)"

fun name_reads_back :: "(wstring \<times> nat) list \<Rightarrow> wstring \<Rightarrow> wstring \<Rightarrow> wstring \<times> nat \<Rightarrow> bool" where
  "name_reads_back names np hp (s, n) \<longleftrightarrow> name_key names np hp s = n \<and> s \<noteq> [] \<and> 43 \<notin> set s"

definition word_names :: "(wstring \<times> nat) list" where
  "word_names = map (\<lambda>(k, name). (wide name, unat k)) WordsTable"

text \<open>The keys of a keyboard that have a name, without the right one of the two Windows keys.\<close>

definition label_keys :: "nat list" where
  "label_keys = filter (\<lambda>n. n \<noteq> 0x5C) [1..<0x88] @
    [0xBA, 0xBB, 0xBC, 0xBD, 0xBE, 0xBF, 0xC0, 0xDB, 0xDC, 0xDD, 0xDE]"

lemma names_read_back:
  "list_all (name_reads_back word_names (wide ''Num'') (wide ''VK 0x''))
     (map (\<lambda>n. (VkToKeyName (word_of_nat n), n)) label_keys)"
  by code_simp

lemma label_key_name:
  assumes "n \<in> set label_keys"
  shows "name_key word_names (wide ''Num'') (wide ''VK 0x'') (VkToKeyName (word_of_nat n)) = n"
    "VkToKeyName (word_of_nat n) \<noteq> []" "43 \<notin> set (VkToKeyName (word_of_nat n))"
  using names_read_back assms by (auto simp: list_all_iff)

definition mask_label :: "nat \<Rightarrow> wstring" where
  "mask_label m = FormatHotkeyLabel 0 (word_of_nat m)"

lemma mask_labels_distinct: "distinct (map mask_label [0..<16])"
  by code_simp

lemma FormatHotkeyLabel_split:
  "vk \<noteq> 0 \<Longrightarrow> FormatHotkeyLabel vk mods = AppendWithPlus (FormatHotkeyLabel 0 mods) (VkToKeyName vk)"
  by (simp add: FormatHotkeyLabel_def Let_def)

lemma append_plus_split:
  assumes "AppendWithPlus p s = AppendWithPlus q t" and "43 \<notin> set s" and "43 \<notin> set t"
  shows "p = q \<and> s = t"
proof -
  have ends: "takeWhile (\<lambda>c. c \<noteq> 43) (rev (AppendWithPlus p s)) = rev s"
      "rev (dropWhile (\<lambda>c. c \<noteq> 43) (rev (AppendWithPlus p s))) = (if p = [] then [] else p @ [43])"
    if "43 \<notin> set s" for p s :: wstring
    using that by (auto simp: AppendWithPlus_def takeWhile_append takeWhile_eq_all_conv dropWhile_append
        dropWhile_eq_Nil_conv)
  have "rev s = rev t" using ends(1)[OF assms(2), of p] ends(1)[OF assms(3), of q] assms(1) by simp
  moreover have "(if p = [] then [] else p @ [43]) = (if q = [] then [] else q @ [43])"
    using ends(2)[OF assms(2), of p] ends(2)[OF assms(3), of q] assms(1) by metis
  ultimately show ?thesis by (auto split: if_splits)
qed

text \<open>A label names one hotkey: two hotkeys on keys that have a name, with any modifiers, that are
  shown with the same label are the same key with the same modifiers. The right Windows key, which
  is shown as the left one, is the only exception.
\<close>

theorem label_names_one_hotkey:
  assumes "k \<in> set label_keys" and "k' \<in> set label_keys" and "m < 16" and "m' < 16"
    and "FormatHotkeyLabel (word_of_nat k) (word_of_nat m) = FormatHotkeyLabel (word_of_nat k') (word_of_nat m')"
  shows "k = k' \<and> m = m'"
proof -
  have nz: "(word_of_nat n :: u32) \<noteq> 0" if "n \<in> set label_keys" for n
    using label_key_name(2)[OF that] by (auto simp: VkToKeyName_def)
  have "AppendWithPlus (mask_label m) (VkToKeyName (word_of_nat k)) =
      AppendWithPlus (mask_label m') (VkToKeyName (word_of_nat k'))"
    using assms(5) by (simp add: FormatHotkeyLabel_split nz assms(1,2) mask_label_def)
  then have "mask_label m = mask_label m' \<and> VkToKeyName (word_of_nat k) = VkToKeyName (word_of_nat k')"
    by (rule append_plus_split) (simp_all add: label_key_name(3) assms(1,2))
  then show ?thesis
    using label_key_name(1)[OF assms(1)] label_key_name(1)[OF assms(2)] mask_labels_distinct assms(3,4)
    by (auto simp: distinct_map inj_on_def)
qed

lemma label_names_one_hotkey_witness:
  "FormatHotkeyLabel 65 3 = FormatHotkeyLabel 65 3 \<and> FormatHotkeyLabel 65 3 \<noteq> FormatHotkeyLabel 65 1"
  using label_names_one_hotkey[of 65 65 3 1] by (auto simp: label_keys_def)

end
