(* ===== verification/ModifierKeys.thy ===== *)
theory ModifierKeys
  imports KeystrokeDecisions HotkeyRegistry
begin

text \<open>
  The modifier keys as the hook follows them (\<open>src/app/system/HookEngine.cpp\<close>): which are down,
  whether they were used together or with another key, and the count of taps that makes a double tap.
  The arrays of taps have one element for each of the four modifiers.
\<close>

record ModKeys =
  modCtrlDown :: bool
  modShiftDown :: bool
  modAltDown :: bool
  modWinDown :: bool
  modComboSeen :: bool
  otherKeyPressed :: bool
  modTapCount :: "nat list"
  modTapLastTs :: "u32 list"

definition newModKeys :: ModKeys where
  "newModKeys = \<lparr>modCtrlDown = False, modShiftDown = False, modAltDown = False, modWinDown = False,
     modComboSeen = False, otherKeyPressed = False, modTapCount = [0, 0, 0, 0], modTapLastTs = [0, 0, 0, 0]\<rparr>"

definition is_ctrl_key :: "vkey \<Rightarrow> bool" where "is_ctrl_key vk \<longleftrightarrow> vk = 0xA2 \<or> vk = 0xA3"
definition is_shift_key :: "vkey \<Rightarrow> bool" where "is_shift_key vk \<longleftrightarrow> vk = 0xA0 \<or> vk = 0xA1"
definition is_alt_key :: "vkey \<Rightarrow> bool" where "is_alt_key vk \<longleftrightarrow> vk = 0xA4 \<or> vk = 0xA5"
definition is_win_key :: "vkey \<Rightarrow> bool" where "is_win_key vk \<longleftrightarrow> vk = 0x5B \<or> vk = 0x5C"

definition is_modifier_vk :: "vkey \<Rightarrow> bool" where
  "is_modifier_vk vk \<longleftrightarrow> is_ctrl_key vk \<or> is_shift_key vk \<or> is_alt_key vk \<or> is_win_key vk"

definition CanonicalModifierVk :: "vkey \<Rightarrow> vkey" where
  "CanonicalModifierVk vk =
    (if vk = 0xA2 \<or> vk = 0xA3 then 0x11
     else if vk = 0xA4 \<or> vk = 0xA5 then 0x12
     else if vk = 0xA0 \<or> vk = 0xA1 then 0x10
     else if vk = 0x5C then 0x5B
     else vk)"

definition ComputeModMask :: "bool \<Rightarrow> bool \<Rightarrow> bool \<Rightarrow> bool \<Rightarrow> u32" where
  "ComputeModMask ctrl shift alt win =
    (let mask = 0;
         mask = (if ctrl then mask OR kModCtrl else mask);
         mask = (if shift then mask OR kModShift else mask);
         mask = (if alt then mask OR kModAlt else mask)
     in if win then mask OR kModWin else mask)"

definition ModIdxFor :: "vkey \<Rightarrow> nat option" where
  "ModIdxFor vk =
    (if vk = 0x11 then Some 0 else if vk = 0x10 then Some 1 else if vk = 0x12 then Some 2
     else if vk = 0x5B then Some 3 else None)"

text \<open>A press that joins another modifier latches the combination; the latch is cleared when all are up.\<close>

definition TrackModifier :: "vkey \<Rightarrow> bool \<Rightarrow> ModKeys \<Rightarrow> ModKeys" where
  "TrackModifier vk isDown m =
    (let ctrlWas = modCtrlDown m; shiftWas = modShiftDown m; altWas = modAltDown m; winWas = modWinDown m;
         combo = (\<lambda>others m. m\<lparr>otherKeyPressed := False, modComboSeen := (others \<or> modComboSeen m)\<rparr>);
         m = (if is_ctrl_key vk then
                (if isDown \<and> \<not> ctrlWas then combo (shiftWas \<or> altWas \<or> winWas) (m\<lparr>modCtrlDown := True\<rparr>)
                 else if \<not> isDown then m\<lparr>modCtrlDown := False\<rparr> else m)
              else if is_shift_key vk then
                (if isDown \<and> \<not> shiftWas then combo (ctrlWas \<or> altWas \<or> winWas) (m\<lparr>modShiftDown := True\<rparr>)
                 else if \<not> isDown then m\<lparr>modShiftDown := False\<rparr> else m)
              else if is_alt_key vk then
                (if isDown \<and> \<not> altWas then combo (ctrlWas \<or> shiftWas \<or> winWas) (m\<lparr>modAltDown := True\<rparr>)
                 else if \<not> isDown then m\<lparr>modAltDown := False\<rparr> else m)
              else if is_win_key vk then
                (if isDown \<and> \<not> winWas then combo (ctrlWas \<or> shiftWas \<or> altWas) (m\<lparr>modWinDown := True\<rparr>)
                 else if \<not> isDown then m\<lparr>modWinDown := False\<rparr> else m)
              else m)
     in if \<not> isDown \<and> \<not> modCtrlDown m \<and> \<not> modShiftDown m \<and> \<not> modAltDown m \<and> \<not> modWinDown m
        then m\<lparr>modComboSeen := False\<rparr> else m)"

text \<open>A key that is no modifier: it spoils the taps under way.\<close>

definition other_key_down :: "ModKeys \<Rightarrow> ModKeys" where
  "other_key_down m = m\<lparr>otherKeyPressed := True, modTapCount := [0, 0, 0, 0]\<rparr>"

abbreviation kDoubleTapTimeoutMs :: u32 where "kDoubleTapTimeoutMs \<equiv> 400"

definition other_mods :: "vkey \<Rightarrow> ModKeys \<Rightarrow> u32" where
  "other_mods cvk m =
    ComputeModMask (cvk \<noteq> 0x11 \<and> modCtrlDown m) (cvk \<noteq> 0x10 \<and> modShiftDown m)
      (cvk \<noteq> 0x12 \<and> modAltDown m) (cvk \<noteq> 0x5B \<and> modWinDown m)"

definition clean_release :: "vkey \<Rightarrow> ModKeys \<Rightarrow> bool" where
  "clean_release cvk m \<longleftrightarrow> \<not> otherKeyPressed m \<and> \<not> (modComboSeen m \<and> other_mods cvk m = 0)"

definition is_double_tap :: "nat \<Rightarrow> u32 \<Rightarrow> ModKeys \<Rightarrow> bool" where
  "is_double_tap i now m \<longleftrightarrow>
    modTapCount m ! i = 1 \<and> now - modTapLastTs m ! i < kDoubleTapTimeoutMs"

text \<open>The tap arrays after a release.\<close>

definition count_tap :: "vkey \<Rightarrow> u32 \<Rightarrow> ModKeys \<Rightarrow> ModKeys" where
  "count_tap cvk now m =
    (case ModIdxFor cvk of
       None \<Rightarrow> m
     | Some i \<Rightarrow>
         (if clean_release cvk m then
            (if is_double_tap i now m then m\<lparr>modTapCount := (modTapCount m)[i := 0]\<rparr>
             else m\<lparr>modTapCount := (modTapCount m)[i := 1], modTapLastTs := (modTapLastTs m)[i := now]\<rparr>)
          else m\<lparr>modTapCount := (modTapCount m)[i := 0]\<rparr>))"

text \<open>
  The gesture a release makes, if any: the modifier, the other modifiers held, and whether it is the
  second of two taps. The hotkeys are matched against it.
\<close>

definition release_gesture :: "vkey \<Rightarrow> u32 \<Rightarrow> ModKeys \<Rightarrow> (vkey \<times> u32 \<times> bool) option" where
  "release_gesture vk now m =
    (let cvk = CanonicalModifierVk vk in
     case ModIdxFor cvk of
       None \<Rightarrow> None
     | Some i \<Rightarrow> (if clean_release cvk m then Some (cvk, other_mods cvk m, is_double_tap i now m) else None))"

text \<open>The modifier part of \<open>ProcessKeyUp\<close>.\<close>

definition release_modifier :: "vkey \<Rightarrow> u32 \<Rightarrow> ModKeys \<Rightarrow> ModKeys" where
  "release_modifier vk now m = TrackModifier vk False (count_tap (CanonicalModifierVk vk) now m)"

end
