(* ===== verification/ModifierKeyLaws.thy ===== *)
theory ModifierKeyLaws
  imports ModifierKeys
begin

text \<open>
  Laws of the modifier keys: in every run of the keyboard the latch of a combination is only set while
  a modifier is down, so a lone tap is always a gesture, a tap with another key in it never is, and the
  last release of a combination is none.
\<close>

datatype ModEvent = ModDown vkey | ModUp vkey u32 | OtherDown

fun mod_step :: "ModEvent \<Rightarrow> ModKeys \<Rightarrow> ModKeys" where
  "mod_step (ModDown vk) m = TrackModifier vk True m"
| "mod_step (ModUp vk now) m = release_modifier vk now m"
| "mod_step OtherDown m = other_key_down m"

definition mod_run :: "ModEvent list \<Rightarrow> ModKeys" where
  "mod_run evs = fold mod_step evs newModKeys"

definition any_down :: "ModKeys \<Rightarrow> bool" where
  "any_down m \<longleftrightarrow> modCtrlDown m \<or> modShiftDown m \<or> modAltDown m \<or> modWinDown m"

definition mod_wf :: "ModKeys \<Rightarrow> bool" where
  "mod_wf m \<longleftrightarrow> (modComboSeen m \<longrightarrow> any_down m) \<and> length (modTapCount m) = 4 \<and> length (modTapLastTs m) = 4"

lemma count_tap_frame [simp]:
  "modCtrlDown (count_tap c t m) = modCtrlDown m" "modShiftDown (count_tap c t m) = modShiftDown m"
  "modAltDown (count_tap c t m) = modAltDown m" "modWinDown (count_tap c t m) = modWinDown m"
  "modComboSeen (count_tap c t m) = modComboSeen m" "otherKeyPressed (count_tap c t m) = otherKeyPressed m"
  "length (modTapCount (count_tap c t m)) = length (modTapCount m)"
  "length (modTapLastTs (count_tap c t m)) = length (modTapLastTs m)"
  by (simp_all add: count_tap_def split: option.splits)

lemma mod_wf_count_tap: "mod_wf m \<Longrightarrow> mod_wf (count_tap c t m)"
  by (simp add: mod_wf_def any_down_def)

lemma mod_wf_Track: "mod_wf m \<Longrightarrow> mod_wf (TrackModifier vk d m)"
  by (auto simp: mod_wf_def any_down_def TrackModifier_def Let_def)

lemma mod_wf_step: "mod_wf m \<Longrightarrow> mod_wf (mod_step ev m)"
  by (cases ev) (simp_all add: mod_wf_Track mod_wf_count_tap release_modifier_def,
      simp add: mod_wf_def any_down_def other_key_down_def)

lemma mod_wf_run: "mod_wf (mod_run evs)"
proof -
  have "mod_wf m \<Longrightarrow> mod_wf (fold mod_step evs m)" for m
    by (induction evs arbitrary: m) (simp_all add: mod_wf_step)
  then show ?thesis by (simp add: mod_run_def mod_wf_def newModKeys_def)
qed

lemma modifier_cases:
  assumes "is_modifier_vk vk"
  obtains "vk = 0xA2" | "vk = 0xA3" | "vk = 0xA0" | "vk = 0xA1" | "vk = 0xA4" | "vk = 0xA5" | "vk = 0x5B" | "vk = 0x5C"
  using assms
  by (auto simp: is_modifier_vk_def is_ctrl_key_def is_shift_key_def is_alt_key_def is_win_key_def)

lemmas mod_key_simps = is_ctrl_key_def is_shift_key_def is_alt_key_def is_win_key_def
  CanonicalModifierVk_def ModIdxFor_def

text \<open>The index of the tap counter of a modifier key.\<close>

definition tap_index :: "vkey \<Rightarrow> nat" where
  "tap_index vk = the (ModIdxFor (CanonicalModifierVk vk))"

lemma lone_tap:
  assumes "is_modifier_vk vk" and "mod_wf m" and "\<not> any_down m"
  shows "release_gesture vk t (TrackModifier vk True m) =
      Some (CanonicalModifierVk vk, 0, is_double_tap (tap_index vk) t m) \<and>
    release_gesture vk t (other_key_down (TrackModifier vk True m)) = None"
  using assms(2,3)
  by - (rule modifier_cases[OF assms(1)];
      simp add: release_gesture_def TrackModifier_def Let_def mod_key_simps clean_release_def other_mods_def
        ComputeModMask_def mod_wf_def any_down_def is_double_tap_def tap_index_def other_key_down_def)

lemma Track_down:
  assumes "is_modifier_vk a" and "is_modifier_vk b" and "CanonicalModifierVk a \<noteq> CanonicalModifierVk b"
    and "\<not> any_down m" and "m' = release_modifier a t (TrackModifier b True (TrackModifier a True m))"
  shows "modComboSeen m' \<and> other_mods (CanonicalModifierVk b) m' = 0 \<and>
    \<not> any_down (release_modifier b t' m')"
  using assms(3,4) unfolding assms(5)
  by - (rule modifier_cases[OF assms(1)]; rule modifier_cases[OF assms(2)];
      simp add: release_modifier_def TrackModifier_def Let_def mod_key_simps any_down_def other_mods_def
        ComputeModMask_def)

text \<open>C30: Whatever was pressed before, once all modifiers are up: a modifier tapped alone is a gesture
  without other modifiers; with another key pressed in between it is none; and after two modifiers
  were held together, the release of the last one is none, so letting go of a combination never
  toggles anything. Two taps of the same modifier are a double tap within 400 ms, and a third tap
  starts again.
\<close>

theorem modifier_gestures:
  assumes "is_modifier_vk a" and "is_modifier_vk b" and "CanonicalModifierVk a \<noteq> CanonicalModifierVk b"
    and "\<not> any_down (mod_run evs)"
  shows "release_gesture a t (mod_run (evs @ [ModDown a])) =
      Some (CanonicalModifierVk a, 0, is_double_tap (tap_index a) t (mod_run evs)) \<and>
    release_gesture a t (mod_run (evs @ [ModDown a, OtherDown])) = None \<and>
    release_gesture b t' (mod_run (evs @ [ModDown a, ModDown b, ModUp a t])) = None \<and>
    (is_double_tap (tap_index a) t' (mod_run (evs @ [ModDown a, ModUp a t])) \<longleftrightarrow>
      \<not> is_double_tap (tap_index a) t (mod_run evs) \<and> t' - t < kDoubleTapTimeoutMs)"
proof -
  let ?m = "mod_run evs"
  have run: "mod_run (evs @ xs) = fold mod_step xs ?m" for xs by (simp add: mod_run_def)
  note wf = mod_wf_run[of evs]
  have combo: "release_gesture b t' (mod_run (evs @ [ModDown a, ModDown b, ModUp a t])) = None"
    using Track_down[OF assms refl, where t = t]
    by (simp add: run release_gesture_def Let_def clean_release_def split: option.splits)
  have "is_double_tap (tap_index a) t' (release_modifier a t (TrackModifier a True ?m)) \<longleftrightarrow>
      \<not> is_double_tap (tap_index a) t ?m \<and> t' - t < kDoubleTapTimeoutMs"
    using wf assms(4)
    by - (rule modifier_cases[OF assms(1)];
        simp add: release_modifier_def count_tap_def TrackModifier_def Let_def mod_key_simps clean_release_def
          other_mods_def ComputeModMask_def mod_wf_def any_down_def is_double_tap_def tap_index_def)
  then show ?thesis
    using lone_tap[OF assms(1) wf assms(4)] combo by (simp add: run)
qed

lemma modifier_gestures_witness:
  "release_gesture 0xA2 7 (mod_run [ModDown 0xA2]) = Some (0x11, 0, False) \<and>
   release_gesture 0xA0 9 (mod_run [ModDown 0xA2, ModDown 0xA0, ModUp 0xA2 8]) = None"
proof -
  have hyp: "is_modifier_vk 0xA2" "is_modifier_vk 0xA0" "CanonicalModifierVk 0xA2 \<noteq> CanonicalModifierVk 0xA0"
    "\<not> any_down (mod_run [])"
    by (simp_all add: is_modifier_vk_def mod_key_simps any_down_def mod_run_def newModKeys_def)
  show ?thesis
    using modifier_gestures[OF hyp, of 7] modifier_gestures[OF hyp, of 8 9]
    by (simp add: mod_key_simps is_double_tap_def tap_index_def)
      (simp add: mod_run_def newModKeys_def)
qed

end
