(* ===== verification/CommitState.thy ===== *)
theory CommitState
  imports Prelude
begin

text \<open>
  The state of the hook for going back into committed words, \<open>src/app/system/CommitState.h\<close>: what is
  remembered of each committed word, the machine that waits for the backspace after a commit, and
  the keys of the word being typed. The stack is a vector whose top is its last element. The time
  read from \<open>GetTickCount\<close>, a 32-bit count of milliseconds that wraps, is an argument.
\<close>

datatype UndoState = Idle | Ready | Primed

record CommitEntry =
  entryHistory :: wstring
  entryText :: wstring
  entryRawInput :: wstring
  entryWidths :: "nat list"
  extraLeadingTriggers :: u8

abbreviation kBackspaceMarker :: wchar where "kBackspaceMarker \<equiv> 8"
abbreviation kMaxStack :: nat where "kMaxStack \<equiv> 3"
abbreviation kReadyTimeoutMs :: u32 where "kReadyTimeoutMs \<equiv> 4000"

record CommitState =
  undoState :: UndoState
  commitStack :: "CommitEntry list"
  pushedToStack :: bool
  pendingTriggerCount :: u8
  leadingTriggersForCurrentWord :: u8
  readyTime :: u32
  inputHistory :: wstring

definition newCommitState :: CommitState where
  "newCommitState = \<lparr>undoState = Idle, commitStack = [], pushedToStack = False, pendingTriggerCount = 0,
     leadingTriggersForCurrentWord = 0, readyTime = 0, inputHistory = []\<rparr>"

subsection \<open>The machine\<close>

definition SetIdle :: "CommitState \<Rightarrow> CommitState" where
  "SetIdle c = c\<lparr>undoState := Idle\<rparr>"

definition SetReady :: "u32 \<Rightarrow> CommitState \<Rightarrow> CommitState" where
  "SetReady now c = c\<lparr>undoState := Ready, readyTime := now\<rparr>"

definition SetPrimed :: "CommitState \<Rightarrow> CommitState" where
  "SetPrimed c = c\<lparr>undoState := Primed\<rparr>"

definition ReadyExpired :: "u32 \<Rightarrow> CommitState \<Rightarrow> bool" where
  "ReadyExpired now c \<longleftrightarrow> undoState c = Ready \<and> now - readyTime c > kReadyTimeoutMs"

subsection \<open>Counters of trigger characters\<close>

definition IncrementPendingTriggers :: "CommitState \<Rightarrow> CommitState" where
  "IncrementPendingTriggers c =
    (if pendingTriggerCount c < 0xFF then c\<lparr>pendingTriggerCount := pendingTriggerCount c + 1\<rparr> else c)"

definition DecrementPendingTriggers :: "CommitState \<Rightarrow> CommitState" where
  "DecrementPendingTriggers c =
    (if pendingTriggerCount c > 0 then c\<lparr>pendingTriggerCount := pendingTriggerCount c - 1\<rparr> else c)"

definition SetPendingTriggers :: "u8 \<Rightarrow> CommitState \<Rightarrow> CommitState" where
  "SetPendingTriggers v c = c\<lparr>pendingTriggerCount := v\<rparr>"

definition SetLeadingTriggersForCurrentWord :: "u8 \<Rightarrow> CommitState \<Rightarrow> CommitState" where
  "SetLeadingTriggersForCurrentWord v c = c\<lparr>leadingTriggersForCurrentWord := v\<rparr>"

subsection \<open>Keys of the word, and the stack\<close>

definition AppendHistory :: "wchar \<Rightarrow> CommitState \<Rightarrow> CommitState" where
  "AppendHistory ch c = c\<lparr>inputHistory := inputHistory c @ [ch]\<rparr>"

definition AppendBackspaceMarker :: "CommitState \<Rightarrow> CommitState" where
  "AppendBackspaceMarker c = c\<lparr>inputHistory := inputHistory c @ [kBackspaceMarker]\<rparr>"

definition ClearHistory :: "CommitState \<Rightarrow> CommitState" where
  "ClearHistory c = c\<lparr>inputHistory := []\<rparr>"

definition PushEntry :: "CommitEntry \<Rightarrow> CommitState \<Rightarrow> CommitState" where
  "PushEntry e c =
    (let stack = (if length (commitStack c) \<ge> kMaxStack then tl (commitStack c) else commitStack c)
     in c\<lparr>commitStack := stack @ [e]\<rparr>)"

definition PopStackTop :: "CommitState \<Rightarrow> CommitState" where
  "PopStackTop c = (if commitStack c \<noteq> [] then c\<lparr>commitStack := butlast (commitStack c)\<rparr> else c)"

definition SetPushedToStack :: "bool \<Rightarrow> CommitState \<Rightarrow> CommitState" where
  "SetPushedToStack v c = c\<lparr>pushedToStack := v\<rparr>"

definition CancelUndo :: "CommitState \<Rightarrow> CommitState" where
  "CancelUndo c = c\<lparr>undoState := Idle, pendingTriggerCount := 0, leadingTriggersForCurrentWord := 0,
                   commitStack := []\<rparr>"

lemmas commit_state_defs = SetIdle_def SetReady_def SetPrimed_def IncrementPendingTriggers_def
  DecrementPendingTriggers_def SetPendingTriggers_def SetLeadingTriggersForCurrentWord_def
  AppendHistory_def AppendBackspaceMarker_def ClearHistory_def PushEntry_def PopStackTop_def
  SetPushedToStack_def CancelUndo_def Let_def

subsection \<open>Laws\<close>

text \<open>The stack never holds more than three words, and they are the last ones committed.\<close>

definition youngest :: "'a list \<Rightarrow> 'a list" where
  "youngest xs = rev (take kMaxStack (rev xs))"

lemma youngest_append: "youngest (youngest xs @ ys) = youngest (xs @ ys)"
  by (simp add: youngest_def)

lemma youngest_short: "length xs \<le> kMaxStack \<Longrightarrow> youngest xs = xs"
  by (simp add: youngest_def)

lemma length_youngest: "length (youngest xs) \<le> kMaxStack"
  by (simp add: youngest_def)

lemma PushEntry_stack:
  assumes "length (commitStack c) \<le> kMaxStack"
  shows "commitStack (PushEntry e c) = youngest (commitStack c @ [e])"
proof (cases "length (commitStack c) < kMaxStack")
  case True
  then show ?thesis by (simp add: PushEntry_def youngest_short)
next
  case False
  with assms have "length (commitStack c) = kMaxStack" by simp
  then obtain x y z where "commitStack c = [x, y, z]"
    by (auto simp: numeral_3_eq_3 length_Suc_conv)
  then show ?thesis by (simp add: PushEntry_def youngest_def)
qed

definition push_all :: "CommitEntry list \<Rightarrow> CommitState \<Rightarrow> CommitState" where
  "push_all es c = fold PushEntry es c"

lemma push_all_stack:
  "length (commitStack c) \<le> kMaxStack \<Longrightarrow> commitStack (push_all es c) = youngest (commitStack c @ es)"
proof (induction es arbitrary: c)
  case (Cons e es)
  have "commitStack (push_all (e # es) c) = commitStack (push_all es (PushEntry e c))"
    by (simp add: push_all_def)
  also have "\<dots> = youngest (youngest (commitStack c @ [e]) @ es)"
    using Cons.IH[of "PushEntry e c"] by (simp add: PushEntry_stack Cons.prems length_youngest)
  finally show ?case by (simp add: youngest_append)
qed (simp add: push_all_def youngest_short)

text \<open>The waiting time is measured modulo the wrap of the tick count.\<close>

lemma ReadyExpired_wraps:
  "ReadyExpired (t + d) (SetReady t c) \<longleftrightarrow> d > kReadyTimeoutMs"
  by (simp add: ReadyExpired_def SetReady_def)

end
