(* ===== verification/HookState.thy ===== *)
theory HookState
  imports Engine MacroCase CommitState ModifierKeys
begin

text \<open>
  What the keyboard hook keeps between two keys (\<open>src/app/system/HookEngine.h\<close>) and how it edits the
  text of the program in front (\<open>OutputDispatcher.cpp\<close>, \<open>HookEngine::ReplaceComposition\<close>).

  The record \<open>HookState\<close> holds the members of \<open>HookEngine\<close> that the word being typed lives in, with
  the counters of the dispatcher. What does not change while one key is handled, and what only the
  system knows, is the record \<open>HookEnv\<close>: the published settings, the state of the modifier keys, the
  character a key types in the layout of the program (\<open>VkToMacroChar\<close>), the tick count, the traits of
  the injector, whether the injector delivers a request, and by how much a delivery raises the count
  of synthetic events. The requests that are delivered are appended to \<open>outEvents\<close>; an injector that
  reports failure has delivered nothing.
\<close>

datatype OutEvent =
    OutReplace nat wstring  \<comment> \<open>\<open>IOutputInjector::Replace\<close>: so many backspaces, then the text\<close>
  | OutKeyDown vkey         \<comment> \<open>the press of a key put in front of a replacement\<close>
  | OutKey vkey             \<comment> \<open>\<open>IOutputInjector::SendKey\<close>\<close>
  | OutPaste wstring        \<comment> \<open>a text pasted through the clipboard\<close>

record HookEnv =
  envVietnamese :: bool
  envMethod :: InputMethod
  envCodeTable :: CodeTable
  envConfig :: TypingConfig
  envAutoCaps :: bool
  envMacroOn :: bool
  envMacroEnglish :: bool
  envAutoCapsMacro :: bool
  envMacros :: "(wstring \<times> wstring) list"
  envSpaceKeys :: "wstring list"
  envHotkeys :: HotkeyRegistry
  envShift :: bool
  envCaps :: bool
  envCtrl :: bool
  envAlt :: bool
  envWin :: bool
  envVkChar :: "vkey \<Rightarrow> wchar"
  envNow :: u32
  envTarget :: bool
  envMultiProcess :: bool
  envBait :: bool
  envSkipEmpty :: bool
  envSyncChannel :: bool
  envClipboardPaste :: bool
  envEditPaste :: bool
  envSettleMs :: u32
  envDelivers :: "OutEvent \<Rightarrow> bool"
  envSynthCost :: "OutEvent \<Rightarrow> int"
  envMapper :: CaseMapper
  envAnchor :: "(bool \<times> bool) option"
  envFormulaHost :: bool
  envTsfApp :: bool
  envExcluded :: bool
  envStillExcluded :: bool

record HookState =
  hookEngine :: Engine
  previousComposition :: wstring
  previousEncodedWidths :: "nat list"
  commitState :: CommitState
  rawMacroBuffer :: wstring
  macroCrossCommit :: bool
  tempMacroOff :: bool
  tempEngineOff :: bool
  digitLedWord :: bool
  autoCapState :: AutoCapState
  formulaState :: FormulaSegmentState
  baitSuppressed :: bool
  synthEventsPending :: int
  lastSynthSendTime :: u32
  lastRealSynthTime :: u32
  hadSynthInWord :: bool
  modKeys :: ModKeys
  outEvents :: "OutEvent list"

definition newHookState :: "TypingConfig \<Rightarrow> HookState" where
  "newHookState cfg =
    \<lparr>hookEngine = newEngine cfg, previousComposition = [], previousEncodedWidths = [],
     commitState = newCommitState, rawMacroBuffer = [], macroCrossCommit = False, tempMacroOff = False,
     tempEngineOff = False, digitLedWord = False, autoCapState = CapIdle,
     formulaState = newFormulaSegment, baitSuppressed = False, synthEventsPending = 0,
     lastSynthSendTime = 0, lastRealSynthTime = 0, hadSynthInWord = False, modKeys = newModKeys,
     outEvents = []\<rparr>"

abbreviation upd_commit :: "(CommitState \<Rightarrow> CommitState) \<Rightarrow> HookState \<Rightarrow> HookState" where
  "upd_commit f h \<equiv> h\<lparr>commitState := f (commitState h)\<rparr>"

abbreviation upd_engine :: "(Engine \<Rightarrow> Engine) \<Rightarrow> HookState \<Rightarrow> HookState" where
  "upd_engine f h \<equiv> h\<lparr>hookEngine := f (hookEngine h)\<rparr>"

subsection \<open>The dispatcher\<close>

definition deliver :: "HookEnv \<Rightarrow> OutEvent \<Rightarrow> HookState \<Rightarrow> HookState" where
  "deliver env ev h =
    h\<lparr>outEvents := outEvents h @ (if envDelivers env ev then [ev] else []),
      synthEventsPending := synthEventsPending h + envSynthCost env ev\<rparr>"

definition RecordSynthDispatch :: "HookEnv \<Rightarrow> HookState \<Rightarrow> HookState" where
  "RecordSynthDispatch env h = h\<lparr>lastSynthSendTime := envNow env, lastRealSynthTime := envNow env\<rparr>"

definition mark_synth :: "HookState \<Rightarrow> HookState" where
  "mark_synth h = (if synthEventsPending h > 0 then h\<lparr>hadSynthInWord := True\<rparr> else h)"

definition ReplaceRaw :: "HookEnv \<Rightarrow> nat \<Rightarrow> wstring \<Rightarrow> HookState \<Rightarrow> HookState" where
  "ReplaceRaw env bs s h =
    (if bs = 0 \<and> s = [] then h else RecordSynthDispatch env (deliver env (OutReplace bs s) h))"

definition SendBackspaces :: "HookEnv \<Rightarrow> nat \<Rightarrow> HookState \<Rightarrow> HookState" where
  "SendBackspaces env n h = (if n = 0 then h else ReplaceRaw env n [] h)"

definition InjectKey :: "HookEnv \<Rightarrow> vkey \<Rightarrow> HookState \<Rightarrow> HookState" where
  "InjectKey env vk h = (deliver env (OutKey vk) h)\<lparr>lastSynthSendTime := envNow env\<rparr>"

definition ClipboardPaste :: "HookEnv \<Rightarrow> wstring \<Rightarrow> HookState \<Rightarrow> HookState" where
  "ClipboardPaste env s h =
    (if s = [] then h else RecordSynthDispatch env (deliver env (OutPaste s) h))"

text \<open>
  The three routes of \<open>ReplaceUnicode\<close>: edit messages, with a fall-back to synthetic keys when the
  control has refused them for 30 ms; edit messages or the clipboard for windows without Unicode;
  the injector, with the press of the key in front.
\<close>

definition ReplaceUnicode :: "HookEnv \<Rightarrow> nat \<Rightarrow> wstring \<Rightarrow> vkey \<Rightarrow> HookState \<Rightarrow> HookState" where
  "ReplaceUnicode env bs s reinjectVk h =
    (if envSyncChannel env then
       (let h = deliver env (OutReplace bs s) h in
        mark_synth (if envEditPaste env then h else RecordSynthDispatch env h))
     else if envClipboardPaste env then
       (let bs = (if reinjectVk \<noteq> 0 \<and> bs > 0 then bs - 1 else bs) in
        mark_synth
          (if envEditPaste env then (if s = [] \<and> bs = 0 then h else deliver env (OutReplace bs s) h)
           else ClipboardPaste env s
                  (if bs > 0 then RecordSynthDispatch env (deliver env (OutReplace bs []) h) else h)))
     else
       mark_synth
         (if bs > 0 \<or> s \<noteq> [] \<or> reinjectVk \<noteq> 0 then
            (let h = (if reinjectVk \<noteq> 0 then deliver env (OutKeyDown reinjectVk) h else h);
                 h = (if bs > 0 \<or> s \<noteq> [] then deliver env (OutReplace bs s) h else h)
             in RecordSynthDispatch env h)
          else h))"

subsection \<open>Replacing the composition\<close>

fun common_length :: "wstring \<Rightarrow> wstring \<Rightarrow> nat" where
  "common_length (x # xs) (y # ys) = (if x = y then Suc (common_length xs ys) else 0)"
| "common_length xs ys = 0"

definition encode_units :: "CodeTable \<Rightarrow> wstring \<Rightarrow> wstring" where
  "encode_units ct s = concat (map (\<lambda>c. emit (ConvertChar c ct)) s)"

definition encode_widths :: "CodeTable \<Rightarrow> wstring \<Rightarrow> nat list" where
  "encode_widths ct s = map (\<lambda>c. unitCount (ConvertChar c ct)) s"

text \<open>\<open>std::vector::resize\<close>: cut, or fill up with zeros.\<close>

definition resize :: "nat \<Rightarrow> nat list \<Rightarrow> nat list" where
  "resize n xs = take n xs @ replicate (n - length xs) 0"

definition ReplaceComposition :: "HookEnv \<Rightarrow> wstring \<Rightarrow> vkey \<Rightarrow> HookState \<Rightarrow> HookState" where
  "ReplaceComposition env newText reinjectVk h =
    (if \<not> envTarget env then h\<lparr>previousComposition := newText\<rparr>
     else
       (let commonLen = common_length (previousComposition h) newText; ct = envCodeTable env in
        if ct \<noteq> Unicode then
          (let backspaceCount = sum_list (drop commonLen (previousEncodedWidths h));
               encodedToSend = encode_units ct (drop commonLen newText);
               newWidths = encode_widths ct (drop commonLen newText);
               h = (if backspaceCount > 0 \<or> encodedToSend \<noteq> []
                    then ReplaceRaw env backspaceCount encodedToSend h else h)
           in h\<lparr>previousEncodedWidths := resize commonLen (previousEncodedWidths h) @ newWidths,
                previousComposition := newText\<rparr>)
        else
          (ReplaceUnicode env (length (previousComposition h) - commonLen) (drop commonLen newText)
             reinjectVk h)\<lparr>previousComposition := newText\<rparr>))"

subsection \<open>The state of a word\<close>

definition ClearWordState :: "HookState \<Rightarrow> HookState" where
  "ClearWordState h =
    h\<lparr>hookEngine := Reset (hookEngine h), previousComposition := [], previousEncodedWidths := [],
      commitState := ClearHistory (commitState h), rawMacroBuffer := [], macroCrossCommit := False,
      tempMacroOff := False, hadSynthInWord := False, digitLedWord := False\<rparr>"

definition SetFormulaSegment :: "bool \<Rightarrow> HookState \<Rightarrow> HookState" where
  "SetFormulaSegment on h = (if baitSuppressed h = on then h else h\<lparr>baitSuppressed := on\<rparr>)"

definition ResetComposition :: "HookState \<Rightarrow> HookState" where
  "ResetComposition h =
    (let h = upd_commit CancelUndo (ClearWordState h);
         h = h\<lparr>autoCapState := CapIdle, synthEventsPending := 0, lastRealSynthTime := 0,
               formulaState := newFormulaSegment\<rparr>
     in SetFormulaSegment False h)"

definition SetCommitUndoReady :: "HookEnv \<Rightarrow> HookState \<Rightarrow> HookState" where
  "SetCommitUndoReady env h =
    upd_commit (\<lambda>c. SetReady (envNow env) (SetLeadingTriggersForCurrentWord 0
      (SetPendingTriggers (leadingTriggersForCurrentWord c) c))) h"

definition ReplayCommittedChars :: "HookState \<Rightarrow> HookState" where
  "ReplayCommittedChars h =
    (if commitStack (commitState h) = [] then upd_commit SetIdle h
     else
       (let entry = last (commitStack (commitState h));
            h = upd_commit PopStackTop h;
            h = h\<lparr>hookEngine := fold (\<lambda>ch e. if ch = kBackspaceMarker then Backspace e else PushChar ch e)
                                   (entryHistory entry) (hookEngine h),
                  commitState := (commitState h)\<lparr>inputHistory := entryHistory entry\<rparr>,
                  previousComposition := entryText entry,
                  previousEncodedWidths := entryWidths entry\<rparr>
        in upd_commit (\<lambda>c. SetIdle (SetLeadingTriggersForCurrentWord (extraLeadingTriggers entry) c)) h))"

end
