(* ===== verification/Pipeline.thy ===== *)
theory Pipeline
  imports RuleRegistry KeystrokeDecisions
begin

text \<open>
  The feature pipeline of the hook, \<open>src/core/pipeline\<close>: features sorted by priority in three stages,
  gates that switch features off, the dispatch of a key through one stage or through all of them,
  and the channel that collects the intents of the features. The state the features work on is a
  type variable; the objects behind their interfaces are the functions they call.
\<close>

datatype Stage = PreEngine | EngineStage | PostEngine

datatype Intent = IntentBackspace nat | IntentText wstring | IntentReinject vkey | ConsumeKey | PassThrough

record KeyContext =
  keyVk :: vkey
  keyChar :: wchar
  keyShift :: bool
  keyCapsLock :: bool
  keyCtrl :: bool
  keyAlt :: bool
  keyWin :: bool
  sessionPrevious :: wstring
  sessionRendered :: wstring
  sessionRaw :: wstring
  keyReinjectVk :: vkey

subsection \<open>The output channel\<close>

record OutputChannel =
  batch :: "Intent list"
  drained :: "Intent list"

definition newOutputChannel :: OutputChannel where
  "newOutputChannel = \<lparr>batch = [], drained = []\<rparr>"

definition Emit :: "Intent \<Rightarrow> OutputChannel \<Rightarrow> OutputChannel" where
  "Emit i ch = ch\<lparr>batch := batch ch @ [i]\<rparr>"

definition TakeBatch :: "OutputChannel \<Rightarrow> Intent list \<times> OutputChannel" where
  "TakeBatch ch = (batch ch, ch\<lparr>batch := []\<rparr>)"

text \<open>The buffer that was handed out before is cleared, then the two buffers are swapped.\<close>

definition DrainBatch :: "OutputChannel \<Rightarrow> Intent list \<times> OutputChannel" where
  "DrainBatch ch =
    (let ch = ch\<lparr>drained := []\<rparr>;
         ch = ch\<lparr>drained := batch ch, batch := drained ch\<rparr>
     in (drained ch, ch))"

subsection \<open>Features, gates and the coordinator\<close>

record 's Feature =
  featureStage :: Stage
  featurePriority :: int
  featureRequires :: GateMask
  featureTry :: "KeyContext \<Rightarrow> 's \<times> OutputChannel \<Rightarrow> RuleResult \<times> 's \<times> OutputChannel"

record 's KeyGate =
  keyGateId :: GateId
  keyGateRaised :: "KeyContext \<Rightarrow> 's \<Rightarrow> bool"

record 's Coordinator =
  features :: "Stage \<Rightarrow> 's Feature list"
  keyGates :: "'s KeyGate list"

definition newCoordinator :: "'s Coordinator" where
  "newCoordinator = \<lparr>features = (\<lambda>_. []), keyGates = []\<rparr>"

definition RegisterFeature :: "'s Feature \<Rightarrow> 's Coordinator \<Rightarrow> 's Coordinator" where
  "RegisterFeature f co =
    co\<lparr>features := (features co)(featureStage f :=
         sort_key featurePriority (features co (featureStage f) @ [f]))\<rparr>"

definition RegisterGate :: "'s KeyGate \<Rightarrow> 's Coordinator \<Rightarrow> 's Coordinator" where
  "RegisterGate g co = co\<lparr>keyGates := keyGates co @ [g]\<rparr>"

definition EvaluateKeyGates :: "'s Coordinator \<Rightarrow> KeyContext \<Rightarrow> 's \<Rightarrow> GateMask" where
  "EvaluateKeyGates co ctx s =
    fold (\<lambda>g raised. if keyGateRaised g ctx s then raised OR GateMaskFor (keyGateId g) else raised)
      (keyGates co) 0"

text \<open>One stage: the answer is that of the feature that ended it, or \<open>Pass\<close>.\<close>

fun run_stage :: "'s Feature list \<Rightarrow> GateMask \<Rightarrow> KeyContext \<Rightarrow> 's \<times> OutputChannel \<Rightarrow>
    RuleResult \<times> 's \<times> OutputChannel" where
  "run_stage [] raised ctx st = (Pass, st)"
| "run_stage (f # bucket) raised ctx st =
    (if featureRequires f AND raised \<noteq> 0 then run_stage bucket raised ctx st
     else (let r = featureTry f ctx st in
       if fst r = Handled \<or> fst r = Veto then r else run_stage bucket raised ctx (snd r)))"

definition HandleKeyAtStage :: "'s Coordinator \<Rightarrow> Stage \<Rightarrow> KeyContext \<Rightarrow> 's \<times> OutputChannel \<Rightarrow> 's \<times> OutputChannel" where
  "HandleKeyAtStage co stage ctx st =
    snd (run_stage (features co stage) (EvaluateKeyGates co ctx (fst st)) ctx st)"

fun run_stages :: "'s Coordinator \<Rightarrow> Stage list \<Rightarrow> GateMask \<Rightarrow> KeyContext \<Rightarrow> 's \<times> OutputChannel \<Rightarrow>
    's \<times> OutputChannel" where
  "run_stages co [] raised ctx st = st"
| "run_stages co (s # ss) raised ctx st =
    (let r = run_stage (features co s) raised ctx st in
     if fst r = Veto then snd r else run_stages co ss raised ctx (snd r))"

definition HandleKey :: "'s Coordinator \<Rightarrow> KeyContext \<Rightarrow> 's \<times> OutputChannel \<Rightarrow> 's \<times> OutputChannel" where
  "HandleKey co ctx st =
    run_stages co [PreEngine, EngineStage, PostEngine] (EvaluateKeyGates co ctx (fst st)) ctx st"

definition FeatureCountAtStage :: "'s Coordinator \<Rightarrow> Stage \<Rightarrow> nat" where
  "FeatureCountAtStage co s = length (features co s)"

definition GateCount :: "'s Coordinator \<Rightarrow> nat" where
  "GateCount co = length (keyGates co)"

subsection \<open>The features of the hook\<close>

datatype CommitUndoOutcome = UndoEat | UndoPass | UndoFallthrough

datatype MacroOutcome = MacroEat | MacroPass | MacroFallthrough | MacroNoOp

datatype EscRestoreOutcome = EscEat | EscFallthrough

definition BackwardEditFeature :: "(wstring \<Rightarrow> vkey \<Rightarrow> 's \<Rightarrow> 's) \<Rightarrow> 's Feature" where
  "BackwardEditFeature executeReplace =
    \<lparr>featureStage = PostEngine, featurePriority = 10, featureRequires = GateMaskFor GateEnglishBias,
     featureTry = (\<lambda>ctx (s, ch). (Handled, executeReplace (sessionRendered ctx) (keyReinjectVk ctx) s, ch))\<rparr>"

definition CommitUndoFeature :: "(vkey \<Rightarrow> 's \<Rightarrow> CommitUndoOutcome \<times> 's) \<Rightarrow> 's Feature" where
  "CommitUndoFeature handleCommitUndo =
    \<lparr>featureStage = PreEngine, featurePriority = 20, featureRequires = 0,
     featureTry = (\<lambda>ctx (s, ch).
       case handleCommitUndo (keyVk ctx) s of
         (UndoEat, s) \<Rightarrow> (Handled, s, Emit ConsumeKey ch)
       | (UndoPass, s) \<Rightarrow> (Veto, s, Emit PassThrough ch)
       | (UndoFallthrough, s) \<Rightarrow> (Pass, s, ch))\<rparr>"

definition MacroFeature :: "(KeyContext \<Rightarrow> 's \<Rightarrow> MacroOutcome \<times> 's) \<Rightarrow> 's Feature" where
  "MacroFeature handleMacro =
    \<lparr>featureStage = PreEngine, featurePriority = 30, featureRequires = 0,
     featureTry = (\<lambda>ctx (s, ch).
       case handleMacro ctx s of
         (MacroEat, s) \<Rightarrow> (Handled, s, Emit ConsumeKey ch)
       | (MacroPass, s) \<Rightarrow> (Veto, s, Emit PassThrough ch)
       | (MacroFallthrough, s) \<Rightarrow> (Pass, s, ch)
       | (MacroNoOp, s) \<Rightarrow> (Pass, s, ch))\<rparr>"

definition EscRestoreRawFeature :: "(KeyContext \<Rightarrow> 's \<Rightarrow> EscRestoreOutcome \<times> 's) \<Rightarrow> 's Feature" where
  "EscRestoreRawFeature tryEscRestore =
    \<lparr>featureStage = PreEngine, featurePriority = 40, featureRequires = 0,
     featureTry = (\<lambda>ctx (s, ch).
       case tryEscRestore ctx s of
         (EscEat, s) \<Rightarrow> (Handled, s, Emit ConsumeKey ch)
       | (EscFallthrough, s) \<Rightarrow> (Pass, s, ch))\<rparr>"

definition EnglishBiasGate :: "('s \<Rightarrow> bool) \<Rightarrow> 's KeyGate" where
  "EnglishBiasGate vnMode = \<lparr>keyGateId = GateEnglishBias, keyGateRaised = (\<lambda>ctx s. \<not> vnMode s)\<rparr>"

definition SpellCheckGate :: "('s \<Rightarrow> Engine) \<Rightarrow> 's KeyGate" where
  "SpellCheckGate engine = \<lparr>keyGateId = GateSpellCheck, keyGateRaised = (\<lambda>ctx s. IsEnglishWord (engine s))\<rparr>"

definition ToneEscapeGate :: "('s \<Rightarrow> Engine) \<Rightarrow> 's KeyGate" where
  "ToneEscapeGate engine = \<lparr>keyGateId = GateToneEscape, keyGateRaised = (\<lambda>ctx s. IsToneEscaped (engine s))\<rparr>"

end
