(* ===== verification/HookKeys.thy ===== *)
theory HookKeys
  imports HookState Pipeline
begin

text \<open>
  The operations of the hook on the word being typed (\<open>src/app/system/HookEngine.cpp\<close>): a letter, a
  digit, a bracket, a backspace, the commit of the word, the restoration of the typed keys, the
  expansion of a macro and a key the hook has missed. The first component of a result says, where
  the source returns it, whether the key of the user is eaten.
\<close>

datatype KeyOutcome = Eat | PassKey | Fallthrough

subsection \<open>The coordinator of the hook, and its edits\<close>

text \<open>
  The gates and the backward edit, as the constructor registers them; the features that run before
  the engine are added in theory \<open>HookDispatch\<close>, in another stage.
\<close>

definition editCoordinator :: "HookEnv \<Rightarrow> HookState Coordinator" where
  "editCoordinator env =
    (let co = newCoordinator;
         co = RegisterGate (EnglishBiasGate (\<lambda>_. envVietnamese env)) co;
         co = RegisterGate (SpellCheckGate hookEngine) co;
         co = RegisterGate (ToneEscapeGate hookEngine) co
     in RegisterFeature (BackwardEditFeature (ReplaceComposition env)) co)"

definition DispatchCoordinator :: "HookEnv \<Rightarrow> vkey \<Rightarrow> vkey \<Rightarrow> wstring \<Rightarrow> HookState \<Rightarrow> HookState" where
  "DispatchCoordinator env vk reinjectVk composition h =
    fst (HandleKeyAtStage (editCoordinator env) PostEngine
      \<lparr>keyVk = vk, keyChar = 0, keyShift = False, keyCapsLock = False, keyCtrl = False, keyAlt = False,
       keyWin = False, sessionPrevious = previousComposition h, sessionRendered = composition,
       sessionRaw = PeekRaw (hookEngine h), keyReinjectVk = reinjectVk\<rparr> (h, newOutputChannel))"

subsection \<open>Letters, digits and brackets\<close>

definition clear_stale :: "HookState \<Rightarrow> HookState" where
  "clear_stale h =
    (if Count (hookEngine h) = 0 \<and> previousComposition h \<noteq> []
     then h\<lparr>previousComposition := [], previousEncodedWidths := []\<rparr> else h)"

definition simple_append :: "wstring \<Rightarrow> wchar \<Rightarrow> wstring \<Rightarrow> bool" where
  "simple_append prev ch composition \<longleftrightarrow>
    length composition = length prev + 1 \<and> last composition = ch \<and> take (length prev) composition = prev"

definition push_key :: "wchar \<Rightarrow> HookState \<Rightarrow> HookState" where
  "push_key ch h = upd_engine (PushChar ch) (upd_commit (AppendHistory ch) h)"

definition alpha_char :: "vkey \<Rightarrow> bool \<Rightarrow> bool \<Rightarrow> wchar" where
  "alpha_char vk shift capsLock = (if shift \<noteq> capsLock then vk else towlower vk)"

definition HandleAlphaKey :: "HookEnv \<Rightarrow> vkey \<Rightarrow> bool \<Rightarrow> bool \<Rightarrow> HookState \<Rightarrow> bool \<times> HookState" where
  "HandleAlphaKey env vk shift capsLock h =
    (let originalCh = alpha_char vk shift capsLock;
         (ch, autoCapped, st) = capitalise_letter (envAutoCaps env) (Count (hookEngine h) = 0) (envAnchor env)
            (autoCapState h) vk shift capsLock;
         h = clear_stale (h\<lparr>autoCapState := st\<rparr>);
         h = push_key ch h;
         composition = Peek (hookEngine h);
         simple = simple_append (previousComposition h) originalCh composition
     in if \<not> autoCapped \<and> envCodeTable env = Unicode \<and> \<not> (hadSynthInWord h \<and> envMultiProcess env) \<and>
           \<not> envSyncChannel env \<and> synthEventsPending h = 0 \<and> simple
        then (False, h\<lparr>previousComposition := composition\<rparr>)
        else if \<not> simple \<and> \<not> autoCapped \<and> envCodeTable env = Unicode \<and> \<not> envBait env \<and>
                \<not> envSkipEmpty env \<and> \<not> envSyncChannel env
        then (True, DispatchCoordinator env vk vk composition
                      (h\<lparr>previousComposition := previousComposition h @ [originalCh]\<rparr>))
        else (True, DispatchCoordinator env vk 0 composition h))"

text \<open>A character the engine takes as it is: a digit, a bracket, a punctuation key bound by the user.\<close>

definition type_mark :: "HookEnv \<Rightarrow> vkey \<Rightarrow> wchar \<Rightarrow> HookState \<Rightarrow> HookState" where
  "type_mark env vk ch h =
    (let h = push_key ch h in DispatchCoordinator env vk 0 (Peek (hookEngine h)) h)"

definition HandleVniDigitKey :: "HookEnv \<Rightarrow> vkey \<Rightarrow> HookState \<Rightarrow> bool \<times> HookState" where
  "HandleVniDigitKey env vk h = (True, type_mark env vk vk h)"

text \<open>A key that reached the program behind the hook's back, in a browser-like program.\<close>

definition HandleGhostChar :: "bool \<Rightarrow> wchar \<Rightarrow> HookState \<Rightarrow> HookState" where
  "HandleGhostChar chromiumClass ch h =
    (if \<not> chromiumClass then h
     else if ch = 0 \<or> ch > 127 then h
     else (let h = push_key ch (clear_stale h) in h\<lparr>previousComposition := Peek (hookEngine h)\<rparr>))"

subsection \<open>Backspace and commit\<close>

definition HandleBackspace :: "HookEnv \<Rightarrow> HookState \<Rightarrow> HookState" where
  "HandleBackspace env h =
    (let h = upd_engine Backspace (upd_commit AppendBackspaceMarker h) in
     if Count (hookEngine h) > 0 then DispatchCoordinator env 0x08 0 (Peek (hookEngine h)) h
     else
       (let h = (if previousComposition h \<noteq> [] then
                   (let bsCount = (if envCodeTable env \<noteq> Unicode then sum_list (previousEncodedWidths h)
                                   else length (previousComposition h))
                    in (SendBackspaces env bsCount h)\<lparr>previousComposition := [], previousEncodedWidths := []\<rparr>)
                 else h)
        in if commitStack (commitState h) \<noteq> [] then SetCommitUndoReady env h else h))"

definition CommitComposition :: "HookEnv \<Rightarrow> HookState \<Rightarrow> bool \<times> HookState" where
  "CommitComposition env h =
    (let wasQuickConsonant = HasActiveQuickConsonant (hookEngine h);
         rawSnapshot = PeekRaw (hookEngine h);
         (committed, e) = Commit (hookEngine h);
         h = h\<lparr>hookEngine := e\<rparr>;
         restored = (previousComposition h \<noteq> [] \<and> committed \<noteq> previousComposition h);
         h = (if restored then DispatchCoordinator env 0 0 committed h else h);
         h = upd_commit (SetPushedToStack False) h;
         h = (if \<not> wasQuickConsonant \<and> inputHistory (commitState h) \<noteq> [] then
                (let entry = \<lparr>entryHistory = inputHistory (commitState h),
                              entryText = (if restored then committed else previousComposition h),
                              entryRawInput = rawSnapshot, entryWidths = previousEncodedWidths h,
                              extraLeadingTriggers = leadingTriggersForCurrentWord (commitState h)\<rparr>
                 in upd_commit (\<lambda>c. SetPushedToStack True (PushEntry entry
                      (SetLeadingTriggersForCurrentWord 0 c))) h)
              else h)
     in (restored, ClearWordState h))"

subsection \<open>Restoring the typed keys\<close>

definition kCommitUndoTimeoutMs :: u32 where
  "kCommitUndoTimeoutMs = kReadyTimeoutMs"

definition drop_macro_buffer :: "HookState \<Rightarrow> HookState" where
  "drop_macro_buffer h = h\<lparr>rawMacroBuffer := [], tempMacroOff := False\<rparr>"

definition TryEscRestoreRaw :: "HookEnv \<Rightarrow> HookState \<Rightarrow> KeyOutcome \<times> HookState" where
  "TryEscRestoreRaw env h =
    (if Count (hookEngine h) > 0 then
       (let raw = PeekRaw (hookEngine h); ev = OutReplace (Count (hookEngine h)) raw in
        if raw = [] then (Fallthrough, h)
        else if \<not> envDelivers env ev then (Fallthrough, deliver env ev h)
        else (Eat, drop_macro_buffer (upd_engine Reset (deliver env ev h))))
     else if undoState (commitState h) \<noteq> Primed \<or> commitStack (commitState h) = [] then (Fallthrough, h)
     else if envNow env - readyTime (commitState h) > kCommitUndoTimeoutMs
     then (Fallthrough, upd_commit CancelUndo h)
     else
       (let entry = last (commitStack (commitState h)) in
        if entryRawInput entry = [] then (Fallthrough, h)
        else
          (let bsCount = (if envCodeTable env \<noteq> Unicode then sum_list (entryWidths entry)
                          else length (entryText entry));
               ev = OutReplace bsCount (entryRawInput entry)
           in if \<not> envDelivers env ev then (Fallthrough, deliver env ev h)
              else (Eat, drop_macro_buffer (upd_commit CancelUndo (deliver env ev h))))))"

subsection \<open>Macros\<close>

abbreviation kMacroClipboardThreshold :: nat where "kMacroClipboardThreshold \<equiv> 200"

datatype MacroResult = NoMatch | ExpandedEatTrigger | ExpandedPassTrigger

definition macro_inputs :: "HookEnv \<Rightarrow> wchar \<Rightarrow> HookState \<Rightarrow> PlanInputs" where
  "macro_inputs env triggerChar h =
    \<lparr>planBuffer = rawMacroBuffer h, planComposition = previousComposition h,
     planWidths = previousEncodedWidths h, planTable = map_of (envMacros env),
     planCrossCommit = macroCrossCommit h, planCodeTable = envCodeTable env,
     planAutoCaps = envAutoCapsMacro env, planTrigger = triggerChar,
     planClipboardThreshold = kMacroClipboardThreshold\<rparr>"

text \<open>The loop over the segments; the backspaces go with the first text, or before the first return key.\<close>

fun send_segments :: "HookEnv \<Rightarrow> nat \<Rightarrow> Segment list \<Rightarrow> HookState \<Rightarrow> HookState" where
  "send_segments env pendingBs [] h = (if pendingBs > 0 then ReplaceRaw env pendingBs [] h else h)"
| "send_segments env pendingBs (s # ss) h =
    (if isReturn s then
       send_segments env 0 ss
         (InjectKey env 0x0D (if pendingBs > 0 then ReplaceRaw env pendingBs [] h else h))
     else if segText s \<noteq> [] then send_segments env 0 ss (ReplaceRaw env pendingBs (segText s) h)
     else send_segments env pendingBs ss h)"

definition TryExpandMacro :: "HookEnv \<Rightarrow> wchar \<Rightarrow> HookState \<Rightarrow> MacroResult \<times> HookState" where
  "TryExpandMacro env triggerChar h =
    (let plan = Plan (macro_inputs env triggerChar h) (envMapper env) in
     if \<not> matched plan then (NoMatch, h)
     else
       (let h = (if useClipboard plan then
                   ClipboardPaste env (ExpandEscapesForClipboard (expansion plan))
                     (if bsCount plan > 0 then ReplaceRaw env (bsCount plan) [] h else h)
                 else send_segments env (bsCount plan) (BuildSegments (expansion plan) (envCodeTable env)) h);
            h = upd_commit CancelUndo (ClearWordState h)
        in (if isPartOfMacro plan then ExpandedEatTrigger else ExpandedPassTrigger, h)))"

subsection \<open>Classes of keys\<close>

definition is_nav_key :: "vkey \<Rightarrow> bool" where
  "is_nav_key vk \<longleftrightarrow> 0x25 \<le> vk \<and> vk \<le> 0x28 \<or> vk = 0x24 \<or> vk = 0x23 \<or> vk = 0x21 \<or> vk = 0x22"

definition IsOemPunctVk :: "vkey \<Rightarrow> bool" where
  "IsOemPunctVk vk =
    (if 0xBA \<le> vk \<and> vk \<le> 0xC0 then True
     else if 0xDB \<le> vk \<and> vk \<le> 0xDF then True
     else if vk = 0xBB \<or> vk = 0xBC \<or> vk = 0xBD \<or> vk = 0xBE then True
     else False)"

definition IsCommitTrigger :: "vkey \<Rightarrow> bool" where
  "IsCommitTrigger vk =
    (if vk = 0x20 \<or> vk = 0x0D \<or> vk = 0x1B then True
     else if vk = 0x09 then True
     else if is_nav_key vk then True
     else if 0x30 \<le> vk \<and> vk \<le> 0x39 then True
     else if 0x60 \<le> vk \<and> vk \<le> 0x6F then True
     else if IsOemPunctVk vk then True
     else if vk = 0x2E \<or> vk = 0x2D then True
     else False)"

definition IsMacroTrigger :: "TypingConfig \<Rightarrow> vkey \<Rightarrow> bool" where
  "IsMacroTrigger cfg vk =
    (if \<not> IsCommitTrigger vk then False
     else if vk = 0x20 then macroTriggerSpace cfg
     else if vk = 0x0D then macroTriggerEnter cfg
     else if vk = 0x09 then macroTriggerTab cfg
     else if is_nav_key vk then macroTriggerDir cfg
     else True)"

end
