(* ===== verification/HookDispatch.thy ===== *)
theory HookDispatch
  imports HookKeys
begin

text \<open>
  The way of a key through the hook (\<open>src/app/system/HookEngine.cpp\<close>): the machine that goes back into
  committed words, the tracking and expansion of macros, the restoration of the typed keys, the steps
  before the dispatch, and the dispatch itself; composed by \<open>ProcessKeyDown\<close> after its top guards,
  which only look at the program in front and at the modifier keys.
\<close>

subsection \<open>Modifier masks\<close>

definition env_mods :: "HookEnv \<Rightarrow> u32" where
  "env_mods env = ComputeModMask (envCtrl env) (envShift env) (envAlt env) (envWin env)"

definition hotkey_pressed :: "HookEnv \<Rightarrow> HotIntent \<Rightarrow> vkey \<Rightarrow> bool" where
  "hotkey_pressed env intent vk =
    Matches intent (word_of_int vk) (env_mods env) False False (envHotkeys env)"

definition is_alpha_key :: "vkey \<Rightarrow> bool" where
  "is_alpha_key vk \<longleftrightarrow> 0x41 \<le> vk \<and> vk \<le> 0x5A"

definition is_digit_key :: "vkey \<Rightarrow> bool" where
  "is_digit_key vk \<longleftrightarrow> 0x30 \<le> vk \<and> vk \<le> 0x39"

definition takes_digits :: "InputMethod \<Rightarrow> bool" where
  "takes_digits meth \<longleftrightarrow> meth = VNI \<or> meth = Combined \<or> meth = UserDefined"

definition eaten :: "bool \<times> HookState \<Rightarrow> KeyOutcome \<times> HookState" where
  "eaten r = (if fst r then Eat else PassKey, snd r)"

subsection \<open>Going back into committed words\<close>

definition fsm_modifiers :: "HookEnv \<Rightarrow> HookState \<Rightarrow> HookState" where
  "fsm_modifiers env h =
    (if undoState (commitState h) \<noteq> Idle \<and> (envCtrl env \<or> envAlt env \<or> envWin env)
     then upd_commit CancelUndo h else h)"

definition fsm_return :: "vkey \<Rightarrow> HookState \<Rightarrow> HookState" where
  "fsm_return vk h =
    (if vk = 0x0D \<and> (undoState (commitState h) \<noteq> Idle \<or> commitStack (commitState h) \<noteq> [])
     then upd_commit CancelUndo h else h)"

definition fsm_expire :: "HookEnv \<Rightarrow> HookState \<Rightarrow> HookState" where
  "fsm_expire env h =
    (if undoState (commitState h) = Ready \<and> envNow env - readyTime (commitState h) > kCommitUndoTimeoutMs
     then upd_commit CancelUndo h else h)"

text \<open>A backspace while ready: it deletes the trigger that committed the word.\<close>

definition fsm_backspace :: "HookEnv \<Rightarrow> HookState \<Rightarrow> KeyOutcome \<times> HookState" where
  "fsm_backspace env h =
    (if pendingTriggerCount (commitState h) > 0 then (PassKey, upd_commit DecrementPendingTriggers h)
     else
       (let h = (upd_commit SetPrimed h)\<lparr>macroCrossCommit := False, rawMacroBuffer := []\<rparr>;
            ev = OutReplace 1 []
        in if synthEventsPending h > 0 then (Eat, InjectKey env 0x08 h)
           else if envSyncChannel env then
             (if envDelivers env ev then Eat else PassKey, deliver env ev h)
           else (PassKey, h)))"

definition undo_exempt :: "HookEnv \<Rightarrow> vkey \<Rightarrow> bool" where
  "undo_exempt env vk =
    (let escIsCancelTrigger = Matches CancelComposition 0x1B 0 False False (envHotkeys env);
         ch = envVkChar env vk;
         isCustomModifier = (envMethod env = UserDefined \<and> ch \<noteq> 0 \<and> ch < 128 \<and>
           IsCommitUndoExemptAction (customKeyMap (envConfig env) (nat ch)))
     in IsCommitUndoExemptKey vk (envMethod env) (envShift env) escIsCancelTrigger isCustomModifier)"

text \<open>A key while primed: \<open>None\<close> as the outcome means that the function goes on.\<close>

definition fsm_primed :: "HookEnv \<Rightarrow> vkey \<Rightarrow> HookState \<Rightarrow> KeyOutcome option \<times> HookState" where
  "fsm_primed env vk h =
    (let exempt = undo_exempt env vk in
     if synthEventsPending h > 0 \<and> envNow env - lastRealSynthTime h < envSettleMs env \<and> \<not> exempt
     then (None, upd_commit CancelUndo h)
     else if is_alpha_key vk then
       (if \<not> exempt then (Some Fallthrough, upd_commit (\<lambda>c. SetIdle (PopStackTop c)) h)
        else map_prod Some id (eaten (HandleAlphaKey env vk (envShift env) (envCaps env) (ReplayCommittedChars h))))
     else if takes_digits (envMethod env) \<and> is_digit_key vk \<and> \<not> envShift env then
       (let h = ReplayCommittedChars h in
        if Count (hookEngine h) = 0 then (Some PassKey, upd_commit SetIdle h)
        else map_prod Some id (eaten (HandleVniDigitKey env vk h)))
     else if vk = 0x08 then (Some Eat, HandleBackspace env (ReplayCommittedChars h))
     else if \<not> exempt then (None, upd_commit SetIdle h)
     else (None, h))"

definition fsm_ready :: "HookEnv \<Rightarrow> vkey \<Rightarrow> HookState \<Rightarrow> HookState" where
  "fsm_ready env vk h =
    (if is_nav_key vk \<or> vk = 0x2E then upd_commit CancelUndo h
     else if IsCommitTrigger vk \<and> Count (hookEngine h) = 0 then
       (if envVkChar env vk \<ge> 32 then upd_commit IncrementPendingTriggers h else upd_commit CancelUndo h)
     else upd_commit (\<lambda>c. SetIdle (SetPendingTriggers 0
            (SetLeadingTriggersForCurrentWord (pendingTriggerCount c) c))) h)"

definition HandleCommitUndoFsm :: "HookEnv \<Rightarrow> vkey \<Rightarrow> HookState \<Rightarrow> KeyOutcome \<times> HookState" where
  "HandleCommitUndoFsm env vk h =
    (let h = fsm_expire env (fsm_return vk (fsm_modifiers env h)) in
     if undoState (commitState h) = Ready \<and> vk = 0x08 \<and> Count (hookEngine h) = 0 then fsm_backspace env h
     else
       (case (if undoState (commitState h) = Primed \<and> Count (hookEngine h) = 0 \<and> envVietnamese env
              then fsm_primed env vk h else (None, h)) of
          (Some outcome, h) \<Rightarrow> (outcome, h)
        | (None, h) \<Rightarrow> (Fallthrough, if undoState (commitState h) = Ready then fsm_ready env vk h else h)))"

definition HandleCommitUndo :: "HookEnv \<Rightarrow> vkey \<Rightarrow> HookState \<Rightarrow> CommitUndoOutcome \<times> HookState" where
  "HandleCommitUndo env vk h =
    (case HandleCommitUndoFsm env vk h of
       (Eat, h) \<Rightarrow> (UndoEat, h) | (PassKey, h) \<Rightarrow> (UndoPass, h) | (Fallthrough, h) \<Rightarrow> (UndoFallthrough, h))"

subsection \<open>Macros\<close>

definition track_letter :: "KeyContext \<Rightarrow> HookState \<Rightarrow> HookState" where
  "track_letter ctx h =
    h\<lparr>rawMacroBuffer := rawMacroBuffer h @ [alpha_char (keyVk ctx) (keyShift ctx) (keyCapsLock ctx)]\<rparr>"

definition track_trigger :: "HookEnv \<Rightarrow> vkey \<Rightarrow> HookState \<Rightarrow> HookState" where
  "track_trigger env vk h =
    (let ch = envVkChar env vk in if ch > 32 then h\<lparr>rawMacroBuffer := rawMacroBuffer h @ [ch]\<rparr> else h)"

text \<open>What follows an attempt to expand; \<open>otherwise\<close> is the outcome when nothing matched.\<close>

definition after_expansion :: "HookEnv \<Rightarrow> vkey \<Rightarrow> MacroOutcome \<Rightarrow> MacroResult \<times> HookState \<Rightarrow> MacroOutcome \<times> HookState" where
  "after_expansion env vk otherwise r =
    (case r of
       (ExpandedEatTrigger, h) \<Rightarrow> (MacroEat, h)
     | (ExpandedPassTrigger, h) \<Rightarrow>
         (if synthEventsPending h > 0 then (MacroEat, InjectKey env vk h) else (MacroPass, h))
     | (NoMatch, h) \<Rightarrow> (otherwise, h))"

definition macro_hotkey :: "HookEnv \<Rightarrow> KeyContext \<Rightarrow> bool" where
  "macro_hotkey env ctx =
    Matches SkipMacro (word_of_int (keyVk ctx))
      (ComputeModMask (keyCtrl ctx) (keyShift ctx) (keyAlt ctx) (keyWin ctx)) False False (envHotkeys env)"

definition english_macro :: "HookEnv \<Rightarrow> KeyContext \<Rightarrow> HookState \<Rightarrow> MacroOutcome \<times> HookState" where
  "english_macro env ctx h =
    (let vk = keyVk ctx in
     if is_alpha_key vk then (MacroPass, track_letter ctx h)
     else if macro_hotkey env ctx \<and> rawMacroBuffer h = [] then (MacroPass, h\<lparr>tempMacroOff := True\<rparr>)
     else if IsCommitTrigger vk \<and> \<not> tempMacroOff h then
       (let h = track_trigger env vk h in
        if rawMacroBuffer h \<noteq> [] \<and> IsMacroTrigger (envConfig env) vk
        then after_expansion env vk MacroPass (TryExpandMacro env (envVkChar env vk) h)
        else if \<not> IsMacroTrigger (envConfig env) vk then (MacroPass, drop_macro_buffer h)
        else (MacroPass, h))
     else if vk = 0x08 \<and> rawMacroBuffer h \<noteq> []
     then (MacroPass, h\<lparr>rawMacroBuffer := butlast (rawMacroBuffer h)\<rparr>)
     else if \<not> IsCommitTrigger vk then (MacroPass, drop_macro_buffer h)
     else (MacroPass, h))"

definition vietnamese_macro :: "HookEnv \<Rightarrow> KeyContext \<Rightarrow> HookState \<Rightarrow> MacroOutcome \<times> HookState" where
  "vietnamese_macro env ctx h =
    (let vk = keyVk ctx; on = (envMacroOn env \<and> envMacros env \<noteq> []);
         h = (if on then (if is_alpha_key vk then track_letter ctx h
                          else if IsCommitTrigger vk then track_trigger env vk h else h) else h)
     in if on \<and> macro_hotkey env ctx \<and> Count (hookEngine h) = 0 \<and> rawMacroBuffer h = []
        then (MacroPass, h\<lparr>tempMacroOff := True\<rparr>)
        else if on \<and> \<not> tempMacroOff h \<and> IsMacroTrigger (envConfig env) vk \<and> rawMacroBuffer h \<noteq> []
        then after_expansion env vk MacroFallthrough (TryExpandMacro env (envVkChar env vk) h)
        else (MacroFallthrough, h))"

definition HandleMacro :: "HookEnv \<Rightarrow> KeyContext \<Rightarrow> HookState \<Rightarrow> MacroOutcome \<times> HookState" where
  "HandleMacro env ctx h =
    (if \<not> envVietnamese env then
       (if \<not> (envMacroOn env \<and> envMacroEnglish env) then (MacroFallthrough, h) else english_macro env ctx h)
     else vietnamese_macro env ctx h)"

subsection \<open>Restoring the typed keys by a hotkey\<close>

definition has_primed_commit :: "HookState \<Rightarrow> bool" where
  "has_primed_commit h \<longleftrightarrow>
    undoState (commitState h) = Primed \<and> commitStack (commitState h) \<noteq> [] \<and>
    entryRawInput (last (commitStack (commitState h))) \<noteq> []"

definition TryEscRestore :: "HookEnv \<Rightarrow> KeyContext \<Rightarrow> HookState \<Rightarrow> EscRestoreOutcome \<times> HookState" where
  "TryEscRestore env ctx h =
    (if Matches CancelComposition (word_of_int (keyVk ctx))
          (ComputeModMask (keyCtrl ctx) (keyShift ctx) (keyAlt ctx) (keyWin ctx)) False False (envHotkeys env) \<and>
        (Count (hookEngine h) > 0 \<or> has_primed_commit h)
     then (case TryEscRestoreRaw env h of (Eat, h) \<Rightarrow> (EscEat, h) | (_, h) \<Rightarrow> (EscFallthrough, h))
     else (EscFallthrough, h))"

subsection \<open>The features in front of the engine\<close>

definition hookCoordinator :: "HookEnv \<Rightarrow> HookState Coordinator" where
  "hookCoordinator env =
    RegisterFeature (MacroFeature (HandleMacro env))
      (RegisterFeature (EscRestoreRawFeature (TryEscRestore env))
        (RegisterFeature (CommitUndoFeature (HandleCommitUndo env)) (editCoordinator env)))"

definition key_context :: "HookEnv \<Rightarrow> vkey \<Rightarrow> HookState \<Rightarrow> KeyContext" where
  "key_context env vk h =
    \<lparr>keyVk = vk, keyChar = 0, keyShift = envShift env, keyCapsLock = envCaps env, keyCtrl = envCtrl env,
     keyAlt = envAlt env, keyWin = envWin env, sessionPrevious = previousComposition h,
     sessionRendered = Peek (hookEngine h), sessionRaw = PeekRaw (hookEngine h), keyReinjectVk = 0\<rparr>"

text \<open>The first intent that decides about the key, as the loop over the batch finds it.\<close>

fun batch_verdict :: "Intent list \<Rightarrow> bool option" where
  "batch_verdict [] = None"
| "batch_verdict (i # is) =
    (if i = ConsumeKey then Some True else if i = PassThrough then Some False else batch_verdict is)"

definition pre_engine :: "HookEnv \<Rightarrow> vkey \<Rightarrow> HookState \<Rightarrow> bool option \<times> HookState" where
  "pre_engine env vk h =
    (let (h, ch) = HandleKeyAtStage (hookCoordinator env) PreEngine (key_context env vk h) (h, newOutputChannel)
     in (batch_verdict (fst (DrainBatch ch)), h))"

subsection \<open>Before the dispatch, and the dispatch\<close>

definition toggle_engine :: "HookEnv \<Rightarrow> HookState \<Rightarrow> HookState" where
  "toggle_engine env h =
    (let h = (if Count (hookEngine h) > 0 then snd (CommitComposition env h) else h)
     in upd_commit CancelUndo (h\<lparr>tempEngineOff := \<not> tempEngineOff h\<rparr>))"

definition HandlePreDispatch :: "HookEnv \<Rightarrow> vkey \<Rightarrow> HookState \<Rightarrow> KeyOutcome \<times> HookState" where
  "HandlePreDispatch env vk h =
    (if \<not> envVietnamese env then (PassKey, h)
     else
       (let h = (if envAutoCaps env
                 then h\<lparr>autoCapState := ComputeAutoCapStateTransition (autoCapState h) vk (envShift env)
                          (envCtrl env) (envAlt env) (envWin env)\<rparr>
                 else h)
        in if \<not> IsModifierKey (word_of_int (CanonicalModifierVk vk)) \<and> hotkey_pressed env ToggleEnabled vk
           then (Eat, toggle_engine env h)
           else (Fallthrough, h)))"

definition bypass_off :: "vkey \<Rightarrow> HookState \<Rightarrow> HookState" where
  "bypass_off vk h =
    (if IsCommitTrigger vk \<or> vk = 0x08 \<and> Count (hookEngine h) = 0
     then h\<lparr>tempEngineOff := False, digitLedWord := False\<rparr> else h)"

definition is_bracket_key :: "HookEnv \<Rightarrow> vkey \<Rightarrow> bool" where
  "is_bracket_key env vk \<longleftrightarrow> envMethod env = Telex \<and> (vk = 0xDB \<or> vk = 0xDD) \<and> \<not> envShift env"

definition is_custom_key :: "HookEnv \<Rightarrow> vkey \<Rightarrow> HookState \<Rightarrow> bool" where
  "is_custom_key env vk h =
    (envMethod env = UserDefined \<and> IsOemPunctVk vk \<and>
     (let ch = envVkChar env vk; action = customKeyMap (envConfig env) (nat ch) in
      ch \<noteq> 0 \<and> ch < 128 \<and> action \<noteq> ActNone \<and> (Count (hookEngine h) > 0 \<or> IsInsertTypeAction action)))"

text \<open>Keys that are not printed, after which the caret may stand elsewhere.\<close>

definition is_navigation_trigger :: "vkey \<Rightarrow> bool" where
  "is_navigation_trigger vk \<longleftrightarrow> is_nav_key vk \<or> vk = 0x09 \<or> vk = 0x1B \<or> vk = 0x2E \<or> vk = 0x2D"

definition saved_macro_buffer :: "HookEnv \<Rightarrow> vkey \<Rightarrow> HookState \<Rightarrow> wstring" where
  "saved_macro_buffer env vk h =
    (if envMacroOn env \<and> envMacros env \<noteq> [] \<and> \<not> tempMacroOff h \<and> rawMacroBuffer h \<noteq> [] then
       (let ch = envVkChar env vk in
        if ch > 32 then rawMacroBuffer h
        else if ch = 32 \<and> IsSpaceMacroPrefix (rawMacroBuffer h @ [32]) (envSpaceKeys env)
        then rawMacroBuffer h @ [32] else [])
     else [])"

definition commit_trigger :: "HookEnv \<Rightarrow> vkey \<Rightarrow> HookState \<Rightarrow> KeyOutcome \<times> HookState" where
  "commit_trigger env vk h =
    (let saved = saved_macro_buffer env vk h;
         (restored, h) = CommitComposition env h;
         h = (if saved \<noteq> [] then h\<lparr>rawMacroBuffer := saved, macroCrossCommit := True\<rparr> else h);
         h = (if pushedToStack (commitState h) \<and> \<not> is_navigation_trigger vk then SetCommitUndoReady env h else h);
         ch = envVkChar env vk; ev = OutReplace 0 [ch]
     in if restored \<or> synthEventsPending h > 0 then (Eat, InjectKey env vk h)
        else if envSyncChannel env \<and> ch \<ge> 32
        then (if envDelivers env ev then Eat else PassKey, deliver env ev h)
        else (PassKey, h))"

text \<open>Step 10: a backspace behind synthetic events goes after them.\<close>

definition reinject_backspace :: "HookEnv \<Rightarrow> vkey \<Rightarrow> HookState \<Rightarrow> KeyOutcome \<times> HookState" where
  "reinject_backspace env vk h =
    (if vk = 0x08 \<and> synthEventsPending h > 0 then (Eat, InjectKey env 0x08 h) else (PassKey, h))"

text \<open>Step 9: any other key commits the word.\<close>

definition other_key :: "HookEnv \<Rightarrow> vkey \<Rightarrow> HookState \<Rightarrow> KeyOutcome \<times> HookState" where
  "other_key env vk h =
    (if Count (hookEngine h) > 0 then
       (let (restored, h) = CommitComposition env h in
        if restored \<or> synthEventsPending h > 0 then (Eat, InjectKey env vk h)
        else reinject_backspace env vk h)
     else reinject_backspace env vk h)"

text \<open>Step 7b: a backspace into the words a macro key spans.\<close>

definition trim_cross_commit :: "vkey \<Rightarrow> HookState \<Rightarrow> HookState" where
  "trim_cross_commit vk h =
    (if vk = 0x08 \<and> macroCrossCommit h \<and> rawMacroBuffer h \<noteq> []
     then (let b = butlast (rawMacroBuffer h)
           in h\<lparr>rawMacroBuffer := b, macroCrossCommit := (if b = [] then False else macroCrossCommit h)\<rparr>)
     else h)"

definition pop_macro_buffer :: "HookEnv \<Rightarrow> HookState \<Rightarrow> HookState" where
  "pop_macro_buffer env h =
    (if envMacroOn env \<and> rawMacroBuffer h \<noteq> [] then h\<lparr>rawMacroBuffer := butlast (rawMacroBuffer h)\<rparr> else h)"

definition DispatchKeyAction :: "HookEnv \<Rightarrow> vkey \<Rightarrow> HookState \<Rightarrow> KeyOutcome \<times> HookState" where
  "DispatchKeyAction env vk h =
    (if tempEngineOff h then (PassKey, bypass_off vk h)
     else if envCtrl env \<or> envAlt env \<or> envWin env then (PassKey, ResetComposition h)
     else
       (let (armed, passes) = digit_led_step (envMethod env) (Count (hookEngine h) = 0) (digitLedWord h) vk (envShift env);
            h = h\<lparr>digitLedWord := armed\<rparr>
        in if passes then (PassKey, h)
           else if is_alpha_key vk then eaten (HandleAlphaKey env vk (envShift env) (envCaps env) h)
           else if is_bracket_key env vk then (Eat, type_mark env vk (if vk = 0xDB then L_lbracket else L_rbracket) h)
           else if takes_digits (envMethod env) \<and> is_digit_key vk \<and> Count (hookEngine h) > 0 \<and> \<not> envShift env
           then eaten (HandleVniDigitKey env vk h)
           else if is_custom_key env vk h then (Eat, type_mark env vk (envVkChar env vk) h)
           else if vk = 0x08 \<and> Count (hookEngine h) > 0
           then (Eat, HandleBackspace env (pop_macro_buffer env h))
           else (let h = trim_cross_commit vk h in
                 if IsCommitTrigger vk \<and> Count (hookEngine h) > 0 then commit_trigger env vk h
                 else other_key env vk h)))"

subsection \<open>A key from the keyboard\<close>

definition is_toggle_key :: "vkey \<Rightarrow> bool" where
  "is_toggle_key vk \<longleftrightarrow> vk = 0x14 \<or> vk = 0x90 \<or> vk = 0x91"

text \<open>The top guards; \<open>envStillExcluded\<close> says whether the program in front is still an excluded one.\<close>

definition RunTopGuards :: "HookEnv \<Rightarrow> vkey \<Rightarrow> HookState \<Rightarrow> KeyOutcome \<times> HookState" where
  "RunTopGuards env vk h =
    (if envTsfApp env then (PassKey, h)
     else if is_modifier_vk vk then (PassKey, h\<lparr>modKeys := TrackModifier vk True (modKeys h)\<rparr>)
     else if is_toggle_key vk then (PassKey, h)
     else if envExcluded env \<and> envStillExcluded env
     then (PassKey, h\<lparr>modKeys := (modKeys h)\<lparr>otherKeyPressed := True\<rparr>\<rparr>)
     else (Fallthrough, h))"

definition track_formula :: "HookEnv \<Rightarrow> vkey \<Rightarrow> HookState \<Rightarrow> HookState" where
  "track_formula env vk h =
    (if \<not> envFormulaHost env then h
     else (let st = UpdateFormulaSegment True (formulaState h) vk (envShift env)
           in SetFormulaSegment (inFormula st) (h\<lparr>formulaState := st\<rparr>)))"

definition synth_watchdog :: "HookEnv \<Rightarrow> HookState \<Rightarrow> HookState" where
  "synth_watchdog env h =
    (if synthEventsPending h > 0 \<and> envNow env - lastSynthSendTime h > 500
     then h\<lparr>synthEventsPending := 0\<rparr> else h)"

text \<open>The key has passed the guards.\<close>

definition process_guarded :: "HookEnv \<Rightarrow> vkey \<Rightarrow> HookState \<Rightarrow> bool \<times> HookState" where
  "process_guarded env vk h =
    (let h = synth_watchdog env (h\<lparr>modKeys := other_key_down (modKeys h)\<rparr>) in
     if \<not> envVietnamese env \<and> undoState (commitState h) = Idle \<and> \<not> (envMacroOn env \<and> envMacroEnglish env)
     then (False, h)
     else
       (case pre_engine env vk h of
          (Some verdict, h) \<Rightarrow> (verdict, h)
        | (None, h) \<Rightarrow>
            (case HandlePreDispatch env vk h of
               (Eat, h) \<Rightarrow> (True, h)
             | (PassKey, h) \<Rightarrow> (False, h)
             | (Fallthrough, h) \<Rightarrow> (let (outcome, h) = DispatchKeyAction env vk h in (outcome = Eat, h)))))"

definition ProcessKeyDown :: "HookEnv \<Rightarrow> vkey \<Rightarrow> HookState \<Rightarrow> bool \<times> HookState" where
  "ProcessKeyDown env vk h =
    (case RunTopGuards env vk (track_formula env vk h) of
       (Eat, h) \<Rightarrow> (True, h)
     | (PassKey, h) \<Rightarrow> (False, h)
     | (Fallthrough, h) \<Rightarrow> process_guarded env vk h)"

subsection \<open>The release of a modifier key\<close>

text \<open>The three intents a gesture of the modifier keys may carry.\<close>

definition modifier_gesture :: "HookEnv \<Rightarrow> vkey \<times> u32 \<times> bool \<Rightarrow> HookState \<Rightarrow> HookState" where
  "modifier_gesture env g h =
    (let (cvk, otherMods, isDoubleTap) = g;
         fires = (\<lambda>intent. Matches intent (word_of_int cvk) otherMods isDoubleTap True (envHotkeys env));
         h = (if fires CancelComposition \<and> (Count (hookEngine h) > 0 \<or> has_primed_commit h)
              then snd (TryEscRestoreRaw env h) else h);
         h = (if envMacroOn env \<and> envMacros env \<noteq> [] \<and> Count (hookEngine h) = 0 \<and> rawMacroBuffer h = [] \<and>
                 fires SkipMacro
              then h\<lparr>tempMacroOff := True\<rparr> else h)
     in if fires ToggleEnabled then toggle_engine env h else h)"

definition ProcessKeyUp :: "HookEnv \<Rightarrow> vkey \<Rightarrow> HookState \<Rightarrow> HookState" where
  "ProcessKeyUp env vk h =
    (if envTsfApp env \<or> \<not> is_modifier_vk vk then h
     else
       (let h = (case release_gesture vk (envNow env) (modKeys h) of
                   None \<Rightarrow> h | Some g \<Rightarrow> modifier_gesture env g h)
        in h\<lparr>modKeys := release_modifier vk (envNow env) (modKeys h)\<rparr>))"

end
