(* ===== verification/PipelineLaws.thy ===== *)
theory PipelineLaws
  imports HookDispatch
begin

text \<open>
  Laws of the pipeline: every intent is handed out once, the gates switch exactly the features that
  require them, and the three features in front of the engine are the functions of the hook tried in
  the order of their priorities.
\<close>

subsection \<open>The channel\<close>

lemma DrainBatch_batch: "fst (DrainBatch ch) = batch ch" "batch (snd (DrainBatch ch)) = []"
  by (simp_all add: DrainBatch_def Let_def)

lemma DrainBatch_TakeBatch: "fst (DrainBatch ch) = fst (TakeBatch ch)"
  by (simp add: DrainBatch_batch TakeBatch_def)

text \<open>Rounds of emitting and draining hand out every intent once, in the order of their emission.\<close>

fun drain_rounds :: "Intent list list \<Rightarrow> OutputChannel \<Rightarrow> Intent list" where
  "drain_rounds [] ch = []"
| "drain_rounds (is # rounds) ch =
    (let (out, ch) = DrainBatch (fold Emit is ch) in out @ drain_rounds rounds ch)"

lemma batch_emits: "batch (fold Emit is ch) = batch ch @ is"
  by (induction "is" arbitrary: ch) (simp_all add: Emit_def)

lemma drain_rounds_all: "batch ch = [] \<Longrightarrow> drain_rounds rounds ch = concat rounds"
proof (induction rounds arbitrary: ch)
  case (Cons r rounds)
  then show ?case
    using DrainBatch_batch[of "fold Emit r ch"]
    by (cases "DrainBatch (fold Emit r ch)") (simp add: batch_emits Let_def)
qed simp

subsection \<open>The gates\<close>

lemma run_stage_open:
  "run_stage fs raised ctx st = run_stage (filter (\<lambda>f. featureRequires f AND raised = 0) fs) 0 ctx st"
  by (induction fs raised ctx st rule: run_stage.induct) (simp_all add: Let_def)

text \<open>The edit of the composition is dropped exactly when the Vietnamese mode is off.\<close>

lemma hook_gates:
  "EvaluateKeyGates (editCoordinator env) ctx h AND GateMaskFor GateEnglishBias \<noteq> 0 \<longleftrightarrow> \<not> envVietnamese env"
  by (cases "IsEnglishWord (hookEngine h)"; cases "IsToneEscaped (hookEngine h)"; cases "envVietnamese env")
    (simp_all add: editCoordinator_def Let_def newCoordinator_def RegisterGate_def RegisterFeature_def
      EvaluateKeyGates_def EnglishBiasGate_def SpellCheckGate_def ToneEscapeGate_def GateMaskFor_def)

lemma edits_in_Vietnamese_mode:
  "DispatchCoordinator env vk r composition h =
    (if envVietnamese env then ReplaceComposition env composition r h else h)"
  by (simp add: DispatchCoordinator_def HandleKeyAtStage_def editCoordinator_def Let_def newCoordinator_def
      RegisterGate_def RegisterFeature_def BackwardEditFeature_def EvaluateKeyGates_def EnglishBiasGate_def
      SpellCheckGate_def ToneEscapeGate_def GateMaskFor_def)

subsection \<open>The features in front of the engine\<close>

lemma hook_features:
  "features (hookCoordinator env) PreEngine =
    [CommitUndoFeature (HandleCommitUndo env), MacroFeature (HandleMacro env),
     EscRestoreRawFeature (TryEscRestore env)]"
  "features (hookCoordinator env) PostEngine = [BackwardEditFeature (ReplaceComposition env)]"
  "features (hookCoordinator env) EngineStage = []"
  by (simp_all add: hookCoordinator_def editCoordinator_def Let_def newCoordinator_def RegisterGate_def
      RegisterFeature_def CommitUndoFeature_def MacroFeature_def EscRestoreRawFeature_def BackwardEditFeature_def)

text \<open>C8: In front of the engine a key goes to the undo machine, then to the macros, then to the
  restoration of the typed keys; the first that decides ends the way of the key, and what it decides,
  to eat the key or to let it pass, is what becomes of it, in every state of the gates.
\<close>

theorem pre_engine_order:
  "pre_engine env vk h =
    (case HandleCommitUndo env vk h of
       (UndoEat, h') \<Rightarrow> (Some True, h')
     | (UndoPass, h') \<Rightarrow> (Some False, h')
     | (UndoFallthrough, h') \<Rightarrow>
         (case HandleMacro env (key_context env vk h) h' of
            (MacroEat, h'') \<Rightarrow> (Some True, h'')
          | (MacroPass, h'') \<Rightarrow> (Some False, h'')
          | (_, h'') \<Rightarrow>
              (case TryEscRestore env (key_context env vk h) h'' of
                 (EscEat, h3) \<Rightarrow> (Some True, h3)
               | (EscFallthrough, h3) \<Rightarrow> (None, h3))))"
proof -
  have vk: "keyVk (key_context env vk h) = vk" by (simp add: key_context_def)
  show ?thesis
    unfolding pre_engine_def HandleKeyAtStage_def hook_features
    by (simp add: CommitUndoFeature_def MacroFeature_def EscRestoreRawFeature_def vk Let_def
        newOutputChannel_def Emit_def DrainBatch_def
        split: prod.splits CommitUndoOutcome.splits MacroOutcome.splits EscRestoreOutcome.splits)
qed

end
