(* ===== verification/HookLaws.thy ===== *)
theory HookLaws
  imports PipelineLaws EngineSteps
begin

text \<open>
  Laws of the hook as a client of the program in front of it. The program is a text before the caret:
  a replacement takes units off its end and adds others, a key does what the program does with it (a
  parameter). The word on the screen is the rendering of the engine's composition in the code table
  in use, after every key of the word; committing a word leaves the committed text, and going back
  into it restores the engine exactly.
\<close>

subsection \<open>The text of the program\<close>

fun screen_step :: "(vkey \<Rightarrow> wstring \<Rightarrow> wstring) \<Rightarrow> OutEvent \<Rightarrow> wstring \<Rightarrow> wstring" where
  "screen_step kb (OutReplace n t) s = take (length s - n) s @ t"
| "screen_step kb (OutKeyDown vk) s = kb vk s"
| "screen_step kb (OutKey vk) s = kb vk s"
| "screen_step kb (OutPaste t) s = s @ t"

definition text_of :: "(vkey \<Rightarrow> wstring \<Rightarrow> wstring) \<Rightarrow> wstring \<Rightarrow> HookState \<Rightarrow> wstring" where
  "text_of kb s h = fold (screen_step kb) (outEvents h) s"

definition render :: "CodeTable \<Rightarrow> wstring \<Rightarrow> wstring" where
  "render ct s = (if ct = Unicode then s else encode_units ct s)"

definition widths_fit :: "CodeTable \<Rightarrow> HookState \<Rightarrow> bool" where
  "widths_fit ct h \<longleftrightarrow>
    (ct \<noteq> Unicode \<longrightarrow> previousEncodedWidths h = encode_widths ct (previousComposition h))"

text \<open>The program shows \<open>pre\<close> and then what the hook believes to be on the screen.\<close>

definition shows_composition :: "(vkey \<Rightarrow> wstring \<Rightarrow> wstring) \<Rightarrow> CodeTable \<Rightarrow> wstring \<Rightarrow> wstring \<Rightarrow> HookState \<Rightarrow> bool" where
  "shows_composition kb ct s pre h \<longleftrightarrow>
    text_of kb s h = pre @ render ct (previousComposition h) \<and> widths_fit ct h"

text \<open>
  A host that the hook edits with plain replacements: the Vietnamese mode is on, there is a window,
  the injector delivers, and a letter key types its letter.
\<close>

definition plain_host :: "(vkey \<Rightarrow> wstring \<Rightarrow> wstring) \<Rightarrow> HookEnv \<Rightarrow> bool" where
  "plain_host kb env \<longleftrightarrow>
    envVietnamese env \<and> envTarget env \<and> (\<forall>ev. envDelivers env ev) \<and> \<not> envClipboardPaste env \<and>
    (\<forall>vk s. is_alpha_key vk \<longrightarrow> kb vk s = s @ [alpha_char vk (envShift env) (envCaps env)])"

lemma text_of_upd [simp]:
  "text_of kb s (h\<lparr>previousComposition := a\<rparr>) = text_of kb s h"
  "text_of kb s (h\<lparr>previousEncodedWidths := b\<rparr>) = text_of kb s h"
  "text_of kb s (h\<lparr>hookEngine := c\<rparr>) = text_of kb s h"
  "text_of kb s (h\<lparr>commitState := d\<rparr>) = text_of kb s h"
  "text_of kb s (h\<lparr>autoCapState := e\<rparr>) = text_of kb s h"
  "text_of kb s (mark_synth h) = text_of kb s h"
  "text_of kb s (RecordSynthDispatch env h) = text_of kb s h"
  "text_of kb s (ClearWordState h) = text_of kb s h"
  "text_of kb s (SetCommitUndoReady env h) = text_of kb s h"
  "text_of kb s (clear_stale h) = text_of kb s h"
  by (simp_all add: text_of_def mark_synth_def RecordSynthDispatch_def ClearWordState_def
      SetCommitUndoReady_def clear_stale_def)

lemma text_of_deliver:
  "envDelivers env ev \<Longrightarrow> text_of kb s (deliver env ev h) = screen_step kb ev (text_of kb s h)"
  by (simp add: text_of_def deliver_def)

lemma ReplaceRaw_text:
  "\<forall>ev. envDelivers env ev \<Longrightarrow>
    text_of kb s (ReplaceRaw env bs t h) = take (length (text_of kb s h) - bs) (text_of kb s h) @ t"
  by (simp add: ReplaceRaw_def text_of_deliver)

lemma ReplaceUnicode_text:
  assumes "\<forall>ev. envDelivers env ev"
  shows "text_of kb s (ReplaceUnicode env bs t 0 h) = take (length (text_of kb s h) - bs) (text_of kb s h) @ t"
  using assms by (simp add: ReplaceUnicode_def text_of_deliver ClipboardPaste_def Let_def)

lemma ReplaceUnicode_reinject_text:
  assumes "\<forall>ev. envDelivers env ev" and "vk \<noteq> 0" and "\<not> envSyncChannel env" and "\<not> envClipboardPaste env"
    and "kb vk (text_of kb s h) = T"
  shows "text_of kb s (ReplaceUnicode env bs t vk h) = take (length T - bs) T @ t"
  using assms by (simp add: ReplaceUnicode_def text_of_deliver Let_def)

text \<open>What the output leaves alone.\<close>

lemma output_frame [simp]:
  "hookEngine (deliver env ev h) = hookEngine h" "commitState (deliver env ev h) = commitState h"
  "previousComposition (deliver env ev h) = previousComposition h"
  "previousEncodedWidths (deliver env ev h) = previousEncodedWidths h"
  "hookEngine (RecordSynthDispatch env h) = hookEngine h"
  "commitState (RecordSynthDispatch env h) = commitState h"
  "previousComposition (RecordSynthDispatch env h) = previousComposition h"
  "previousEncodedWidths (RecordSynthDispatch env h) = previousEncodedWidths h"
  "hookEngine (mark_synth h) = hookEngine h" "commitState (mark_synth h) = commitState h"
  "previousComposition (mark_synth h) = previousComposition h"
  "previousEncodedWidths (mark_synth h) = previousEncodedWidths h"
  by (simp_all add: deliver_def RecordSynthDispatch_def mark_synth_def)

lemma Replace_frame [simp]:
  "hookEngine (ReplaceRaw env bs t h) = hookEngine h" "commitState (ReplaceRaw env bs t h) = commitState h"
  "previousComposition (ReplaceRaw env bs t h) = previousComposition h"
  "previousEncodedWidths (ReplaceRaw env bs t h) = previousEncodedWidths h"
  "hookEngine (ReplaceUnicode env bs t vk h) = hookEngine h"
  "commitState (ReplaceUnicode env bs t vk h) = commitState h"
  "previousEncodedWidths (ReplaceUnicode env bs t vk h) = previousEncodedWidths h"
  by (simp_all add: ReplaceRaw_def ReplaceUnicode_def ClipboardPaste_def Let_def)

lemma ReplaceComposition_frame [simp]:
  "hookEngine (ReplaceComposition env t vk h) = hookEngine h"
  "commitState (ReplaceComposition env t vk h) = commitState h"
  "previousComposition (ReplaceComposition env t vk h) = t"
  by (simp_all add: ReplaceComposition_def Let_def)

subsection \<open>Replacing the composition\<close>

lemma length_emit_ConvertChar: "length (emit (ConvertChar c ct)) = unitCount (ConvertChar c ct)"
  by (simp add: emit_def ConvertChar_def DecodeLoHi_def DecodeCompound_def Let_def
      split: option.splits CodeTable.splits)

lemma sum_widths: "sum_list (encode_widths ct s) = length (encode_units ct s)"
  by (induction s) (simp_all add: encode_widths_def encode_units_def length_emit_ConvertChar)

lemma encode_append [simp]:
  "encode_units ct (a @ b) = encode_units ct a @ encode_units ct b"
  "encode_widths ct (a @ b) = encode_widths ct a @ encode_widths ct b"
  by (simp_all add: encode_units_def encode_widths_def)

lemma encode_Nil [simp]: "encode_units ct [] = []" "encode_widths ct [] = []"
  by (simp_all add: encode_units_def encode_widths_def)

lemma length_encode_widths [simp]: "length (encode_widths ct s) = length s"
  by (simp add: encode_widths_def)

lemma common_length_split:
  obtains p x y where "a = p @ x" "b = p @ y" "common_length a b = length p"
proof -
  have "\<exists>p x y. a = p @ x \<and> b = p @ y \<and> common_length a b = length p"
  proof (induction a b rule: common_length.induct)
    case (1 c xs d ys)
    show ?case
    proof (cases "c = d")
      case True
      then obtain p x y where "xs = p @ x" "ys = p @ y" "common_length xs ys = length p"
        using 1 by blast
      with True show ?thesis by (intro exI[of _ "c # p"] exI[of _ x] exI[of _ y]) simp
    qed auto
  qed auto
  with that show thesis by blast
qed

text \<open>Replacing the composition shows the new one, in every code table and on every route.\<close>

lemma ReplaceComposition_shows:
  assumes "\<forall>ev. envDelivers env ev" and "envTarget env" and "shows_composition kb (envCodeTable env) s pre h"
  shows "shows_composition kb (envCodeTable env) s pre (ReplaceComposition env t 0 h)"
proof -
  obtain p x y where p: "previousComposition h = p @ x" "t = p @ y"
    "common_length (previousComposition h) t = length p"
    using common_length_split[of "previousComposition h" t] by blast
  show ?thesis
  proof (cases "envCodeTable env = Unicode")
    case True
    then show ?thesis
      using assms p
      by (simp add: shows_composition_def ReplaceComposition_def Let_def ReplaceUnicode_text render_def widths_fit_def)
  next
    case False
    then show ?thesis
      using assms p
      by (simp add: shows_composition_def ReplaceComposition_def Let_def ReplaceRaw_text render_def
          widths_fit_def sum_widths resize_def)
  qed
qed

text \<open>The same when the key of the user is pressed in front of the replacement.\<close>

lemma ReplaceComposition_reinject_shows:
  assumes "\<forall>ev. envDelivers env ev" and "envTarget env" and "vk \<noteq> 0" and "\<not> envSyncChannel env"
    and "\<not> envClipboardPaste env" and "envCodeTable env = Unicode"
    and "kb vk (text_of kb s h) = pre @ previousComposition h"
  shows "shows_composition kb Unicode s pre (ReplaceComposition env t vk h)"
proof -
  obtain p x y where p: "previousComposition h = p @ x" "t = p @ y"
    "common_length (previousComposition h) t = length p"
    using common_length_split[of "previousComposition h" t] by blast
  show ?thesis
    using assms p ReplaceUnicode_reinject_text[OF assms(1,3-5), of kb s h "pre @ previousComposition h"]
    by (simp add: shows_composition_def ReplaceComposition_def Let_def render_def widths_fit_def)
qed

lemma DispatchCoordinator_eq:
  assumes "envVietnamese env"
  shows "DispatchCoordinator env vk r composition h = ReplaceComposition env composition r h"
  by (simp add: edits_in_Vietnamese_mode assms)

end
