(* ===== verification/HookWordLaws.thy ===== *)
theory HookWordLaws
  imports HookLaws
begin

text \<open>
  The word being typed: after every letter, mark and backspace the program shows the composition of
  the engine; the keys the hook remembers always reproduce the engine; and going back into a
  committed word restores the engine and knows what is on the screen.
\<close>

subsection \<open>The screen after the keys of a word\<close>

datatype WordKey = Letter vkey | Mark vkey wchar | Erase

text \<open>
  One key of a word, on the state of the hook and the text of the program: the requests of the hook
  are carried out, and a key that is not eaten reaches the program.
\<close>

fun word_key :: "(HookEnv \<Rightarrow> vkey \<Rightarrow> wstring \<Rightarrow> wstring) \<Rightarrow> HookEnv \<times> WordKey \<Rightarrow>
    HookState \<times> wstring \<Rightarrow> HookState \<times> wstring" where
  "word_key kb (env, Letter vk) (h, s) =
    (let (taken, h) = HandleAlphaKey env vk (envShift env) (envCaps env) (h\<lparr>outEvents := []\<rparr>);
         s = text_of (kb env) s h
     in (h, if taken then s else kb env vk s))"
| "word_key kb (env, Mark vk ch) (h, s) =
    (let h = type_mark env vk ch (h\<lparr>outEvents := []\<rparr>) in (h, text_of (kb env) s h))"
| "word_key kb (env, Erase) (h, s) =
    (let h = HandleBackspace env (h\<lparr>outEvents := []\<rparr>) in (h, text_of (kb env) s h))"

definition on_screen :: "CodeTable \<Rightarrow> wstring \<Rightarrow> HookState \<Rightarrow> wstring \<Rightarrow> bool" where
  "on_screen ct pre h s \<longleftrightarrow>
    s = pre @ render ct (previousComposition h) \<and> widths_fit ct h \<and>
    previousComposition h = Peek (hookEngine h)"

lemma on_screen_Peek: "on_screen ct pre h s \<Longrightarrow> s = pre @ render ct (Peek (hookEngine h))"
  by (simp add: on_screen_def)

lemma InjectKey_text:
  "\<forall>ev. envDelivers env ev \<Longrightarrow> text_of kb s (InjectKey env vk h) = kb vk (text_of kb s h)"
proof -
  assume d: "\<forall>ev. envDelivers env ev"
  have "text_of kb s (InjectKey env vk h) = text_of kb s (deliver env (OutKey vk) h)"
    by (simp add: InjectKey_def text_of_def)
  then show ?thesis using d by (simp add: text_of_deliver)
qed

lemma text_of_fresh [simp]: "text_of kb s (h\<lparr>outEvents := []\<rparr>) = s"
  by (simp add: text_of_def)

lemma Peek_empty: "Count e = 0 \<Longrightarrow> Peek e = []"
  by (simp add: Count_def Peek_def ComposeAll_def)

lemma push_key_frame [simp]:
  "previousComposition (push_key ch h) = previousComposition h"
  "previousEncodedWidths (push_key ch h) = previousEncodedWidths h"
  "hookEngine (push_key ch h) = PushChar ch (hookEngine h)"
  "inputHistory (commitState (push_key ch h)) = inputHistory (commitState h) @ [ch]"
  "text_of kb s (push_key ch h) = text_of kb s h"
  by (simp_all add: push_key_def AppendHistory_def)

lemma shows_push: "shows_composition kb ct s pre (push_key ch h) = shows_composition kb ct s pre h"
  by (simp add: shows_composition_def widths_fit_def)

lemma type_mark_shows:
  assumes "plain_host kb env" and "shows_composition kb (envCodeTable env) s pre h"
  shows "shows_composition kb (envCodeTable env) s pre (type_mark env vk ch h)"
    "previousComposition (type_mark env vk ch h) = Peek (hookEngine (type_mark env vk ch h))"
    "hookEngine (type_mark env vk ch h) = PushChar ch (hookEngine h)"
    "commitState (type_mark env vk ch h) = AppendHistory ch (commitState h)"
  using assms ReplaceComposition_shows[of env kb s pre "push_key ch h"]
  by (simp_all add: type_mark_def Let_def plain_host_def DispatchCoordinator_eq shows_push)
    (simp add: push_key_def)

lemma alpha_char_range: "is_alpha_key vk \<Longrightarrow> 65 \<le> alpha_char vk a b \<and> alpha_char vk a b \<le> 122"
  by (auto simp: is_alpha_key_def alpha_char_def towlower_def)

lemma capitalise_letter_range:
  assumes "is_alpha_key vk"
  shows "65 \<le> fst (capitalise_letter c e a st vk sh cl) \<and> fst (capitalise_letter c e a st vk sh cl) \<le> 122"
  using alpha_char_range[OF assms, of sh cl]
  by (auto simp: capitalise_letter_def Let_def alpha_char_def towupper_def split: option.splits prod.splits if_splits)

lemma simple_append_eq: "simple_append prev ch c \<Longrightarrow> c = prev @ [ch]"
  unfolding simple_append_def
  by (metis One_nat_def add_Suc_right append_butlast_last_id append_eq_conv_conj butlast_conv_take
      diff_Suc_1 list.size(3) nat.simps(3) add.right_neutral)

text \<open>One letter, before the physical key: the three ways the function can end.\<close>

lemma HandleAlphaKey_shows:
  assumes host: "plain_host kb env" and alpha: "is_alpha_key vk"
    and shown: "shows_composition kb (envCodeTable env) s pre h"
    and empty: "Count (hookEngine h) = 0 \<Longrightarrow> previousComposition h = []"
    and r: "HandleAlphaKey env vk (envShift env) (envCaps env) h = (taken, h')"
  shows "on_screen (envCodeTable env) pre h' (if taken then text_of kb s h' else kb vk (text_of kb s h'))"
    and "\<exists>ch. 65 \<le> ch \<and> ch \<le> 122 \<and> hookEngine h' = PushChar ch (hookEngine h) \<and>
      commitState h' = AppendHistory ch (commitState h)"
proof -
  obtain ch capped st where cap: "capitalise_letter (envAutoCaps env) (Count (hookEngine h) = 0) (envAnchor env)
      (autoCapState h) vk (envShift env) (envCaps env) = (ch, capped, st)"
    by (metis prod_cases3)
  let ?orig = "alpha_char vk (envShift env) (envCaps env)"
  let ?h1 = "push_key ch (h\<lparr>autoCapState := st\<rparr>)"
  let ?comp = "Peek (PushChar ch (hookEngine h))"
  have stale: "clear_stale (h\<lparr>autoCapState := st\<rparr>) = h\<lparr>autoCapState := st\<rparr>"
    using empty by (auto simp: clear_stale_def)
  have shows1: "shows_composition kb (envCodeTable env) s pre ?h1"
    using shown by (simp add: shows_composition_def widths_fit_def)
  have deliv: "\<forall>ev. envDelivers env ev" "envTarget env" "envVietnamese env" "\<not> envClipboardPaste env"
    and typed: "\<And>t. kb vk t = t @ [?orig]"
    using host alpha by (simp_all add: plain_host_def)
  have vk0: "vk \<noteq> 0" using alpha by (auto simp: is_alpha_key_def)
  let ?simple = "simple_append (previousComposition h) ?orig ?comp"
  let ?pass = "\<not> capped \<and> envCodeTable env = Unicode \<and> \<not> (hadSynthInWord ?h1 \<and> envMultiProcess env) \<and>
      \<not> envSyncChannel env \<and> synthEventsPending ?h1 = 0 \<and> ?simple"
  let ?again = "\<not> ?simple \<and> \<not> capped \<and> envCodeTable env = Unicode \<and> \<not> envBait env \<and>
      \<not> envSkipEmpty env \<and> \<not> envSyncChannel env"
  have eq: "(taken, h') =
    (if ?pass then (False, ?h1\<lparr>previousComposition := ?comp\<rparr>)
     else if ?again
     then (True, ReplaceComposition env ?comp vk (?h1\<lparr>previousComposition := previousComposition h @ [?orig]\<rparr>))
     else (True, ReplaceComposition env ?comp 0 ?h1))"
    unfolding r[symmetric]
    by (simp add: HandleAlphaKey_def Let_def cap stale DispatchCoordinator_eq[OF deliv(3)])
  consider (pass) ?pass "taken = False" "h' = ?h1\<lparr>previousComposition := ?comp\<rparr>"
    | (again) ?again "taken = True"
        "h' = ReplaceComposition env ?comp vk (?h1\<lparr>previousComposition := previousComposition h @ [?orig]\<rparr>)"
    | (edit) "taken = True" "h' = ReplaceComposition env ?comp 0 ?h1"
    using eq by (auto split: if_splits)
  note ways = this
  show "on_screen (envCodeTable env) pre h' (if taken then text_of kb s h' else kb vk (text_of kb s h'))"
    using ways
  proof cases
    case pass
    then show ?thesis
      using shown simple_append_eq[of "previousComposition h" ?orig ?comp]
      by (simp add: on_screen_def shows_composition_def typed render_def widths_fit_def)
  next
    case again
    have "shows_composition kb Unicode s pre h'"
      unfolding again(3) using again(1) shown
      by (intro ReplaceComposition_reinject_shows)
        (auto simp: deliv vk0 typed shows_composition_def render_def)
    then show ?thesis using again by (simp add: on_screen_def shows_composition_def)
  next
    case edit
    have "shows_composition kb (envCodeTable env) s pre h'"
      unfolding edit(2) by (rule ReplaceComposition_shows[OF deliv(1,2) shows1])
    then show ?thesis using edit by (simp add: on_screen_def shows_composition_def)
  qed
  have "hookEngine h' = PushChar ch (hookEngine h) \<and> commitState h' = AppendHistory ch (commitState h)"
    using ways by cases (simp_all add: push_key_def)
  moreover have "65 \<le> ch \<and> ch \<le> 122"
    using capitalise_letter_range[OF alpha] cap by (metis fst_conv)
  ultimately show "\<exists>ch. 65 \<le> ch \<and> ch \<le> 122 \<and> hookEngine h' = PushChar ch (hookEngine h) \<and>
      commitState h' = AppendHistory ch (commitState h)"
    by blast
qed

lemma SetCommitUndoReady_frame [simp]:
  "hookEngine (SetCommitUndoReady env h) = hookEngine h"
  "previousComposition (SetCommitUndoReady env h) = previousComposition h"
  "previousEncodedWidths (SetCommitUndoReady env h) = previousEncodedWidths h"
  "inputHistory (commitState (SetCommitUndoReady env h)) = inputHistory (commitState h)"
  by (simp_all add: SetCommitUndoReady_def commit_state_defs)

lemma HandleBackspace_shows:
  assumes host: "plain_host kb env" and shown: "on_screen (envCodeTable env) pre h (text_of kb s h)"
  shows "on_screen (envCodeTable env) pre (HandleBackspace env h) (text_of kb s (HandleBackspace env h))"
    and "hookEngine (HandleBackspace env h) = Backspace (hookEngine h)"
    and "inputHistory (commitState (HandleBackspace env h)) = inputHistory (commitState h) @ [kBackspaceMarker]"
proof -
  let ?h1 = "upd_engine Backspace (upd_commit AppendBackspaceMarker h)"
  have deliv: "\<forall>ev. envDelivers env ev" "envTarget env" "envVietnamese env"
    using host by (simp_all add: plain_host_def)
  have shows1: "shows_composition kb (envCodeTable env) s pre ?h1"
    using shown by (simp add: shows_composition_def on_screen_def widths_fit_def)
  have replaced: "shows_composition kb (envCodeTable env) s pre
      (ReplaceComposition env (Peek (Backspace (hookEngine h))) 0 ?h1)"
    by (rule ReplaceComposition_shows[OF deliv(1,2) shows1])
  show "on_screen (envCodeTable env) pre (HandleBackspace env h) (text_of kb s (HandleBackspace env h))"
  proof (cases "Count (Backspace (hookEngine h)) > 0")
    case True
    then show ?thesis
      using replaced
      by (simp add: HandleBackspace_def Let_def DispatchCoordinator_eq[OF deliv(3)] on_screen_def shows_composition_def)
  next
    case False
    then have "Peek (Backspace (hookEngine h)) = []" by (simp add: Peek_empty)
    then show ?thesis
      using False shown deliv(1)
      by (auto simp: HandleBackspace_def Let_def on_screen_def SendBackspaces_def ReplaceRaw_text render_def
          widths_fit_def sum_widths)
  qed
  show "hookEngine (HandleBackspace env h) = Backspace (hookEngine h)"
    by (simp add: HandleBackspace_def Let_def DispatchCoordinator_eq[OF deliv(3)] SendBackspaces_def)
  show "inputHistory (commitState (HandleBackspace env h)) = inputHistory (commitState h) @ [kBackspaceMarker]"
    by (simp add: HandleBackspace_def Let_def DispatchCoordinator_eq[OF deliv(3)] SendBackspaces_def
        AppendBackspaceMarker_def)
qed

fun letters_ok :: "WordKey \<Rightarrow> bool" where
  "letters_ok (Letter vk) \<longleftrightarrow> is_alpha_key vk"
| "letters_ok (Mark vk ch) \<longleftrightarrow> ch \<noteq> 0 \<and> ch \<noteq> kBackspaceMarker"
| "letters_ok Erase \<longleftrightarrow> True"

definition word_keys_ok :: "(HookEnv \<Rightarrow> vkey \<Rightarrow> wstring \<Rightarrow> wstring) \<Rightarrow> CodeTable \<Rightarrow> (HookEnv \<times> WordKey) list \<Rightarrow> bool" where
  "word_keys_ok kb ct ks \<longleftrightarrow>
    list_all (\<lambda>(env, k). plain_host (kb env) env \<and> envCodeTable env = ct \<and> letters_ok k) ks"

text \<open>The keys the hook remembers of the word, run from a new engine.\<close>

definition replay_step :: "wchar \<Rightarrow> Engine \<Rightarrow> Engine" where
  "replay_step ch e = (if ch = kBackspaceMarker then Backspace e else PushChar ch e)"

definition history_ok :: "TypingConfig \<Rightarrow> HookState \<Rightarrow> bool" where
  "history_ok cfg h \<longleftrightarrow>
    hookEngine h = fold replay_step (inputHistory (commitState h)) (newEngine cfg) \<and>
    0 \<notin> set (inputHistory (commitState h))"

lemma word_key_step:
  assumes "plain_host (kb env) env" "envCodeTable env = ct" "letters_ok k"
    and "on_screen ct pre h s" and "word_key kb (env, k) (h, s) = (h', s')"
  shows "on_screen ct pre h' s'" "history_ok cfg h \<Longrightarrow> history_ok cfg h'"
proof -
  let ?h0 = "h\<lparr>outEvents := []\<rparr>"
  have shown: "on_screen (envCodeTable env) pre ?h0 (text_of (kb env) s ?h0)"
    using assms(2,4) by (simp add: on_screen_def widths_fit_def)
  have sc: "shows_composition (kb env) (envCodeTable env) s pre ?h0"
    and empty: "Count (hookEngine ?h0) = 0 \<Longrightarrow> previousComposition ?h0 = []"
    using shown by (simp_all add: on_screen_def shows_composition_def Peek_empty)
  have "on_screen ct pre h' s' \<and> (\<exists>ch. ch \<noteq> 0 \<and> hookEngine h' = replay_step ch (hookEngine h) \<and>
      inputHistory (commitState h') = inputHistory (commitState h) @ [ch])"
  proof (cases k)
    case (Letter vk)
    obtain taken h1 where r: "HandleAlphaKey env vk (envShift env) (envCaps env) ?h0 = (taken, h1)"
      by fastforce
    have alpha: "is_alpha_key vk" using assms(3) Letter by simp
    obtain ch where ch: "65 \<le> ch" "hookEngine h1 = PushChar ch (hookEngine h)"
        "commitState h1 = AppendHistory ch (commitState h)"
      using HandleAlphaKey_shows(2)[OF assms(1) alpha sc empty r] by auto
    show ?thesis
      using HandleAlphaKey_shows(1)[OF assms(1) alpha sc empty r] ch assms(2,5) Letter r
      by (intro conjI exI[of _ ch]) (auto simp: replay_step_def AppendHistory_def Let_def split: if_splits)
  next
    case (Mark vk ch)
    show ?thesis
      using type_mark_shows[OF assms(1) sc, of vk ch] assms(2,3,5) Mark
      by (intro conjI exI[of _ ch])
        (auto simp: replay_step_def AppendHistory_def on_screen_def shows_composition_def Let_def)
  next
    case Erase
    then show ?thesis
      using HandleBackspace_shows[OF assms(1) shown] assms(2,5)
      by (intro conjI exI[of _ kBackspaceMarker]) (auto simp: replay_step_def Let_def)
  qed
  then show "on_screen ct pre h' s'" "history_ok cfg h \<Longrightarrow> history_ok cfg h'"
    by (auto simp: history_ok_def)
qed

lemma word_keys_run:
  assumes "word_keys_ok kb ct ks" and "on_screen ct pre h s" and "fold (word_key kb) ks (h, s) = (h', s')"
  shows "on_screen ct pre h' s' \<and> (history_ok cfg h \<longrightarrow> history_ok cfg h')"
  using assms
proof (induction ks arbitrary: h s)
  case (Cons k ks)
  obtain env wk where k: "k = (env, wk)" by fastforce
  obtain h1 s1 where st: "word_key kb (env, wk) (h, s) = (h1, s1)" by fastforce
  have hyp: "plain_host (kb env) env" "envCodeTable env = ct" "letters_ok wk" "word_keys_ok kb ct ks"
    using Cons.prems(1) k by (simp_all add: word_keys_ok_def)
  show ?case
    using Cons.IH[OF hyp(4) word_key_step(1)[OF hyp(1-3) Cons.prems(2) st]] Cons.prems(3)
      word_key_step(2)[OF hyp(1-3) Cons.prems(2) st, of cfg] k st
    by auto
qed simp

text \<open>C3: While a word is typed, in whatever way the keys, the settings and the injector change between
  the keys, the program shows the text before the word and then the composition of the engine in the
  code table in use: after letters that pass through, letters pressed again in front of a
  replacement, marks and backspaces. And the keys the hook remembers reproduce the engine.
\<close>

theorem word_on_screen:
  assumes "word_keys_ok kb ct ks" and "on_screen ct pre h s" and "history_ok cfg h"
    and "fold (word_key kb) ks (h, s) = (h', s')"
  shows "s' = pre @ render ct (Peek (hookEngine h')) \<and> previousComposition h' = Peek (hookEngine h') \<and>
    history_ok cfg h'"
  using word_keys_run[OF assms(1,2,4)] assms(3) by (auto simp: on_screen_def)

subsection \<open>Commit, and going back\<close>

lemma config_replay: "0 \<notin> set ks \<Longrightarrow> config (fold replay_step ks e) = config e"
proof (induction ks arbitrary: e)
  case (Cons c ks)
  have "config (replay_step c e) = config e"
    using Cons.prems by (simp add: replay_step_def config_Backspace config_PushChar)
  with Cons show ?case by simp
qed simp

lemma Reset_newEngine: "Reset e = newEngine (config e)"
  by (cases e) (simp add: Reset_def newEngine_def)

lemma ReplayCommittedChars_top:
  assumes "commitStack (commitState h) \<noteq> []" and "en = last (commitStack (commitState h))"
  shows "hookEngine (ReplayCommittedChars h) = fold replay_step (entryHistory en) (hookEngine h)"
    "inputHistory (commitState (ReplayCommittedChars h)) = entryHistory en"
    "previousComposition (ReplayCommittedChars h) = entryText en"
    "previousEncodedWidths (ReplayCommittedChars h) = entryWidths en"
    "undoState (commitState (ReplayCommittedChars h)) = Idle"
proof -
  have "(\<lambda>ch e. if ch = kBackspaceMarker then Backspace e else PushChar ch e) = replay_step"
    by (simp add: replay_step_def fun_eq_iff)
  then show "hookEngine (ReplayCommittedChars h) = fold replay_step (entryHistory en) (hookEngine h)"
    "inputHistory (commitState (ReplayCommittedChars h)) = entryHistory en"
    "previousComposition (ReplayCommittedChars h) = entryText en"
    "previousEncodedWidths (ReplayCommittedChars h) = entryWidths en"
    "undoState (commitState (ReplayCommittedChars h)) = Idle"
    using assms by (simp_all add: ReplayCommittedChars_def Let_def SetIdle_def PopStackTop_def
        SetLeadingTriggersForCurrentWord_def)
qed

lemma last_PushEntry: "last (commitStack (PushEntry e c)) = e" "commitStack (PushEntry e c) \<noteq> []"
  by (simp_all add: PushEntry_def Let_def)

lemma ClearWordState_frame [simp]:
  "hookEngine (ClearWordState h) = Reset (hookEngine h)"
  "commitStack (commitState (ClearWordState h)) = commitStack (commitState h)"
  by (simp_all add: ClearWordState_def ClearHistory_def)

text \<open>What a commit leaves: the committed text on the screen, and the entry on the stack.\<close>

lemma CommitComposition_result:
  assumes host: "plain_host kb env" and shown: "on_screen (envCodeTable env) pre h (text_of kb s h)"
    and word: "\<not> HasActiveQuickConsonant (hookEngine h)" "inputHistory (commitState h) \<noteq> []"
    and r: "CommitComposition env h = (restored, h')"
  defines "en \<equiv> last (commitStack (commitState h'))"
  shows "commitStack (commitState h') \<noteq> []" "entryHistory en = inputHistory (commitState h)"
    "hookEngine h' = Reset (hookEngine h)"
    "text_of kb s h' = pre @ render (envCodeTable env) (entryText en)"
    "envCodeTable env \<noteq> Unicode \<longrightarrow> entryWidths en = encode_widths (envCodeTable env) (entryText en)"
    "previousComposition h \<noteq> [] \<longrightarrow> entryText en = fst (Commit (hookEngine h))"
proof -
  let ?h1 = "h\<lparr>hookEngine := Reset (hookEngine h)\<rparr>" let ?c = "commit_text (hookEngine h)"
  have deliv: "\<forall>ev. envDelivers env ev" "envTarget env" "envVietnamese env"
    using host by (simp_all add: plain_host_def)
  have shows1: "shows_composition kb (envCodeTable env) s pre ?h1"
    using shown by (simp add: shows_composition_def on_screen_def widths_fit_def)
  have replaced: "shows_composition kb (envCodeTable env) s pre (ReplaceComposition env ?c 0 ?h1)"
    by (rule ReplaceComposition_shows[OF deliv(1,2) shows1])
  have h': "h' = snd (CommitComposition env h)" by (simp add: r)
  show "commitStack (commitState h') \<noteq> []" "entryHistory en = inputHistory (commitState h)"
    "hookEngine h' = Reset (hookEngine h)"
    "text_of kb s h' = pre @ render (envCodeTable env) (entryText en)"
    "envCodeTable env \<noteq> Unicode \<longrightarrow> entryWidths en = encode_widths (envCodeTable env) (entryText en)"
    "previousComposition h \<noteq> [] \<longrightarrow> entryText en = fst (Commit (hookEngine h))"
    using word shows1 replaced unfolding en_def h'
    by (simp_all add: CommitComposition_def Commit_def Let_def DispatchCoordinator_eq[OF deliv(3)]
        last_PushEntry SetPushedToStack_def SetLeadingTriggersForCurrentWord_def Reset_def
        shows_composition_def widths_fit_def)
qed

lemma commit_and_replay:
  assumes "plain_host kb env" and "on_screen (envCodeTable env) pre h (text_of kb s h)"
    and "history_ok cfg h" and "\<not> HasActiveQuickConsonant (hookEngine h)"
    and "previousComposition h \<noteq> []" and "inputHistory (commitState h) \<noteq> []"
    and "CommitComposition env h = (restored, h1)"
  shows "text_of kb s h1 = pre @ render (envCodeTable env) (fst (Commit (hookEngine h)))"
    and "hookEngine (ReplayCommittedChars h1) = hookEngine h"
    and "inputHistory (commitState (ReplayCommittedChars h1)) = inputHistory (commitState h)"
    and "previousComposition (ReplayCommittedChars h1) = fst (Commit (hookEngine h))"
    and "widths_fit (envCodeTable env) (ReplayCommittedChars h1)"
proof -
  note res = CommitComposition_result[OF assms(1,2,4,6,7)]
  note top = ReplayCommittedChars_top[OF res(1) refl]
  have "config (hookEngine h) = cfg"
    using assms(3) by (simp add: history_ok_def config_replay newEngine_def)
  then show "hookEngine (ReplayCommittedChars h1) = hookEngine h"
    using assms(3) by (simp add: top res Reset_newEngine history_ok_def)
qed (use CommitComposition_result[OF assms(1,2,4,6,7)] assms(5) in
    \<open>simp_all add: ReplayCommittedChars_top[OF CommitComposition_result(1)[OF assms(1,2,4,6,7)] refl] widths_fit_def\<close>)

text \<open>C4: A committed word can be taken up again where it was left: after the commit the program shows
  the committed text in the code table in use, and the replay brings back the engine as it was before
  the commit, with the keys of the word, and with the hook knowing what is on the screen, also when
  the commit has restored the typed keys.
\<close>

theorem commit_then_replay:
  assumes "plain_host kb env" and "on_screen (envCodeTable env) pre h (text_of kb s h)"
    and "history_ok cfg h" and "\<not> HasActiveQuickConsonant (hookEngine h)"
    and "previousComposition h \<noteq> []" and "inputHistory (commitState h) \<noteq> []"
    and "CommitComposition env h = (restored, h1)"
  shows "text_of kb s h1 = pre @ render (envCodeTable env) (fst (Commit (hookEngine h))) \<and>
    hookEngine (ReplayCommittedChars h1) = hookEngine h \<and>
    inputHistory (commitState (ReplayCommittedChars h1)) = inputHistory (commitState h) \<and>
    previousComposition (ReplayCommittedChars h1) = fst (Commit (hookEngine h)) \<and>
    widths_fit (envCodeTable env) (ReplayCommittedChars h1)"
  using commit_and_replay[OF assms] by simp

subsection \<open>The way back through the keys\<close>

definition no_modifiers :: "HookEnv \<Rightarrow> bool" where
  "no_modifiers env \<longleftrightarrow> \<not> envCtrl env \<and> \<not> envAlt env \<and> \<not> envWin env"

text \<open>A host that takes synthetic keys at once, so that none is pending.\<close>

definition prompt_host :: "HookEnv \<Rightarrow> bool" where
  "prompt_host env \<longleftrightarrow> (\<forall>ev. envSynthCost env ev = 0) \<and> \<not> envSyncChannel env"

lemma prompt_pending [simp]:
  assumes "prompt_host env"
  shows "synthEventsPending (deliver env ev h) = synthEventsPending h"
    "synthEventsPending (RecordSynthDispatch env h) = synthEventsPending h"
    "synthEventsPending (mark_synth h) = synthEventsPending h"
    "synthEventsPending (InjectKey env vk h) = synthEventsPending h"
  using assms by (simp_all add: prompt_host_def deliver_def RecordSynthDispatch_def mark_synth_def InjectKey_def)

lemma prompt_Replace [simp]:
  assumes "prompt_host env"
  shows "synthEventsPending (ReplaceComposition env t vk h) = synthEventsPending h"
  using assms
  by (simp add: ReplaceComposition_def ReplaceUnicode_def ReplaceRaw_def ClipboardPaste_def Let_def)

lemma InjectKey_frame [simp]:
  "hookEngine (InjectKey env vk h) = hookEngine h" "commitState (InjectKey env vk h) = commitState h"
  by (simp_all add: InjectKey_def)

lemma ReplayCommittedChars_frame [simp]:
  "synthEventsPending (ReplayCommittedChars h) = synthEventsPending h"
  "outEvents (ReplayCommittedChars h) = outEvents h"
  by (simp_all add: ReplayCommittedChars_def Let_def)

lemma CommitComposition_undo:
  assumes "envVietnamese env" and "prompt_host env" and "\<not> HasActiveQuickConsonant (hookEngine h)"
    and "inputHistory (commitState h) \<noteq> []" and "CommitComposition env h = (restored, h')"
  shows "pushedToStack (commitState h')" "leadingTriggersForCurrentWord (commitState h') = 0"
    "synthEventsPending h' = synthEventsPending h"
  using assms(2-4) unfolding arg_cong[OF assms(5), of snd, symmetric, simplified]
  by (simp_all add: CommitComposition_def Commit_def Let_def DispatchCoordinator_eq[OF assms(1)]
      ClearWordState_def ClearHistory_def commit_state_defs)

text \<open>A key on the state and the text: through the commit of step 8, and through the undo machine.\<close>

definition commit_key :: "(vkey \<Rightarrow> wstring \<Rightarrow> wstring) \<Rightarrow> HookEnv \<Rightarrow> vkey \<Rightarrow> HookState \<times> wstring \<Rightarrow> HookState \<times> wstring" where
  "commit_key kb env vk st =
    (let (oc, h) = commit_trigger env vk ((fst st)\<lparr>outEvents := []\<rparr>); s = text_of kb (snd st) h
     in (h, if oc = Eat then s else kb vk s))"

definition undo_key :: "(vkey \<Rightarrow> wstring \<Rightarrow> wstring) \<Rightarrow> HookEnv \<Rightarrow> vkey \<Rightarrow> HookState \<times> wstring \<Rightarrow>
    KeyOutcome \<times> HookState \<times> wstring" where
  "undo_key kb env vk st =
    (let (oc, h) = HandleCommitUndoFsm env vk ((fst st)\<lparr>outEvents := []\<rparr>); s = text_of kb (snd st) h
     in (oc, h, if oc = Eat then s else kb vk s))"

text \<open>The states after the trigger and after the backspace, as far as the next key looks at them.\<close>

definition awaits_mark :: "UndoState \<Rightarrow> HookState \<Rightarrow> HookState \<Rightarrow> bool" where
  "awaits_mark u h h' \<longleftrightarrow>
    undoState (commitState h') = u \<and> commitStack (commitState h') \<noteq> [] \<and>
    last (commitStack (commitState h')) = last (commitStack (commitState h)) \<and>
    hookEngine h' = hookEngine h \<and> synthEventsPending h' = synthEventsPending h"

lemma saved_macro_buffer_out: "saved_macro_buffer env vk (h\<lparr>outEvents := x\<rparr>) = saved_macro_buffer env vk h"
  by (simp add: saved_macro_buffer_def Let_def)

lemma commit_key_ready:
  assumes "plain_host kb env" and "prompt_host env" and "synthEventsPending h = 0"
    and "\<not> HasActiveQuickConsonant (hookEngine h)" and "inputHistory (commitState h) \<noteq> []"
    and "\<not> is_navigation_trigger vk" and "saved_macro_buffer env vk h = []"
    and "CommitComposition env (h\<lparr>outEvents := []\<rparr>) = (restored, hc)"
    and "commit_key kb env vk (h, s) = (h1, s1)"
  shows "awaits_mark Ready hc h1 \<and> readyTime (commitState h1) = envNow env \<and>
    pendingTriggerCount (commitState h1) = 0 \<and> s1 = kb vk (text_of kb s hc)"
proof -
  have deliv: "\<forall>ev. envDelivers env ev" "envVietnamese env" "\<not> envSyncChannel env"
    using assms(1,2) by (simp_all add: plain_host_def prompt_host_def)
  have "commitStack (commitState hc) \<noteq> []"
    using assms(4,5) unfolding arg_cong[OF assms(8), of snd, symmetric, simplified]
    by (simp add: CommitComposition_def Commit_def Let_def DispatchCoordinator_eq[OF deliv(2)]
        last_PushEntry SetPushedToStack_def SetLeadingTriggersForCurrentWord_def)
  moreover note CommitComposition_undo[OF deliv(2) assms(2) _ _ assms(8)]
  moreover have "saved_macro_buffer env vk (h\<lparr>outEvents := []\<rparr>) = []"
    using assms(7) by (simp only: saved_macro_buffer_out)
  ultimately show ?thesis
    using assms(3-6,9) assms(8) deliv
    by (auto simp: commit_key_def commit_trigger_def Let_def awaits_mark_def SetCommitUndoReady_def
        commit_state_defs InjectKey_text prompt_pending[OF assms(2)] split: if_splits)
qed

lemma undo_key_backspace:
  assumes "prompt_host env" and "no_modifiers env" and "synthEventsPending h = 0"
    and "Count (hookEngine h) = 0" and "undoState (commitState h) = Ready"
    and "pendingTriggerCount (commitState h) = 0"
    and "envNow env - readyTime (commitState h) \<le> kReadyTimeoutMs"
    and "commitStack (commitState h) \<noteq> []" and "undo_key kb env 0x08 (h, s) = (oc, h', s')"
  shows "oc = PassKey" "awaits_mark Primed h h'" "s' = kb 0x08 s"
  using assms(1-6,8,9) leD[OF assms(7)]
  by (auto simp: undo_key_def HandleCommitUndoFsm_def fsm_modifiers_def no_modifiers_def fsm_return_def
      fsm_expire_def kCommitUndoTimeoutMs_def fsm_backspace_def Let_def awaits_mark_def prompt_host_def
      SetPrimed_def text_of_def)

lemma undo_key_mark:
  assumes "envVietnamese env" and "no_modifiers env" and "synthEventsPending h = 0"
    and "Count (hookEngine h) = 0" and "undoState (commitState h) = Primed"
    and "is_alpha_key mk" and "undo_exempt env mk"
  shows "HandleCommitUndoFsm env mk h =
    eaten (HandleAlphaKey env mk (envShift env) (envCaps env) (ReplayCommittedChars h))"
proof -
  have "mk \<noteq> 0x0D" using assms(6) by (auto simp: is_alpha_key_def)
  then show ?thesis
    using assms
    by (cases "eaten (HandleAlphaKey env mk (envShift env) (envCaps env) (ReplayCommittedChars h))")
      (simp add: HandleCommitUndoFsm_def fsm_modifiers_def no_modifiers_def fsm_return_def fsm_expire_def
        fsm_primed_def Let_def)
qed

text \<open>C7: A word that was committed by a space or a punctuation key is edited again by a backspace and a
  mark: the backspace goes to the program, which deletes the trigger; the mark is then applied to the
  engine of the committed word, and the program shows the result in place of the committed text.
\<close>

theorem mark_after_commit:
  assumes host: "\<And>env. env \<in> {e1, e2, e3} \<Longrightarrow>
      plain_host kb env \<and> prompt_host env \<and> no_modifiers env \<and> envCodeTable env = ct"
    and time: "envNow e2 - envNow e1 \<le> kReadyTimeoutMs"
    and word: "on_screen ct pre h s" "history_ok cfg h" "\<not> HasActiveQuickConsonant (hookEngine h)"
      "previousComposition h \<noteq> []" "inputHistory (commitState h) \<noteq> []" "synthEventsPending h = 0"
    and trigger: "\<not> is_navigation_trigger vk" "saved_macro_buffer e1 vk h = []" "\<And>t. kb 0x08 (kb vk t) = t"
    and mark: "is_alpha_key mk" "undo_exempt e3 mk"
    and run: "commit_key kb e1 vk (h, s) = (h1, s1)" "undo_key kb e2 0x08 (h1, s1) = (o2, h2, s2)"
      "undo_key kb e3 mk (h2, s2) = (o3, h3, s3)"
  shows "o2 = PassKey \<and> o3 \<noteq> Fallthrough \<and> on_screen ct pre h3 s3 \<and>
    (\<exists>ch. hookEngine h3 = PushChar ch (hookEngine h) \<and>
      inputHistory (commitState h3) = inputHistory (commitState h) @ [ch])"
proof -
  let ?h0 = "h\<lparr>outEvents := []\<rparr>"
  obtain restored hc where c: "CommitComposition e1 ?h0 = (restored, hc)" by fastforce
  have h0: "on_screen (envCodeTable e1) pre ?h0 (text_of kb s ?h0)" "history_ok cfg ?h0"
    "\<not> HasActiveQuickConsonant (hookEngine ?h0)" "previousComposition ?h0 \<noteq> []"
    "inputHistory (commitState ?h0) \<noteq> []" and p1: "plain_host kb e1" "prompt_host e1"
    using word host[of e1] by (simp_all add: on_screen_def widths_fit_def history_ok_def)
  note replay = commit_and_replay[OF p1(1) h0 c]
  have ready: "awaits_mark Ready hc h1" "readyTime (commitState h1) = envNow e1"
      "pendingTriggerCount (commitState h1) = 0" "s1 = kb vk (text_of kb s hc)"
    using commit_key_ready[OF p1 word(6,3,5) trigger(1,2) c run(1)] by auto
  have hc: "hookEngine hc = Reset (hookEngine h)" "synthEventsPending hc = 0"
    using CommitComposition_result(3)[OF p1(1) h0(1,3,5) c] CommitComposition_undo(3)[OF _ p1(2) h0(3,5) c]
      word(6) p1(1) by (simp_all add: plain_host_def)
  have empty: "Count (Reset (hookEngine h)) = 0" by (simp add: Count_def Reset_def)
  have bsp: "o2 = PassKey" "awaits_mark Primed h1 h2" "s2 = kb 0x08 s1"
    using undo_key_backspace[OF _ _ _ _ _ ready(3) _ _ run(2)] host[of e2] ready(1,2) hc empty time
    by (simp_all add: awaits_mark_def)
  let ?h2 = "h2\<lparr>outEvents := []\<rparr>" let ?r = "ReplayCommittedChars ?h2"
  have fsm: "HandleCommitUndoFsm e3 mk ?h2 = eaten (HandleAlphaKey e3 mk (envShift e3) (envCaps e3) ?r)"
    using host[of e3] bsp(2) ready(1) hc empty mark
    by (intro undo_key_mark) (simp_all add: awaits_mark_def plain_host_def)
  have stack: "commitStack (commitState hc) \<noteq> []"
    by (rule CommitComposition_result(1)[OF p1(1) h0(1,3,5) c])
  have same: "hookEngine ?r = hookEngine (ReplayCommittedChars hc)"
      "inputHistory (commitState ?r) = inputHistory (commitState (ReplayCommittedChars hc))"
      "previousComposition ?r = previousComposition (ReplayCommittedChars hc)"
      "previousEncodedWidths ?r = previousEncodedWidths (ReplayCommittedChars hc)"
    using bsp(2) ready(1) stack ReplayCommittedChars_top[of hc, OF stack refl]
      ReplayCommittedChars_top[of ?h2, OF _ refl]
    by (simp_all add: awaits_mark_def)
  have r: "hookEngine ?r = hookEngine h" "inputHistory (commitState ?r) = inputHistory (commitState h)"
      "previousComposition ?r = fst (Commit (hookEngine h))" "widths_fit ct ?r"
    using replay host[of e1] by (simp_all add: same widths_fit_def)
  have s2: "s2 = text_of kb s hc" by (simp add: bsp(3) ready(4) trigger(3))
  have out: "outEvents ?r = []" by simp
  have sc: "shows_composition kb (envCodeTable e3) s2 pre ?r"
    using r host[of e1] host[of e3] replay s2 by (simp add: shows_composition_def text_of_def)
  have ne: "Count (hookEngine ?r) = 0 \<Longrightarrow> previousComposition ?r = []"
    using r(1) word(1,4) by (simp add: on_screen_def Peek_empty)
  obtain taken h' where a: "HandleAlphaKey e3 mk (envShift e3) (envCaps e3) ?r = (taken, h')" by fastforce
  have p3: "plain_host kb e3" using host[of e3] by simp
  have o3: "o3 = (if taken then Eat else PassKey)" "h3 = h'"
      "s3 = (if taken then text_of kb s2 h' else kb mk (text_of kb s2 h'))"
    using run(3) fsm a by (auto simp: undo_key_def eaten_def Let_def split: if_splits)
  show ?thesis
    using HandleAlphaKey_shows[OF p3 mark(1) sc ne a] host[of e3] bsp(1) o3 r(1,2)
    by (auto simp: AppendHistory_def)
qed

end
