(* ===== verification/HookMacroLaws.thy ===== *)
theory HookMacroLaws
  imports HookWordLaws MacroLaws
begin

text \<open>
  The expansion of a macro on the screen, and concrete runs of the hook: one that shows the laws at
  work, and those in which the code loses step with the program in front of it.
\<close>

subsection \<open>The expansion on the screen\<close>

lemma ClipboardPaste_text:
  "\<forall>ev. envDelivers env ev \<Longrightarrow> text_of kb s (ClipboardPaste env t h) = text_of kb s h @ t"
  by (simp add: ClipboardPaste_def text_of_deliver)

lemma well_cut_tl: "well_cut (s # ss) \<Longrightarrow> well_cut ss \<and> (isReturn s \<longleftrightarrow> segText s = [])"
  by (cases ss) auto

lemma send_segments_text:
  assumes "\<forall>ev. envDelivers env ev" and "\<And>t. kb 0x0D t = t @ [13, 10]" and "well_cut ss"
  shows "text_of kb s (send_segments env n ss h) =
    take (length (text_of kb s h) - n) (text_of kb s h) @ concat (map segment_text ss)"
  using assms(3)
proof (induction ss arbitrary: n h)
  case Nil
  then show ?case using assms(1) by (simp add: ReplaceRaw_text)
next
  case (Cons g ss)
  have cut: "well_cut ss" "isReturn g \<longleftrightarrow> segText g = []" using well_cut_tl[OF Cons.prems] by auto
  show ?case
    using Cons.IH[OF cut(1)] cut(2) assms(1,2)
    by (auto simp: segment_text_def InjectKey_text ReplaceRaw_text)
qed

text \<open>C9: When a macro matches while its word is still being composed, the program shows the expansion
  in place of the word, encoded in the code table in use and with a new line for every escape,
  whether the expansion is typed or pasted; the text before the word is not touched.
\<close>

theorem macro_on_screen:
  assumes "\<forall>ev. envDelivers env ev" and "\<And>t. kb 0x0D t = t @ [13, 10]"
    and "on_screen (envCodeTable env) pre h (text_of kb s h)"
    and "previousComposition h \<noteq> []" and "\<not> macroCrossCommit h"
    and "TryExpandMacro env trig h = (r, h')" and "r \<noteq> NoMatch"
  shows "text_of kb s h' = pre @ concat (map segment_text (BuildSegments
    (expansion (Plan (macro_inputs env trig h) (envMapper env))) (envCodeTable env)))"
proof -
  let ?plan = "Plan (macro_inputs env trig h) (envMapper env)"
  obtain hit where hit: "find_macro (macro_inputs env trig h) = Some hit"
    using assms(6,7) by (auto simp: TryExpandMacro_def Plan_def emptyPlan_def Let_def split: option.splits)
  then have m: "matched ?plan" by (simp add: Plan_hit)
  have "bsCount ?plan = shown_width (macro_inputs env trig h)"
    unfolding Plan_hit[OF hit] using assms(4,5) by (simp add: erase_count_def macro_inputs_def)
  also have "\<dots> = length (render (envCodeTable env) (previousComposition h))"
    using assms(3) by (simp add: shown_width_def macro_inputs_def on_screen_def widths_fit_def render_def sum_widths)
  finally have bs: "bsCount ?plan = length (render (envCodeTable env) (previousComposition h))" .
  have shown: "text_of kb s h = pre @ render (envCodeTable env) (previousComposition h)"
    using assms(3) by (simp add: on_screen_def)
  have clip: "useClipboard ?plan \<Longrightarrow> envCodeTable env = Unicode"
    unfolding Plan_hit[OF hit] by (simp add: macro_inputs_def)
  have h': "text_of kb s h' =
      text_of kb s (if useClipboard ?plan
        then ClipboardPaste env (ExpandEscapesForClipboard (expansion ?plan))
               (if bsCount ?plan > 0 then ReplaceRaw env (bsCount ?plan) [] h else h)
        else send_segments env (bsCount ?plan) (BuildSegments (expansion ?plan) (envCodeTable env)) h)"
    using assms(6) m by (auto simp: TryExpandMacro_def Let_def)
  show ?thesis
  proof (cases "useClipboard ?plan")
    case True
    have "concat (map segment_text (BuildSegments (expansion ?plan) (envCodeTable env))) =
        ExpandEscapesForClipboard (expansion ?plan)"
      by (simp add: clip[OF True] BuildSegments_def segments_text)
    then show ?thesis
      unfolding h' using True assms(1) bs shown by (simp add: ClipboardPaste_text ReplaceRaw_text)
  next
    case False
    then show ?thesis
      unfolding h' using bs shown
      by (simp add: send_segments_text[where kb = kb, OF assms(1,2)] segments_well_cut BuildSegments_def)
  qed
qed

subsection \<open>Concrete runs\<close>

definition demo_env :: HookEnv where
  "demo_env =
    \<lparr>envVietnamese = True, envMethod = Telex, envCodeTable = Unicode, envConfig = defaultConfig,
     envAutoCaps = False, envMacroOn = False, envMacroEnglish = False, envAutoCapsMacro = False,
     envMacros = [], envSpaceKeys = [], envHotkeys = DefaultHotkeys, envShift = False, envCaps = False,
     envCtrl = False, envAlt = False, envWin = False,
     envVkChar = (\<lambda>vk. if is_alpha_key vk then vk + 32 else if vk = 0xBE then 46
                        else if vk \<le> 0x40 then vk else 0),
     envNow = 1000, envTarget = True, envMultiProcess = False, envBait = False, envSkipEmpty = False,
     envSyncChannel = False, envClipboardPaste = False, envEditPaste = False, envSettleMs = 30,
     envDelivers = (\<lambda>_. True), envSynthCost = (\<lambda>_. 0),
     envMapper = \<lparr>mapUpper = towupper, mapLower = towlower\<rparr>, envAnchor = None, envFormulaHost = False,
     envTsfApp = False, envExcluded = False, envStillExcluded = False\<rparr>"

text \<open>A program that types letters and spaces, and deletes at a backspace.\<close>

definition demo_kb :: "vkey \<Rightarrow> wstring \<Rightarrow> wstring" where
  "demo_kb vk s =
    (if vk = 0x08 then butlast s else if vk = 0x0D then s @ [13, 10]
     else if is_alpha_key vk then s @ [vk + 32] else if vk = 0xBE then s @ [46]
     else if vk \<le> 0x40 then s @ [vk] else s)"

lemma plain_demo: "plain_host demo_kb (demo_env\<lparr>envCodeTable := ct\<rparr>)"
  by (auto simp: plain_host_def demo_env_def demo_kb_def is_alpha_key_def alpha_char_def towlower_def)

text \<open>A word of one letter in VNI encoding, and the same word taken back by a backspace.\<close>

definition vni_env :: HookEnv where
  "vni_env = demo_env\<lparr>envCodeTable := VNIWindows\<rparr>"

lemma word_on_screen_witness:
  "\<exists>h s. fold (word_key (\<lambda>_. demo_kb)) [(vni_env, Letter 65), (vni_env, Mark 0x53 L_s), (vni_env, Erase)]
      (newHookState defaultConfig, [L_x]) = (h, s) \<and>
    s = [L_x] @ render VNIWindows (Peek (hookEngine h)) \<and> history_ok defaultConfig h"
proof -
  let ?ks = "[(vni_env, Letter 65), (vni_env, Mark 0x53 L_s), (vni_env, Erase)]"
  obtain h s where run: "fold (word_key (\<lambda>_. demo_kb)) ?ks (newHookState defaultConfig, [L_x]) = (h, s)"
    by fastforce
  have ok: "word_keys_ok (\<lambda>_. demo_kb) VNIWindows ?ks"
    using plain_demo[of VNIWindows] by (simp add: word_keys_ok_def vni_env_def is_alpha_key_def)
  have start: "on_screen VNIWindows [L_x] (newHookState defaultConfig) [L_x]"
    by (simp add: on_screen_def newHookState_def render_def widths_fit_def Peek_def ComposeAll_def newEngine_def)
  have hist: "history_ok defaultConfig (newHookState defaultConfig)"
    by (simp add: history_ok_def newHookState_def newCommitState_def)
  show ?thesis
    using word_on_screen[OF ok start hist run] run by blast
qed

definition one_letter :: HookState where
  "one_letter = (newHookState defaultConfig)
    \<lparr>hookEngine := PushChar L_a (newEngine defaultConfig), previousComposition := [L_a],
     commitState := newCommitState\<lparr>inputHistory := [L_a]\<rparr>\<rparr>"

lemma one_letter_engine:
  "Peek (PushChar L_a (newEngine defaultConfig)) = [L_a]"
  "\<not> HasActiveQuickConsonant (PushChar L_a (newEngine defaultConfig))"
  by code_simp+

lemma one_letter_shown: "on_screen Unicode [] one_letter [L_a]"
  by (simp add: on_screen_def one_letter_def render_def widths_fit_def one_letter_engine)

lemma one_letter_text: "text_of kb [L_a] one_letter = [L_a]"
  by (simp add: text_of_def one_letter_def newHookState_def)

lemma one_letter_facts:
  "history_ok defaultConfig one_letter" "\<not> HasActiveQuickConsonant (hookEngine one_letter)"
  "previousComposition one_letter \<noteq> []" "inputHistory (commitState one_letter) \<noteq> []"
  by (simp_all add: one_letter_def history_ok_def replay_step_def one_letter_engine)

lemma demo_Unicode: "envCodeTable demo_env = Unicode" "demo_env\<lparr>envCodeTable := Unicode\<rparr> = demo_env"
  by (simp_all add: demo_env_def)

lemma commit_then_replay_witness:
  "hookEngine (ReplayCommittedChars (snd (CommitComposition demo_env one_letter))) = hookEngine one_letter \<and>
   Peek (hookEngine one_letter) = [L_a]"
proof -
  have host: "plain_host demo_kb demo_env" using plain_demo[of Unicode] by (simp add: demo_Unicode)
  have shown: "on_screen (envCodeTable demo_env) [] one_letter (text_of demo_kb [L_a] one_letter)"
    using one_letter_shown by (simp add: demo_Unicode one_letter_text)
  show ?thesis
    using commit_then_replay[OF host shown one_letter_facts prod.collapse[symmetric]]
    by (simp add: one_letter_def one_letter_engine)
qed

lemma mark_after_commit_witness:
  "\<exists>h3 s3. snd (undo_key demo_kb demo_env 83 (snd (undo_key demo_kb demo_env 0x08
      (commit_key demo_kb demo_env 0x20 (one_letter, [L_a]))))) = (h3, s3) \<and>
    on_screen Unicode [] h3 s3 \<and> (\<exists>ch. inputHistory (commitState h3) = [L_a, ch])"
proof -
  have host: "plain_host demo_kb env \<and> prompt_host env \<and> no_modifiers env \<and> envCodeTable env = Unicode"
    if "env \<in> {demo_env, demo_env, demo_env}" for env
    using that plain_demo[of Unicode]
    by (simp add: demo_Unicode) (simp add: demo_env_def prompt_host_def no_modifiers_def)
  have time: "envNow demo_env - envNow demo_env \<le> kReadyTimeoutMs" by simp
  have pending: "synthEventsPending one_letter = 0" by (simp add: one_letter_def newHookState_def)
  have trig: "\<not> is_navigation_trigger 0x20" "saved_macro_buffer demo_env 0x20 one_letter = []"
    "\<And>t. demo_kb 0x08 (demo_kb 0x20 t) = t"
    by (simp_all add: is_navigation_trigger_def is_nav_key_def saved_macro_buffer_def demo_env_def demo_kb_def
        is_alpha_key_def)
  have mark: "is_alpha_key 83" "undo_exempt demo_env 83"
    by (simp_all add: is_alpha_key_def undo_exempt_def IsCommitUndoExemptKey_def isTelexModifierLetter_def
        demo_env_def Let_def)
  obtain h1 s1 where run1: "commit_key demo_kb demo_env 0x20 (one_letter, [L_a]) = (h1, s1)" by fastforce
  obtain o2 h2 s2 where run2: "undo_key demo_kb demo_env 0x08 (h1, s1) = (o2, h2, s2)" by (metis prod_cases3)
  obtain o3 h3 s3 where run3: "undo_key demo_kb demo_env 83 (h2, s2) = (o3, h3, s3)" by (metis prod_cases3)
  have hist: "inputHistory (commitState one_letter) = [L_a]" by (simp add: one_letter_def)
  show ?thesis
    using mark_after_commit[OF host time one_letter_shown one_letter_facts pending trig mark run1 run2 run3]
      run1 run2 run3 hist
    by auto
qed

lemma macro_on_screen_witness:
  "text_of demo_kb [L_a] (snd (TryExpandMacro (demo_env\<lparr>envMacros := [([L_a], [L_b, 92, L_n, L_c])]\<rparr>) 32
     (one_letter\<lparr>rawMacroBuffer := [L_a]\<rparr>))) = [L_b, 13, 10, L_c]"
proof -
  let ?env = "demo_env\<lparr>envMacros := [([L_a], [L_b, 92, L_n, L_c])]\<rparr>"
  let ?h = "one_letter\<lparr>rawMacroBuffer := [L_a]\<rparr>"
  have inputs: "macro_inputs ?env 32 ?h =
    \<lparr>planBuffer = [L_a], planComposition = [L_a], planWidths = [], planTable = map_of [([L_a], [L_b, 92, L_n, L_c])],
     planCrossCommit = False, planCodeTable = Unicode, planAutoCaps = False, planTrigger = 32,
     planClipboardThreshold = 200\<rparr>"
    by (simp add: macro_inputs_def one_letter_def newHookState_def demo_env_def)
  have plan: "Plan (macro_inputs ?env 32 ?h) m =
      \<lparr>matched = True, isPartOfMacro = False, bsCount = 1, expansion = [L_b, 92, L_n, L_c], useClipboard = False\<rparr>" for m
    unfolding inputs
    by (simp add: Plan_def find_macro_def find_either_def orElse_def erase_count_def shown_width_def LowerCopy_def)
  have r: "fst (TryExpandMacro ?env 32 ?h) \<noteq> NoMatch"
    by (simp add: TryExpandMacro_def plan Let_def)
  have kb: "demo_kb 0x0D t = t @ [13, 10]" for t by (simp add: demo_kb_def)
  have deliv: "\<forall>ev. envDelivers ?env ev" by (simp add: demo_env_def)
  have shown: "on_screen (envCodeTable ?env) [] ?h (text_of demo_kb [L_a] ?h)"
    using one_letter_shown one_letter_text[of demo_kb]
    by (simp add: on_screen_def widths_fit_def text_of_def demo_Unicode)
  have rest: "previousComposition ?h \<noteq> []" "\<not> macroCrossCommit ?h"
    by (simp_all add: one_letter_def newHookState_def)
  have seg: "concat (map segment_text (BuildSegments [L_b, 92, L_n, L_c] Unicode)) = [L_b, 13, 10, L_c]"
    by code_simp
  show ?thesis
    using macro_on_screen[where kb = demo_kb, OF deliv kb shown rest prod.collapse[symmetric] r] seg
    by (simp add: plan demo_Unicode)
qed

end
