(* ===== verification/HookFaults.thy ===== *)
theory HookFaults
  imports HookMacroLaws
begin

text \<open>
  Where the hook loses step with the program in front of it, each stated for every state in which it
  happens: the keys of a restored word stay in the history of the next word; a macro that spans a
  commit erases as many characters as keys were typed; a macro in English mode only works for the
  first word; in an encoding of two units per letter the restoration of the typed keys erases too
  little, and a key that was missed by the hook leaves the widths behind.
\<close>

subsection \<open>The history of a restored word\<close>

lemma Reset_Reset: "Reset (Reset e) = Reset e"
  by (simp add: Reset_def)

lemma HandleAlphaKey_history:
  assumes "envVietnamese env" and "is_alpha_key vk"
  shows "\<exists>ch. ch \<noteq> 0 \<and> ch \<noteq> kBackspaceMarker \<and>
    hookEngine (snd (HandleAlphaKey env vk sh cl h)) = PushChar ch (hookEngine h) \<and>
    commitState (snd (HandleAlphaKey env vk sh cl h)) = AppendHistory ch (commitState h)"
proof -
  obtain ch capped st where cap: "capitalise_letter (envAutoCaps env) (Count (hookEngine h) = 0) (envAnchor env)
      (autoCapState h) vk sh cl = (ch, capped, st)"
    by (metis prod_cases3)
  have stale: "hookEngine (clear_stale h) = hookEngine h" "commitState (clear_stale h) = commitState h" for h
    by (simp_all add: clear_stale_def)
  have "65 \<le> ch" using capitalise_letter_range[OF assms(2)] cap by (metis fst_conv)
  then show ?thesis
    by (intro exI[of _ ch])
      (auto simp: HandleAlphaKey_def Let_def cap DispatchCoordinator_eq[OF assms(1)] push_key_def stale)
qed

lemma HandleAlphaKey_plain_char:
  assumes "envVietnamese env" and "\<not> envAutoCaps env"
  shows "hookEngine (snd (HandleAlphaKey env vk sh cl h)) = PushChar (alpha_char vk sh cl) (hookEngine h)"
proof -
  have cap: "capitalise_letter (envAutoCaps env) e a st vk sh cl = (alpha_char vk sh cl, False, st)" for e a st
    using assms(2) by (simp add: capitalise_letter_def alpha_char_def Let_def)
  have stale: "hookEngine (clear_stale h) = hookEngine h" for h by (simp add: clear_stale_def)
  show ?thesis
    by (simp add: HandleAlphaKey_def Let_def cap DispatchCoordinator_eq[OF assms(1)] stale)
qed

text \<open>Letters typed one after the other, whatever is on the screen.\<close>

definition type_letters :: "HookEnv \<Rightarrow> vkey list \<Rightarrow> HookState \<Rightarrow> HookState" where
  "type_letters env vks h =
    fold (\<lambda>vk h. snd (HandleAlphaKey env vk (envShift env) (envCaps env) h)) vks h"

lemma type_letters_history:
  assumes "envVietnamese env" and "list_all is_alpha_key vks"
  shows "\<exists>new. length new = length vks \<and> kBackspaceMarker \<notin> set new \<and> 0 \<notin> set new \<and>
    hookEngine (type_letters env vks h) = fold replay_step new (hookEngine h) \<and>
    commitState (type_letters env vks h) = (commitState h)\<lparr>inputHistory := inputHistory (commitState h) @ new\<rparr>"
  using assms(2)
proof (induction vks arbitrary: h)
  case Nil
  show ?case by (simp add: type_letters_def)
next
  case (Cons vk vks)
  let ?h1 = "snd (HandleAlphaKey env vk (envShift env) (envCaps env) h)"
  obtain ch where ch: "ch \<noteq> 0" "ch \<noteq> kBackspaceMarker" "hookEngine ?h1 = PushChar ch (hookEngine h)"
      "commitState ?h1 = AppendHistory ch (commitState h)"
    using HandleAlphaKey_history[OF assms(1), of vk "envShift env" "envCaps env" h] Cons.prems by auto
  obtain new where new: "length new = length vks" "kBackspaceMarker \<notin> set new" "0 \<notin> set new"
      "hookEngine (type_letters env vks ?h1) = fold replay_step new (hookEngine ?h1)"
      "commitState (type_letters env vks ?h1) =
        (commitState ?h1)\<lparr>inputHistory := inputHistory (commitState ?h1) @ new\<rparr>"
    using Cons.IH[of ?h1] Cons.prems by auto
  have step: "type_letters env (vk # vks) h = type_letters env vks ?h1" by (simp add: type_letters_def)
  have "replay_step ch (hookEngine h) = PushChar ch (hookEngine h)" by (simp add: replay_step_def ch(2))
  then show ?case
    unfolding step using ch new
    by (intro exI[of _ "ch # new"]) (simp add: AppendHistory_def)
qed

lemma TryEscRestoreRaw_live:
  assumes "Count (hookEngine h) > 0" and "TryEscRestoreRaw env h = (Eat, h')"
  shows "hookEngine h' = Reset (hookEngine h)" "commitState h' = commitState h"
    "outEvents h' = outEvents h @ [OutReplace (Count (hookEngine h)) (PeekRaw (hookEngine h))]"
  using assms by (auto simp: TryEscRestoreRaw_def Let_def drop_macro_buffer_def deliver_def split: if_splits)

text \<open>C40: After the typed keys of a word were restored, its keys stay in the history. When the next word
  is committed and taken up again, the engine is not brought back to that word: it is run with the
  keys of the restored word first. (The word before the commit is the run of the new keys alone.)
\<close>

theorem restored_keys_stay_in_history:
  assumes "Count (hookEngine h) > 0" and "TryEscRestoreRaw env h = (Eat, h1)"
    and "envVietnamese env" and "list_all is_alpha_key vks" and "vks \<noteq> []"
    and "type_letters env vks h1 = h2" and "\<not> HasActiveQuickConsonant (hookEngine h2)"
    and "CommitComposition env h2 = (restored, h3)" and "config (hookEngine h) = cfg"
  shows "\<exists>new. length new = length vks \<and>
    hookEngine h2 = fold replay_step new (newEngine cfg) \<and>
    hookEngine (ReplayCommittedChars h3) =
      fold replay_step (inputHistory (commitState h) @ new) (newEngine cfg)"
proof -
  note esc = TryEscRestoreRaw_live[OF assms(1,2)]
  obtain new where new: "length new = length vks" "0 \<notin> set new"
      "hookEngine h2 = fold replay_step new (hookEngine h1)"
      "inputHistory (commitState h2) = inputHistory (commitState h1) @ new"
    using type_letters_history[OF assms(3,4), of h1] assms(6) by auto
  have h1: "hookEngine h1 = newEngine cfg"
    using esc(1) assms(9) by (simp add: Reset_newEngine)
  have hist: "inputHistory (commitState h2) = inputHistory (commitState h) @ new"
    using new(4) esc(2) by simp
  then have ne: "inputHistory (commitState h2) \<noteq> []" using new(1) assms(5) by auto
  have "commitStack (commitState h3) \<noteq> [] \<and>
      entryHistory (last (commitStack (commitState h3))) = inputHistory (commitState h2) \<and>
      hookEngine h3 = Reset (hookEngine h2)"
    using assms(7) ne unfolding arg_cong[OF assms(8), of snd, symmetric, simplified]
    by (simp add: CommitComposition_def Commit_def Let_def DispatchCoordinator_eq[OF assms(3)]
        last_PushEntry SetPushedToStack_def SetLeadingTriggersForCurrentWord_def Reset_Reset)
  moreover have "config (hookEngine h2) = cfg"
    using new(2,3) h1 by (simp add: config_replay newEngine_def)
  ultimately show ?thesis
    using new(1,3) h1 hist ReplayCommittedChars_top(1)[of h3, OF _ refl]
    by (intro exI[of _ new]) (simp add: Reset_newEngine)
qed

definition esc_letter :: HookState where
  "esc_letter = snd (TryEscRestoreRaw demo_env one_letter)"

lemma esc_letter_facts:
  "Count (hookEngine one_letter) > 0" "TryEscRestoreRaw demo_env one_letter = (Eat, esc_letter)"
proof -
  have raw: "Count (PushChar L_a (newEngine defaultConfig)) = 1" "PeekRaw (PushChar L_a (newEngine defaultConfig)) = [L_a]"
    by code_simp+
  then show "Count (hookEngine one_letter) > 0" by (simp add: one_letter_def)
  show "TryEscRestoreRaw demo_env one_letter = (Eat, esc_letter)"
    unfolding esc_letter_def
    by (simp add: TryEscRestoreRaw_def one_letter_def raw demo_env_def Let_def)
qed

lemma restored_keys_stay_in_history_witness:
  "\<exists>new. length new = 1 \<and>
    hookEngine (ReplayCommittedChars (snd (CommitComposition demo_env (type_letters demo_env [66] esc_letter)))) =
      fold replay_step ([L_a] @ new) (newEngine defaultConfig)"
proof -
  let ?h2 = "type_letters demo_env [66] esc_letter"
  have vn: "envVietnamese demo_env" "\<not> envAutoCaps demo_env" "envShift demo_env = False" "envCaps demo_env = False"
    by (simp_all add: demo_env_def)
  have reset: "hookEngine esc_letter = newEngine defaultConfig"
    using TryEscRestoreRaw_live(1)[OF esc_letter_facts]
    by (simp add: Reset_newEngine one_letter_def config_PushChar newEngine_def)
  have "hookEngine ?h2 = PushChar L_b (newEngine defaultConfig)"
    using HandleAlphaKey_plain_char[OF vn(1,2)]
    by (simp add: type_letters_def vn alpha_char_def towlower_def reset)
  moreover have "\<not> HasActiveQuickConsonant (PushChar L_b (newEngine defaultConfig))" by code_simp
  ultimately have q: "\<not> HasActiveQuickConsonant (hookEngine ?h2)" by simp
  have alpha: "list_all is_alpha_key [66]" "[66] \<noteq> ([] :: vkey list)" by (simp_all add: is_alpha_key_def)
  have cfg: "config (hookEngine one_letter) = defaultConfig"
    by (simp add: one_letter_def config_PushChar newEngine_def)
  have hist: "inputHistory (commitState one_letter) = [L_a]" by (simp add: one_letter_def)
  show ?thesis
    using restored_keys_stay_in_history[OF esc_letter_facts vn(1) alpha refl q prod.collapse[symmetric] cfg]
    unfolding hist by auto
qed

subsection \<open>Macros that span a commit\<close>

text \<open>C39: A macro whose key spans a commit erases one unit for every key that was typed. When the words
  on the screen are shorter than the keys, because the engine has composed letters from them, the
  expansion also replaces the end of the text before them.
\<close>

theorem cross_commit_macro_erases_text:
  assumes "\<forall>ev. envDelivers env ev" and "\<And>t. kb 0x0D t = t @ [13, 10]"
    and "macroCrossCommit h" and "map_of (envMacros env) (rawMacroBuffer h) = Some e"
    and "text_of kb s h = pre @ shown" and "length shown \<le> length (rawMacroBuffer h)"
    and "TryExpandMacro env 32 h = (r, h')"
  shows "r = ExpandedPassTrigger \<and>
    text_of kb s h' = take (length pre - (length (rawMacroBuffer h) - length shown)) pre @
      concat (map segment_text (BuildSegments e (envCodeTable env)))"
proof -
  let ?plan = "Plan (macro_inputs env 32 h) (envMapper env)"
  have hit: "find_macro (macro_inputs env 32 h) =
      Some \<lparr>hitText = e, hitExact = True, hitViaComposition = False, hitPart = False\<rparr>"
    using assms(4) by (simp add: find_macro_def find_either_def orElse_def macro_inputs_def Let_def)
  have plan: "?plan = \<lparr>matched = True, isPartOfMacro = False, bsCount = length (rawMacroBuffer h),
      expansion = e, useClipboard = (envCodeTable env = Unicode \<and> length e > 200)\<rparr>"
    using assms(3) unfolding Plan_def hit
    by (simp add: Let_def erase_count_def buffer_width_def macro_inputs_def)
  have paste: "envCodeTable env = Unicode \<Longrightarrow>
      concat (map segment_text (BuildSegments e (envCodeTable env))) = ExpandEscapesForClipboard e"
    by (simp add: BuildSegments_def segments_text)
  have typed: "text_of kb s (send_segments env n (BuildSegments e ct) h) =
      take (length (text_of kb s h) - n) (text_of kb s h) @ concat (map segment_text (BuildSegments e ct))" for n ct
    by (rule send_segments_text[where kb = kb, OF assms(1,2)])
      (simp add: BuildSegments_def segments_well_cut)
  have "length pre + length shown - length (rawMacroBuffer h) =
      length pre - (length (rawMacroBuffer h) - length shown)"
    using assms(6) by simp
  then show ?thesis
    using assms(1,5,6,7) paste typed
    by (auto simp: TryExpandMacro_def plan Let_def ClipboardPaste_text ReplaceRaw_text split: if_splits)
qed

text \<open>The key \<open>ddi.hn\<close>, which the screen shows in five letters, eats the letter before it.\<close>

lemma cross_commit_macro_erases_text_witness:
  "text_of demo_kb [L_x, L_y, L_dstroke, L_i, 46, L_h, L_n]
     (snd (TryExpandMacro (demo_env\<lparr>envMacros := [([L_d, L_d, L_i, 46, L_h, L_n], [L_b])]\<rparr>) 32
       ((newHookState defaultConfig)\<lparr>rawMacroBuffer := [L_d, L_d, L_i, 46, L_h, L_n], macroCrossCommit := True\<rparr>)))
   = [L_x, L_b]"
proof -
  let ?env = "demo_env\<lparr>envMacros := [([L_d, L_d, L_i, 46, L_h, L_n], [L_b])]\<rparr>"
  let ?h = "(newHookState defaultConfig)\<lparr>rawMacroBuffer := [L_d, L_d, L_i, 46, L_h, L_n], macroCrossCommit := True\<rparr>"
  let ?s = "[L_x, L_y, L_dstroke, L_i, 46, L_h, L_n]"
  have hyp: "\<forall>ev. envDelivers ?env ev" "\<And>t. demo_kb 0x0D t = t @ [13, 10]" "macroCrossCommit ?h"
    "map_of (envMacros ?env) (rawMacroBuffer ?h) = Some [L_b]"
    "text_of demo_kb ?s ?h = [L_x, L_y] @ [L_dstroke, L_i, 46, L_h, L_n]"
    "length [L_dstroke, L_i, 46, L_h, L_n] \<le> length (rawMacroBuffer ?h)"
    by (simp_all add: demo_env_def demo_kb_def newHookState_def text_of_def)
  have seg: "concat (map segment_text (BuildSegments [L_b] Unicode)) = [L_b]" by code_simp
  show ?thesis
    using cross_commit_macro_erases_text[where kb = demo_kb, OF hyp prod.collapse[symmetric]] seg
    by (simp add: demo_Unicode)
qed

subsection \<open>Macros in English mode\<close>

text \<open>A letter, and a space, as \<open>ProcessKeyDown\<close> hands them to the macro feature.\<close>

definition letter_ctx :: "vkey \<Rightarrow> KeyContext" where
  "letter_ctx vk =
    \<lparr>keyVk = vk, keyChar = 0, keyShift = False, keyCapsLock = False, keyCtrl = False, keyAlt = False,
     keyWin = False, sessionPrevious = [], sessionRendered = [], sessionRaw = [], keyReinjectVk = 0\<rparr>"

definition english_word :: "HookEnv \<Rightarrow> vkey list \<Rightarrow> HookState \<Rightarrow> HookState" where
  "english_word env vks h =
    snd (HandleMacro env (letter_ctx 0x20) (fold (\<lambda>vk h. snd (HandleMacro env (letter_ctx vk) h)) vks h))"

definition english_macros_on :: "HookEnv \<Rightarrow> bool" where
  "english_macros_on env \<longleftrightarrow>
    \<not> envVietnamese env \<and> envMacroOn env \<and> envMacroEnglish env \<and> envVkChar env 0x20 = 32 \<and>
    macroTriggerSpace (envConfig env) \<and> \<not> Matches SkipMacro 0x20 0 False False (envHotkeys env)"

lemma english_letters:
  assumes "english_macros_on env" and "list_all is_alpha_key vks"
  shows "fold (\<lambda>vk h. snd (HandleMacro env (letter_ctx vk) h)) vks h =
    h\<lparr>rawMacroBuffer := rawMacroBuffer h @ map towlower vks\<rparr>"
  using assms(2)
proof (induction vks arbitrary: h)
  case (Cons vk vks)
  then show ?case
    using assms(1)
    by (simp add: HandleMacro_def english_macros_on_def english_macro_def letter_ctx_def Let_def
        track_letter_def alpha_char_def)
qed simp

lemma english_space:
  assumes "english_macros_on env" and "\<not> tempMacroOff h" and "rawMacroBuffer h \<noteq> []"
  shows "HandleMacro env (letter_ctx 0x20) h = after_expansion env 0x20 MacroPass (TryExpandMacro env 32 h)"
  using assms
  by (simp add: HandleMacro_def english_macros_on_def english_macro_def letter_ctx_def Let_def is_alpha_key_def
      macro_hotkey_def ComputeModMask_def IsCommitTrigger_def track_trigger_def IsMacroTrigger_def)

lemma no_entry_no_match:
  assumes "map_of (envMacros env) (rawMacroBuffer h) = None"
    and "LowerCopy (rawMacroBuffer h) = rawMacroBuffer h" and "previousComposition h = []"
  shows "TryExpandMacro env 32 h = (NoMatch, h)"
  using assms
  by (simp add: TryExpandMacro_def Plan_def find_macro_def find_either_def orElse_def macro_inputs_def Let_def
      emptyPlan_def)

lemma english_word_unmatched:
  assumes "english_macros_on env" and "list_all is_alpha_key vks" and "vks \<noteq> []"
    and "\<not> tempMacroOff h" and "previousComposition h = []" and "LowerCopy (rawMacroBuffer h) = rawMacroBuffer h"
    and "map_of (envMacros env) (rawMacroBuffer h @ map towlower vks) = None"
  shows "english_word env vks h = h\<lparr>rawMacroBuffer := rawMacroBuffer h @ map towlower vks\<rparr>"
proof -
  let ?h = "h\<lparr>rawMacroBuffer := rawMacroBuffer h @ map towlower vks\<rparr>"
  have "TryExpandMacro env 32 ?h = (NoMatch, ?h)"
    by (rule no_entry_no_match) (use assms in \<open>simp_all add: LowerCopy_def\<close>)
  then show ?thesis
    using english_space[OF assms(1), of ?h] assms(3,4)
    by (simp add: english_word_def english_letters[OF assms(1,2)] after_expansion_def)
qed

text \<open>In English mode the keys of a word that is no macro stay in the buffer after the space. The next
  word is looked up together with them, so a macro that follows another word is not expanded: nothing
  is sent to the program, although the table has the key.
\<close>

theorem english_macro_only_first_word:
  assumes "english_macros_on env" and "list_all is_alpha_key ws" and "list_all is_alpha_key ks"
    and "ws \<noteq> []" and "ks \<noteq> []" and "\<not> tempMacroOff h" and "previousComposition h = []"
    and "rawMacroBuffer h = []"
    and "map_of (envMacros env) (map towlower ws) = None"
    and "map_of (envMacros env) (map towlower ws @ map towlower ks) = None"
    and "map_of (envMacros env) (map towlower ks) = Some e"
  shows "english_word env ks (english_word env ws h) =
      h\<lparr>rawMacroBuffer := map towlower ws @ map towlower ks\<rparr> \<and>
    fst (TryExpandMacro env 32 (h\<lparr>rawMacroBuffer := map towlower ks\<rparr>)) = ExpandedPassTrigger"
proof -
  let ?h1 = "h\<lparr>rawMacroBuffer := map towlower ws\<rparr>"
  have one: "english_word env ws h = ?h1"
    using english_word_unmatched[OF assms(1,2,4,6,7)] assms(8,9) by (simp add: LowerCopy_def)
  have "english_word env ks ?h1 = ?h1\<lparr>rawMacroBuffer := rawMacroBuffer ?h1 @ map towlower ks\<rparr>"
    using assms by (intro english_word_unmatched) (simp_all add: LowerCopy_def)
  moreover have "fst (TryExpandMacro env 32 (h\<lparr>rawMacroBuffer := map towlower ks\<rparr>)) = ExpandedPassTrigger"
    using assms(11)
    by (simp add: TryExpandMacro_def Plan_def find_macro_def find_either_def orElse_def macro_inputs_def Let_def)
  ultimately show ?thesis using one by simp
qed

lemma english_macro_only_first_word_witness:
  "let env = demo_env\<lparr>envVietnamese := False, envMacroOn := True, envMacroEnglish := True,
                      envMacros := [([L_b, L_t, L_w], [L_b, L_y])]\<rparr>;
       h = newHookState defaultConfig
   in outEvents (english_word env [66, 84, 87] (english_word env [72, 73] h)) = [] \<and>
      fst (TryExpandMacro env 32 (h\<lparr>rawMacroBuffer := [L_b, L_t, L_w]\<rparr>)) = ExpandedPassTrigger"
proof -
  let ?env = "demo_env\<lparr>envVietnamese := False, envMacroOn := True, envMacroEnglish := True,
                      envMacros := [([L_b, L_t, L_w], [L_b, L_y])]\<rparr>"
  let ?h = "newHookState defaultConfig"
  have "\<not> Matches SkipMacro 0x20 0 False False DefaultHotkeys" by code_simp
  then have on: "english_macros_on ?env"
    by (simp add: english_macros_on_def demo_env_def defaultConfig_def is_alpha_key_def)
  have low: "map towlower [72, 73] = [L_h, L_i]" "map towlower [66, 84, 87] = [L_b, L_t, L_w]"
    by (simp_all add: towlower_def)
  have rest: "list_all is_alpha_key [72, 73]" "list_all is_alpha_key [66, 84, 87]" "[72, 73] \<noteq> ([] :: vkey list)"
    "[66, 84, 87] \<noteq> ([] :: vkey list)" "\<not> tempMacroOff ?h" "previousComposition ?h = []" "rawMacroBuffer ?h = []"
    "map_of (envMacros ?env) (map towlower [72, 73]) = None"
    "map_of (envMacros ?env) (map towlower [72, 73] @ map towlower [66, 84, 87]) = None"
    "map_of (envMacros ?env) (map towlower [66, 84, 87]) = Some [L_b, L_y]"
    by (simp_all only: low) (simp_all add: is_alpha_key_def newHookState_def)
  show ?thesis
    using english_macro_only_first_word[OF on rest] unfolding low Let_def
    by (simp add: newHookState_def)
qed

subsection \<open>Encodings of two units per letter\<close>

text \<open>The live restoration erases as many units as there are letters, whatever their widths.\<close>

lemma esc_restore_wide_letters:
  assumes "\<forall>ev. envDelivers env ev" and "on_screen (envCodeTable env) pre h (text_of kb s h)"
    and "Count (hookEngine h) > 0" and "TryEscRestoreRaw env h = (Eat, h')"
  shows "text_of kb s h' =
    (let shown = pre @ render (envCodeTable env) (Peek (hookEngine h))
     in take (length shown - Count (hookEngine h)) shown @ PeekRaw (hookEngine h))"
proof -
  have "text_of kb s h' = fold (screen_step kb) (outEvents h') s" by (simp add: text_of_def)
  also have "\<dots> = screen_step kb (OutReplace (Count (hookEngine h)) (PeekRaw (hookEngine h))) (text_of kb s h)"
    by (simp add: TryEscRestoreRaw_live(3)[OF assms(3,4)] text_of_def)
  finally show ?thesis using on_screen_Peek[OF assms(2)] by (simp add: Let_def)
qed

text \<open>A key the hook has missed is taken into the composition without its width.\<close>

lemma ghost_char_leaves_widths:
  assumes "0 < ch" and "ch \<le> 127" and "widths_fit ct h" and "ct \<noteq> Unicode"
    and "previousComposition h = []" and "Peek (PushChar ch (hookEngine h)) \<noteq> []"
  shows "\<not> widths_fit ct (HandleGhostChar True ch h)"
proof -
  have "previousEncodedWidths h = []" using assms(3-5) by (simp add: widths_fit_def)
  moreover have "clear_stale h = h" using assms(5) by (simp add: clear_stale_def)
  ultimately show ?thesis
    using assms(1,2,4,6)
    by (simp add: HandleGhostChar_def widths_fit_def Let_def encode_widths_def)
qed

end
