(* ===== verification/SharedState.thy ===== *)
theory SharedState
  imports KeystrokeDecisions
begin

text \<open>
  The structure the processes of the program share, \<open>src/core/ipc/SharedState.h\<close>: the settings and
  flags the main program publishes, their encoding in bits and bytes, and the context a text service
  publishes for the hook (the anchor). The byte array of reserved space is a list of 1024 bytes; the
  padding bytes of the anchor are never read.
\<close>

unbundle bit_operations_syntax

subsection \<open>Flags\<close>

abbreviation VIETNAMESE_MODE :: u32 where "VIETNAMESE_MODE \<equiv> 0x0001"
abbreviation ENGINE_ENABLED :: u32 where "ENGINE_ENABLED \<equiv> 0x0002"
abbreviation TSF_ACTIVE :: u32 where "TSF_ACTIVE \<equiv> 0x0008"
abbreviation TSF_READONLY :: u32 where "TSF_READONLY \<equiv> 0x0010"
abbreviation TSF_ABI_MISMATCH :: u32 where "TSF_ABI_MISMATCH \<equiv> 0x0020"
abbreviation TSF_TIP_ACTIVE :: u32 where "TSF_TIP_ACTIVE \<equiv> 0x0100"

abbreviation MODERN_ORTHO :: u32 where "MODERN_ORTHO \<equiv> 0x0001"
abbreviation AUTO_CAPS :: u32 where "AUTO_CAPS \<equiv> 0x0002"
abbreviation ALLOW_ZWJF :: u32 where "ALLOW_ZWJF \<equiv> 0x0004"
abbreviation AUTO_RESTORE :: u32 where "AUTO_RESTORE \<equiv> 0x0008"
abbreviation CJK_AUTO_SWITCH :: u32 where "CJK_AUTO_SWITCH \<equiv> 0x0010"
abbreviation ESC_RESTORE_RAW :: u32 where "ESC_RESTORE_RAW \<equiv> 0x0020"
abbreviation BEEP_ON_SWITCH :: u32 where "BEEP_ON_SWITCH \<equiv> 0x0080"
abbreviation MACRO_ENABLED :: u32 where "MACRO_ENABLED \<equiv> 0x0100"
abbreviation MACRO_IN_ENGLISH :: u32 where "MACRO_IN_ENGLISH \<equiv> 0x0200"
abbreviation QUICK_CONSONANT :: u32 where "QUICK_CONSONANT \<equiv> 0x0400"
abbreviation QUICK_START_CONSONANT :: u32 where "QUICK_START_CONSONANT \<equiv> 0x0800"
abbreviation QUICK_END_CONSONANT :: u32 where "QUICK_END_CONSONANT \<equiv> 0x1000"
abbreviation SMART_SWITCH :: u32 where "SMART_SWITCH \<equiv> 0x4000"
abbreviation EXCLUDE_APPS :: u32 where "EXCLUDE_APPS \<equiv> 0x8000"
abbreviation AUTO_CAPS_MACRO :: u32 where "AUTO_CAPS_MACRO \<equiv> 0x00010000"
abbreviation ALLOW_ENGLISH_BYPASS :: u32 where "ALLOW_ENGLISH_BYPASS \<equiv> 0x00020000"
abbreviation DEBUG_LOG_ENABLED :: u32 where "DEBUG_LOG_ENABLED \<equiv> 0x00040000"
abbreviation SUGGEST_KEEP_CHARS :: u32 where "SUGGEST_KEEP_CHARS \<equiv> 0x00080000"

subsection \<open>The anchor\<close>

record HookContextAnchor =
  ancGeneration :: u32
  ancAvailable :: u8
  ancSentenceStart :: u8
  ancLineStart :: u8
  ancWordStart :: u8
  ancSyllableLen :: u8
  ancSyllable :: "u16 list"

definition zeroAnchor :: HookContextAnchor where
  "zeroAnchor = \<lparr>ancGeneration = 0, ancAvailable = 0, ancSentenceStart = 0, ancLineStart = 0,
     ancWordStart = 0, ancSyllableLen = 0, ancSyllable = replicate 16 0\<rparr>"

definition is_blank :: "u16 \<Rightarrow> bool" where
  "is_blank c \<longleftrightarrow> c = 32 \<or> c = 9 \<or> c = 10 \<or> c = 13"

text \<open>The loop that looks for the begin of the word in front of index \<open>i\<close>.\<close>

fun word_begin :: "u16 list \<Rightarrow> nat \<Rightarrow> nat" where
  "word_begin preceding 0 = 0"
| "word_begin preceding (Suc i) = (if is_blank (preceding ! i) then Suc i else word_begin preceding i)"

definition anchor_starts :: "CapTrigger \<Rightarrow> HookContextAnchor \<Rightarrow> HookContextAnchor" where
  "anchor_starts trig out =
    (case trig of
       DocStart \<Rightarrow> out\<lparr>ancSentenceStart := 1, ancLineStart := 1\<rparr>
     | LineStart \<Rightarrow> out\<lparr>ancSentenceStart := 0, ancLineStart := 1\<rparr>
     | SentenceEnd \<Rightarrow> out\<lparr>ancSentenceStart := 1, ancLineStart := 0\<rparr>
     | CapNone \<Rightarrow> out\<lparr>ancSentenceStart := 0, ancLineStart := 0\<rparr>)"

text \<open>A null pointer and a length of zero are the empty list.\<close>

definition DeriveAnchorFromPreceding :: "u16 list \<Rightarrow> HookContextAnchor \<Rightarrow> HookContextAnchor" where
  "DeriveAnchorFromPreceding preceding out =
    (let out = out\<lparr>ancSentenceStart := 1, ancLineStart := 1, ancWordStart := 1, ancSyllableLen := 0,
                   ancSyllable := map (\<lambda>_. 0) (ancSyllable out)\<rparr>
     in if preceding = [] then out
        else
          (let out = out\<lparr>ancWordStart := if is_blank (last preceding) then 1 else 0\<rparr>;
               out = anchor_starts (ClassifyCapTrigger (map uint preceding)) out
           in if ancWordStart out \<noteq> 0 then out
              else
                (let wordEnd = length preceding;
                     wordBegin = word_begin preceding wordEnd;
                     wordBegin = (if wordEnd - wordBegin > 16 then wordEnd - 16 else wordBegin);
                     wordLen = wordEnd - wordBegin
                 in out\<lparr>ancSyllable :=
                          fold (\<lambda>k s. s[k := preceding ! (wordBegin + k)]) [0..<wordLen] (ancSyllable out),
                        ancSyllableLen := of_nat wordLen\<rparr>)))"

subsection \<open>The structure\<close>

record SharedState =
  shMagic :: u32
  shVersion :: u32
  shSize :: u32
  shEpoch :: u32
  shFlags :: u32
  shInputMethod :: u8
  shSpellCheck :: u8
  shOptimize :: u8
  shFeatures0 :: u8
  shFeatures1 :: u8
  shExtFeatures :: u8
  shCodeTable :: u8
  shHotkeyMods :: u8
  shHotkeyLo :: u8
  shHotkeyHi :: u8
  shConvertMods :: u8
  shConvertLo :: u8
  shConvertHi :: u8
  shConfigGeneration :: u8
  shDiagFlags :: u8
  shReserved :: "u8 list"
  shAnchor :: HookContextAnchor

abbreviation MAGIC_VALUE :: u32 where "MAGIC_VALUE \<equiv> 0x59454B4E"
abbreviation CURRENT_VERSION :: u32 where "CURRENT_VERSION \<equiv> 4"
abbreviation kReservedSize :: nat where "kReservedSize \<equiv> 1024"

text \<open>\<open>SharedState{}\<close>: all bytes zero.\<close>

definition zeroState :: SharedState where
  "zeroState =
    \<lparr>shMagic = 0, shVersion = 0, shSize = 0, shEpoch = 0, shFlags = 0, shInputMethod = 0,
     shSpellCheck = 0, shOptimize = 0, shFeatures0 = 0, shFeatures1 = 0, shExtFeatures = 0,
     shCodeTable = 0, shHotkeyMods = 0, shHotkeyLo = 0, shHotkeyHi = 0, shConvertMods = 0,
     shConvertLo = 0, shConvertHi = 0, shConfigGeneration = 0, shDiagFlags = 0,
     shReserved = replicate kReservedSize 0, shAnchor = zeroAnchor\<rparr>"

definition IsValid :: "SharedState \<Rightarrow> bool" where
  "IsValid s \<longleftrightarrow> shMagic s = MAGIC_VALUE \<and> shVersion s \<le> CURRENT_VERSION \<and> shSize s \<ge> 24"

definition GetFeatureFlags :: "SharedState \<Rightarrow> u32" where
  "GetFeatureFlags s =
    ucast (shFeatures0 s) OR push_bit 8 (ucast (shFeatures1 s)) OR push_bit 16 (ucast (shExtFeatures s))"

definition SetFeatureFlags :: "u32 \<Rightarrow> SharedState \<Rightarrow> SharedState" where
  "SetFeatureFlags ff s =
    s\<lparr>shFeatures0 := ucast ff, shFeatures1 := ucast (drop_bit 8 ff), shExtFeatures := ucast (drop_bit 16 ff)\<rparr>"

definition SetHotkey :: "HotkeyConfig \<Rightarrow> SharedState \<Rightarrow> SharedState" where
  "SetHotkey hk s =
    s\<lparr>shHotkeyMods := (if hkCtrl hk then 1 else 0) OR (if hkShift hk then 2 else 0) OR
                     (if hkAlt hk then 4 else 0) OR (if hkWin hk then 8 else 0),
      shHotkeyLo := ucast (hkVk hk), shHotkeyHi := ucast (drop_bit 8 (hkVk hk))\<rparr>"

definition GetHotkey :: "SharedState \<Rightarrow> HotkeyConfig" where
  "GetHotkey s =
    \<lparr>hkCtrl = (shHotkeyMods s AND 1 \<noteq> 0), hkShift = (shHotkeyMods s AND 2 \<noteq> 0),
     hkAlt = (shHotkeyMods s AND 4 \<noteq> 0), hkWin = (shHotkeyMods s AND 8 \<noteq> 0),
     hkVk = ucast (shHotkeyLo s) OR push_bit 8 (ucast (shHotkeyHi s))\<rparr>"

definition InitDefaults :: "SharedState \<Rightarrow> SharedState" where
  "InitDefaults s =
    (let s = s\<lparr>shMagic := MAGIC_VALUE, shVersion := CURRENT_VERSION, shSize := 1104, shEpoch := 0,
               shFlags := VIETNAMESE_MODE OR ENGINE_ENABLED, shInputMethod := 0, shSpellCheck := 0,
               shOptimize := 0\<rparr>;
         s = SetFeatureFlags (ALLOW_ZWJF OR MODERN_ORTHO) s
     in s\<lparr>shCodeTable := 0, shHotkeyMods := 0, shHotkeyLo := 0, shHotkeyHi := 0, shConvertMods := 0,
          shConvertLo := 0, shConvertHi := 0, shConfigGeneration := 0, shDiagFlags := 0,
          shReserved := map (\<lambda>_. 0) (shReserved s), shAnchor := zeroAnchor\<rparr>)"

subsection \<open>The settings in bits\<close>

definition EncodeFeatureFlags :: "TypingConfig \<Rightarrow> u32" where
  "EncodeFeatureFlags cfg =
    (let f = 0;
         f = (if modernOrtho cfg then f OR MODERN_ORTHO else f);
         f = (if autoCaps cfg then f OR AUTO_CAPS else f);
         f = (if allowZwjf cfg then f OR ALLOW_ZWJF else f);
         f = (if autoRestoreEnabled cfg then f OR AUTO_RESTORE else f);
         f = (if cjkAutoSwitch cfg then f OR CJK_AUTO_SWITCH else f);
         f = (if escRestoreRawEnabled cfg then f OR ESC_RESTORE_RAW else f);
         f = (if beepOnSwitch cfg then f OR BEEP_ON_SWITCH else f);
         f = (if macroEnabled cfg then f OR MACRO_ENABLED else f);
         f = (if macroInEnglish cfg then f OR MACRO_IN_ENGLISH else f);
         f = (if quickConsonant cfg then f OR QUICK_CONSONANT else f);
         f = (if quickStartConsonant cfg then f OR QUICK_START_CONSONANT else f);
         f = (if quickEndConsonant cfg then f OR QUICK_END_CONSONANT else f);
         f = (if smartSwitch cfg then f OR SMART_SWITCH else f);
         f = (if excludeApps cfg then f OR EXCLUDE_APPS else f);
         f = (if autoCapsMacro cfg then f OR AUTO_CAPS_MACRO else f);
         f = (if allowEnglishBypass cfg then f OR ALLOW_ENGLISH_BYPASS else f);
         f = (if debugLogEnabled cfg then f OR DEBUG_LOG_ENABLED else f)
     in if suggestKeepChars cfg then f OR SUGGEST_KEEP_CHARS else f)"

definition DecodeFeatureFlags :: "u32 \<Rightarrow> TypingConfig \<Rightarrow> TypingConfig" where
  "DecodeFeatureFlags f cfg =
    cfg\<lparr>modernOrtho := f AND MODERN_ORTHO \<noteq> 0, autoCaps := f AND AUTO_CAPS \<noteq> 0,
      allowZwjf := f AND ALLOW_ZWJF \<noteq> 0, autoRestoreEnabled := f AND AUTO_RESTORE \<noteq> 0,
      cjkAutoSwitch := f AND CJK_AUTO_SWITCH \<noteq> 0, escRestoreRawEnabled := f AND ESC_RESTORE_RAW \<noteq> 0,
      beepOnSwitch := f AND BEEP_ON_SWITCH \<noteq> 0, macroEnabled := f AND MACRO_ENABLED \<noteq> 0,
      macroInEnglish := f AND MACRO_IN_ENGLISH \<noteq> 0, quickConsonant := f AND QUICK_CONSONANT \<noteq> 0,
      quickStartConsonant := f AND QUICK_START_CONSONANT \<noteq> 0,
      quickEndConsonant := f AND QUICK_END_CONSONANT \<noteq> 0, smartSwitch := f AND SMART_SWITCH \<noteq> 0,
      excludeApps := f AND EXCLUDE_APPS \<noteq> 0, autoCapsMacro := f AND AUTO_CAPS_MACRO \<noteq> 0,
      allowEnglishBypass := f AND ALLOW_ENGLISH_BYPASS \<noteq> 0,
      debugLogEnabled := f AND DEBUG_LOG_ENABLED \<noteq> 0, suggestKeepChars := f AND SUGGEST_KEEP_CHARS \<noteq> 0\<rparr>"

end
