(* ===== verification/SharedStateLaws.thy ===== *)
theory SharedStateLaws
  imports SharedState
begin

text \<open>
  Laws of the shared structure: settings and hotkeys survive their encoding in bytes, the defaults
  are valid, an empty structure is not, and the anchor describes the text in front of the caret.
\<close>

subsection \<open>Flags\<close>

lemma flag_bits:
  "f AND 0x1 \<noteq> (0 :: u32) \<longleftrightarrow> bit f 0" "f AND 0x2 \<noteq> (0 :: u32) \<longleftrightarrow> bit f 1" "f AND 0x4 \<noteq> (0 :: u32) \<longleftrightarrow> bit f 2"
  "f AND 0x8 \<noteq> (0 :: u32) \<longleftrightarrow> bit f 3" "f AND 0x10 \<noteq> (0 :: u32) \<longleftrightarrow> bit f 4" "f AND 0x20 \<noteq> (0 :: u32) \<longleftrightarrow> bit f 5"
  "f AND 0x80 \<noteq> (0 :: u32) \<longleftrightarrow> bit f 7" "f AND 0x100 \<noteq> (0 :: u32) \<longleftrightarrow> bit f 8" "f AND 0x200 \<noteq> (0 :: u32) \<longleftrightarrow> bit f 9"
  "f AND 0x400 \<noteq> (0 :: u32) \<longleftrightarrow> bit f 10" "f AND 0x800 \<noteq> (0 :: u32) \<longleftrightarrow> bit f 11"
  "f AND 0x1000 \<noteq> (0 :: u32) \<longleftrightarrow> bit f 12" "f AND 0x4000 \<noteq> (0 :: u32) \<longleftrightarrow> bit f 14"
  "f AND 0x8000 \<noteq> (0 :: u32) \<longleftrightarrow> bit f 15" "f AND 0x10000 \<noteq> (0 :: u32) \<longleftrightarrow> bit f 16"
  "f AND 0x20000 \<noteq> (0 :: u32) \<longleftrightarrow> bit f 17" "f AND 0x40000 \<noteq> (0 :: u32) \<longleftrightarrow> bit f 18"
  "f AND 0x80000 \<noteq> (0 :: u32) \<longleftrightarrow> bit f 19"
proof -
  have single: "f AND push_bit k 1 \<noteq> 0 \<longleftrightarrow> bit f k" for k
    by (simp only: bit_iff_and_push_bit_not_eq_0)
  show "f AND 0x1 \<noteq> (0 :: u32) \<longleftrightarrow> bit f 0" "f AND 0x2 \<noteq> (0 :: u32) \<longleftrightarrow> bit f 1" "f AND 0x4 \<noteq> (0 :: u32) \<longleftrightarrow> bit f 2"
  "f AND 0x8 \<noteq> (0 :: u32) \<longleftrightarrow> bit f 3" "f AND 0x10 \<noteq> (0 :: u32) \<longleftrightarrow> bit f 4" "f AND 0x20 \<noteq> (0 :: u32) \<longleftrightarrow> bit f 5"
  "f AND 0x80 \<noteq> (0 :: u32) \<longleftrightarrow> bit f 7" "f AND 0x100 \<noteq> (0 :: u32) \<longleftrightarrow> bit f 8" "f AND 0x200 \<noteq> (0 :: u32) \<longleftrightarrow> bit f 9"
  "f AND 0x400 \<noteq> (0 :: u32) \<longleftrightarrow> bit f 10" "f AND 0x800 \<noteq> (0 :: u32) \<longleftrightarrow> bit f 11"
  "f AND 0x1000 \<noteq> (0 :: u32) \<longleftrightarrow> bit f 12" "f AND 0x4000 \<noteq> (0 :: u32) \<longleftrightarrow> bit f 14"
  "f AND 0x8000 \<noteq> (0 :: u32) \<longleftrightarrow> bit f 15" "f AND 0x10000 \<noteq> (0 :: u32) \<longleftrightarrow> bit f 16"
  "f AND 0x20000 \<noteq> (0 :: u32) \<longleftrightarrow> bit f 17" "f AND 0x40000 \<noteq> (0 :: u32) \<longleftrightarrow> bit f 18"
  "f AND 0x80000 \<noteq> (0 :: u32) \<longleftrightarrow> bit f 19"
    using single[of 0] single[of 1] single[of 2] single[of 3] single[of 4] single[of 5] single[of 7]
      single[of 8] single[of 9] single[of 10] single[of 11] single[of 12] single[of 14] single[of 15]
      single[of 16] single[of 17] single[of 18] single[of 19]
    by (simp_all add: push_bit_eq_mult)
qed

lemma bit_power: "k < 32 \<Longrightarrow> bit (2 ^ k :: u32) n \<longleftrightarrow> n = k"
  by (auto simp: bit_exp_iff)

lemma flag_positions:
  "bit (0x1 :: u32) n \<longleftrightarrow> n = 0" "bit (0x2 :: u32) n \<longleftrightarrow> n = 1" "bit (0x4 :: u32) n \<longleftrightarrow> n = 2"
  "bit (0x8 :: u32) n \<longleftrightarrow> n = 3" "bit (0x10 :: u32) n \<longleftrightarrow> n = 4" "bit (0x20 :: u32) n \<longleftrightarrow> n = 5"
  "bit (0x80 :: u32) n \<longleftrightarrow> n = 7" "bit (0x100 :: u32) n \<longleftrightarrow> n = 8" "bit (0x200 :: u32) n \<longleftrightarrow> n = 9"
  "bit (0x400 :: u32) n \<longleftrightarrow> n = 10" "bit (0x800 :: u32) n \<longleftrightarrow> n = 11" "bit (0x1000 :: u32) n \<longleftrightarrow> n = 12"
  "bit (0x4000 :: u32) n \<longleftrightarrow> n = 14" "bit (0x8000 :: u32) n \<longleftrightarrow> n = 15" "bit (0x10000 :: u32) n \<longleftrightarrow> n = 16"
  "bit (0x20000 :: u32) n \<longleftrightarrow> n = 17" "bit (0x40000 :: u32) n \<longleftrightarrow> n = 18" "bit (0x80000 :: u32) n \<longleftrightarrow> n = 19"
  using bit_power[of 0 n] bit_power[of 1 n] bit_power[of 2 n] bit_power[of 3 n] bit_power[of 4 n]
    bit_power[of 5 n] bit_power[of 7 n] bit_power[of 8 n] bit_power[of 9 n] bit_power[of 10 n]
    bit_power[of 11 n] bit_power[of 12 n] bit_power[of 14 n] bit_power[of 15 n] bit_power[of 16 n]
    bit_power[of 17 n] bit_power[of 18 n] bit_power[of 19 n]
  by simp_all

lemma bit_if_or: "bit (if P then x OR y else x) n \<longleftrightarrow> bit x n \<or> P \<and> bit y n" for x y :: u32
  by (simp add: bit_or_iff)

lemma bit_EncodeFeatureFlags:
  "bit (EncodeFeatureFlags cfg) n \<longleftrightarrow>
    modernOrtho cfg \<and> n = 0 \<or> autoCaps cfg \<and> n = 1 \<or> allowZwjf cfg \<and> n = 2 \<or>
    autoRestoreEnabled cfg \<and> n = 3 \<or> cjkAutoSwitch cfg \<and> n = 4 \<or> escRestoreRawEnabled cfg \<and> n = 5 \<or>
    beepOnSwitch cfg \<and> n = 7 \<or> macroEnabled cfg \<and> n = 8 \<or> macroInEnglish cfg \<and> n = 9 \<or>
    quickConsonant cfg \<and> n = 10 \<or> quickStartConsonant cfg \<and> n = 11 \<or> quickEndConsonant cfg \<and> n = 12 \<or>
    smartSwitch cfg \<and> n = 14 \<or> excludeApps cfg \<and> n = 15 \<or> autoCapsMacro cfg \<and> n = 16 \<or>
    allowEnglishBypass cfg \<and> n = 17 \<or> debugLogEnabled cfg \<and> n = 18 \<or> suggestKeepChars cfg \<and> n = 19"
  unfolding EncodeFeatureFlags_def Let_def bit_if_or flag_positions by simp

lemma Decode_Encode_other:
  "DecodeFeatureFlags (EncodeFeatureFlags cfg) other =
    other\<lparr>modernOrtho := modernOrtho cfg, autoCaps := autoCaps cfg, allowZwjf := allowZwjf cfg,
      autoRestoreEnabled := autoRestoreEnabled cfg, cjkAutoSwitch := cjkAutoSwitch cfg,
      escRestoreRawEnabled := escRestoreRawEnabled cfg, beepOnSwitch := beepOnSwitch cfg,
      macroEnabled := macroEnabled cfg, macroInEnglish := macroInEnglish cfg,
      quickConsonant := quickConsonant cfg, quickStartConsonant := quickStartConsonant cfg,
      quickEndConsonant := quickEndConsonant cfg, smartSwitch := smartSwitch cfg,
      excludeApps := excludeApps cfg, autoCapsMacro := autoCapsMacro cfg,
      allowEnglishBypass := allowEnglishBypass cfg, debugLogEnabled := debugLogEnabled cfg,
      suggestKeepChars := suggestKeepChars cfg\<rparr>"
  unfolding DecodeFeatureFlags_def flag_bits bit_EncodeFeatureFlags by simp

subsection \<open>Bytes\<close>

lemma Get_SetFeatureFlags: "GetFeatureFlags (SetFeatureFlags ff s) = take_bit 24 ff"
proof (rule bit_word_eqI)
  fix n assume "n < LENGTH(32)"
  then show "bit (GetFeatureFlags (SetFeatureFlags ff s)) n = bit (take_bit 24 ff) n"
    by (cases "n < 8"; cases "n < 16") (auto simp: GetFeatureFlags_def SetFeatureFlags_def bit_or_iff bit_push_bit_iff bit_unsigned_iff
        bit_drop_bit_eq bit_take_bit_iff)
qed

lemma take_bit_Encode: "take_bit 24 (EncodeFeatureFlags cfg) = EncodeFeatureFlags cfg"
proof (rule bit_word_eqI)
  fix n
  have "bit (EncodeFeatureFlags cfg) n \<Longrightarrow> n < 24"
    unfolding bit_EncodeFeatureFlags by (elim disjE conjE) simp_all
  then show "bit (take_bit 24 (EncodeFeatureFlags cfg)) n = bit (EncodeFeatureFlags cfg) n"
    by (auto simp: bit_take_bit_iff)
qed

lemma Encode_Decode_Encode: "EncodeFeatureFlags (DecodeFeatureFlags (EncodeFeatureFlags cfg) other) = EncodeFeatureFlags cfg"
  by (rule bit_word_eqI) (simp add: Decode_Encode_other bit_EncodeFeatureFlags)

lemma byte_flags:
  "m AND 1 \<noteq> (0 :: u8) \<longleftrightarrow> bit m 0" "m AND 2 \<noteq> (0 :: u8) \<longleftrightarrow> bit m 1"
  "m AND 4 \<noteq> (0 :: u8) \<longleftrightarrow> bit m 2" "m AND 8 \<noteq> (0 :: u8) \<longleftrightarrow> bit m 3"
proof -
  have single: "m AND push_bit k 1 \<noteq> 0 \<longleftrightarrow> bit m k" for k
    by (simp only: bit_iff_and_push_bit_not_eq_0)
  show "m AND 1 \<noteq> (0 :: u8) \<longleftrightarrow> bit m 0" "m AND 2 \<noteq> (0 :: u8) \<longleftrightarrow> bit m 1"
  "m AND 4 \<noteq> (0 :: u8) \<longleftrightarrow> bit m 2" "m AND 8 \<noteq> (0 :: u8) \<longleftrightarrow> bit m 3"
    using single[of 0] single[of 1] single[of 2] single[of 3] by (simp_all add: push_bit_eq_mult)
qed

lemma Get_SetHotkey: "GetHotkey (SetHotkey hk s) = hk\<lparr>hkVk := take_bit 16 (hkVk hk)\<rparr>"
proof -
  have vk: "ucast (ucast v :: u8) OR push_bit 8 (ucast (ucast (drop_bit 8 v) :: u8)) = take_bit 16 v" for v :: u32
    by (rule bit_word_eqI) (auto simp: bit_or_iff bit_push_bit_iff bit_unsigned_iff bit_drop_bit_eq bit_take_bit_iff)
  show ?thesis
    by (cases "hkCtrl hk"; cases "hkShift hk"; cases "hkAlt hk"; cases "hkWin hk")
      (simp_all add: GetHotkey_def SetHotkey_def vk)
qed

text \<open>C37: The settings that are published in bits are read back as they were, whatever else the
  structure holds and whatever settings the reader had; a hotkey keeps its modifiers and the low 16
  bits of its key code, and the two encodings do not touch each other.\<close>

theorem published_settings_read_back:
  "let s' = SetHotkey hk (SetFeatureFlags (EncodeFeatureFlags cfg) s) in
    DecodeFeatureFlags (GetFeatureFlags s') cfg = cfg \<and>
    EncodeFeatureFlags (DecodeFeatureFlags (GetFeatureFlags s') other) = EncodeFeatureFlags cfg \<and>
    GetHotkey s' = hk\<lparr>hkVk := take_bit 16 (hkVk hk)\<rparr>"
proof -
  have get: "GetFeatureFlags (SetHotkey hk t) = GetFeatureFlags t" for t
    by (simp add: GetFeatureFlags_def SetHotkey_def)
  show ?thesis
    by (simp add: Let_def get Get_SetFeatureFlags take_bit_Encode Encode_Decode_Encode Get_SetHotkey)
      (simp add: Decode_Encode_other)
qed

lemma defaults_valid: "IsValid (InitDefaults s)" "\<not> IsValid zeroState"
  by (simp_all add: IsValid_def InitDefaults_def SetFeatureFlags_def zeroState_def Let_def)

subsection \<open>The anchor\<close>

lemma word_begin_eq:
  "i \<le> length p \<Longrightarrow> word_begin p i = i - length (takeWhile (\<lambda>c. \<not> is_blank c) (rev (take i p)))"
proof (induction i)
  case (Suc i)
  then have "take (Suc i) p = take i p @ [p ! i]" by (simp add: take_Suc_conv_app_nth)
  with Suc show ?case by simp
qed simp

lemma fold_copy:
  "n \<le> length s \<Longrightarrow> fold (\<lambda>k s. s[k := f k]) [0..<n] s = map f [0..<n] @ drop n s"
proof (induction n)
  case (Suc n)
  then have "drop n s = s ! n # drop (Suc n) s" by (simp add: Cons_nth_drop_Suc)
  with Suc show ?case by (simp add: list_update_append)
qed simp

text \<open>The word in front of the caret.\<close>

definition last_word :: "u16 list \<Rightarrow> u16 list" where
  "last_word p = rev (takeWhile (\<lambda>c. \<not> is_blank c) (rev p))"

lemma last_word_drop: "last_word p = drop (length p - length (last_word p)) p"
proof -
  have "rev p = takeWhile (\<lambda>c. \<not> is_blank c) (rev p) @ dropWhile (\<lambda>c. \<not> is_blank c) (rev p)" by simp
  then have "p = rev (dropWhile (\<lambda>c. \<not> is_blank c) (rev p)) @ last_word p"
    by (metis last_word_def rev_append rev_rev_ident)
  then show ?thesis by (metis append_eq_conv_conj length_append add_diff_cancel_right')
qed

lemma length_last_word: "length (last_word p) \<le> length p"
  using length_takeWhile_le[of "\<lambda>c. \<not> is_blank c" "rev p"] by (simp add: last_word_def)

lemma last_word_Nil: "last_word p = [] \<longleftrightarrow> p = [] \<or> is_blank (last p)"
  by (cases p rule: rev_cases) (simp_all add: last_word_def)

lemma anchor_syllable:
  assumes "p \<noteq> []" and "\<not> is_blank (last p)" and "length (ancSyllable out) = 16"
  shows "ancSyllable (DeriveAnchorFromPreceding p out) =
      (let w = drop (length (last_word p) - 16) (last_word p) in w @ replicate (16 - length w) 0)"
    and "ancSyllableLen (DeriveAnchorFromPreceding p out) = of_nat (min 16 (length (last_word p)))"
proof -
  let ?n = "length (last_word p)" let ?b = "length p - min 16 ?n"
  have n: "?n \<le> length p" by (rule length_last_word)
  have begins: "word_begin p (length p) = length p - ?n" by (simp add: word_begin_eq last_word_def)
  have starts: "ancSyllable (anchor_starts t a) = ancSyllable a" "ancWordStart (anchor_starts t a) = ancWordStart a"
    for t a by (simp_all add: anchor_starts_def split: CapTrigger.split)
  have b: "(if length p - word_begin p (length p) > 16 then length p - 16 else word_begin p (length p)) = ?b"
    using n by (simp add: begins min_def)
  have "length p - ?b = min 16 ?n" using n by simp
  then have der: "ancSyllable (DeriveAnchorFromPreceding p out) =
      fold (\<lambda>k s. s[k := p ! (?b + k)]) [0..<min 16 ?n] (map (\<lambda>_. 0) (ancSyllable out)) \<and>
      ancSyllableLen (DeriveAnchorFromPreceding p out) = of_nat (min 16 ?n)"
    using assms(1,2) b by (simp add: DeriveAnchorFromPreceding_def Let_def starts)
  have w: "map (\<lambda>k. p ! (?b + k)) [0..<min 16 ?n] = drop (?n - 16) (last_word p)"
  proof -
    have "drop (?n - 16) (last_word p) = drop ?b p"
      using n by (subst last_word_drop) (simp add: add.commute min_def)
    moreover have "map (\<lambda>k. p ! (?b + k)) [0..<min 16 ?n] = drop ?b p"
      using n by (intro nth_equalityI) auto
    ultimately show ?thesis by simp
  qed
  show "ancSyllable (DeriveAnchorFromPreceding p out) =
      (let w = drop (length (last_word p) - 16) (last_word p) in w @ replicate (16 - length w) 0)"
    using der assms(3) by (simp add: fold_copy w Let_def map_replicate_const drop_map) 
  show "ancSyllableLen (DeriveAnchorFromPreceding p out) = of_nat (min 16 (length (last_word p)))"
    using der by simp
qed

text \<open>The anchor a text service publishes describes the text in front of the caret: it says that
  a sentence or a line starts exactly when the automatic capitals would capitalise the next letter,
  that a word starts exactly when the text is empty or ends in a blank, and it holds the last 16
  characters of the word in front of the caret, with zeros behind them.\<close>

theorem anchor_describes_text:
  assumes "length (ancSyllable out) = 16"
  shows "let a = DeriveAnchorFromPreceding p out; w = drop (length (last_word p) - 16) (last_word p) in
    (ancSentenceStart a \<noteq> 0 \<or> ancLineStart a \<noteq> 0 \<longleftrightarrow> ComputeShouldAutoCap (map uint p)) \<and>
    (ancWordStart a \<noteq> 0 \<longleftrightarrow> p = [] \<or> is_blank (last p)) \<and>
    unat (ancSyllableLen a) = length w \<and> ancSyllable a = w @ replicate (16 - length w) 0"
proof -
  let ?a = "DeriveAnchorFromPreceding p out"
  have starts: "ancWordStart (anchor_starts t a) = ancWordStart a" "ancSyllable (anchor_starts t a) = ancSyllable a"
      "ancSyllableLen (anchor_starts t a) = ancSyllableLen a"
      "ancSentenceStart (anchor_starts t a) \<noteq> 0 \<or> ancLineStart (anchor_starts t a) \<noteq> 0 \<longleftrightarrow> t \<noteq> CapNone" for t a
    by (simp_all add: anchor_starts_def split: CapTrigger.split)
  have caps: "ancSentenceStart ?a \<noteq> 0 \<or> ancLineStart ?a \<noteq> 0 \<longleftrightarrow> ComputeShouldAutoCap (map uint p)"
    using starts(4) by (cases "p = []") (simp_all add: DeriveAnchorFromPreceding_def Let_def ComputeShouldAutoCap_def ClassifyCapTrigger_def)
  have word: "ancWordStart ?a \<noteq> 0 \<longleftrightarrow> p = [] \<or> is_blank (last p)"
    by (simp add: DeriveAnchorFromPreceding_def Let_def starts)
  have small: "unat (of_nat (min 16 n) :: u8) = min 16 n" for n
    by (simp add: unat_of_nat)
  show ?thesis
  proof (cases "p = [] \<or> is_blank (last p)")
    case True
    then have "last_word p = []" by (simp add: last_word_Nil)
    moreover have "ancSyllable ?a = replicate 16 0 \<and> ancSyllableLen ?a = 0"
      using True assms by (auto simp: DeriveAnchorFromPreceding_def Let_def starts map_replicate_const)
    ultimately show ?thesis using caps word by (simp add: Let_def)
  next
    case False
    then show ?thesis
      using caps word anchor_syllable[OF _ _ assms, of p] by (simp add: Let_def small)
  qed
qed

theorem anchor_describes_text_witness:
  "unat (ancSyllableLen (DeriveAnchorFromPreceding [72, 105, 46, 32, 97, 98] zeroAnchor)) = 2"
  using anchor_describes_text[of zeroAnchor "[72, 105, 46, 32, 97, 98]"]
  by (simp add: zeroAnchor_def Let_def last_word_def is_blank_def)

end
