(* ===== verification/SharedSync.thy ===== *)
theory SharedSync
  imports SharedState
begin

text \<open>
  Reading and writing of the shared structure by several processes,
  \<open>src/core/ipc/SharedStateManager.cpp\<close> and the anchor functions of \<open>src/core/ipc/SharedState.h\<close>, as
  single accesses to the memory in any interleaving. The fences of the source order the accesses, so
  the model is sequentially consistent. A read is a function of the memories its accesses have seen;
  a write, which makes its accesses one by one, is a program counter in a step relation. The copy of
  a whole structure copies field by field, the array of reserved space byte by byte.
\<close>

subsection \<open>Copying the fields\<close>

text \<open>Each element copies one field of its first argument into its second.\<close>

type_synonym field_copy = "SharedState \<Rightarrow> SharedState \<Rightarrow> SharedState"

definition reserved_copies :: "field_copy list" where
  "reserved_copies =
    map (\<lambda>i src dst. dst\<lparr>shReserved := (shReserved dst)[i := shReserved src ! i]\<rparr>) [0..<kReservedSize]"

text \<open>The fields \<open>Write\<close> copies, in its order: neither the epoch nor the anchor is among them.\<close>

definition Write_copies :: "field_copy list" where
  "Write_copies =
    [\<lambda>s d. d\<lparr>shMagic := shMagic s\<rparr>, \<lambda>s d. d\<lparr>shVersion := shVersion s\<rparr>, \<lambda>s d. d\<lparr>shSize := shSize s\<rparr>,
     \<lambda>s d. d\<lparr>shFlags := shFlags s\<rparr>, \<lambda>s d. d\<lparr>shInputMethod := shInputMethod s\<rparr>,
     \<lambda>s d. d\<lparr>shSpellCheck := shSpellCheck s\<rparr>, \<lambda>s d. d\<lparr>shOptimize := shOptimize s\<rparr>,
     \<lambda>s d. d\<lparr>shFeatures0 := shFeatures0 s\<rparr>, \<lambda>s d. d\<lparr>shFeatures1 := shFeatures1 s\<rparr>,
     \<lambda>s d. d\<lparr>shExtFeatures := shExtFeatures s\<rparr>, \<lambda>s d. d\<lparr>shCodeTable := shCodeTable s\<rparr>,
     \<lambda>s d. d\<lparr>shHotkeyMods := shHotkeyMods s\<rparr>, \<lambda>s d. d\<lparr>shHotkeyLo := shHotkeyLo s\<rparr>,
     \<lambda>s d. d\<lparr>shHotkeyHi := shHotkeyHi s\<rparr>, \<lambda>s d. d\<lparr>shConvertMods := shConvertMods s\<rparr>,
     \<lambda>s d. d\<lparr>shConvertLo := shConvertLo s\<rparr>, \<lambda>s d. d\<lparr>shConvertHi := shConvertHi s\<rparr>,
     \<lambda>s d. d\<lparr>shConfigGeneration := shConfigGeneration s\<rparr>, \<lambda>s d. d\<lparr>shDiagFlags := shDiagFlags s\<rparr>]
    @ reserved_copies"

text \<open>The copy of the whole structure in \<open>Read\<close>.\<close>

definition Read_copies :: "field_copy list" where
  "Read_copies =
    [\<lambda>s d. d\<lparr>shMagic := shMagic s\<rparr>, \<lambda>s d. d\<lparr>shVersion := shVersion s\<rparr>, \<lambda>s d. d\<lparr>shSize := shSize s\<rparr>,
     \<lambda>s d. d\<lparr>shEpoch := shEpoch s\<rparr>, \<lambda>s d. d\<lparr>shFlags := shFlags s\<rparr>,
     \<lambda>s d. d\<lparr>shInputMethod := shInputMethod s\<rparr>,
     \<lambda>s d. d\<lparr>shSpellCheck := shSpellCheck s\<rparr>, \<lambda>s d. d\<lparr>shOptimize := shOptimize s\<rparr>,
     \<lambda>s d. d\<lparr>shFeatures0 := shFeatures0 s\<rparr>, \<lambda>s d. d\<lparr>shFeatures1 := shFeatures1 s\<rparr>,
     \<lambda>s d. d\<lparr>shExtFeatures := shExtFeatures s\<rparr>, \<lambda>s d. d\<lparr>shCodeTable := shCodeTable s\<rparr>,
     \<lambda>s d. d\<lparr>shHotkeyMods := shHotkeyMods s\<rparr>, \<lambda>s d. d\<lparr>shHotkeyLo := shHotkeyLo s\<rparr>,
     \<lambda>s d. d\<lparr>shHotkeyHi := shHotkeyHi s\<rparr>, \<lambda>s d. d\<lparr>shConvertMods := shConvertMods s\<rparr>,
     \<lambda>s d. d\<lparr>shConvertLo := shConvertLo s\<rparr>, \<lambda>s d. d\<lparr>shConvertHi := shConvertHi s\<rparr>,
     \<lambda>s d. d\<lparr>shConfigGeneration := shConfigGeneration s\<rparr>, \<lambda>s d. d\<lparr>shDiagFlags := shDiagFlags s\<rparr>]
    @ reserved_copies @ [\<lambda>s d. d\<lparr>shAnchor := shAnchor s\<rparr>]"

subsection \<open>Reading\<close>

abbreviation SEQLOCK_MAX_RETRIES :: nat where "SEQLOCK_MAX_RETRIES \<equiv> 3"

text \<open>
  What one attempt has seen: the memory when it read the epoch, at each copy of a field, and when it
  read the epoch again. The local structure is overwritten by every attempt.
\<close>

record ReadAttempt =
  seenBefore :: SharedState
  seenCopies :: "SharedState list"
  seenAfter :: SharedState

fun copy_seen :: "field_copy list \<Rightarrow> SharedState list \<Rightarrow> SharedState \<Rightarrow> SharedState" where
  "copy_seen (c # cs) (m # ms) l = copy_seen cs ms (c m l)"
| "copy_seen _ _ l = l"

definition attempt_ok :: "ReadAttempt \<Rightarrow> bool" where
  "attempt_ok a \<longleftrightarrow> shEpoch (seenBefore a) = shEpoch (seenAfter a) \<and> shEpoch (seenBefore a) AND 1 = 0"

fun read_retries :: "ReadAttempt list \<Rightarrow> SharedState \<Rightarrow> SharedState" where
  "read_retries [] l = zeroState"
| "read_retries (a # as) l =
    (let l = copy_seen Read_copies (seenCopies a) l in if attempt_ok a then l else read_retries as l)"

text \<open>\<open>first\<close> is the memory at the test of the magic number, or nothing when no memory is mapped.\<close>

definition ReadShared :: "SharedState option \<Rightarrow> ReadAttempt list \<Rightarrow> SharedState" where
  "ReadShared first as =
    (case first of
       None \<Rightarrow> zeroState
     | Some m \<Rightarrow> if shMagic m \<noteq> MAGIC_VALUE then zeroState
                 else read_retries (take SEQLOCK_MAX_RETRIES as) zeroState)"

definition ReadEpoch :: "SharedState option \<Rightarrow> u32" where
  "ReadEpoch m = (case m of None \<Rightarrow> 0 | Some m \<Rightarrow> if shMagic m = MAGIC_VALUE then shEpoch m else 0)"

definition ReadFlags :: "SharedState option \<Rightarrow> u32" where
  "ReadFlags m = (case m of None \<Rightarrow> 0 | Some m \<Rightarrow> if shMagic m = MAGIC_VALUE then shFlags m else 0)"

definition SharedConnected :: "SharedState option \<Rightarrow> bool" where
  "SharedConnected m \<longleftrightarrow> (case m of None \<Rightarrow> False | Some m \<Rightarrow> shMagic m = MAGIC_VALUE)"

definition IsAbiCompatible :: "SharedState option \<Rightarrow> bool" where
  "IsAbiCompatible m \<longleftrightarrow>
    (case m of None \<Rightarrow> False
     | Some m \<Rightarrow> shMagic m = MAGIC_VALUE \<and> shVersion m \<le> CURRENT_VERSION \<and> shSize m \<ge> 24)"

subsection \<open>Flags, which are changed by single atomic operations\<close>

definition ToggleFlag :: "u32 \<Rightarrow> SharedState \<Rightarrow> SharedState" where
  "ToggleFlag b m = (if shMagic m \<noteq> MAGIC_VALUE then m else m\<lparr>shFlags := shFlags m XOR b\<rparr>)"

definition SetOrClearFlag :: "u32 \<Rightarrow> bool \<Rightarrow> SharedState \<Rightarrow> SharedState" where
  "SetOrClearFlag b on m =
    (if shMagic m \<noteq> MAGIC_VALUE then m
     else if on then m\<lparr>shFlags := shFlags m OR b\<rparr> else m\<lparr>shFlags := shFlags m AND NOT b\<rparr>)"

subsection \<open>Writing\<close>

text \<open>
  A call of \<open>Write\<close> has read the epoch (\<open>WSeq\<close>), has stored the odd epoch and made some of its copies
  (\<open>WCopy\<close>), or is not under way. The world has the memory, a program counter for every process that
  writes, and the structures whose writing has been finished, in that order.
\<close>

datatype WriterPc = WIdle | WSeq SharedState u32 | WCopy SharedState u32 nat

record SharedWorld =
  worldMem :: SharedState
  worldPcs :: "WriterPc list"
  worldDone :: "SharedState list"

definition startWorld :: "nat \<Rightarrow> SharedState \<Rightarrow> SharedWorld" where
  "startWorld n m = \<lparr>worldMem = m, worldPcs = replicate n WIdle, worldDone = []\<rparr>"

inductive shared_step :: "SharedWorld \<Rightarrow> SharedWorld \<Rightarrow> bool" where
  begin_write: "\<lbrakk>i < length (worldPcs w); worldPcs w ! i = WIdle; length (shReserved st) = kReservedSize\<rbrakk> \<Longrightarrow>
    shared_step w (w\<lparr>worldPcs := (worldPcs w)[i := WSeq st (shEpoch (worldMem w) + 1)]\<rparr>)"
| mark_write: "\<lbrakk>i < length (worldPcs w); worldPcs w ! i = WSeq st seq\<rbrakk> \<Longrightarrow>
    shared_step w (w\<lparr>worldMem := (worldMem w)\<lparr>shEpoch := seq\<rparr>, worldPcs := (worldPcs w)[i := WCopy st seq 0]\<rparr>)"
| copy_field: "\<lbrakk>i < length (worldPcs w); worldPcs w ! i = WCopy st seq k; k < length Write_copies\<rbrakk> \<Longrightarrow>
    shared_step w (w\<lparr>worldMem := (Write_copies ! k) st (worldMem w),
                    worldPcs := (worldPcs w)[i := WCopy st seq (Suc k)]\<rparr>)"
| end_write: "\<lbrakk>i < length (worldPcs w); worldPcs w ! i = WCopy st seq (length Write_copies)\<rbrakk> \<Longrightarrow>
    shared_step w (w\<lparr>worldMem := (worldMem w)\<lparr>shEpoch := seq + 1\<rparr>, worldPcs := (worldPcs w)[i := WIdle],
                    worldDone := worldDone w @ [st]\<rparr>)"
| toggle_flag: "shared_step w (w\<lparr>worldMem := ToggleFlag b (worldMem w)\<rparr>)"
| set_flag: "shared_step w (w\<lparr>worldMem := SetOrClearFlag b on (worldMem w)\<rparr>)"
| change_anchor: "shared_step w (w\<lparr>worldMem := (worldMem w)\<lparr>shAnchor := a\<rparr>\<rparr>)"

text \<open>The memories an attempt sees are those of worlds that follow each other.\<close>

definition seen_along :: "SharedWorld list \<Rightarrow> ReadAttempt \<Rightarrow> bool" where
  "seen_along ws a \<longleftrightarrow>
    length (seenCopies a) = length Read_copies \<and>
    map worldMem ws = seenBefore a # seenCopies a @ [seenAfter a] \<and> successively shared_step\<^sup>*\<^sup>* ws"

subsection \<open>The anchor\<close>

text \<open>
  The anchor is written by any number of text services, each of which raises the generation by one
  atomic addition before and after it has copied the fields.
\<close>

definition Anchor_copies :: "(HookContextAnchor \<Rightarrow> HookContextAnchor \<Rightarrow> HookContextAnchor) list" where
  "Anchor_copies =
    [\<lambda>s d. d\<lparr>ancAvailable := ancAvailable s\<rparr>, \<lambda>s d. d\<lparr>ancSentenceStart := ancSentenceStart s\<rparr>,
     \<lambda>s d. d\<lparr>ancLineStart := ancLineStart s\<rparr>, \<lambda>s d. d\<lparr>ancWordStart := ancWordStart s\<rparr>,
     \<lambda>s d. d\<lparr>ancSyllableLen := ancSyllableLen s\<rparr>]
    @ map (\<lambda>i s d. d\<lparr>ancSyllable := (ancSyllable d)[i := ancSyllable s ! i]\<rparr>) [0..<16]"

record AnchorAttempt =
  ancBefore :: HookContextAnchor
  ancCopies :: "HookContextAnchor list"
  ancAfter :: HookContextAnchor

fun anchor_seen :: "(HookContextAnchor \<Rightarrow> HookContextAnchor \<Rightarrow> HookContextAnchor) list \<Rightarrow>
    HookContextAnchor list \<Rightarrow> HookContextAnchor \<Rightarrow> HookContextAnchor" where
  "anchor_seen (c # cs) (m # ms) l = anchor_seen cs ms (c m l)"
| "anchor_seen _ _ l = l"

text \<open>At most three attempts; an attempt that finds an odd generation copies nothing.\<close>

fun ReadAnchorSeqlock :: "AnchorAttempt list \<Rightarrow> HookContextAnchor \<Rightarrow> HookContextAnchor option" where
  "ReadAnchorSeqlock [] out = None"
| "ReadAnchorSeqlock (a # as) out =
    (let g1 = ancGeneration (ancBefore a) in
     if g1 AND 1 \<noteq> 0 then ReadAnchorSeqlock as out
     else (let out = anchor_seen Anchor_copies (ancCopies a) (out\<lparr>ancGeneration := g1\<rparr>) in
           if g1 = ancGeneration (ancAfter a) then Some out else ReadAnchorSeqlock as out))"

datatype AnchorPc = AIdle | ACopy HookContextAnchor nat

record AnchorWorld =
  anchorMem :: HookContextAnchor
  anchorPcs :: "AnchorPc list"
  anchorDone :: "HookContextAnchor list"

definition startAnchor :: "nat \<Rightarrow> HookContextAnchor \<Rightarrow> AnchorWorld" where
  "startAnchor n m = \<lparr>anchorMem = m, anchorPcs = replicate n AIdle, anchorDone = []\<rparr>"

inductive anchor_step :: "AnchorWorld \<Rightarrow> AnchorWorld \<Rightarrow> bool" where
  begin_anchor: "\<lbrakk>i < length (anchorPcs w); anchorPcs w ! i = AIdle; length (ancSyllable a) = 16\<rbrakk> \<Longrightarrow>
    anchor_step w (w\<lparr>anchorMem := (anchorMem w)\<lparr>ancGeneration := ancGeneration (anchorMem w) + 1\<rparr>,
                    anchorPcs := (anchorPcs w)[i := ACopy a 0]\<rparr>)"
| copy_anchor: "\<lbrakk>i < length (anchorPcs w); anchorPcs w ! i = ACopy a k; k < length Anchor_copies\<rbrakk> \<Longrightarrow>
    anchor_step w (w\<lparr>anchorMem := (Anchor_copies ! k) a (anchorMem w),
                    anchorPcs := (anchorPcs w)[i := ACopy a (Suc k)]\<rparr>)"
| end_anchor: "\<lbrakk>i < length (anchorPcs w); anchorPcs w ! i = ACopy a (length Anchor_copies)\<rbrakk> \<Longrightarrow>
    anchor_step w (w\<lparr>anchorMem := (anchorMem w)\<lparr>ancGeneration := ancGeneration (anchorMem w) + 1\<rparr>,
                    anchorPcs := (anchorPcs w)[i := AIdle], anchorDone := anchorDone w @ [a]\<rparr>)"

definition anchor_along :: "AnchorWorld list \<Rightarrow> AnchorAttempt \<Rightarrow> bool" where
  "anchor_along ws a \<longleftrightarrow>
    length (ancCopies a) = length Anchor_copies \<and>
    map anchorMem ws = ancBefore a # ancCopies a @ [ancAfter a] \<and> successively anchor_step\<^sup>*\<^sup>* ws"

end
