(* ===== verification/SharedSyncLaws.thy ===== *)
theory SharedSyncLaws
  imports SharedSync
begin

text \<open>
  What a reader of the shared structure can see. The locale \<open>seqlock\<close> states the protocol: the epoch
  counts the phases of the writer, and between two odd phases the data stands still. It is interpreted
  on the structure and on the anchor, each with a single writer. With two writers the protocol does
  not hold, and a reader accepts a mixture of both.
\<close>

subsection \<open>The protocol\<close>

locale seqlock =
  fixes step :: "'w \<Rightarrow> 'w \<Rightarrow> bool" and good :: "'w \<Rightarrow> bool" and phase :: "'w \<Rightarrow> nat"
    and epoch :: "'w \<Rightarrow> u32" and payload :: "'w \<Rightarrow> 'p"
  assumes good_step: "good w \<Longrightarrow> step w w' \<Longrightarrow> good w'"
    and phase_step: "good w \<Longrightarrow> step w w' \<Longrightarrow> phase w \<le> phase w'"
    and payload_step: "good w \<Longrightarrow> step w w' \<Longrightarrow> even (phase w) \<Longrightarrow> phase w' = phase w \<Longrightarrow> payload w' = payload w"
    and epoch_phase: "good w \<Longrightarrow> epoch w = of_nat (phase w)"
begin

lemma run:
  assumes "step\<^sup>*\<^sup>* w w'" and "good w"
  shows "good w' \<and> phase w \<le> phase w' \<and> (even (phase w) \<and> phase w' = phase w \<longrightarrow> payload w' = payload w)"
  using assms
proof (induction rule: rtranclp_induct)
  case (step y z)
  then show ?case
    using good_step[of y z] phase_step[of y z] payload_step[of y z] by auto
qed simp

lemma run_through:
  "successively step\<^sup>*\<^sup>* ws \<Longrightarrow> w \<in> set ws \<Longrightarrow> step\<^sup>*\<^sup>* (hd ws) w \<and> step\<^sup>*\<^sup>* w (last ws)"
proof (induction ws arbitrary: w)
  case (Cons v vs)
  show ?case
  proof (cases vs)
    case Nil
    then show ?thesis using Cons.prems by simp
  next
    case (Cons u us)
    then have first: "step\<^sup>*\<^sup>* v u" and rest: "\<And>x. x \<in> set vs \<Longrightarrow> step\<^sup>*\<^sup>* u x \<and> step\<^sup>*\<^sup>* x (last vs)"
      using Cons.prems Cons.IH by simp_all
    then show ?thesis
      using Cons.prems(2) rest[of u] \<open>vs = u # us\<close> by (auto intro: rtranclp_trans)
  qed
qed simp

lemma stable:
  assumes "successively step\<^sup>*\<^sup>* ws" and "ws \<noteq> []" and "good (hd ws)"
    and "epoch (hd ws) = epoch (last ws)" and "epoch (hd ws) AND 1 = 0"
    and "phase (last ws) - phase (hd ws) < 2 ^ 32"
  shows "even (phase (hd ws)) \<and> (\<forall>w \<in> set ws. good w \<and> payload w = payload (hd ws))"
proof -
  let ?a = "phase (hd ws)" let ?b = "phase (last ws)"
  have last: "good (last ws)" "?a \<le> ?b"
    using run[of "hd ws" "last ws"] run_through[OF assms(1), of "last ws"] assms(2,3) by simp_all
  have "(of_nat ?a :: u32) = of_nat ?b" using epoch_phase assms(3,4) last(1) by simp
  then have "?a mod 2 ^ 32 = ?b mod 2 ^ 32" by (simp add: of_nat_eq_iff unat_of_nat word_unat_eq_iff)
  then have "2 ^ 32 dvd ?b - ?a" using last(2) by (metis mod_eq_dvd_iff_nat)
  then have same: "?b = ?a" using assms(6) last(2) nat_dvd_not_less[of "?b - ?a" "2 ^ 32"] by linarith
  have "even (of_nat ?a :: u32)"
    using assms(5) epoch_phase[OF assms(3)] by (simp add: even_iff_mod_2_eq_zero and_one_eq)
  then have ev: "even ?a" by (simp add: even_of_nat_iff)
  have "good w \<and> payload w = payload (hd ws)" if "w \<in> set ws" for w
  proof -
    have "step\<^sup>*\<^sup>* (hd ws) w" "step\<^sup>*\<^sup>* w (last ws)" using run_through[OF assms(1) that] by simp_all
    moreover have "good w" using run[OF calculation(1) assms(3)] by simp
    ultimately show ?thesis
      using run[of "hd ws" w] run[of w "last ws"] assms(3) same ev by fastforce
  qed
  then show ?thesis using ev by blast
qed

end

subsection \<open>Copies\<close>

text \<open>What a call of \<open>Write\<close> publishes: everything but the epoch, the flags, which are also changed by
  single operations, and the anchor.\<close>

definition settings :: "SharedState \<Rightarrow> SharedState" where
  "settings m = m\<lparr>shEpoch := 0, shFlags := 0, shAnchor := zeroAnchor\<rparr>"

lemma settings_upd [simp]:
  "settings (m\<lparr>shEpoch := e\<rparr>) = settings m" "settings (m\<lparr>shFlags := f\<rparr>) = settings m"
  "settings (m\<lparr>shAnchor := a\<rparr>) = settings m" "settings (settings m) = settings m"
  "settings (ToggleFlag b m) = settings m" "settings (SetOrClearFlag b on m) = settings m"
  "shReserved (settings m) = shReserved m"
  by (simp_all add: settings_def ToggleFlag_def SetOrClearFlag_def)

lemma flags_upd [simp]:
  "shEpoch (ToggleFlag b m) = shEpoch m" "shEpoch (SetOrClearFlag b on m) = shEpoch m"
  "shReserved (ToggleFlag b m) = shReserved m" "shReserved (SetOrClearFlag b on m) = shReserved m"
  by (simp_all add: ToggleFlag_def SetOrClearFlag_def)

lemma fold_reserved:
  assumes "n \<le> length (shReserved s)" and "n \<le> length (shReserved d)"
  shows "fold (\<lambda>c. c s) (map (\<lambda>i src dst. dst\<lparr>shReserved := (shReserved dst)[i := shReserved src ! i]\<rparr>) [0..<n]) d =
    d\<lparr>shReserved := take n (shReserved s) @ drop n (shReserved d)\<rparr>"
  using assms
proof (induction n)
  case (Suc n)
  then have "drop n (shReserved d) = shReserved d ! n # drop (Suc n) (shReserved d)"
    by (simp add: Cons_nth_drop_Suc)
  with Suc show ?case
    by (simp add: list_update_append take_Suc_conv_app_nth)
qed simp

lemma fold_reserved_all:
  assumes "length (shReserved s) = kReservedSize" and "length (shReserved d) = kReservedSize"
  shows "fold (\<lambda>c. c s) reserved_copies d = d\<lparr>shReserved := shReserved s\<rparr>"
  using fold_reserved[of kReservedSize s d] assms unfolding reserved_copies_def by simp

lemma Write_all:
  assumes "length (shReserved s) = kReservedSize" and "length (shReserved d) = kReservedSize"
  shows "fold (\<lambda>c. c s) Write_copies d = s\<lparr>shEpoch := shEpoch d, shAnchor := shAnchor d\<rparr>"
  using assms by (simp add: Write_copies_def fold_reserved_all)

lemma Read_all:
  assumes "length (shReserved s) = kReservedSize" and "length (shReserved d) = kReservedSize"
  shows "fold (\<lambda>c. c s) Read_copies d = s"
  using assms by (simp add: Read_copies_def fold_reserved_all)

lemma set_reserved:
  "set reserved_copies =
    (\<lambda>i src dst. dst\<lparr>shReserved := (shReserved dst)[i := shReserved src ! i]\<rparr>) ` {..<kReservedSize}"
  by (simp only: reserved_copies_def set_map set_upt atLeast0LessThan)

lemma copies_cong:
  "c \<in> set Write_copies \<Longrightarrow> settings (c s m) = settings (c (settings s) (settings m))"
  "c \<in> set Read_copies \<Longrightarrow> settings (c s m) = settings (c (settings s) (settings m))"
  by (auto simp: Write_copies_def Read_copies_def set_reserved settings_def)

lemma copies_length:
  "c \<in> set Write_copies \<Longrightarrow> length (shReserved (c s m)) = length (shReserved m)"
  "c \<in> set Read_copies \<Longrightarrow> length (shReserved (c s m)) = length (shReserved m)"
  by (auto simp: Write_copies_def Read_copies_def set_reserved)

lemma Write_copies_epoch: "c \<in> set Write_copies \<Longrightarrow> shEpoch (c s m) = shEpoch m"
  by (auto simp: Write_copies_def set_reserved)

lemma copy_agree:
  assumes "settings s = settings s'" and "settings a = settings b"
  shows "c \<in> set Write_copies \<Longrightarrow> settings (c s a) = settings (c s' b)"
    and "c \<in> set Read_copies \<Longrightarrow> settings (c s a) = settings (c s' b)"
  using copies_cong[of c s a] copies_cong[of c s' b] assms by presburger+

lemma fold_agree:
  assumes "\<And>c a b. c \<in> set cs \<Longrightarrow> settings a = settings b \<Longrightarrow> settings (c s a) = settings (c s b)"
    and "settings a = settings b"
  shows "settings (fold (\<lambda>c. c s) cs a) = settings (fold (\<lambda>c. c s) cs b)"
  using assms
proof (induction cs arbitrary: a b)
  case (Cons c cs)
  have "settings (fold (\<lambda>c. c s) cs (c s a)) = settings (fold (\<lambda>c. c s) cs (c s b))"
  proof (rule Cons.IH)
    show "settings (c s a) = settings (c s b)" by (rule Cons.prems(1)[OF _ Cons.prems(2)]) simp
  qed (rule Cons.prems(1), simp_all)
  then show ?case by simp
qed simp

lemma copy_seen_settings:
  assumes "length ms = length cs" and "\<forall>m \<in> set ms. settings m = settings s" and "set cs \<subseteq> set Read_copies"
  shows "settings (copy_seen cs ms l) = settings (fold (\<lambda>c. c s) cs l)"
  using assms
proof (induction cs ms arbitrary: l rule: list_induct2')
  case (4 c cs m ms)
  have "settings (copy_seen cs ms (c m l)) = settings (fold (\<lambda>c. c s) cs (c m l))"
    using 4(2-4) by (intro 4(1)) simp_all
  also have "\<dots> = settings (fold (\<lambda>c. c s) cs (c s l))"
  proof (rule fold_agree)
    show "settings (c m l) = settings (c s l)" by (rule copy_agree(2)) (use 4(3,4) in simp_all)
    show "settings (d s a) = settings (d s b)" if "d \<in> set cs" "settings a = settings b" for d a b
      by (rule copy_agree(2)) (use that 4(4) in auto)
  qed
  finally show ?case by simp
qed simp_all

lemma copy_seen_same: "copy_seen cs (replicate (length cs) m) l = fold (\<lambda>c. c m) cs l"
  by (induction cs arbitrary: l) simp_all

lemma copy_seen_append:
  "length ms = length cs \<Longrightarrow> copy_seen (cs @ cs') (ms @ ms') l = copy_seen cs' ms' (copy_seen cs ms l)"
  by (induction cs ms arbitrary: l rule: list_induct2') simp_all

lemma copy_seen_length:
  "set cs \<subseteq> set Read_copies \<Longrightarrow> length (shReserved (copy_seen cs ms l)) = length (shReserved l)"
  by (induction cs ms l rule: copy_seen.induct) (simp_all add: copies_length)

subsection \<open>One writer of the structure\<close>

definition writing :: "WriterPc \<Rightarrow> bool" where
  "writing pc \<longleftrightarrow> (case pc of WCopy st seq k \<Rightarrow> True | _ \<Rightarrow> False)"

definition write_phase :: "SharedWorld \<Rightarrow> nat" where
  "write_phase w = 2 * length (worldDone w) + (if writing (hd (worldPcs w)) then 1 else 0)"

definition pc_ok :: "SharedState \<Rightarrow> SharedWorld \<Rightarrow> WriterPc \<Rightarrow> bool" where
  "pc_ok m0 w pc \<longleftrightarrow>
    (case pc of
       WIdle \<Rightarrow> settings (worldMem w) = settings (last (m0 # worldDone w))
     | WSeq st seq \<Rightarrow> length (shReserved st) = kReservedSize \<and> seq = shEpoch (worldMem w) + 1 \<and>
         settings (worldMem w) = settings (last (m0 # worldDone w))
     | WCopy st seq k \<Rightarrow> length (shReserved st) = kReservedSize \<and> seq = shEpoch (worldMem w) \<and>
         (\<exists>m. length (shReserved m) = kReservedSize \<and>
              settings (worldMem w) = settings (fold (\<lambda>c. c st) (take k Write_copies) m)))"

definition world_ok :: "SharedState \<Rightarrow> SharedWorld \<Rightarrow> bool" where
  "world_ok m0 w \<longleftrightarrow>
    length (worldPcs w) = 1 \<and> length (shReserved (worldMem w)) = kReservedSize \<and>
    shEpoch (worldMem w) = of_nat (write_phase w) \<and> pc_ok m0 w (hd (worldPcs w))"

lemma world_ok_start:
  "shEpoch m0 = 0 \<Longrightarrow> length (shReserved m0) = kReservedSize \<Longrightarrow> world_ok m0 (startWorld 1 m0)"
  by (simp add: world_ok_def startWorld_def write_phase_def writing_def pc_ok_def)

lemma one_pc: "length (worldPcs w) = 1 \<Longrightarrow> i < length (worldPcs w) \<Longrightarrow> i = 0 \<and> worldPcs w = [worldPcs w ! 0]"
  by (cases "worldPcs w") auto

lemma shared_step_ok:
  assumes "shared_step w w'" and "world_ok m0 w"
  shows "world_ok m0 w' \<and> write_phase w \<le> write_phase w' \<and>
    (even (write_phase w) \<and> write_phase w' = write_phase w \<longrightarrow> settings (worldMem w') = settings (worldMem w))"
  using assms
proof (cases rule: shared_step.cases)
  case (begin_write i st)
  then show ?thesis
    using assms(2) one_pc[of w i] by (auto simp: world_ok_def write_phase_def writing_def pc_ok_def)
next
  case (mark_write i st seq)
  have pcs: "worldPcs w = [WSeq st seq]"
    using mark_write(2,3) assms(2) one_pc[of w i] by (simp add: world_ok_def)
  have "world_ok m0 w'"
    using assms(2) mark_write pcs by (auto simp: world_ok_def write_phase_def writing_def pc_ok_def)
  then show ?thesis using mark_write pcs by (simp add: write_phase_def writing_def)
next
  case (copy_field i st seq k)
  have pcs: "worldPcs w = [WCopy st seq k]"
    using copy_field(2,3) assms(2) one_pc[of w i] by (simp add: world_ok_def)
  have c: "Write_copies ! k \<in> set Write_copies" using copy_field(4) by simp
  obtain m where m: "length (shReserved m) = kReservedSize"
      "settings (worldMem w) = settings (fold (\<lambda>c. c st) (take k Write_copies) m)"
    using assms(2) pcs by (auto simp: world_ok_def pc_ok_def)
  have "settings ((Write_copies ! k) st (worldMem w)) =
      settings (fold (\<lambda>c. c st) (take (Suc k) Write_copies) m)"
    using copy_agree(1)[OF refl m(2) c, of st] copy_field(4) by (simp add: take_Suc_conv_app_nth)
  then show ?thesis
    using assms(2) copy_field pcs m(1) copies_length(1)[OF c] Write_copies_epoch[OF c]
    by (auto simp: world_ok_def write_phase_def writing_def pc_ok_def)
next
  case (end_write i st seq)
  have pcs: "worldPcs w = [WCopy st seq (length Write_copies)]"
    using end_write(2,3) assms(2) one_pc[of w i] by (simp add: world_ok_def)
  obtain m where m: "length (shReserved st) = kReservedSize" "length (shReserved m) = kReservedSize"
      "settings (worldMem w) = settings (fold (\<lambda>c. c st) Write_copies m)"
    using assms(2) pcs by (auto simp: world_ok_def pc_ok_def)
  have "settings (worldMem w) = settings st" using m Write_all[OF m(1,2)] by simp
  then show ?thesis
    using assms(2) end_write pcs by (auto simp: world_ok_def write_phase_def writing_def pc_ok_def)
next
  case (toggle_flag b)
  then show ?thesis
    using assms(2) by (auto simp: world_ok_def write_phase_def pc_ok_def split: WriterPc.splits)
next
  case (set_flag b on)
  then show ?thesis
    using assms(2) by (auto simp: world_ok_def write_phase_def pc_ok_def split: WriterPc.splits)
next
  case (change_anchor a)
  then show ?thesis
    using assms(2) by (auto simp: world_ok_def write_phase_def pc_ok_def split: WriterPc.splits)
qed

interpretation shared: seqlock shared_step "world_ok m0" write_phase "\<lambda>w. shEpoch (worldMem w)"
    "\<lambda>w. settings (worldMem w)" for m0
  by unfold_locales (use shared_step_ok in \<open>blast+\<close>, simp add: world_ok_def)

text \<open>An attempt that is accepted has seen one memory, up to flags and anchor.\<close>

lemma attempt_settings:
  assumes "seen_along ws a" and "attempt_ok a" and "world_ok m0 (hd ws)"
    and "length (worldDone (last ws)) - length (worldDone (hd ws)) < 2 ^ 31"
    and "length (shReserved l) = kReservedSize"
  shows "settings (copy_seen Read_copies (seenCopies a) l) = settings (last (m0 # worldDone (hd ws)))"
proof -
  have mems: "map worldMem ws = seenBefore a # seenCopies a @ [seenAfter a]"
      and len: "length (seenCopies a) = length Read_copies" and suc: "successively shared_step\<^sup>*\<^sup>* ws"
    using assms(1) by (simp_all add: seen_along_def)
  have ne: "ws \<noteq> []" using mems by auto
  have ends: "worldMem (hd ws) = seenBefore a" "worldMem (last ws) = seenAfter a"
    using mems ne by (metis hd_map list.sel(1), metis last_map last.simps append_is_Nil_conv last_append last_snoc list.distinct(1))
  have "write_phase (last ws) - write_phase (hd ws) < 2 ^ 32"
    using assms(4) by (simp add: write_phase_def) arith
  then have st: "even (write_phase (hd ws))"
      "\<And>w. w \<in> set ws \<Longrightarrow> settings (worldMem w) = settings (worldMem (hd ws))"
    using shared.stable[OF suc ne assms(3)] assms(2) by (auto simp: attempt_ok_def ends)
  have calm: "\<not> writing (hd (worldPcs (hd ws)))" using st(1) by (auto simp: write_phase_def)
  have hd: "settings (worldMem (hd ws)) = settings (last (m0 # worldDone (hd ws)))"
      "length (shReserved (worldMem (hd ws))) = kReservedSize"
    using assms(3) calm by (cases "hd (worldPcs (hd ws))"; simp add: world_ok_def pc_ok_def writing_def)+
  have "set (seenCopies a) \<subseteq> worldMem ` set ws" using arg_cong[OF mems, of set] by auto
  then have "\<forall>m \<in> set (seenCopies a). settings m = settings (worldMem (hd ws))" using st(2) by auto
  then have "settings (copy_seen Read_copies (seenCopies a) l) =
      settings (fold (\<lambda>c. c (worldMem (hd ws))) Read_copies l)"
    by (rule copy_seen_settings[OF len]) simp
  then show ?thesis using Read_all[OF hd(2) assms(5)] hd(1) by simp
qed

lemma read_retries_settings:
  assumes "list_all2 seen_along runs as" and "length (shReserved l) = kReservedSize"
    and "\<forall>ws \<in> set runs. world_ok m0 (hd ws) \<and>
      length (worldDone (last ws)) - length (worldDone (hd ws)) < 2 ^ 31"
  shows "read_retries as l = zeroState \<or>
    (\<exists>ws \<in> set runs. settings (read_retries as l) = settings (last (m0 # worldDone (hd ws))))"
  using assms
proof (induction runs as arbitrary: l rule: list_all2_induct)
  case (Cons ws runs a as)
  let ?l = "copy_seen Read_copies (seenCopies a) l"
  have len: "length (shReserved ?l) = kReservedSize" using Cons.prems(1) by (simp add: copy_seen_length)
  show ?case
  proof (cases "attempt_ok a")
    case True
    then show ?thesis
      using attempt_settings[OF Cons.hyps(1) True, of m0 l] Cons.prems by (simp add: Let_def)
  next
    case False
    then have "read_retries (a # as) l = read_retries as ?l" by (simp add: Let_def)
    then show ?thesis using Cons.IH[OF len] Cons.prems(2) by (metis list.set_intros(2))
  qed
qed simp

text \<open>C35: With one writing process, whatever it and the operations on single flags do in between, a
  read of the shared structure either fails and returns the empty structure, or it returns the
  settings of one call of Write as a whole, the last one that was finished when the accepted attempt
  began (or the initial ones). The epoch is a 32-bit counter that wraps, so this needs that fewer
  than 2 to the 31 writes are finished while one attempt is under way.\<close>

theorem read_sees_one_write:
  assumes "shEpoch m0 = 0" and "length (shReserved m0) = kReservedSize"
    and "list_all2 seen_along runs as"
    and "\<forall>ws \<in> set runs. shared_step\<^sup>*\<^sup>* (startWorld 1 m0) (hd ws) \<and>
      length (worldDone (last ws)) - length (worldDone (hd ws)) < 2 ^ 31"
  shows "let l = ReadShared first as in l = zeroState \<or>
    (\<exists>ws \<in> set runs. settings l = settings (last (m0 # worldDone (hd ws))))"
proof -
  have "\<forall>ws \<in> set runs. world_ok m0 (hd ws) \<and>
      length (worldDone (last ws)) - length (worldDone (hd ws)) < 2 ^ 31"
    using assms(4) shared.run[of "startWorld 1 m0"] world_ok_start[OF assms(1,2)] by blast
  then have ok: "\<forall>ws \<in> set (take 3 runs). world_ok m0 (hd ws) \<and>
      length (worldDone (last ws)) - length (worldDone (hd ws)) < 2 ^ 31"
    by (meson in_set_takeD)
  have "list_all2 seen_along (take 3 runs) (take 3 as)" using assms(3) by (rule list_all2_takeI)
  from read_retries_settings[OF this _ ok, of zeroState] show ?thesis
    by (auto simp: ReadShared_def Let_def zeroState_def split: option.splits dest: in_set_takeD)
qed

text \<open>Without a writer a read returns the memory itself.\<close>

definition quiet_attempt :: "SharedState \<Rightarrow> ReadAttempt" where
  "quiet_attempt m = \<lparr>seenBefore = m, seenCopies = replicate (length Read_copies) m, seenAfter = m\<rparr>"

lemma quiet_read:
  assumes "IsValid m" and "shEpoch m AND 1 = 0" and "length (shReserved m) = kReservedSize"
  shows "ReadShared (Some m) (quiet_attempt m # as) = m"
  using assms Read_all[of m zeroState]
  by (simp add: ReadShared_def quiet_attempt_def attempt_ok_def copy_seen_same IsValid_def zeroState_def
      take_Cons' Let_def)

lemma successively_same: "successively R\<^sup>*\<^sup>* (replicate n w)"
proof (induction n)
  case (Suc n)
  then show ?case by (cases n) simp_all
qed simp

lemma quiet_seen:
  assumes "worldMem w = m"
  shows "seen_along (replicate (Suc (Suc (length Read_copies))) w) (quiet_attempt m)"
proof -
  show ?thesis
    using successively_same[of shared_step]
    unfolding seen_along_def quiet_attempt_def by (simp add: assms replicate_append_same del: replicate_Suc)
      (simp add: assms replicate_append_same)
qed

theorem read_sees_one_write_witness:
  "let m = InitDefaults zeroState; l = ReadShared (Some m) [quiet_attempt m] in
    l = m \<and> settings l = settings m"
proof -
  let ?m = "InitDefaults zeroState" let ?w = "startWorld 1 ?m"
  let ?ws = "replicate (Suc (Suc (length Read_copies))) ?w"
  have m: "IsValid ?m" "shEpoch ?m = 0" "length (shReserved ?m) = kReservedSize" "?m \<noteq> zeroState"
    by (simp_all add: IsValid_def InitDefaults_def SetFeatureFlags_def zeroState_def Let_def)
  have l: "ReadShared (Some ?m) [quiet_attempt ?m] = ?m" using quiet_read[OF m(1) _ m(3)] m(2) by simp
  have "list_all2 seen_along [?ws] [quiet_attempt ?m]"
    using quiet_seen[of ?w ?m] by (simp add: startWorld_def)
  from read_sees_one_write[OF m(2,3) this, of "Some ?m"] l m(4) show ?thesis
    by (simp add: Let_def startWorld_def)
qed

subsection \<open>Two writers of the structure\<close>

lemma copy_run:
  assumes "i < length (worldPcs w)" and "worldPcs w ! i = WCopy st seq 0"
  shows "k \<le> length Write_copies \<Longrightarrow> shared_step\<^sup>*\<^sup>* w
    (w\<lparr>worldMem := fold (\<lambda>c. c st) (take k Write_copies) (worldMem w), worldPcs := (worldPcs w)[i := WCopy st seq k]\<rparr>)"
proof (induction k)
  case 0
  have "(worldPcs w)[i := WCopy st seq 0] = worldPcs w" by (metis assms(2) list_update_id)
  then show ?case by simp
next
  case (Suc k)
  let ?w = "w\<lparr>worldMem := fold (\<lambda>c. c st) (take k Write_copies) (worldMem w),
              worldPcs := (worldPcs w)[i := WCopy st seq k]\<rparr>"
  have "shared_step ?w (?w\<lparr>worldMem := (Write_copies ! k) st (worldMem ?w),
      worldPcs := (worldPcs ?w)[i := WCopy st seq (Suc k)]\<rparr>)"
    using assms Suc.prems by (intro shared_step.copy_field) simp_all
  then show ?case
    using Suc by (auto simp: take_Suc_conv_app_nth intro: rtranclp.rtrancl_into_rtrancl)
qed

text \<open>C36: With two writing processes the protocol does not hold. If both calls of Write read the
  epoch before either stores it, the epoch is even again when one of them is finished and the other
  is still copying: a read is then accepted although it has taken the typing method from one call and
  the code table from the other, whatever the two calls write.\<close>

theorem two_writers_tear:
  fixes a b m0 :: SharedState
  assumes "length (shReserved a) = kReservedSize" and "length (shReserved b) = kReservedSize"
    and "length (shReserved m0) = kReservedSize" and "shEpoch m0 = 0"
  shows "\<exists>ws att. shared_step\<^sup>*\<^sup>* (startWorld 2 m0) (hd ws) \<and> seen_along ws att \<and> attempt_ok att \<and>
    (let l = copy_seen Read_copies (seenCopies att) zeroState in
      shInputMethod l = shInputMethod a \<and> shCodeTable l = shCodeTable b)"
proof -
  define w1 where "w1 = startWorld 2 m0\<lparr>worldPcs := [WSeq a 1, WIdle]\<rparr>"
  define w2 where "w2 = w1\<lparr>worldPcs := [WSeq a 1, WSeq b 1]\<rparr>"
  define w3 where "w3 = w2\<lparr>worldMem := m0\<lparr>shEpoch := 1\<rparr>, worldPcs := [WSeq a 1, WCopy b 1 0]\<rparr>"
  define w4 where "w4 = w3\<lparr>worldPcs := [WCopy a 1 0, WCopy b 1 0]\<rparr>"
  define ma where "ma = a\<lparr>shEpoch := 1, shAnchor := shAnchor m0\<rparr>"
  define w5 where "w5 = w4\<lparr>worldMem := ma, worldPcs := [WCopy a 1 (length Write_copies), WCopy b 1 0]\<rparr>"
  define w6 where "w6 = w5\<lparr>worldMem := ma\<lparr>shEpoch := 2\<rparr>, worldPcs := [WIdle, WCopy b 1 0], worldDone := [a]\<rparr>"
  define mb where "mb = fold (\<lambda>c. c b) (take 11 Write_copies) (worldMem w6)"
  define w7 where "w7 = w6\<lparr>worldMem := mb, worldPcs := [WIdle, WCopy b 1 11]\<rparr>"
  have two: "length Write_copies = 1043" "length Read_copies = 1045"
    by (simp_all add: Write_copies_def Read_copies_def reserved_copies_def)
  have s1: "shared_step (startWorld 2 m0) w1"
    using shared_step.begin_write[of 0 "startWorld 2 m0" a] assms
    by (simp add: w1_def startWorld_def numeral_2_eq_2)
  have s2: "shared_step w1 w2"
    using shared_step.begin_write[of 1 w1 b] assms by (simp add: w1_def w2_def startWorld_def)
  have s3: "shared_step w2 w3"
    using shared_step.mark_write[of 1 w2 b 1] by (simp add: w1_def w2_def w3_def startWorld_def)
  have s4: "shared_step w3 w4"
    using shared_step.mark_write[of 0 w3 a 1] by (simp add: w3_def w4_def)
  have s5: "shared_step\<^sup>*\<^sup>* w4 w5"
    using copy_run[of 0 w4 a 1 "length Write_copies"] Write_all[OF assms(1), of "m0\<lparr>shEpoch := 1\<rparr>"] assms(3)
    by (simp add: w4_def w5_def w3_def ma_def)
  have s6: "shared_step w5 w6"
    using shared_step.end_write[of 0 w5 a 1] by (simp add: w5_def w6_def w4_def w3_def w2_def w1_def startWorld_def)
  have s7: "shared_step\<^sup>*\<^sup>* w6 w7"
    using copy_run[of 1 w6 b 1 11] by (simp add: two w6_def w7_def mb_def)
  let ?early = "take 11 Read_copies" let ?late = "drop 11 Read_copies"
  let ?ws = "replicate (Suc 11) w6 @ replicate (Suc (length ?late)) w7"
  define att where "att = \<lparr>seenBefore = worldMem w6,
    seenCopies = replicate 11 (worldMem w6) @ replicate (length ?late) mb, seenAfter = mb\<rparr>"
  have reach: "shared_step\<^sup>*\<^sup>* (startWorld 2 m0) w6"
    using s1 s2 s3 s4 s5 s6
    by (meson rtranclp.rtrancl_into_rtrancl rtranclp.rtrancl_refl rtranclp_trans)
  have epochs: "shEpoch (worldMem w6) = 2" "shEpoch mb = 2"
    by (simp_all add: w6_def mb_def Write_copies_def)
  have succ: "successively shared_step\<^sup>*\<^sup>* ?ws"
    using successively_same[of shared_step] s7
    by (simp add: successively_append_iff del: replicate_Suc)
  have "worldMem w7 = mb" by (simp add: w7_def)
  then have "map worldMem ?ws = seenBefore att # seenCopies att @ [seenAfter att]"
    unfolding att_def ReadAttempt.simps map_append map_replicate replicate_Suc[of 11]
      replicate_append_same[of "length ?late", symmetric] append_Cons append_assoc replicate_Suc
    by simp
  then have along: "seen_along ?ws att"
    using succ by (simp add: seen_along_def att_def two)
  have "copy_seen Read_copies (seenCopies att) zeroState =
      copy_seen (?early @ ?late) (replicate 11 (worldMem w6) @ replicate (length ?late) mb) zeroState"
    by (simp add: att_def)
  also have "\<dots> = fold (\<lambda>c. c mb) ?late (fold (\<lambda>c. c (worldMem w6)) ?early zeroState)"
    using copy_seen_same[of ?early "worldMem w6"] copy_seen_same[of ?late mb]
    by (simp add: copy_seen_append two del: append_take_drop_id)
  finally have l: "copy_seen Read_copies (seenCopies att) zeroState = \<dots>" .
  have "length (shReserved mb) = kReservedSize"
    using assms by (simp add: mb_def w6_def ma_def Write_copies_def)
  then have "shInputMethod (copy_seen Read_copies (seenCopies att) zeroState) = shInputMethod a \<and>
      shCodeTable (copy_seen Read_copies (seenCopies att) zeroState) = shCodeTable b"
    unfolding l by (simp add: Read_copies_def fold_reserved_all zeroState_def w6_def ma_def mb_def Write_copies_def)
  then show ?thesis
    using reach along epochs by (intro exI[of _ ?ws] exI[of _ att]) (simp add: attempt_ok_def att_def Let_def)
qed

theorem two_writers_tear_witness:
  "\<exists>ws att. shared_step\<^sup>*\<^sup>* (startWorld 2 zeroState) (hd ws) \<and> seen_along ws att \<and> attempt_ok att \<and>
    (let l = copy_seen Read_copies (seenCopies att) zeroState in shInputMethod l = 1 \<and> shCodeTable l = 2)"
  using two_writers_tear[of "zeroState\<lparr>shInputMethod := 1\<rparr>" "zeroState\<lparr>shCodeTable := 2\<rparr>" zeroState]
  by (simp add: zeroState_def)

text \<open>A call of \<open>Write\<close> also stores the flags that were read before it, so a flag that was changed in
  between falls back.\<close>

lemma Write_loses_toggle:
  assumes "IsValid m" and "shEpoch m AND 1 = 0" and "length (shReserved m) = kReservedSize"
  shows "shFlags (fold (\<lambda>c. c (ReadShared (Some m) [quiet_attempt m])) Write_copies (ToggleFlag b m)) = shFlags m"
  using assms by (simp add: quiet_read Write_all)

subsection \<open>The anchor\<close>

definition anchor_writing :: "AnchorPc \<Rightarrow> bool" where
  "anchor_writing pc \<longleftrightarrow> (case pc of ACopy a k \<Rightarrow> True | AIdle \<Rightarrow> False)"

definition anchor_phase :: "AnchorWorld \<Rightarrow> nat" where
  "anchor_phase w = 2 * length (anchorDone w) + (if anchor_writing (hd (anchorPcs w)) then 1 else 0)"

abbreviation anchor_text :: "HookContextAnchor \<Rightarrow> HookContextAnchor" where
  "anchor_text a \<equiv> a\<lparr>ancGeneration := 0\<rparr>"

definition anchor_ok :: "HookContextAnchor \<Rightarrow> AnchorWorld \<Rightarrow> bool" where
  "anchor_ok m0 w \<longleftrightarrow>
    length (anchorPcs w) = 1 \<and> length (ancSyllable (anchorMem w)) = 16 \<and>
    ancGeneration (anchorMem w) = of_nat (anchor_phase w) \<and>
    (case hd (anchorPcs w) of
       AIdle \<Rightarrow> anchor_text (anchorMem w) = anchor_text (last (m0 # anchorDone w))
     | ACopy a k \<Rightarrow> length (ancSyllable a) = 16 \<and>
         (\<exists>m. length (ancSyllable m) = 16 \<and>
              anchorMem w = fold (\<lambda>c. c a) (take k Anchor_copies) m))"

lemma fold_syllable:
  "n \<le> length (ancSyllable s) \<Longrightarrow> n \<le> length (ancSyllable d) \<Longrightarrow>
    fold (\<lambda>c. c s) (map (\<lambda>i s d. d\<lparr>ancSyllable := (ancSyllable d)[i := ancSyllable s ! i]\<rparr>) [0..<n]) d =
    d\<lparr>ancSyllable := take n (ancSyllable s) @ drop n (ancSyllable d)\<rparr>"
proof (induction n)
  case (Suc n)
  then have "drop n (ancSyllable d) = ancSyllable d ! n # drop (Suc n) (ancSyllable d)"
    by (simp add: Cons_nth_drop_Suc)
  with Suc show ?case by (simp add: list_update_append take_Suc_conv_app_nth)
qed simp

lemma Anchor_all:
  fixes s d :: HookContextAnchor
  assumes "length (ancSyllable s) = 16" and "length (ancSyllable d) = 16"
  shows "fold (\<lambda>c. c s) Anchor_copies d = s\<lparr>ancGeneration := ancGeneration d\<rparr>"
proof -
  have "fold (\<lambda>c. c s) Anchor_copies d =
      fold (\<lambda>c. c s) (map (\<lambda>i s d. d\<lparr>ancSyllable := (ancSyllable d)[i := ancSyllable s ! i]\<rparr>) [0..<16])
        (s\<lparr>ancGeneration := ancGeneration d, ancSyllable := ancSyllable d\<rparr>)"
    unfolding Anchor_copies_def fold_append
    by (cases s; cases d) (simp del: upt_rec_numeral)
  then show ?thesis
    using fold_syllable[of 16 s "s\<lparr>ancGeneration := ancGeneration d, ancSyllable := ancSyllable d\<rparr>"] assms
    by (simp del: upt_rec_numeral)
qed

lemma Anchor_copies_keep:
  assumes "c \<in> set Anchor_copies"
  shows "ancGeneration (c s m) = ancGeneration m" "length (ancSyllable (c s m)) = length (ancSyllable m)"
proof -
  have "set Anchor_copies \<subseteq> {c. \<forall>s m. ancGeneration (c s m) = ancGeneration m \<and>
      length (ancSyllable (c s m)) = length (ancSyllable m)}"
    unfolding Anchor_copies_def set_append set_map set_upt by auto
  then show "ancGeneration (c s m) = ancGeneration m" "length (ancSyllable (c s m)) = length (ancSyllable m)"
    using assms by blast+
qed

lemma anchor_step_ok:
  assumes "anchor_step w w'" and "anchor_ok m0 w"
  shows "anchor_ok m0 w' \<and> anchor_phase w \<le> anchor_phase w' \<and>
    (even (anchor_phase w) \<and> anchor_phase w' = anchor_phase w \<longrightarrow>
      anchor_text (anchorMem w') = anchor_text (anchorMem w))"
  using assms
proof (cases rule: anchor_step.cases)
  case (begin_anchor i a)
  have pcs: "i = 0" "anchorPcs w = [AIdle]"
    using begin_anchor(2,3) assms(2) by (cases "anchorPcs w"; simp add: anchor_ok_def)+
  have "\<exists>m. length (ancSyllable m) = 16 \<and>
      (anchorMem w)\<lparr>ancGeneration := ancGeneration (anchorMem w) + 1\<rparr> = fold (\<lambda>c. c a) (take 0 Anchor_copies) m"
    using assms(2) by (intro exI[of _ "(anchorMem w)\<lparr>ancGeneration := ancGeneration (anchorMem w) + 1\<rparr>"]) (simp add: anchor_ok_def)
  then show ?thesis
    using assms(2) begin_anchor(1,4) pcs by (simp add: anchor_ok_def anchor_phase_def anchor_writing_def)
next
  case (copy_anchor i a k)
  have pcs: "i = 0" "anchorPcs w = [ACopy a k]"
    using copy_anchor(2,3) assms(2) by (cases "anchorPcs w"; simp add: anchor_ok_def)+
  have c: "Anchor_copies ! k \<in> set Anchor_copies" using copy_anchor(4) by simp
  obtain m where m: "length (ancSyllable m) = 16" "anchorMem w = fold (\<lambda>c. c a) (take k Anchor_copies) m"
    using assms(2) pcs by (auto simp: anchor_ok_def)
  have "(Anchor_copies ! k) a (anchorMem w) = fold (\<lambda>c. c a) (take (Suc k) Anchor_copies) m"
    using m(2) copy_anchor(4) by (simp add: take_Suc_conv_app_nth)
  then have "\<exists>m. length (ancSyllable m) = 16 \<and>
      (Anchor_copies ! k) a (anchorMem w) = fold (\<lambda>c. c a) (take (Suc k) Anchor_copies) m"
    using m(1) by blast
  then show ?thesis
    using assms(2) copy_anchor(1) pcs Anchor_copies_keep[OF c, of a "anchorMem w"]
    by (simp add: anchor_ok_def anchor_phase_def anchor_writing_def)
next
  case (end_anchor i a)
  have pcs: "i = 0" "anchorPcs w = [ACopy a (length Anchor_copies)]"
    using end_anchor(2,3) assms(2) by (cases "anchorPcs w"; simp add: anchor_ok_def)+
  obtain m where m: "length (ancSyllable a) = 16" "length (ancSyllable m) = 16"
      "anchorMem w = fold (\<lambda>c. c a) Anchor_copies m"
    using assms(2) pcs by (auto simp: anchor_ok_def)
  then have "anchor_text (anchorMem w) = anchor_text a" using Anchor_all[OF m(1,2)] by simp
  then show ?thesis
    using assms(2) end_anchor(1) pcs m by (simp add: anchor_ok_def anchor_phase_def anchor_writing_def)
qed

interpretation anchor: seqlock anchor_step "anchor_ok m0" anchor_phase "\<lambda>w. ancGeneration (anchorMem w)"
    "\<lambda>w. anchor_text (anchorMem w)" for m0
  by unfold_locales (use anchor_step_ok in \<open>blast+\<close>, simp add: anchor_ok_def)

lemma anchor_ok_start:
  "ancGeneration m0 = 0 \<Longrightarrow> length (ancSyllable m0) = 16 \<Longrightarrow> anchor_ok m0 (startAnchor 1 m0)"
  by (simp add: anchor_ok_def startAnchor_def anchor_phase_def anchor_writing_def)

lemma Anchor_copies_text:
  fixes s m s' m' :: HookContextAnchor
  assumes "c \<in> set Anchor_copies" and "anchor_text s = anchor_text s'" and "anchor_text m = anchor_text m'"
  shows "anchor_text (c s m) = anchor_text (c s' m')"
proof -
  have "set Anchor_copies \<subseteq> {c. \<forall>s m :: HookContextAnchor. anchor_text (c s m) = anchor_text (c (anchor_text s) (anchor_text m))}"
    unfolding Anchor_copies_def set_append set_map set_upt by auto
  then have "anchor_text (c s m) = anchor_text (c (anchor_text s) (anchor_text m))" for s m :: HookContextAnchor
    using assms(1) by blast
  from this[of s m] this[of s' m'] show ?thesis using assms(2,3) by presburger
qed

lemma anchor_seen_text:
  fixes s l l' :: HookContextAnchor
  assumes "length ms = length cs" and "\<forall>m \<in> set ms. anchor_text m = anchor_text s"
    and "set cs \<subseteq> set Anchor_copies" and "anchor_text l = anchor_text l'"
  shows "anchor_text (anchor_seen cs ms l) = anchor_text (fold (\<lambda>c. c s) cs l')"
  using assms
proof (induction cs ms arbitrary: l l' rule: list_induct2')
  case (4 c cs m ms)
  have "anchor_text (c m l) = anchor_text (c s l')"
    by (rule Anchor_copies_text) (use 4(3-5) in simp_all)
  then have "anchor_text (anchor_seen cs ms (c m l)) = anchor_text (fold (\<lambda>c. c s) cs (c s l'))"
    using 4(2-4) by (intro 4(1)) simp_all
  then show ?case by simp
qed simp_all

text \<open>With one text service writing the anchor, a read of the anchor that succeeds returns the
  anchor of one call as a whole, the last one that was finished when the attempt began; only if 2 to
  the 31 writes are finished during one attempt could the wrapping counter hide them.\<close>

theorem anchor_read_sees_one_write:
  fixes m0 l :: HookContextAnchor
  assumes "ancGeneration m0 = 0" and "length (ancSyllable m0) = 16" and "length (ancSyllable out) = 16"
    and "anchor_along ws a" and "anchor_step\<^sup>*\<^sup>* (startAnchor 1 m0) (hd ws)"
    and "length (anchorDone (last ws)) - length (anchorDone (hd ws)) < 2 ^ 31"
    and "ReadAnchorSeqlock [a] out = Some l"
  shows "anchor_text l = anchor_text (last (m0 # anchorDone (hd ws)))"
proof -
  have mems: "map anchorMem ws = ancBefore a # ancCopies a @ [ancAfter a]"
      and len: "length (ancCopies a) = length Anchor_copies" and suc: "successively anchor_step\<^sup>*\<^sup>* ws"
    using assms(4) by (simp_all add: anchor_along_def)
  have ne: "ws \<noteq> []" using mems by auto
  have ends: "anchorMem (hd ws) = ancBefore a" "anchorMem (last ws) = ancAfter a"
    using mems ne by (metis hd_map list.sel(1), metis last_map last.simps append_is_Nil_conv last_append last_snoc list.distinct(1))
  have ok: "anchor_ok m0 (hd ws)"
    using anchor.run[OF assms(5)] anchor_ok_start[OF assms(1,2)] by blast
  have "anchor_phase (last ws) - anchor_phase (hd ws) < 2 ^ 32"
    using assms(6) by (simp add: anchor_phase_def) arith
  then have st: "even (anchor_phase (hd ws))"
      "\<And>w. w \<in> set ws \<Longrightarrow> anchor_text (anchorMem w) = anchor_text (anchorMem (hd ws))"
    using anchor.stable[OF suc ne ok] assms(7) by (auto simp: ends Let_def split: if_splits)
  have calm: "\<not> anchor_writing (hd (anchorPcs (hd ws)))" using st(1) by (auto simp: anchor_phase_def)
  have hd: "anchor_text (anchorMem (hd ws)) = anchor_text (last (m0 # anchorDone (hd ws)))"
      "length (ancSyllable (anchorMem (hd ws))) = 16"
    using ok calm by (cases "hd (anchorPcs (hd ws))"; simp add: anchor_ok_def anchor_writing_def)+
  have "set (ancCopies a) \<subseteq> anchorMem ` set ws" using arg_cong[OF mems, of set] by auto
  then have "\<forall>m \<in> set (ancCopies a). anchor_text m = anchor_text (anchorMem (hd ws))" using st(2) by auto
  from anchor_seen_text[OF len this subset_refl, of "out\<lparr>ancGeneration := ancGeneration (ancBefore a)\<rparr>" out]
  have "anchor_text l = anchor_text (fold (\<lambda>c. c (anchorMem (hd ws))) Anchor_copies out)"
    using assms(7) by (simp add: Let_def split: if_splits)
  then show ?thesis using Anchor_all[OF hd(2) assms(3)] hd(1) by simp
qed

theorem anchor_read_sees_one_write_witness:
  "let a = \<lparr>ancBefore = zeroAnchor, ancCopies = replicate 21 zeroAnchor, ancAfter = zeroAnchor\<rparr> in
    \<exists>l. ReadAnchorSeqlock [a] (zeroAnchor\<lparr>ancAvailable := 1\<rparr>) = Some l \<and> anchor_text l = zeroAnchor"
proof -
  let ?w = "startAnchor 1 zeroAnchor"
  define a where "a = \<lparr>ancBefore = zeroAnchor, ancCopies = replicate 21 zeroAnchor, ancAfter = zeroAnchor\<rparr>"
  have n: "length Anchor_copies = 21" by (simp add: Anchor_copies_def)
  have "anchor_along (replicate (Suc (Suc 21)) ?w) a"
    unfolding anchor_along_def
  proof (intro conjI)
    show "map anchorMem (replicate (Suc (Suc 21)) ?w) = ancBefore a # ancCopies a @ [ancAfter a]"
      by (simp add: a_def startAnchor_def eval_nat_numeral)
  qed (simp add: a_def n, rule successively_same)
  moreover obtain l where l: "ReadAnchorSeqlock [a] (zeroAnchor\<lparr>ancAvailable := 1\<rparr>) = Some l"
    by (simp add: a_def zeroAnchor_def Let_def)
  ultimately show ?thesis
    using anchor_read_sees_one_write[of zeroAnchor "zeroAnchor\<lparr>ancAvailable := 1\<rparr>" _ a l]
    unfolding a_def[symmetric] Let_def by (fastforce simp: zeroAnchor_def startAnchor_def)
qed

lemma anchor_copy_run:
  assumes "i < length (anchorPcs w)" and "anchorPcs w ! i = ACopy a 0"
  shows "k \<le> length Anchor_copies \<Longrightarrow> anchor_step\<^sup>*\<^sup>* w
    (w\<lparr>anchorMem := fold (\<lambda>c. c a) (take k Anchor_copies) (anchorMem w), anchorPcs := (anchorPcs w)[i := ACopy a k]\<rparr>)"
proof (induction k)
  case 0
  have "(anchorPcs w)[i := ACopy a 0] = anchorPcs w" by (metis assms(2) list_update_id)
  then show ?case by simp
next
  case (Suc k)
  let ?w = "w\<lparr>anchorMem := fold (\<lambda>c. c a) (take k Anchor_copies) (anchorMem w),
              anchorPcs := (anchorPcs w)[i := ACopy a k]\<rparr>"
  have "anchor_step ?w (?w\<lparr>anchorMem := (Anchor_copies ! k) a (anchorMem ?w),
      anchorPcs := (anchorPcs ?w)[i := ACopy a (Suc k)]\<rparr>)"
    using assms Suc.prems by (intro anchor_step.copy_anchor) simp_all
  then show ?case
    using Suc by (auto simp: take_Suc_conv_app_nth intro: rtranclp.rtrancl_into_rtrancl)
qed

lemma anchor_seen_same: "length cs = n \<Longrightarrow> anchor_seen cs (replicate n m) l = fold (\<lambda>c. c m) cs l"
  by (induction cs arbitrary: l n) auto

lemma anchor_seen_append:
  "length ms = length cs \<Longrightarrow> anchor_seen (cs @ cs') (ms @ ms') l = anchor_seen cs' ms' (anchor_seen cs ms l)"
  by (induction cs ms arbitrary: l rule: list_induct2') simp_all

text \<open>With two text services writing the anchor at once, the generation is even while both are
  writing: a reader does not try again but accepts an anchor that has the flags and the length of the
  word of one service and the characters of the other.\<close>

theorem two_anchors_tear:
  fixes a b m0 :: HookContextAnchor
  assumes "length (ancSyllable a) = 16" and "length (ancSyllable b) = 16"
    and "length (ancSyllable m0) = 16" and "ancGeneration m0 = 0"
  shows "\<exists>ws att l. anchor_step\<^sup>*\<^sup>* (startAnchor 2 m0) (hd ws) \<and> anchor_along ws att \<and>
    ReadAnchorSeqlock [att] zeroAnchor = Some l \<and>
    ancSyllableLen l = ancSyllableLen a \<and> ancSyllable l = ancSyllable b"
proof -
  define w1 where "w1 = startAnchor 2 m0\<lparr>anchorMem := m0\<lparr>ancGeneration := 1\<rparr>, anchorPcs := [ACopy a 0, AIdle]\<rparr>"
  define ma where "ma = a\<lparr>ancGeneration := 1\<rparr>"
  define w2 where "w2 = w1\<lparr>anchorMem := ma, anchorPcs := [ACopy a 21, AIdle]\<rparr>"
  define mb where "mb = b\<lparr>ancGeneration := 2\<rparr>"
  define w3 where "w3 = w2\<lparr>anchorMem := a\<lparr>ancGeneration := 2\<rparr>, anchorPcs := [ACopy a 21, ACopy b 0]\<rparr>"
  define w4 where "w4 = w3\<lparr>anchorMem := mb, anchorPcs := [ACopy a 21, ACopy b 21]\<rparr>"
  have n: "length Anchor_copies = 21" by (simp add: Anchor_copies_def)
  have "anchor_step (startAnchor 2 m0) w1"
    using anchor_step.begin_anchor[of 0 "startAnchor 2 m0" a] assms
    by (simp add: w1_def startAnchor_def numeral_2_eq_2)
  moreover have "anchor_step\<^sup>*\<^sup>* w1 w2"
    using anchor_copy_run[of 0 w1 a 21] Anchor_all[OF assms(1), of "m0\<lparr>ancGeneration := 1\<rparr>"] assms(3)
    by (simp add: n w1_def w2_def ma_def)
  moreover have "anchor_step w2 w3"
    using anchor_step.begin_anchor[of 1 w2 b] assms(2) by (simp add: w2_def w3_def ma_def)
  ultimately have reach: "anchor_step\<^sup>*\<^sup>* (startAnchor 2 m0) w3"
    by (meson rtranclp.rtrancl_into_rtrancl rtranclp.rtrancl_refl rtranclp_trans)
  have s4: "anchor_step\<^sup>*\<^sup>* w3 w4"
    using anchor_copy_run[of 1 w3 b 21] Anchor_all[OF assms(2), of "a\<lparr>ancGeneration := 2\<rparr>"] assms(1)
    by (simp add: n w3_def w4_def mb_def)
  let ?early = "take 5 Anchor_copies" let ?late = "drop 5 Anchor_copies"
  let ?ws = "replicate (Suc 5) w3 @ replicate (Suc 16) w4"
  define att where "att = \<lparr>ancBefore = anchorMem w3,
    ancCopies = replicate 5 (anchorMem w3) @ replicate 16 mb, ancAfter = mb\<rparr>"
  have mems: "map anchorMem ?ws = ancBefore att # ancCopies att @ [ancAfter att]"
    by (simp add: att_def w4_def eval_nat_numeral)
  have "successively anchor_step\<^sup>*\<^sup>* ?ws"
    using successively_same[of anchor_step] s4 by (simp add: successively_append_iff del: replicate_Suc)
  then have along: "anchor_along ?ws att"
    using mems by (simp add: anchor_along_def att_def n)
  define l0 where "l0 = zeroAnchor\<lparr>ancGeneration := 2\<rparr>"
  define l where "l = fold (\<lambda>c. c mb) ?late (fold (\<lambda>c. c (anchorMem w3)) ?early l0)"
  have "anchor_seen Anchor_copies (ancCopies att) l0 =
      anchor_seen (?early @ ?late) (replicate 5 (anchorMem w3) @ replicate 16 mb) l0"
    by (simp add: att_def)
  also have "\<dots> = l"
    using anchor_seen_same[of ?early 5 "anchorMem w3"] anchor_seen_same[of ?late 16 mb]
    by (simp add: anchor_seen_append n l_def del: append_take_drop_id)
  finally have seen: "anchor_seen Anchor_copies (ancCopies att) l0 = l" .
  define e where "e = l0\<lparr>ancAvailable := ancAvailable a, ancSentenceStart := ancSentenceStart a,
    ancLineStart := ancLineStart a, ancWordStart := ancWordStart a, ancSyllableLen := ancSyllableLen a\<rparr>"
  have first: "fold (\<lambda>c. c (anchorMem w3)) ?early l0 = e"
    by (simp add: Anchor_copies_def w3_def e_def)
  have late: "?late = map (\<lambda>i s d. d\<lparr>ancSyllable := (ancSyllable d)[i := ancSyllable s ! i]\<rparr>) [0..<16]"
    unfolding Anchor_copies_def by (simp del: upt_rec_numeral)
  have "length (ancSyllable e) = 16" by (simp add: e_def l0_def zeroAnchor_def)
  then have "l = e\<lparr>ancSyllable := ancSyllable b\<rparr>"
    unfolding l_def first late using fold_syllable[of 16 mb e] assms(2) by (simp add: mb_def del: upt_rec_numeral)
  then have "ancSyllableLen l = ancSyllableLen a \<and> ancSyllable l = ancSyllable b"
    by (simp add: e_def)
  moreover have "ReadAnchorSeqlock [att] zeroAnchor = Some l"
    using seen by (simp add: att_def l0_def w3_def mb_def Let_def)
  ultimately show ?thesis using reach along by (intro exI[of _ ?ws] exI[of _ att] exI[of _ l]) simp
qed

theorem two_anchors_tear_witness:
  "\<exists>ws att l. anchor_step\<^sup>*\<^sup>* (startAnchor 2 zeroAnchor) (hd ws) \<and> anchor_along ws att \<and>
    ReadAnchorSeqlock [att] zeroAnchor = Some l \<and> ancSyllableLen l = 3 \<and> ancSyllable l = replicate 16 97"
  using two_anchors_tear[of "zeroAnchor\<lparr>ancSyllableLen := 3\<rparr>" "zeroAnchor\<lparr>ancSyllable := replicate 16 97\<rparr>" zeroAnchor]
  by (simp add: zeroAnchor_def)

end
