(* ===== verification/TextService.thy ===== *)
theory TextService
  imports Engine SharedSync
begin

text \<open>
  The text service, which runs in the process of the program in front (\<open>src/tsf\<close>):
  \<open>EngineController.cpp\<close>, \<open>KeyEventSink.cpp\<close>, the edit sessions of \<open>CompositionEditSession.h\<close> and
  \<open>EscRestoreLastCommitSession.h\<close>, and \<open>CompositionManager.cpp\<close>.

  The document is the text in front of the caret and, while a composition is active, its text; the
  caret is behind both. What the system answers while one key is handled is the record \<open>TsfEnv\<close>:
  whether edit sessions are granted and their operations succeed, the modifier keys, the character a
  key types, the tick count, and the shared memory. A read session that succeeds sees the document.
  An object of type \<open>ITfContext\<close> is a number, a null pointer \<open>None\<close>; a range over the word in front
  of the caret is its text.
\<close>

subsection \<open>The system and the state\<close>

record TsfEnv =
  tsGrants :: bool      \<comment> \<open>read-write edit sessions are carried out\<close>
  tsReads :: bool       \<comment> \<open>read sessions are carried out\<close>
  tsSelection :: bool   \<comment> \<open>a text is selected\<close>
  tsStarts :: bool      \<comment> \<open>a composition can be started\<close>
  tsShifts :: bool      \<comment> \<open>a range can be extended to the left\<close>
  tsSets :: bool        \<comment> \<open>the text of a range can be replaced\<close>
  tsContext :: "nat option"
  tsBlocks :: bool      \<comment> \<open>the input scope of the context is one for passwords and the like\<close>
  tsCtrl :: bool
  tsShift :: bool
  tsAlt :: bool
  tsWin :: bool
  tsCaps :: bool
  tsChar :: "vkey \<Rightarrow> wchar"
  tsTick :: u32
  tsScintillaWindow :: bool
  tsShared :: "SharedState option"   \<comment> \<open>the memory that is mapped\<close>
  tsOpened :: "SharedState option"   \<comment> \<open>the memory \<open>OpenReadWrite\<close> maps, when it is called\<close>
  tsRead :: SharedState              \<comment> \<open>what \<open>SharedStateManager::Read\<close> returns\<close>

datatype CommitUndoState = UndoIdle | UndoReady | UndoPrimed

record TsfState =
  tsfEngine :: Engine
  tsfConfig :: TypingConfig
  tsfMethod :: InputMethod
  lastEpoch :: u32
  engineEnabled :: bool
  tsfActive :: bool
  tsfVietnamese :: bool
  abiOk :: bool
  lastContext :: "nat option"
  contextBlocked :: bool
  isScintillaApp :: bool
  tsfDigitLed :: bool
  pendingRevive :: "wstring option"
  lastText :: wstring
  lastRaw :: wstring
  lastTrailing :: bool
  lastTimestamp :: u32
  commitUndo :: CommitUndoState
  lastTestedVk :: vkey
  lastWantKey :: bool
  lastPunctChar :: wchar
  docBefore :: wstring
  docComposition :: "wstring option"

abbreviation upd_tsf :: "(Engine \<Rightarrow> Engine) \<Rightarrow> TsfState \<Rightarrow> TsfState" where
  "upd_tsf f s \<equiv> s\<lparr>tsfEngine := f (tsfEngine s)\<rparr>"

definition IsComposing :: "TsfState \<Rightarrow> bool" where
  "IsComposing s \<longleftrightarrow> docComposition s \<noteq> None"

definition HasEngineBuffer :: "TsfState \<Rightarrow> bool" where
  "HasEngineBuffer s \<longleftrightarrow> Count (tsfEngine s) > 0"

subsection \<open>The composition\<close>

definition EndComposition :: "TsfState \<Rightarrow> TsfState" where
  "EndComposition s =
    (case docComposition s of
       None \<Rightarrow> s
     | Some t \<Rightarrow> s\<lparr>docBefore := docBefore s @ t, docComposition := None\<rparr>)"

text \<open>The local pointer is dropped; the text stays in the document.\<close>

definition TerminateComposition :: "TsfState \<Rightarrow> TsfState" where
  "TerminateComposition s = EndComposition s"

definition StartComposition :: "TsfEnv \<Rightarrow> TsfState \<Rightarrow> bool \<times> TsfState" where
  "StartComposition env s =
    (let s = EndComposition s in
     if tsStarts env then (True, s\<lparr>docComposition := Some []\<rparr>) else (False, s))"

definition SetCompositionText :: "TsfEnv \<Rightarrow> wstring \<Rightarrow> TsfState \<Rightarrow> TsfState" where
  "SetCompositionText env t s =
    (if docComposition s = None \<or> \<not> tsSets env then s else s\<lparr>docComposition := Some t\<rparr>)"

text \<open>A request runs the session at once or not at all.\<close>

definition RequestEditSession :: "TsfEnv \<Rightarrow> (TsfState \<Rightarrow> TsfState) \<Rightarrow> TsfState \<Rightarrow> TsfState" where
  "RequestEditSession env session s = (if tsGrants env then session s else s)"

subsection \<open>Edit sessions\<close>

definition StartCompositionSession :: "TsfEnv \<Rightarrow> wstring \<Rightarrow> TsfState \<Rightarrow> TsfState" where
  "StartCompositionSession env t s =
    (let (ok, s) = StartComposition env s in
     if ok \<and> t \<noteq> [] then SetCompositionText env t s else s)"

definition UpdateCompositionSession :: "TsfEnv \<Rightarrow> wstring \<Rightarrow> TsfState \<Rightarrow> TsfState" where
  "UpdateCompositionSession env t s =
    (if IsComposing s then SetCompositionText env t s
     else (let (ok, s) = StartComposition env s in if ok then SetCompositionText env t s else s))"

definition CommitSession :: "TsfEnv \<Rightarrow> wstring \<Rightarrow> TsfState \<Rightarrow> TsfState" where
  "CommitSession env t s = (if IsComposing s then EndComposition (SetCompositionText env t s) else s)"

text \<open>The word the read sessions find in the last \<open>n\<close> characters in front of the caret.\<close>

definition preceding_word :: "nat \<Rightarrow> wstring \<Rightarrow> wstring" where
  "preceding_word n doc =
    (let buf = drop (length doc - n) doc in
     rev (takeWhile (\<lambda>c. DecomposeVietChar c \<noteq> None) (rev buf)))"

definition ReadPrecedingWord :: "TsfEnv \<Rightarrow> TsfState \<Rightarrow> wstring option" where
  "ReadPrecedingWord env s =
    (if \<not> tsReads env \<or> tsSelection env then None
     else (let word = preceding_word 16 (docBefore s) in if word = [] then None else Some word))"

text \<open>The word in front of the caret, and whether the next letter is capitalised.\<close>

definition InspectPrecedingText :: "TsfEnv \<Rightarrow> TsfState \<Rightarrow> wstring \<times> bool" where
  "InspectPrecedingText env s =
    (if \<not> tsReads env \<or> tsSelection env then ([], False)
     else if docBefore s = [] then ([], True)
     else (preceding_word 64 (docBefore s),
           ComputeShouldAutoCap (drop (length (docBefore s) - 64) (docBefore s))))"

text \<open>The composition is started at the caret and extended to the left over the word.\<close>

definition cover_word :: "wstring \<Rightarrow> TsfState \<Rightarrow> TsfState" where
  "cover_word word s =
    s\<lparr>docBefore := take (length (docBefore s) - length word) (docBefore s), docComposition := Some word\<rparr>"

definition revive_session :: "TsfEnv \<Rightarrow> wstring \<Rightarrow> (Engine \<Rightarrow> Engine) \<Rightarrow> TsfState \<Rightarrow> TsfState" where
  "revive_session env word key s =
    (let (seeded, e) = SeedFromText word (tsfEngine s); s = s\<lparr>tsfEngine := e\<rparr> in
     if \<not> seeded then s
     else
       (let (started, s) = StartComposition env s in
        if \<not> started then upd_tsf Reset s
        else if \<not> tsShifts env then EndComposition (upd_tsf Reset s)
        else
          (let s = upd_tsf key (cover_word word s);
               s = SetCompositionText env (Peek (tsfEngine s)) s
           in if Count (tsfEngine s) = 0 then EndComposition s else s)))"

definition ReviveCompositionSession :: "TsfEnv \<Rightarrow> wstring \<Rightarrow> TsfState \<Rightarrow> TsfState" where
  "ReviveCompositionSession env word s = (if word = [] then s else revive_session env word Backspace s)"

definition ReviveAndTypeSession :: "TsfEnv \<Rightarrow> wstring \<Rightarrow> wchar \<Rightarrow> TsfState \<Rightarrow> TsfState" where
  "ReviveAndTypeSession env word ch s =
    (if word = [] \<or> ch = 0 then s else revive_session env word (PushChar ch) s)"

definition EscRestoreLastCommitSession :: "TsfEnv \<Rightarrow> wstring \<Rightarrow> wstring \<Rightarrow> TsfState \<Rightarrow> TsfState" where
  "EscRestoreLastCommitSession env body raw s =
    (if body = [] \<or> \<not> tsShifts env \<or> length (docBefore s) < length body \<or> \<not> tsSets env then s
     else s\<lparr>docBefore := take (length (docBefore s) - length body) (docBefore s) @ raw\<rparr>)"

subsection \<open>Undoing a commit\<close>

abbreviation kTsfUndoTimeoutMs :: u32 where "kTsfUndoTimeoutMs \<equiv> 1500"

definition clear_last_commit :: "TsfState \<Rightarrow> TsfState" where
  "clear_last_commit s =
    s\<lparr>commitUndo := UndoIdle, lastText := [], lastRaw := [], lastTrailing := False, lastTimestamp := 0\<rparr>"

definition RecordCommitSnapshot :: "TsfEnv \<Rightarrow> wstring \<Rightarrow> wstring \<Rightarrow> bool \<Rightarrow> TsfState \<Rightarrow> TsfState" where
  "RecordCommitSnapshot env t raw trailing s =
    (if t = [] \<or> raw = [] then clear_last_commit s
     else s\<lparr>lastText := t, lastRaw := raw, lastTrailing := trailing, lastTimestamp := tsTick env,
            commitUndo := if trailing then UndoReady else UndoIdle\<rparr>)"

definition WithinUndoWindow :: "TsfEnv \<Rightarrow> TsfState \<Rightarrow> bool" where
  "WithinUndoWindow env s \<longleftrightarrow>
    commitUndo s \<noteq> UndoIdle \<and> tsTick env - lastTimestamp s \<le> kTsfUndoTimeoutMs"

definition TransitionUndoReadyToPrimed :: "TsfState \<Rightarrow> TsfState" where
  "TransitionUndoReadyToPrimed s = (if commitUndo s \<noteq> UndoReady then s else s\<lparr>commitUndo := UndoPrimed\<rparr>)"

definition ResetCommitUndo :: "TsfState \<Rightarrow> TsfState" where
  "ResetCommitUndo s = (if commitUndo s = UndoIdle then s else clear_last_commit s)"

definition OnNonRestoreKey :: "TsfState \<Rightarrow> TsfState" where
  "OnNonRestoreKey s = (if commitUndo s \<noteq> UndoIdle then ResetCommitUndo s else s)"

definition TryRestoreLastCommitRaw :: "TsfEnv \<Rightarrow> TsfState \<Rightarrow> bool \<times> TsfState" where
  "TryRestoreLastCommitRaw env s =
    (if commitUndo s \<noteq> UndoPrimed then (False, s)
     else if \<not> WithinUndoWindow env s then (False, ResetCommitUndo s)
     else if lastText s = [] \<or> lastRaw s = [] then (False, ResetCommitUndo s)
     else
       (let body = (if lastTrailing s then butlast (lastText s) else lastText s) in
        (True, ResetCommitUndo
           (RequestEditSession env (EscRestoreLastCommitSession env body (lastRaw s)) s))))"

subsection \<open>Committing\<close>

definition TsfCommit :: "TsfEnv \<Rightarrow> TsfState \<Rightarrow> TsfState" where
  "TsfCommit env s =
    (let raw = PeekRaw (tsfEngine s);
         (committed, e) = Commit (tsfEngine s);
         s = RequestEditSession env (CommitSession env committed) (s\<lparr>tsfEngine := e\<rparr>);
         s = (upd_tsf Reset s)\<lparr>tsfDigitLed := False\<rparr>
     in RecordCommitSnapshot env committed raw False s)"

definition CommitWithChar :: "TsfEnv \<Rightarrow> wchar \<Rightarrow> TsfState \<Rightarrow> TsfState" where
  "CommitWithChar env appendChar s =
    (let raw = PeekRaw (tsfEngine s);
         (committed, e) = Commit (tsfEngine s);
         committed = (if appendChar \<noteq> 0 then committed @ [appendChar] else committed);
         s = RequestEditSession env (CommitSession env committed) (s\<lparr>tsfEngine := e\<rparr>);
         s = (upd_tsf Reset s)\<lparr>tsfDigitLed := False\<rparr>
     in RecordCommitSnapshot env committed raw (appendChar \<noteq> 0) s)"

definition CommitRawAndEnd :: "TsfEnv \<Rightarrow> TsfState \<Rightarrow> bool \<times> TsfState" where
  "CommitRawAndEnd env s =
    (let raw = PeekRaw (tsfEngine s) in
     if raw = [] then (False, s)
     else
       (let s = RequestEditSession env (CommitSession env raw) s
        in (True, (upd_tsf Reset s)\<lparr>tsfDigitLed := False\<rparr>)))"

definition TsfReset :: "TsfState \<Rightarrow> TsfState" where
  "TsfReset s = (TerminateComposition (upd_tsf Reset s))\<lparr>tsfDigitLed := False\<rparr>"

definition OnCompositionTerminated :: "TsfState \<Rightarrow> TsfState" where
  "OnCompositionTerminated s = TsfReset (EndComposition s)"

definition ProcessBackspace :: "TsfEnv \<Rightarrow> TsfState \<Rightarrow> TsfState" where
  "ProcessBackspace env s =
    (let s = upd_tsf Backspace s in
     if Count (tsfEngine s) > 0
     then RequestEditSession env (UpdateCompositionSession env (Peek (tsfEngine s))) s
     else RequestEditSession env (CommitSession env []) s)"

subsection \<open>The shared settings\<close>

definition ApplySharedState :: "SharedState \<Rightarrow> TsfState \<Rightarrow> TsfState" where
  "ApplySharedState st s =
    (let newMethod = (if shInputMethod st \<le> 2
                      then (if shInputMethod st = 0 then Telex else if shInputMethod st = 1 then VNI else SimpleTelex)
                      else Telex);
         cfg = (tsfConfig s)\<lparr>inputMethod := newMethod, spellCheckEnabled := shSpellCheck st \<noteq> 0,
                 optimizeLevel := if shOptimize st \<le> 2 then shOptimize st else 0\<rparr>;
         cfg = DecodeFeatureFlags (GetFeatureFlags st) cfg;
         s = (if Count (tsfEngine s) > 0 then upd_tsf (\<lambda>e. snd (Commit e)) s else s)
     in s\<lparr>engineEnabled := shFlags st AND ENGINE_ENABLED \<noteq> 0,
          tsfVietnamese := shFlags st AND VIETNAMESE_MODE \<noteq> 0,
          tsfConfig := cfg, tsfMethod := newMethod, tsfEngine := newEngine cfg\<rparr>)"

text \<open>The memory in use: the mapped one, or the one that is opened when it is not connected.\<close>

definition connect :: "TsfEnv \<Rightarrow> SharedState option" where
  "connect env =
    (if SharedConnected (tsShared env) then tsShared env
     else if SharedConnected (tsOpened env) then tsOpened env else None)"

definition CheckConfigEvent :: "TsfEnv \<Rightarrow> TsfState \<Rightarrow> bool \<times> TsfState" where
  "CheckConfigEvent env s =
    (if connect env = None then (False, s)
     else if ReadEpoch (connect env) = lastEpoch s then (False, s)
     else if \<not> IsValid (tsRead env) then (False, s)
     else (True, ApplySharedState (tsRead env) (s\<lparr>lastEpoch := shEpoch (tsRead env)\<rparr>)))"

definition RefreshFlags :: "TsfEnv \<Rightarrow> TsfState \<Rightarrow> TsfState" where
  "RefreshFlags env s =
    (let s = s\<lparr>isScintillaApp := tsScintillaWindow env\<rparr> in
     if connect env = None then s\<lparr>engineEnabled := False\<rparr>
     else if IsValid (tsRead env) then
       (let wasEnabled = engineEnabled s; st = tsRead env;
            s = s\<lparr>engineEnabled := shFlags st AND ENGINE_ENABLED \<noteq> 0,
                  tsfVietnamese := shFlags st AND VIETNAMESE_MODE \<noteq> 0\<rparr>
        in if \<not> wasEnabled \<and> engineEnabled s then ApplySharedState st s else s)
     else s\<lparr>engineEnabled := False\<rparr>)"

definition SetTsfTipActive :: "bool \<Rightarrow> SharedState option \<Rightarrow> SharedState option" where
  "SetTsfTipActive active m =
    (if SharedConnected m then map_option (SetOrClearFlag TSF_TIP_ACTIVE active) m else m)"

definition TsfToggleVietnamese :: "SharedState option \<Rightarrow> TsfState \<Rightarrow> SharedState option \<times> TsfState" where
  "TsfToggleVietnamese m s =
    (let m = map_option (ToggleFlag VIETNAMESE_MODE) m in
     (m, s\<lparr>tsfVietnamese := ReadFlags m AND VIETNAMESE_MODE \<noteq> 0, tsfDigitLed := False\<rparr>))"

text \<open>The constructor: what a service does that is loaded into a program. The second component is the
  memory, whose flag for a mismatch it sets.\<close>

definition tsf_defaults :: "wstring \<Rightarrow> TsfState" where
  "tsf_defaults doc =
    (let cfg = defaultConfig\<lparr>inputMethod := Telex, spellCheckEnabled := False, optimizeLevel := 0\<rparr> in
     \<lparr>tsfEngine = newEngine cfg, tsfConfig = cfg, tsfMethod = Telex, lastEpoch = 0, engineEnabled = True,
      tsfActive = False, tsfVietnamese = True, abiOk = True, lastContext = None, contextBlocked = False,
      isScintillaApp = False, tsfDigitLed = False, pendingRevive = None, lastText = [], lastRaw = [],
      lastTrailing = False, lastTimestamp = 0, commitUndo = UndoIdle, lastTestedVk = 0, lastWantKey = False,
      lastPunctChar = 0, docBefore = doc, docComposition = None\<rparr>)"

definition NewEngineController ::
  "TsfEnv \<Rightarrow> wstring \<Rightarrow> TsfState \<times> SharedState option" where
  "NewEngineController env doc =
    (if SharedConnected (tsOpened env) then
       (if \<not> IsAbiCompatible (tsOpened env)
        then ((tsf_defaults doc)\<lparr>abiOk := False\<rparr>,
              map_option (SetOrClearFlag TSF_ABI_MISMATCH True) (tsOpened env))
        else if IsValid (tsRead env)
        then ((ApplySharedState (tsRead env) (tsf_defaults doc))\<lparr>lastEpoch := shEpoch (tsRead env)\<rparr>, tsOpened env)
        else (tsf_defaults doc, tsOpened env))
     else ((tsf_defaults doc)\<lparr>engineEnabled := False\<rparr>, None))"

subsection \<open>Keys\<close>

definition IsEngineDigitKey :: "TsfEnv \<Rightarrow> TsfState \<Rightarrow> vkey \<Rightarrow> bool" where
  "IsEngineDigitKey env s vk \<longleftrightarrow>
    inputMethod (tsfConfig s) \<in> {VNI, Combined, UserDefined} \<and> 0x30 \<le> vk \<and> vk \<le> 0x39 \<and> \<not> tsShift env"

definition CheckContextBlocked :: "TsfEnv \<Rightarrow> TsfState \<Rightarrow> TsfState" where
  "CheckContextBlocked env s =
    (if tsContext env = lastContext s then s
     else (let s = s\<lparr>lastContext := tsContext env, contextBlocked := False\<rparr> in
           if tsContext env = None then s else s\<lparr>contextBlocked := tsReads env \<and> tsBlocks env\<rparr>))"

definition HasNonEmptySelection :: "TsfEnv \<Rightarrow> bool" where
  "HasNonEmptySelection env \<longleftrightarrow> tsReads env \<and> tsSelection env"

definition PrepareBackspaceRevive :: "TsfEnv \<Rightarrow> TsfState \<Rightarrow> bool \<times> TsfState" where
  "PrepareBackspaceRevive env s =
    (let s = s\<lparr>pendingRevive := None\<rparr> in
     if \<not> engineEnabled s \<or> \<not> tsfActive s \<or> \<not> tsfVietnamese s \<or> contextBlocked s \<or>
        Count (tsfEngine s) > 0 \<or> isScintillaApp s
     then (False, s)
     else
       (case ReadPrecedingWord env s of
          None \<Rightarrow> (False, s)
        | Some word \<Rightarrow>
            (let (seeded, e) = SeedFromText word (newEngine (tsfConfig s)) in
             if \<not> seeded \<or> IsEnglishWord e then (False, s)
             else (True, s\<lparr>pendingRevive := Some word\<rparr>))))"

text \<open>The classes of keys at the end of \<open>WantKey\<close>.\<close>

definition want_class :: "TsfEnv \<Rightarrow> vkey \<Rightarrow> bool \<Rightarrow> TsfState \<Rightarrow> bool" where
  "want_class env vk composed s =
    (if 0x41 \<le> vk \<and> vk \<le> 0x5A then True
     else if IsEngineDigitKey env s vk \<and> composed then True
     else if vk = 0x08 then composed
     else if vk = 0x20 then \<not> isScintillaApp s \<and> composed
     else False)"

text \<open>The mode and the digit-led word, tested in front of the classes of keys.\<close>

definition WantKey :: "TsfEnv \<Rightarrow> vkey \<Rightarrow> TsfState \<Rightarrow> bool \<times> TsfState" where
  "WantKey env vk s =
    (if \<not> abiOk s then (False, s)
     else if \<not> SharedConnected (tsShared env) then (False, s)
     else
       (let flags = ReadFlags (tsShared env) in
        if flags AND ENGINE_ENABLED = 0 then (False, s)
        else
          (let s = s\<lparr>tsfActive := flags AND TSF_ACTIVE \<noteq> 0\<rparr> in
           if \<not> tsfActive s then (False, s)
           else
             (let s = s\<lparr>tsfVietnamese := flags AND VIETNAMESE_MODE \<noteq> 0\<rparr> in
              if \<not> tsfVietnamese s then (False, s)
              else if tsCtrl env \<or> tsAlt env \<or> tsWin env then (False, s)
              else
                (let composed = Count (tsfEngine s) > 0 in
                 case DecideDigitLed \<lparr>dlVk = vk, dlShift = tsShift env, dlEngineEmpty = \<not> composed,
                        dlMethod = inputMethod (tsfConfig s), currentlyArmed = tsfDigitLed s\<rparr> of
                   DigArm \<Rightarrow> (False, s\<lparr>tsfDigitLed := True\<rparr>)
                 | DigBypass \<Rightarrow> (False, s)
                 | DigReset \<Rightarrow> (False, s\<lparr>tsfDigitLed := False\<rparr>)
                 | DigContinue \<Rightarrow>
                     (want_class env vk composed s, s))))))"

definition letter_char :: "TsfEnv \<Rightarrow> vkey \<Rightarrow> wchar" where
  "letter_char env vk = (if tsShift env \<noteq> tsCaps env then vk else towlower vk)"

text \<open>A letter that continues the composition, or starts one.\<close>

definition push_letter :: "TsfEnv \<Rightarrow> wchar \<Rightarrow> TsfState \<Rightarrow> bool \<times> TsfState" where
  "push_letter env ch s =
    (let s = upd_tsf (PushChar ch) s; composition = Peek (tsfEngine s) in
     if \<not> IsComposing s then
       (let s = RequestEditSession env (StartCompositionSession env composition) s in
        if \<not> IsComposing s then (False, upd_tsf Reset s) else (True, s))
     else (True, RequestEditSession env (UpdateCompositionSession env composition) s))"

definition handle_letter :: "TsfEnv \<Rightarrow> vkey \<Rightarrow> TsfState \<Rightarrow> bool \<times> TsfState" where
  "handle_letter env vk s =
    (let ch = letter_char env vk in
     if Count (tsfEngine s) = 0 \<and> \<not> IsComposing s \<and> \<not> isScintillaApp s then
       (let (word, cap) = InspectPrecedingText env s;
            (seeded, e) = SeedFromText word (newEngine (tsfConfig s))
        in if word \<noteq> [] \<and> seeded \<and> \<not> IsEnglishWord e
           then (True, RequestEditSession env (ReviveAndTypeSession env word ch) s)
           else push_letter env (if autoCaps (tsfConfig s) \<and> cap then towupper ch else ch) s)
     else push_letter env ch s)"

definition TsfHandleKey :: "TsfEnv \<Rightarrow> vkey \<Rightarrow> TsfState \<Rightarrow> bool \<times> TsfState" where
  "TsfHandleKey env vk s =
    (if vk = 0x08 then
       (case pendingRevive s of
          Some word \<Rightarrow>
            (True, (RequestEditSession env (ReviveCompositionSession env word) s)\<lparr>pendingRevive := None\<rparr>)
        | None \<Rightarrow> (True, ProcessBackspace env s))
     else if vk = 0x20 then (True, CommitWithChar env 32 s)
     else if 0x41 \<le> vk \<and> vk \<le> 0x5A then handle_letter env vk s
     else if IsEngineDigitKey env s vk \<and> Count (tsfEngine s) > 0 then
       (let s = upd_tsf (PushChar vk) s in
        (True, if IsComposing s
               then RequestEditSession env (UpdateCompositionSession env (Peek (tsfEngine s))) s else s))
     else (False, s))"

subsection \<open>The key event sink\<close>

definition IsPunctuationKey :: "vkey \<Rightarrow> bool" where
  "IsPunctuationKey vk =
    (if 0x30 \<le> vk \<and> vk \<le> 0x39 then True
     else if 0x60 \<le> vk \<and> vk \<le> 0x6F then True
     else if 0xBA \<le> vk \<and> vk \<le> 0xC0 then True
     else if 0xDB \<le> vk \<and> vk \<le> 0xDF then True
     else if vk = 0xBB \<or> vk = 0xBC \<or> vk = 0xBD \<or> vk = 0xBE then True
     else if vk = 0x09 then True
     else False)"

text \<open>Backspace over a selected suggestion, when the setting keeps the typed characters.\<close>

definition dismisses_suggestion :: "TsfEnv \<Rightarrow> vkey \<Rightarrow> TsfState \<Rightarrow> bool" where
  "dismisses_suggestion env vk s \<longleftrightarrow>
    vk = 0x08 \<and> HasEngineBuffer s \<and> suggestKeepChars (tsfConfig s) \<and> HasNonEmptySelection env"

definition recover_desync :: "TsfEnv \<Rightarrow> TsfState \<Rightarrow> TsfState" where
  "recover_desync env s =
    (if \<not> IsComposing s \<and> HasEngineBuffer s then TsfReset s
     else if IsComposing s \<and> \<not> HasEngineBuffer s then TsfCommit env s
     else s)"

text \<open>Esc: the first component says whether the typed keys were restored.\<close>

definition esc_restore :: "TsfEnv \<Rightarrow> vkey \<Rightarrow> TsfState \<Rightarrow> bool \<times> TsfState" where
  "esc_restore env vk s =
    (if vk = 0x1B \<and> escRestoreRawEnabled (tsfConfig s) then
       (if HasEngineBuffer s then CommitRawAndEnd env s
        else if commitUndo s = UndoPrimed \<and> WithinUndoWindow env s then TryRestoreLastCommitRaw env s
        else (False, s))
     else (False, s))"

text \<open>The tail of \<open>OnTestKeyDown\<close>: backspaces that undo or revive, and what is left.\<close>

definition test_rest :: "TsfEnv \<Rightarrow> vkey \<Rightarrow> bool \<Rightarrow> TsfState \<Rightarrow> bool \<times> TsfState" where
  "test_rest env vk want s =
    (let (want, s) = (if \<not> want \<and> vk = 0x08 \<and> \<not> HasEngineBuffer s
                      then PrepareBackspaceRevive env s else (want, s));
         s = s\<lparr>lastTestedVk := vk, lastWantKey := want\<rparr>
     in if \<not> want \<and> HasEngineBuffer s then (False, TsfCommit env s) else (want, s))"

definition test_want :: "TsfEnv \<Rightarrow> vkey \<Rightarrow> TsfState \<Rightarrow> bool \<times> TsfState" where
  "test_want env vk s =
    (let (want, s) = WantKey env vk s;
         want = (if vk = 0x08 \<and> suggestKeepChars (tsfConfig s) \<and> HasNonEmptySelection env then False else want)
     in if vk = 0x08 \<and> \<not> HasEngineBuffer s then
          (if commitUndo s = UndoReady \<and> WithinUndoWindow env s
           then (False, (TransitionUndoReadyToPrimed s)\<lparr>lastTestedVk := vk, lastWantKey := False\<rparr>)
           else test_rest env vk want (if commitUndo s = UndoPrimed then ResetCommitUndo s else s))
        else test_rest env vk want s)"

definition OnTestKeyDown :: "TsfEnv \<Rightarrow> vkey \<Rightarrow> TsfState \<Rightarrow> bool \<times> TsfState" where
  "OnTestKeyDown env vk s =
    (let s = (snd (CheckConfigEvent env s))\<lparr>lastPunctChar := 0\<rparr>;
         s = CheckContextBlocked env s
     in if contextBlocked s then (False, s)
        else if dismisses_suggestion env vk s
        then (False, (TsfCommit env s)\<lparr>lastTestedVk := vk, lastWantKey := False\<rparr>)
        else
          (let s = (if vk \<noteq> 0x08 \<and> vk \<noteq> 0x1B then OnNonRestoreKey s else s);
               s = recover_desync env s
           in if tsCtrl env \<or> tsAlt env \<or> tsWin env
              then (False, if HasEngineBuffer s then TsfCommit env s else s)
              else
                (let (restored, s) = esc_restore env vk s in
                 if restored then (True, s)
                 else if IsPunctuationKey vk \<and> HasEngineBuffer s \<and> \<not> IsEngineDigitKey env s vk \<and>
                         tsChar env vk \<noteq> 0
                 then (True, s\<lparr>lastTestedVk := vk, lastWantKey := True, lastPunctChar := tsChar env vk\<rparr>)
                 else test_want env vk s)))"

definition OnKeyDown :: "TsfEnv \<Rightarrow> vkey \<Rightarrow> TsfState \<Rightarrow> bool \<times> TsfState" where
  "OnKeyDown env vk s =
    (let s = snd (CheckConfigEvent env s) in
     if tsCtrl env \<or> tsAlt env \<or> tsWin env then (False, s)
     else if dismisses_suggestion env vk s
     then (False, (TsfCommit env s)\<lparr>lastTestedVk := 0, lastPunctChar := 0\<rparr>)
     else
       (let (restored, s) = esc_restore env vk s in
        if restored then (True, s)
        else
          (let punct = (IsPunctuationKey vk \<and> HasEngineBuffer s \<and> \<not> IsEngineDigitKey env s vk);
               ch = (if vk = lastTestedVk s \<and> lastPunctChar s \<noteq> 0 then lastPunctChar s else tsChar env vk)
           in if punct \<and> ch \<noteq> 0
              then (True, (CommitWithChar env ch s)\<lparr>lastTestedVk := 0, lastPunctChar := 0\<rparr>)
              else
                (let (want, s) =
                       (if vk = lastTestedVk s then (lastWantKey s, s)
                        else (let (want, s) = WantKey env vk s in
                              (want \<and> \<not> (vk = 0x08 \<and> suggestKeepChars (tsfConfig s) \<and> HasNonEmptySelection env), s)));
                     s = s\<lparr>lastTestedVk := 0, lastPunctChar := 0\<rparr>
                 in if \<not> want then (False, if HasEngineBuffer s then TsfCommit env s else s)
                    else TsfHandleKey env vk s))))"

definition OnKeyUp :: "vkey \<Rightarrow> TsfState \<Rightarrow> bool" where
  "OnKeyUp vk s \<longleftrightarrow> IsComposing s \<and> (0x41 \<le> vk \<and> vk \<le> 0x5A \<or> vk = 0x08)"

text \<open>The shared flag that says that this service is active is set beside it (\<open>SetTsfTipActive\<close>).\<close>

definition OnSetFocus :: "TsfEnv \<Rightarrow> bool \<Rightarrow> TsfState \<Rightarrow> TsfState" where
  "OnSetFocus env foreground s =
    ResetCommitUndo (if foreground then RefreshFlags env (snd (CheckConfigEvent env s)) else s)"

end
