(* ===== verification/TextServiceLaws.thy ===== *)
theory TextServiceLaws
  imports TextService Reopen EngineSteps
begin

text \<open>
  Laws of the text service: whatever keys arrive, the composition in the document is the composition
  of the engine; words are committed and taken up again; and the situations in which text is lost.
\<close>

subsection \<open>The document and the engine\<close>

definition in_step :: "TsfState \<Rightarrow> bool" where
  "in_step s \<longleftrightarrow>
    (case docComposition s of None \<Rightarrow> Count (tsfEngine s) = 0 | Some t \<Rightarrow> t = Peek (tsfEngine s))"

definition document :: "TsfState \<Rightarrow> wstring" where
  "document s = docBefore s @ (case docComposition s of None \<Rightarrow> [] | Some t \<Rightarrow> t)"

definition revive_ok :: "TsfState \<Rightarrow> bool" where
  "revive_ok s \<longleftrightarrow> (\<forall>w. pendingRevive s = Some w \<longrightarrow> (\<forall>e. fst (SeedFromText w e)))"

text \<open>Requests are granted and their operations succeed.\<close>

definition obliging :: "TsfEnv \<Rightarrow> bool" where
  "obliging env \<longleftrightarrow> tsGrants env \<and> tsStarts env \<and> tsShifts env \<and> tsSets env"

text \<open>The settings are read again only between words.\<close>

definition calm :: "TsfEnv \<Rightarrow> TsfState \<Rightarrow> bool" where
  "calm env s \<longleftrightarrow> (fst (CheckConfigEvent env s) \<longrightarrow> Count (tsfEngine s) = 0)"

lemma seeds_alike: "fst (SeedFromText w e) = fst (SeedFromText w e')"
proof -
  have "seed_loop w a = None \<longleftrightarrow> seed_loop w b = None" for a b
    by (induction w arbitrary: a b) (auto split: option.splits)
  from this[of "Reset e" "Reset e'"] show ?thesis
    by (auto simp: SeedFromText_def split: option.split)
qed

lemma Peek_none: "Count e = 0 \<Longrightarrow> Peek e = []"
  by (simp add: Count_def Peek_def ComposeAll_def)

lemma Count_Reset: "Count (Reset e) = 0"
  by (simp add: Count_def)

subsection \<open>Every operation keeps them in step\<close>

definition tsf_inv :: "TsfState \<Rightarrow> bool" where
  "tsf_inv s \<longleftrightarrow> in_step s \<and> revive_ok s"

lemma inv_frame:
  assumes "tsf_inv s" and "tsfEngine s' = tsfEngine s" and "docComposition s' = docComposition s"
    and "pendingRevive s' = pendingRevive s"
  shows "tsf_inv s'"
  using assms unfolding tsf_inv_def in_step_def revive_ok_def by (simp split: option.splits)

lemma EndComposition_simps [simp]:
  "docComposition (EndComposition s) = None" "tsfEngine (EndComposition s) = tsfEngine s"
  "pendingRevive (EndComposition s) = pendingRevive s" "lastEpoch (EndComposition s) = lastEpoch s"
  "commitUndo (EndComposition s) = commitUndo s" "tsfConfig (EndComposition s) = tsfConfig s"
  "docBefore (EndComposition s) = document s" "document (EndComposition s) = document s"
  "lastTestedVk (EndComposition s) = lastTestedVk s" "lastWantKey (EndComposition s) = lastWantKey s"
  "lastPunctChar (EndComposition s) = lastPunctChar s" "tsfDigitLed (EndComposition s) = tsfDigitLed s"
  "contextBlocked (EndComposition s) = contextBlocked s" "lastContext (EndComposition s) = lastContext s"
  by (auto simp: EndComposition_def document_def split: option.split)

lemma RecordCommitSnapshot_simps [simp]:
  "docComposition (RecordCommitSnapshot env t r b s) = docComposition s"
  "tsfEngine (RecordCommitSnapshot env t r b s) = tsfEngine s"
  "pendingRevive (RecordCommitSnapshot env t r b s) = pendingRevive s"
  "lastEpoch (RecordCommitSnapshot env t r b s) = lastEpoch s"
  "tsfConfig (RecordCommitSnapshot env t r b s) = tsfConfig s"
  "docBefore (RecordCommitSnapshot env t r b s) = docBefore s"
  "document (RecordCommitSnapshot env t r b s) = document s"
  "contextBlocked (RecordCommitSnapshot env t r b s) = contextBlocked s"
  by (simp_all add: RecordCommitSnapshot_def clear_last_commit_def document_def)

lemma undo_simps [simp]:
  "docComposition (ResetCommitUndo s) = docComposition s" "tsfEngine (ResetCommitUndo s) = tsfEngine s"
  "pendingRevive (ResetCommitUndo s) = pendingRevive s" "lastEpoch (ResetCommitUndo s) = lastEpoch s"
  "tsfConfig (ResetCommitUndo s) = tsfConfig s" "docBefore (ResetCommitUndo s) = docBefore s"
  "docComposition (TransitionUndoReadyToPrimed s) = docComposition s"
  "tsfEngine (TransitionUndoReadyToPrimed s) = tsfEngine s"
  "pendingRevive (TransitionUndoReadyToPrimed s) = pendingRevive s"
  "lastEpoch (TransitionUndoReadyToPrimed s) = lastEpoch s"
  "docBefore (TransitionUndoReadyToPrimed s) = docBefore s"
  by (simp_all add: ResetCommitUndo_def clear_last_commit_def TransitionUndoReadyToPrimed_def)

lemma obliging_simps:
  assumes "obliging env"
  shows "RequestEditSession env f s = f s"
    and "StartComposition env s = (True, (EndComposition s)\<lparr>docComposition := Some []\<rparr>)"
    and "docComposition s \<noteq> None \<Longrightarrow> SetCompositionText env t s = s\<lparr>docComposition := Some t\<rparr>"
  using assms by (simp_all add: obliging_def RequestEditSession_def StartComposition_def SetCompositionText_def)

lemma CommitSession_eq:
  "obliging env \<Longrightarrow> CommitSession env t s =
    (if docComposition s = None then s else s\<lparr>docBefore := docBefore s @ t, docComposition := None\<rparr>)"
  by (auto simp: CommitSession_def IsComposing_def SetCompositionText_def EndComposition_def obliging_def
      split: option.split)

lemma UpdateSession_eq:
  "obliging env \<Longrightarrow> UpdateCompositionSession env t s = s\<lparr>docComposition := Some t\<rparr>"
  by (cases "docComposition s")
    (simp_all add: UpdateCompositionSession_def IsComposing_def SetCompositionText_def StartComposition_def
      EndComposition_def obliging_def)

lemma StartSession_eq:
  "obliging env \<Longrightarrow> docComposition s = None \<Longrightarrow>
    StartCompositionSession env t s = s\<lparr>docComposition := Some t\<rparr>"
  by (simp add: StartCompositionSession_def SetCompositionText_def StartComposition_def EndComposition_def
      obliging_def)

lemma revive_eq:
  assumes "obliging env" and "fst (SeedFromText w (tsfEngine s))"
  shows "revive_session env w key s =
    (let e = key (snd (SeedFromText w (tsfEngine s)));
         before = take (length (document s) - length w) (document s) in
     if Count e = 0 then s\<lparr>tsfEngine := e, docBefore := before @ Peek e, docComposition := None\<rparr>
     else s\<lparr>tsfEngine := e, docBefore := before, docComposition := Some (Peek e)\<rparr>)"
proof -
  obtain e where e: "SeedFromText w (tsfEngine s) = (True, e)"
    using assms(2) by (metis prod.collapse)
  have doc: "document (s\<lparr>tsfEngine := e\<rparr>) = document s" by (simp add: document_def)
  have "(EndComposition (s\<lparr>tsfEngine := e\<rparr>))\<lparr>docComposition := c, docBefore := b\<rparr> =
      s\<lparr>tsfEngine := e, docComposition := c, docBefore := b\<rparr>" for c b
    by (simp add: EndComposition_def split: option.split)
  then show ?thesis
    using assms(1)
    by (simp add: revive_session_def e obliging_simps(2)[OF assms(1)] obliging_def cover_word_def
        SetCompositionText_def Let_def doc)
      (simp add: EndComposition_def)
qed

lemma inv_commit: "obliging env \<Longrightarrow> tsf_inv s \<Longrightarrow> tsf_inv (TsfCommit env s)"
  by (simp add: TsfCommit_def Let_def Commit_def obliging_simps(1) CommitSession_eq tsf_inv_def in_step_def
      revive_ok_def Count_Reset)

lemma inv_commit_char: "obliging env \<Longrightarrow> tsf_inv s \<Longrightarrow> tsf_inv (CommitWithChar env ch s)"
  by (simp add: CommitWithChar_def Let_def Commit_def obliging_simps(1) CommitSession_eq tsf_inv_def in_step_def
      revive_ok_def Count_Reset)

lemma restore_simps [simp]:
  "docComposition (snd (TryRestoreLastCommitRaw env s)) = docComposition s"
  "tsfEngine (snd (TryRestoreLastCommitRaw env s)) = tsfEngine s"
  "pendingRevive (snd (TryRestoreLastCommitRaw env s)) = pendingRevive s"
  "lastEpoch (snd (TryRestoreLastCommitRaw env s)) = lastEpoch s"
  by (simp_all add: TryRestoreLastCommitRaw_def EscRestoreLastCommitSession_def RequestEditSession_def Let_def)

lemma CommitRawAndEnd_eq:
  "obliging env \<Longrightarrow> PeekRaw (tsfEngine s) \<noteq> [] \<Longrightarrow> CommitRawAndEnd env s =
    (True, (CommitSession env (PeekRaw (tsfEngine s)) s)\<lparr>tsfEngine := Reset (tsfEngine s), tsfDigitLed := False\<rparr>)"
  by (simp add: CommitRawAndEnd_def Let_def obliging_simps(1) CommitSession_eq)

lemma inv_esc:
  assumes "obliging env" and "tsf_inv s"
  shows "tsf_inv (snd (esc_restore env vk s))"
proof -
  have "tsf_inv (snd (CommitRawAndEnd env s))"
  proof (cases "PeekRaw (tsfEngine s) = []")
    case True
    then show ?thesis using assms(2) by (simp add: CommitRawAndEnd_def)
  next
    case False
    with assms show ?thesis
      by (simp add: CommitRawAndEnd_eq CommitSession_eq tsf_inv_def in_step_def revive_ok_def Count_Reset)
  qed
  moreover have "tsf_inv (snd (TryRestoreLastCommitRaw env s))"
    by (rule inv_frame[OF assms(2)]) simp_all
  ultimately show ?thesis using assms(2) by (simp add: esc_restore_def)
qed

lemma inv_desync: "obliging env \<Longrightarrow> tsf_inv s \<Longrightarrow> tsf_inv (recover_desync env s)"
  using inv_commit[of env s]
  by (simp add: recover_desync_def TsfReset_def TerminateComposition_def)
    (simp add: tsf_inv_def in_step_def revive_ok_def Count_Reset)

lemma inv_push:
  "obliging env \<Longrightarrow> tsf_inv s \<Longrightarrow> tsf_inv (snd (push_letter env ch s))"
  by (cases "docComposition s")
    (simp_all add: push_letter_def Let_def IsComposing_def obliging_simps(1) StartSession_eq UpdateSession_eq
      tsf_inv_def in_step_def revive_ok_def)

lemma inv_revive:
  assumes "obliging env" and "tsf_inv s" and "fst (SeedFromText w (tsfEngine s))"
  shows "tsf_inv (revive_session env w key s)"
  using assms(2) unfolding revive_eq[OF assms(1,3)]
  by (simp add: Let_def tsf_inv_def in_step_def revive_ok_def)

lemma inv_letter:
  assumes "obliging env" and "tsf_inv s"
  shows "tsf_inv (snd (handle_letter env vk s))"
proof -
  obtain word cap where w: "InspectPrecedingText env s = (word, cap)" by fastforce
  obtain seeded e where e: "SeedFromText word (newEngine (tsfConfig s)) = (seeded, e)" by fastforce
  have "seeded \<Longrightarrow> fst (SeedFromText word (tsfEngine s))"
    using seeds_alike[of word "newEngine (tsfConfig s)" "tsfEngine s"] e by simp
  then show ?thesis
    using assms inv_push[OF assms] inv_revive[OF assms]
    by (simp add: handle_letter_def w e Let_def obliging_simps(1) ReviveAndTypeSession_def)
qed

lemma inv_HandleKey:
  assumes "obliging env" and "tsf_inv s"
  shows "tsf_inv (snd (TsfHandleKey env vk s))"
proof -
  have erase: "tsf_inv (ProcessBackspace env s)"
    using assms
    by (simp add: ProcessBackspace_def Let_def obliging_simps(1) UpdateSession_eq CommitSession_eq tsf_inv_def
        in_step_def revive_ok_def split: option.splits)
  have revive: "tsf_inv ((ReviveCompositionSession env w s)\<lparr>pendingRevive := None\<rparr>)"
    if "pendingRevive s = Some w" for w
  proof -
    have "fst (SeedFromText w (tsfEngine s))" using assms(2) that by (simp add: tsf_inv_def revive_ok_def)
    then have "tsf_inv (ReviveCompositionSession env w s)"
      using inv_revive[OF assms] assms(2) by (simp add: ReviveCompositionSession_def)
    then show ?thesis by (simp add: tsf_inv_def in_step_def revive_ok_def split: option.splits)
  qed
  have digit: "tsf_inv (s\<lparr>tsfEngine := PushChar vk (tsfEngine s), docComposition := Some t\<rparr>) \<longleftrightarrow>
      t = Peek (PushChar vk (tsfEngine s))" for t
    using assms(2) by (simp add: tsf_inv_def in_step_def revive_ok_def)
  show ?thesis
    using assms inv_letter[OF assms] inv_commit_char[OF assms] erase revive
    apply (simp add: TsfHandleKey_def Let_def obliging_simps(1) UpdateSession_eq split: option.split)
    apply (auto simp: IsComposing_def tsf_inv_def in_step_def revive_ok_def)
    done
qed


lemma inv_prepare:
  assumes "tsf_inv s"
  shows "tsf_inv (snd (PrepareBackspaceRevive env s))"
proof -
  have cleared: "tsf_inv (s\<lparr>pendingRevive := None\<rparr>)"
    using assms by (simp add: tsf_inv_def in_step_def revive_ok_def split: option.splits)
  have kept: "tsf_inv (s\<lparr>pendingRevive := Some w\<rparr>)" if "fst (SeedFromText w e)" for w e
    using assms that seeds_alike[of w e]
    by (simp add: tsf_inv_def in_step_def revive_ok_def split: option.splits)
  show ?thesis
    using cleared kept
    by (auto simp: PrepareBackspaceRevive_def Let_def split: option.split prod.split)
      (metis fst_conv)
qed

lemma WantKey_simps [simp]:
  "docComposition (snd (WantKey env vk s)) = docComposition s" "tsfEngine (snd (WantKey env vk s)) = tsfEngine s"
  "pendingRevive (snd (WantKey env vk s)) = pendingRevive s" "docBefore (snd (WantKey env vk s)) = docBefore s"
  by (simp_all add: WantKey_def Let_def split: DigitLedDecision.split)

lemma inv_want: "tsf_inv s \<Longrightarrow> tsf_inv (snd (WantKey env vk s))"
  by (rule inv_frame) simp_all

lemma inv_undo: "tsf_inv s \<Longrightarrow> tsf_inv (ResetCommitUndo s)"
  "tsf_inv s \<Longrightarrow> tsf_inv (TransitionUndoReadyToPrimed s)"
  by (rule inv_frame; simp)+

lemma inv_other_key: "tsf_inv s \<Longrightarrow> tsf_inv (OnNonRestoreKey s)"
  by (simp add: OnNonRestoreKey_def inv_undo)

lemma inv_fields:
  assumes "tsf_inv s"
  shows "tsf_inv (s\<lparr>lastTestedVk := a, lastWantKey := b\<rparr>)"
    and "tsf_inv (s\<lparr>lastTestedVk := a, lastPunctChar := c\<rparr>)"
    and "tsf_inv (s\<lparr>lastTestedVk := a, lastWantKey := b, lastPunctChar := c\<rparr>)"
    and "tsf_inv (s\<lparr>lastPunctChar := c\<rparr>)"
    and "tsf_inv (s\<lparr>lastContext := x, contextBlocked := b\<rparr>)"
  by (rule inv_frame[OF assms]; simp)+

lemma inv_blocked: "tsf_inv s \<Longrightarrow> tsf_inv (CheckContextBlocked env s)"
  by (rule inv_frame, assumption) (simp_all add: CheckContextBlocked_def Let_def)

lemma ApplySharedState_simps [simp]:
  "Count (tsfEngine (ApplySharedState st s)) = 0" "Peek (tsfEngine (ApplySharedState st s)) = []"
  "docComposition (ApplySharedState st s) = docComposition s"
  "pendingRevive (ApplySharedState st s) = pendingRevive s"
  "docBefore (ApplySharedState st s) = docBefore s"
  by (simp_all add: ApplySharedState_def Let_def Count_def newEngine_def Peek_def ComposeAll_def)

lemma inv_apply:
  assumes "tsf_inv s" and "Count (tsfEngine s) = 0"
  shows "tsf_inv (ApplySharedState st s)"
  using assms Peek_none[OF assms(2)] unfolding tsf_inv_def in_step_def revive_ok_def
  by (auto split: option.splits)

lemma inv_config:
  assumes "tsf_inv s" and "calm env s"
  shows "tsf_inv (snd (CheckConfigEvent env s))"
proof -
  have "tsf_inv (s\<lparr>lastEpoch := n\<rparr>)" for n by (rule inv_frame[OF assms(1)]) simp_all
  then show ?thesis
    using assms by (simp add: CheckConfigEvent_def calm_def inv_apply)
qed

lemma inv_test_rest: "obliging env \<Longrightarrow> tsf_inv s \<Longrightarrow> tsf_inv (snd (test_rest env vk want s))"
  using inv_prepare[of s env]
  by (auto simp: test_rest_def Let_def inv_commit inv_fields split: prod.split)

lemma inv_test_want:
  assumes "obliging env" and "tsf_inv s"
  shows "tsf_inv (snd (test_want env vk s))"
proof -
  obtain want s1 where w: "WantKey env vk s = (want, s1)" by fastforce
  have "tsf_inv s1" using inv_want[OF assms(2), of env vk] w by simp
  then show ?thesis
    using assms(1) by (simp add: test_want_def w Let_def inv_test_rest inv_undo inv_fields)
qed

text \<open>The state behind the first tests of \<open>OnTestKeyDown\<close>, and behind the recovery.\<close>

definition test_entry :: "TsfEnv \<Rightarrow> TsfState \<Rightarrow> TsfState" where
  "test_entry env s = CheckContextBlocked env ((snd (CheckConfigEvent env s))\<lparr>lastPunctChar := 0\<rparr>)"

definition test_synced :: "TsfEnv \<Rightarrow> vkey \<Rightarrow> TsfState \<Rightarrow> TsfState" where
  "test_synced env vk s =
    recover_desync env (if vk \<noteq> 0x08 \<and> vk \<noteq> 0x1B then OnNonRestoreKey (test_entry env s) else test_entry env s)"

lemma OnTestKeyDown_eq:
  assumes "esc_restore env vk (test_synced env vk s) = (restored, s')"
  shows "OnTestKeyDown env vk s =
    (if contextBlocked (test_entry env s) then (False, test_entry env s)
     else if dismisses_suggestion env vk (test_entry env s)
     then (False, (TsfCommit env (test_entry env s))\<lparr>lastTestedVk := vk, lastWantKey := False\<rparr>)
     else if tsCtrl env \<or> tsAlt env \<or> tsWin env
     then (False, if HasEngineBuffer (test_synced env vk s) then TsfCommit env (test_synced env vk s)
                  else test_synced env vk s)
     else if restored then (True, s')
     else if IsPunctuationKey vk \<and> HasEngineBuffer s' \<and> \<not> IsEngineDigitKey env s' vk \<and> tsChar env vk \<noteq> 0
     then (True, s'\<lparr>lastTestedVk := vk, lastWantKey := True, lastPunctChar := tsChar env vk\<rparr>)
     else test_want env vk s')"
  using assms unfolding OnTestKeyDown_def test_synced_def test_entry_def Let_def by (simp only: prod.case)

lemma inv_entry: "calm env s \<Longrightarrow> tsf_inv s \<Longrightarrow> tsf_inv (test_entry env s)"
  unfolding test_entry_def by (intro inv_blocked inv_fields inv_config)

lemma inv_synced: "obliging env \<Longrightarrow> calm env s \<Longrightarrow> tsf_inv s \<Longrightarrow> tsf_inv (test_synced env vk s)"
  unfolding test_synced_def by (simp add: inv_desync inv_other_key inv_entry)

lemma inv_OnTestKeyDown:
  assumes "obliging env" and "calm env s" and "tsf_inv s"
  shows "tsf_inv (snd (OnTestKeyDown env vk s))"
proof -
  obtain r s' where e: "esc_restore env vk (test_synced env vk s) = (r, s')" by fastforce
  have "tsf_inv s'" using inv_esc[OF assms(1) inv_synced[OF assms, of vk], of vk] e by simp
  then show ?thesis
    using inv_entry[OF assms(2,3)] inv_synced[OF assms] assms(1)
    by (simp add: OnTestKeyDown_eq[OF e] inv_commit inv_fields inv_test_want)
qed

text \<open>The end of \<open>OnKeyDown\<close>.\<close>

definition key_rest :: "TsfEnv \<Rightarrow> vkey \<Rightarrow> bool \<Rightarrow> TsfState \<Rightarrow> bool \<times> TsfState" where
  "key_rest env vk want s =
    (if \<not> want then (False, if HasEngineBuffer s then TsfCommit env s else s) else TsfHandleKey env vk s)"

definition key_want :: "TsfEnv \<Rightarrow> vkey \<Rightarrow> TsfState \<Rightarrow> bool \<times> TsfState" where
  "key_want env vk s =
    (if vk = lastTestedVk s then (lastWantKey s, s)
     else (let (want, s) = WantKey env vk s in
           (want \<and> \<not> (vk = 0x08 \<and> suggestKeepChars (tsfConfig s) \<and> HasNonEmptySelection env), s)))"

lemma OnKeyDown_eq:
  assumes "esc_restore env vk (snd (CheckConfigEvent env s)) = (restored, s1)"
    and "key_want env vk s1 = (want, s2)"
  shows "OnKeyDown env vk s =
    (if tsCtrl env \<or> tsAlt env \<or> tsWin env then (False, snd (CheckConfigEvent env s))
     else if dismisses_suggestion env vk (snd (CheckConfigEvent env s))
     then (False, (TsfCommit env (snd (CheckConfigEvent env s)))\<lparr>lastTestedVk := 0, lastPunctChar := 0\<rparr>)
     else if restored then (True, s1)
     else
       (let ch = (if vk = lastTestedVk s1 \<and> lastPunctChar s1 \<noteq> 0 then lastPunctChar s1 else tsChar env vk)
        in if (IsPunctuationKey vk \<and> HasEngineBuffer s1 \<and> \<not> IsEngineDigitKey env s1 vk) \<and> ch \<noteq> 0
           then (True, (CommitWithChar env ch s1)\<lparr>lastTestedVk := 0, lastPunctChar := 0\<rparr>)
           else key_rest env vk want (s2\<lparr>lastTestedVk := 0, lastPunctChar := 0\<rparr>)))"
  using assms unfolding OnKeyDown_def key_want_def key_rest_def Let_def by (simp only: prod.case)

lemma inv_rest: "obliging env \<Longrightarrow> tsf_inv s \<Longrightarrow> tsf_inv (snd (key_rest env vk want s))"
  by (simp add: key_rest_def inv_commit inv_HandleKey)

lemma inv_key_want: "tsf_inv s \<Longrightarrow> tsf_inv (snd (key_want env vk s))"
  using inv_want[of s env vk] by (auto simp: key_want_def split: prod.split)

lemma inv_OnKeyDown:
  assumes "obliging env" and "calm env s" and "tsf_inv s"
  shows "tsf_inv (snd (OnKeyDown env vk s))"
proof -
  have s0: "tsf_inv (snd (CheckConfigEvent env s))" by (rule inv_config[OF assms(3,2)])
  obtain r s1 where e: "esc_restore env vk (snd (CheckConfigEvent env s)) = (r, s1)" by fastforce
  obtain want s2 where w: "key_want env vk s1 = (want, s2)" by fastforce
  have s1: "tsf_inv s1" using inv_esc[OF assms(1) s0, of vk] e by simp
  have "tsf_inv s2" using inv_key_want[OF s1, of env vk] w by simp
  then show ?thesis
    using s0 s1 assms(1)
    by (simp add: OnKeyDown_eq[OF e w] Let_def inv_commit inv_commit_char inv_fields inv_rest)
qed


subsection \<open>Runs of events\<close>

datatype TsfEvent = TestedKey TsfEnv vkey | PressedKey TsfEnv vkey | Terminated | Focused TsfEnv bool

text \<open>The focus does not bring new settings in the middle of a word.\<close>

definition focus_calm :: "TsfEnv \<Rightarrow> TsfState \<Rightarrow> bool" where
  "focus_calm env s \<longleftrightarrow>
    Count (tsfEngine s) = 0 \<or> \<not> fst (CheckConfigEvent env s) \<and> engineEnabled s"

text \<open>Steps of the service: the manager tests keys and delivers them, in any order, ends the
  composition itself, and moves the focus.\<close>

inductive tsf_run :: "TsfState \<Rightarrow> TsfEvent list \<Rightarrow> TsfState \<Rightarrow> bool" where
  run_done: "tsf_run s [] s"
| run_test: "obliging env \<Longrightarrow> calm env s \<Longrightarrow> tsf_run (snd (OnTestKeyDown env vk s)) es s' \<Longrightarrow>
    tsf_run s (TestedKey env vk # es) s'"
| run_press: "obliging env \<Longrightarrow> calm env s \<Longrightarrow> tsf_run (snd (OnKeyDown env vk s)) es s' \<Longrightarrow>
    tsf_run s (PressedKey env vk # es) s'"
| run_terminated: "tsf_run (OnCompositionTerminated s) es s' \<Longrightarrow> tsf_run s (Terminated # es) s'"
| run_focus: "focus_calm env s \<Longrightarrow> tsf_run (OnSetFocus env fg s) es s' \<Longrightarrow>
    tsf_run s (Focused env fg # es) s'"

lemma inv_terminated: "tsf_inv s \<Longrightarrow> tsf_inv (OnCompositionTerminated s)"
  by (simp add: OnCompositionTerminated_def TsfReset_def TerminateComposition_def tsf_inv_def in_step_def
      revive_ok_def Count_Reset)

lemma inv_refresh:
  assumes "tsf_inv s" and "Count (tsfEngine s) = 0 \<or> engineEnabled s"
  shows "tsf_inv (RefreshFlags env s)"
proof -
  have flags: "tsf_inv (s\<lparr>isScintillaApp := a, engineEnabled := b, tsfVietnamese := c\<rparr>)"
    "tsf_inv (s\<lparr>isScintillaApp := a, engineEnabled := b\<rparr>)" for a b c
    by (rule inv_frame[OF assms(1)]; simp)+
  have "tsf_inv (ApplySharedState st (s\<lparr>isScintillaApp := a, engineEnabled := b, tsfVietnamese := c\<rparr>))"
    if "\<not> engineEnabled s" for st a b c
    by (rule inv_apply[OF flags(1)]) (use assms(2) that in simp)
  then show ?thesis using flags by (simp add: RefreshFlags_def Let_def)
qed

lemma inv_focus:
  assumes "focus_calm env s" and "tsf_inv s"
  shows "tsf_inv (OnSetFocus env fg s)"
proof -
  have calm: "calm env s" using assms(1) by (auto simp: focus_calm_def calm_def)
  have "Count (tsfEngine (snd (CheckConfigEvent env s))) = 0 \<or> engineEnabled (snd (CheckConfigEvent env s))"
    using assms(1) by (auto simp: focus_calm_def CheckConfigEvent_def split: if_splits)
  then have "tsf_inv (RefreshFlags env (snd (CheckConfigEvent env s)))"
    by (rule inv_refresh[OF inv_config[OF assms(2) calm]])
  then show ?thesis using assms(2) by (simp add: OnSetFocus_def inv_undo)
qed

lemma run_inv: "tsf_run s es s' \<Longrightarrow> tsf_inv s \<Longrightarrow> tsf_inv s'"
  by (induction rule: tsf_run.induct)
    (simp_all add: inv_OnTestKeyDown inv_OnKeyDown inv_terminated inv_focus)

text \<open>C6: in every run of the text service whose edit sessions are granted and whose settings change
  between words only, with keys tested and delivered in any order, compositions ended from outside and
  changes of the focus, the document shows the engine's buffer: the text in front of the composition
  followed by what the engine displays, and there is a buffer only while a composition is active.\<close>

theorem text_service_in_step:
  assumes "tsf_run s es s'" and "in_step s" and "pendingRevive s = None"
  shows "document s' = docBefore s' @ Peek (tsfEngine s') \<and> (Count (tsfEngine s') > 0 \<longrightarrow> IsComposing s')"
proof -
  have "in_step s'" using run_inv[OF assms(1)] assms(2,3) by (simp add: tsf_inv_def revive_ok_def)
  then show ?thesis
    by (auto simp: in_step_def document_def IsComposing_def Peek_none split: option.splits)
qed

subsection \<open>Words\<close>

text \<open>One key the way the manager delivers it: it is tested, and delivered when it is to be eaten.\<close>

definition press :: "TsfEnv \<times> vkey \<Rightarrow> TsfState \<Rightarrow> TsfState" where
  "press k s =
    (let (eaten, s) = OnTestKeyDown (fst k) (snd k) s in
     if eaten then snd (OnKeyDown (fst k) (snd k) s) else s)"

text \<open>A key typed in Vietnamese mode into the same document, with the same settings.\<close>

definition quiet :: "TsfEnv \<Rightarrow> TsfState \<Rightarrow> bool" where
  "quiet env s \<longleftrightarrow>
    obliging env \<and> \<not> fst (CheckConfigEvent env s) \<and> tsContext env = lastContext s \<and> \<not> contextBlocked s \<and>
    abiOk s \<and> \<not> tsfDigitLed s \<and> \<not> isScintillaApp s \<and> \<not> tsCtrl env \<and> \<not> tsAlt env \<and> \<not> tsWin env \<and>
    SharedConnected (tsShared env) \<and> ReadFlags (tsShared env) AND ENGINE_ENABLED \<noteq> 0 \<and>
    ReadFlags (tsShared env) AND TSF_ACTIVE \<noteq> 0 \<and> ReadFlags (tsShared env) AND VIETNAMESE_MODE \<noteq> 0"

definition letter_key :: "vkey \<Rightarrow> bool" where
  "letter_key vk \<longleftrightarrow> 0x41 \<le> vk \<and> vk \<le> 0x5A"

lemma quiet_config: "quiet env s \<Longrightarrow> CheckConfigEvent env s = (False, s)"
  by (auto simp: quiet_def CheckConfigEvent_def split: if_splits)

lemma quiet_entry: "quiet env s \<Longrightarrow> test_entry env s = s\<lparr>lastPunctChar := 0\<rparr>"
  by (simp add: test_entry_def quiet_config CheckContextBlocked_def) (simp add: quiet_def)

lemma in_step_synced: "in_step s \<Longrightarrow> HasEngineBuffer s \<or> docComposition s = None \<Longrightarrow> recover_desync env s = s"
  by (auto simp: recover_desync_def in_step_def HasEngineBuffer_def IsComposing_def split: option.splits)


definition same_setup :: "TsfState \<Rightarrow> TsfState \<Rightarrow> bool" where
  "same_setup s s' \<longleftrightarrow>
    lastContext s' = lastContext s \<and> contextBlocked s' = contextBlocked s \<and> abiOk s' = abiOk s \<and>
    tsfDigitLed s' = tsfDigitLed s \<and> isScintillaApp s' = isScintillaApp s \<and> lastEpoch s' = lastEpoch s \<and>
    tsfConfig s' = tsfConfig s"

lemma quiet_setup: "same_setup s s' \<Longrightarrow> quiet env s \<Longrightarrow> quiet env s'"
  by (auto simp: same_setup_def quiet_def CheckConfigEvent_def split: if_splits)

lemma key_facts:
  assumes "letter_key vk \<or> vk = 0x20"
  shows "\<not> IsPunctuationKey vk" "vk \<noteq> 0x08" "vk \<noteq> 0x1B" "\<not> IsEngineDigitKey env s vk"
  using assms unfolding letter_key_def IsPunctuationKey_def IsEngineDigitKey_def
  by (auto simp: word_le_nat_alt)

lemma quiet_want:
  assumes "quiet env s" and "letter_key vk \<or> vk = 0x20 \<and> Count (tsfEngine s) > 0"
  shows "WantKey env vk s = (True, s\<lparr>tsfActive := True, tsfVietnamese := True\<rparr>)"
proof -
  have "\<not> (0x30 \<le> vk \<and> vk \<le> 0x39)"
    using assms(2) by (auto simp: letter_key_def word_le_nat_alt)
  then have led: "DecideDigitLed \<lparr>dlVk = vk, dlShift = sh, dlEngineEmpty = x, dlMethod = m,
      currentlyArmed = False\<rparr> = DigContinue" for sh x m
    by (auto simp: DecideDigitLed_def)
  have wanted: "want_class env vk (Count (tsfEngine s) > 0) (s\<lparr>tsfActive := True, tsfVietnamese := True\<rparr>)"
    using assms by (auto simp: want_class_def letter_key_def quiet_def)
  show ?thesis
    using assms(1) wanted by (simp add: WantKey_def quiet_def led)
qed

text \<open>What a test of such a key leaves.\<close>

definition tested :: "vkey \<Rightarrow> TsfState \<Rightarrow> TsfState \<Rightarrow> bool" where
  "tested vk s s' \<longleftrightarrow>
    same_setup s s' \<and> lastTestedVk s' = vk \<and> lastWantKey s' \<and> lastPunctChar s' = 0 \<and>
    tsfEngine s' = tsfEngine s \<and> docComposition s' = docComposition s \<and> docBefore s' = docBefore s"

lemma quiet_test:
  assumes "quiet env s" and "letter_key vk \<or> vk = 0x20 \<and> Count (tsfEngine s) > 0"
    and "in_step s" and "Count (tsfEngine s) > 0 \<or> docComposition s = None"
  shows "\<exists>s'. OnTestKeyDown env vk s = (True, s') \<and> tested vk s s'"
proof -
  note key = key_facts[of vk] assms(2)
  define s1 where "s1 = OnNonRestoreKey (s\<lparr>lastPunctChar := 0\<rparr>)"
  have s1: "same_setup s s1" "lastPunctChar s1 = 0" "tsfEngine s1 = tsfEngine s"
    "docComposition s1 = docComposition s" "docBefore s1 = docBefore s"
    by (simp_all add: s1_def OnNonRestoreKey_def ResetCommitUndo_def clear_last_commit_def same_setup_def)
  have step: "recover_desync env s1 = s1"
    using assms(3,4) s1 by (intro in_step_synced) (auto simp: in_step_def HasEngineBuffer_def split: option.splits)
  have vk: "vk \<noteq> 0x08" "vk \<noteq> 0x1B" "\<not> IsPunctuationKey vk" using key by auto
  have synced: "test_synced env vk s = s1"
    using vk step unfolding test_synced_def quiet_entry[OF assms(1)] s1_def[symmetric] by simp
  have esc: "esc_restore env vk (test_synced env vk s) = (False, s1)"
    using vk by (simp add: synced esc_restore_def)
  have "WantKey env vk s1 = (True, s1\<lparr>tsfActive := True, tsfVietnamese := True\<rparr>)"
    using assms(2) s1(3) by (intro quiet_want quiet_setup[OF s1(1) assms(1)]) simp
  then have "test_want env vk s1 = (True, s1\<lparr>tsfActive := True, tsfVietnamese := True,
      lastTestedVk := vk, lastWantKey := True\<rparr>)"
    using vk by (simp add: test_want_def test_rest_def)
  then have "OnTestKeyDown env vk s = (True, s1\<lparr>tsfActive := True, tsfVietnamese := True,
      lastTestedVk := vk, lastWantKey := True\<rparr>)"
    using assms(1) vk
    by (simp add: OnTestKeyDown_eq[OF esc] quiet_entry synced) (simp add: quiet_def dismisses_suggestion_def)
  then show ?thesis using s1 by (simp add: tested_def same_setup_def)
qed

lemma quiet_press:
  assumes "quiet env s" and "letter_key vk \<or> vk = 0x20 \<and> Count (tsfEngine s) > 0"
    and "in_step s" and "Count (tsfEngine s) > 0 \<or> docComposition s = None"
  shows "\<exists>s'. press (env, vk) s = snd (TsfHandleKey env vk s') \<and> same_setup s s' \<and>
    tsfEngine s' = tsfEngine s \<and> docComposition s' = docComposition s \<and> docBefore s' = docBefore s"
proof -
  obtain t where t: "OnTestKeyDown env vk s = (True, t)" "tested vk s t"
    using quiet_test[OF assms] by blast
  have vk: "vk \<noteq> 0x08" "vk \<noteq> 0x1B" "\<not> IsPunctuationKey vk" using key_facts[of vk] assms(2) by auto
  have quiet: "quiet env t" using quiet_setup[OF _ assms(1)] t(2) by (simp add: tested_def)
  have esc: "esc_restore env vk (snd (CheckConfigEvent env t)) = (False, t)"
    using vk by (simp add: quiet_config[OF quiet] esc_restore_def)
  have want: "key_want env vk t = (True, t)" using t(2) by (simp add: key_want_def tested_def)
  have "OnKeyDown env vk t = TsfHandleKey env vk (t\<lparr>lastTestedVk := 0, lastPunctChar := 0\<rparr>)"
    using quiet vk
    by (simp add: OnKeyDown_eq[OF esc want] quiet_config key_rest_def)
       (simp add: quiet_def dismisses_suggestion_def)
  then have "press (env, vk) s = snd (TsfHandleKey env vk (t\<lparr>lastTestedVk := 0, lastPunctChar := 0\<rparr>))"
    by (simp add: press_def t(1))
  moreover have "same_setup s (t\<lparr>lastTestedVk := 0, lastPunctChar := 0\<rparr>)"
    using t(2) by (simp add: tested_def same_setup_def)
  ultimately show ?thesis using t(2) by (auto simp: tested_def intro!: exI)
qed

text \<open>A letter in a word, and a letter that starts one.\<close>

definition word_char :: "TsfEnv \<Rightarrow> vkey \<Rightarrow> TsfState \<Rightarrow> wchar" where
  "word_char env vk s =
    (let ch = letter_char env vk in
     if Count (tsfEngine s) = 0 \<and> autoCaps (tsfConfig s) \<and> snd (InspectPrecedingText env s)
     then towupper ch else ch)"

lemma press_letter:
  assumes "quiet env s" and "letter_key vk" and "in_step s"
    and "if Count (tsfEngine s) = 0 then docComposition s = None \<and> fst (InspectPrecedingText env s) = []
         else True"
  shows "same_setup s (press (env, vk) s)"
    and "tsfEngine (press (env, vk) s) = PushChar (word_char env vk s) (tsfEngine s)"
    and "docBefore (press (env, vk) s) = docBefore s"
    and "docComposition (press (env, vk) s) = Some (Peek (PushChar (word_char env vk s) (tsfEngine s)))"
proof -
  obtain s' where s': "press (env, vk) s = snd (TsfHandleKey env vk s')" "same_setup s s'"
    "tsfEngine s' = tsfEngine s" "docComposition s' = docComposition s" "docBefore s' = docBefore s"
    using quiet_press[of env s vk] assms by (auto split: if_splits)
  have ob: "obliging env" and sci: "\<not> isScintillaApp s'"
    using assms(1) s'(2) by (auto simp: quiet_def same_setup_def)
  have key: "vk \<noteq> 0x08" "vk \<noteq> 0x20" using key_facts[of vk] assms(2) by (auto simp: letter_key_def word_le_nat_alt)
  have cfg: "tsfConfig s' = tsfConfig s" using s'(2) by (simp add: same_setup_def)
  have insp: "InspectPrecedingText env s' = InspectPrecedingText env s"
    by (simp add: InspectPrecedingText_def s'(5))
  have composing: "Count (tsfEngine s) > 0 \<Longrightarrow> IsComposing s'"
    using assms(3) s'(4) by (auto simp: in_step_def IsComposing_def split: option.splits)
  have push: "push_letter env (word_char env vk s) s' =
      (True, s'\<lparr>tsfEngine := PushChar (word_char env vk s) (tsfEngine s),
               docComposition := Some (Peek (PushChar (word_char env vk s) (tsfEngine s)))\<rparr>)"
    using ob unfolding s'(3)[symmetric]
    by (cases "docComposition s'")
       (simp_all add: push_letter_def Let_def IsComposing_def obliging_simps(1) StartSession_eq UpdateSession_eq)
  have "TsfHandleKey env vk s' = handle_letter env vk s'"
    using key assms(2) by (simp add: TsfHandleKey_def letter_key_def)
  also have "\<dots> = push_letter env (word_char env vk s) s'"
    using composing assms(4) sci s'(3,4) insp cfg
    by (cases "Count (tsfEngine s) = 0")
       (auto simp: handle_letter_def word_char_def Let_def IsComposing_def split: prod.split)
  finally have h: "press (env, vk) s = s'\<lparr>tsfEngine := PushChar (word_char env vk s) (tsfEngine s),
               docComposition := Some (Peek (PushChar (word_char env vk s) (tsfEngine s)))\<rparr>"
    using push s'(1) by simp
  show "same_setup s (press (env, vk) s)" using s'(2) by (simp add: h same_setup_def)
  show "tsfEngine (press (env, vk) s) = PushChar (word_char env vk s) (tsfEngine s)"
    "docBefore (press (env, vk) s) = docBefore s"
    "docComposition (press (env, vk) s) = Some (Peek (PushChar (word_char env vk s) (tsfEngine s)))"
    by (simp_all add: h s'(5))
qed

lemma press_space:
  assumes "quiet env s" and "in_step s" and "Count (tsfEngine s) > 0"
  shows "docBefore (press (env, 0x20) s) = docBefore s @ fst (Commit (tsfEngine s)) @ [32]"
    and "docComposition (press (env, 0x20) s) = None"
    and "tsfEngine (press (env, 0x20) s) = Reset (tsfEngine s)"
proof -
  obtain s' where s': "press (env, 0x20) s = snd (TsfHandleKey env 0x20 s')"
    "tsfEngine s' = tsfEngine s" "docComposition s' = docComposition s" "docBefore s' = docBefore s"
    using quiet_press[of env s "0x20"] assms by auto
  have ob: "obliging env" using assms(1) by (simp add: quiet_def)
  obtain t where t: "docComposition s = Some t"
    using assms(2,3) by (auto simp: in_step_def split: option.splits)
  have reset: "Reset (Reset e) = Reset e" for e by (simp add: Reset_def)
  have "press (env, 0x20) s = CommitWithChar env 32 s'" using s'(1) by (simp add: TsfHandleKey_def)
  then show "docBefore (press (env, 0x20) s) = docBefore s @ fst (Commit (tsfEngine s)) @ [32]"
    "docComposition (press (env, 0x20) s) = None" "tsfEngine (press (env, 0x20) s) = Reset (tsfEngine s)"
    using ob s'(2-4) t
    by (simp_all add: CommitWithChar_def Let_def Commit_def obliging_simps(1) CommitSession_eq reset)
qed


text \<open>Every key leaves something in the buffer.\<close>

fun stays :: "wstring \<Rightarrow> Engine \<Rightarrow> bool" where
  "stays [] e \<longleftrightarrow> True"
| "stays (c # cs) e \<longleftrightarrow> Count (PushChar c e) > 0 \<and> stays cs (PushChar c e)"

abbreviation typed_char :: "TsfEnv \<times> vkey \<Rightarrow> wchar" where
  "typed_char k \<equiv> letter_char (fst k) (snd k)"

lemma same_setup_trans: "same_setup a b \<Longrightarrow> same_setup b c \<Longrightarrow> same_setup a c"
  by (simp add: same_setup_def)

lemma press_letters:
  assumes "\<forall>k \<in> set ks. quiet (fst k) s \<and> letter_key (snd k)" and "in_step s" and "Count (tsfEngine s) > 0"
    and "stays (map typed_char ks) (tsfEngine s)"
  shows "same_setup s (fold press ks s) \<and> in_step (fold press ks s) \<and>
    tsfEngine (fold press ks s) = pushAll (map typed_char ks) (tsfEngine s) \<and>
    Count (tsfEngine (fold press ks s)) > 0 \<and> docBefore (fold press ks s) = docBefore s"
  using assms
proof (induction ks arbitrary: s)
  case Nil
  then show ?case by (simp add: pushAll_def same_setup_def)
next
  case (Cons k ks)
  obtain env vk where k: "k = (env, vk)" by fastforce
  have char: "word_char env vk s = letter_char env vk" using Cons.prems(3) by (simp add: word_char_def)
  have "quiet env s" "letter_key vk" using Cons.prems(1) k by auto
  note one = press_letter[OF this Cons.prems(2), unfolded char]
  let ?s = "press k s"
  have s: "same_setup s ?s" "tsfEngine ?s = PushChar (typed_char k) (tsfEngine s)"
    "docBefore ?s = docBefore s" "in_step ?s"
    using one Cons.prems(3) by (simp_all add: k in_step_def)
  have "same_setup ?s (fold press ks ?s) \<and> in_step (fold press ks ?s) \<and>
      tsfEngine (fold press ks ?s) = pushAll (map typed_char ks) (tsfEngine ?s) \<and>
      Count (tsfEngine (fold press ks ?s)) > 0 \<and> docBefore (fold press ks ?s) = docBefore ?s"
    using Cons.prems(1,4) s by (intro Cons.IH) (auto intro: quiet_setup)
  then show ?case using s same_setup_trans[OF s(1)] by (auto simp: pushAll_def)
qed

text \<open>C5: a word typed into a document the text service is quiet in, with no word in front of the
  caret, is the word of the engine: while it is typed the document ends with what the engine displays
  for the characters of the keys (the first one a capital at the start of a sentence, when that is
  configured), and Space leaves the text the engine commits, followed by a space, with the composition
  ended and the buffer empty.\<close>

theorem typed_word_committed:
  assumes "\<forall>k \<in> set (k # ks). quiet (fst k) s \<and> letter_key (snd k)" and "quiet env s" and "in_step s"
    and "docComposition s = None" and "fst (InspectPrecedingText (fst k) s) = []"
    and "cs = word_char (fst k) (snd k) s # map typed_char ks" and "stays cs (tsfEngine s)"
  shows "document (fold press (k # ks) s) = docBefore s @ Peek (pushAll cs (tsfEngine s)) \<and>
    document (fold press (k # ks @ [(env, 0x20)]) s) =
      docBefore s @ fst (Commit (pushAll cs (tsfEngine s))) @ [32] \<and>
    docComposition (fold press (k # ks @ [(env, 0x20)]) s) = None \<and>
    Count (tsfEngine (fold press (k # ks @ [(env, 0x20)]) s)) = 0"
proof -
  have empty: "Count (tsfEngine s) = 0" using assms(3,4) by (simp add: in_step_def)
  have "quiet (fst k) s" "letter_key (snd k)" using assms(1) by auto
  note one = press_letter[OF this assms(3), unfolded prod.collapse]
  let ?s = "press k s" let ?t = "fold press ks ?s"
  have s: "same_setup s ?s" "tsfEngine ?s = PushChar (hd cs) (tsfEngine s)"
    "docBefore ?s = docBefore s" "in_step ?s"
    using one empty assms(4-6) by (simp_all add: in_step_def)
  have t: "same_setup ?s ?t" "in_step ?t" "tsfEngine ?t = pushAll (tl cs) (tsfEngine ?s)"
    "Count (tsfEngine ?t) > 0" "docBefore ?t = docBefore s"
    using press_letters[of ks ?s] assms(1,6,7) s by (auto intro: quiet_setup)
  have e: "tsfEngine ?t = pushAll cs (tsfEngine s)" using t(3) s(2) assms(6) by (simp add: pushAll_def)
  have "document ?t = docBefore ?t @ Peek (tsfEngine ?t)"
    using t(2,4) by (auto simp: in_step_def document_def split: option.splits)
  then have shown: "document ?t = docBefore s @ Peek (pushAll cs (tsfEngine s))"
    using t(5) e by simp
  have "quiet env ?t" by (rule quiet_setup[OF same_setup_trans[OF s(1) t(1)] assms(2)])
  note space = press_space[OF this t(2,4)]
  have split: "fold press (k # ks) s = ?t" "fold press (k # ks @ [(env, 0x20)]) s = press (env, 0x20) ?t"
    by simp_all
  show ?thesis
    unfolding split using shown space t(5) e by (simp add: document_def Count_Reset)
qed


subsection \<open>Words taken up again\<close>

lemma preceding_suffix: "\<exists>pre. doc = pre @ preceding_word n doc"
proof -
  let ?b = "drop (length doc - n) doc" let ?p = "\<lambda>c. DecomposeVietChar c \<noteq> None"
  have "?b = rev (dropWhile ?p (rev ?b)) @ rev (takeWhile ?p (rev ?b))"
    by (metis rev_append rev_rev_ident takeWhile_dropWhile_id)
  then have "doc = (take (length doc - n) doc @ rev (dropWhile ?p (rev ?b))) @ preceding_word n doc"
    by (simp add: preceding_word_def Let_def)
  then show ?thesis by blast
qed

lemma inspected_suffix:
  assumes "InspectPrecedingText env s = (word, cap)"
  obtains pre where "docBefore s = pre @ word"
  using assms preceding_suffix[of "docBefore s" 64]
  by (auto simp: InspectPrecedingText_def split: if_splits)

lemma seed_history: "escRawHistory (snd (SeedFromText w e)) = []"
proof -
  have "escRawHistory e1 = escRawHistory e0" if "seed_loop w e0 = Some e1" for w e0 e1
    using that by (induction w arbitrary: e0) (auto simp: seed_step_def split: option.splits)
  from this[of w "Reset e"] show ?thesis
    by (auto simp: SeedFromText_def Reset_def checkBias_def UpdateSpellState_def Let_def setBias_def
        split: option.split)
qed

lemma letter_char_nz: "letter_key vk \<Longrightarrow> letter_char env vk \<noteq> 0"
  by (auto simp: letter_key_def letter_char_def)

text \<open>A letter typed behind a word the engine can read.\<close>

lemma press_revives:
  assumes "quiet env s" and "letter_key vk" and "in_step s" and "docComposition s = None"
    and "InspectPrecedingText env s = (word, cap)" and "word \<noteq> []" and "docBefore s = pre @ word"
    and "fst (SeedFromText word (tsfEngine s))"
    and "\<not> IsEnglishWord (snd (SeedFromText word (newEngine (tsfConfig s))))"
    and "e = PushChar (letter_char env vk) (snd (SeedFromText word (tsfEngine s)))" and "Count e > 0"
  shows "same_setup s (press (env, vk) s) \<and> tsfEngine (press (env, vk) s) = e \<and>
    docBefore (press (env, vk) s) = pre \<and> docComposition (press (env, vk) s) = Some (Peek e)"
proof -
  obtain s' where s': "press (env, vk) s = snd (TsfHandleKey env vk s')" "same_setup s s'"
    "tsfEngine s' = tsfEngine s" "docComposition s' = None" "docBefore s' = docBefore s"
    using quiet_press[of env s vk] assms(1-4) by auto
  have ob: "obliging env" and sci: "\<not> isScintillaApp s'" and cfg: "tsfConfig s' = tsfConfig s"
    using assms(1) s'(2) by (auto simp: quiet_def same_setup_def)
  have key: "vk \<noteq> 0x08" "vk \<noteq> 0x20" using key_facts[of vk] assms(2) by (auto simp: letter_key_def word_le_nat_alt)
  have insp: "InspectPrecedingText env s' = (word, cap)"
    using assms(5) unfolding InspectPrecedingText_def s'(5) .
  have seeds: "fst (SeedFromText word (newEngine (tsfConfig s')))" "fst (SeedFromText word (tsfEngine s'))"
    using assms(8) seeds_alike s'(3) by metis+
  have doc: "document s' = pre @ word" using s'(4,5) assms(7) by (simp add: document_def)
  have "TsfHandleKey env vk s' = handle_letter env vk s'"
    using key assms(2) by (simp add: TsfHandleKey_def letter_key_def)
  also have "\<dots> = (True, ReviveAndTypeSession env word (letter_char env vk) s')"
    using assms(3,4,6,9) sci s'(3,4) insp seeds(1) cfg ob
    by (simp add: handle_letter_def Let_def IsComposing_def in_step_def obliging_simps(1) case_prod_unfold)
  also have "\<dots> = (True, s'\<lparr>tsfEngine := e, docBefore := pre, docComposition := Some (Peek e)\<rparr>)"
    using assms(6,10,11) letter_char_nz[OF assms(2)] s'(3) doc
    by (simp add: ReviveAndTypeSession_def revive_eq[OF ob seeds(2)] Let_def)
  finally show ?thesis using s'(1,2) by (simp add: same_setup_def)
qed

text \<open>C31: a letter typed behind a word the engine can read takes the word up again: the composition
  covers the word, the text in front of it is as it was, and the document shows what the engine displays
  for the letter typed behind the word; the engine that reads the word displays it unchanged.\<close>

theorem letter_takes_word_up:
  assumes "quiet env s" and "letter_key vk" and "in_step s" and "docComposition s = None"
    and "InspectPrecedingText env s = (word, cap)" and "word \<noteq> []"
    and "SeedFromText word (tsfEngine s) = (True, seeded)"
    and "\<not> IsEnglishWord (snd (SeedFromText word (newEngine (tsfConfig s))))"
    and "Count (PushChar (letter_char env vk) seeded) > 0"
  shows "\<exists>pre. docBefore s = pre @ word \<and> Peek seeded = word \<and>
    docBefore (press (env, vk) s) = pre \<and> tsfEngine (press (env, vk) s) = PushChar (letter_char env vk) seeded \<and>
    document (press (env, vk) s) = pre @ Peek (PushChar (letter_char env vk) seeded)"
proof -
  obtain pre where pre: "docBefore s = pre @ word" using inspected_suffix[OF assms(5)] .
  have "Peek seeded = word" using SeedFromText_Peek[of word "tsfEngine s"] assms(7) by simp
  then show ?thesis
    using press_revives[OF assms(1-6) pre _ assms(8) refl] assms(7,9) pre
    by (intro exI[of _ pre]) (simp add: document_def)
qed

text \<open>C34: Esc behind a word that was taken up again erases it: the keys that are restored are only those
  typed since, because reading the word from the document leaves the record of typed keys empty. Where
  \<open>pre @ word\<close> was typed only \<open>pre\<close> and the one letter are left.\<close>

theorem esc_erases_word_taken_up:
  assumes "quiet env s" and "letter_key vk" and "in_step s" and "docComposition s = None"
    and "InspectPrecedingText env s = (word, cap)" and "word \<noteq> []" and "docBefore s = pre @ word"
    and "fst (SeedFromText word (tsfEngine s))"
    and "\<not> IsEnglishWord (snd (SeedFromText word (newEngine (tsfConfig s))))"
    and "Count (PushChar (letter_char env vk) (snd (SeedFromText word (tsfEngine s)))) > 0"
    and "escRestoreRawEnabled (tsfConfig s)" and "quiet env' s"
  shows "fst (OnTestKeyDown env' 0x1B (press (env, vk) s)) \<and>
    document (snd (OnTestKeyDown env' 0x1B (press (env, vk) s))) = pre @ [letter_char env vk]"
proof -
  let ?s = "press (env, vk) s" let ?e = "PushChar (letter_char env vk) (snd (SeedFromText word (tsfEngine s)))"
  note s = press_revives[OF assms(1-9) refl assms(10)]
  have quiet: "quiet env' ?s" and esc: "escRestoreRawEnabled (tsfConfig ?s)"
    using quiet_setup[OF _ assms(12)] s assms(11) by (auto simp: same_setup_def)
  have ob: "obliging env'" using assms(12) by (simp add: quiet_def)
  have raw: "PeekRaw ?e = [letter_char env vk]"
    using history_PushChar[OF letter_char_nz[OF assms(2)]] by (simp add: PeekRaw_def seed_history)
  have synced: "test_synced env' 0x1B ?s = ?s\<lparr>lastPunctChar := 0\<rparr>"
    using s assms(10) quiet
    by (simp add: test_synced_def quiet_entry recover_desync_def IsComposing_def HasEngineBuffer_def)
  have "esc_restore env' 0x1B (test_synced env' 0x1B ?s) = CommitRawAndEnd env' (?s\<lparr>lastPunctChar := 0\<rparr>)"
    using s assms(10) esc by (simp add: synced esc_restore_def HasEngineBuffer_def)
  also have "\<dots> = (True, ?s\<lparr>lastPunctChar := 0, docBefore := pre @ [letter_char env vk], docComposition := None,
      tsfEngine := Reset ?e, tsfDigitLed := False\<rparr>)"
    using s raw ob by (simp add: CommitRawAndEnd_eq CommitSession_eq)
  finally have e: "esc_restore env' 0x1B (test_synced env' 0x1B ?s) = \<dots>" .
  show ?thesis
    using quiet by (simp add: OnTestKeyDown_eq[OF e] quiet_entry dismisses_suggestion_def document_def)
      (simp add: quiet_def)
qed


subsection \<open>Settings that change in a word\<close>

lemma commit_text_fresh: "commit_text (newEngine cfg) = []"
  by (simp add: commit_text_def newEngine_def Peek_def ComposeAll_def Let_def)

lemma esc_idle: "Count (tsfEngine s) = 0 \<Longrightarrow> commitUndo s = UndoIdle \<Longrightarrow> esc_restore env vk s = (False, s)"
  by (simp add: esc_restore_def HasEngineBuffer_def)

lemma test_rest_empty:
  assumes "Count (tsfEngine s) = 0" and "docComposition s = None"
  shows "document (snd (test_rest env vk want s)) = docBefore s"
  using assms
  by (auto simp: test_rest_def PrepareBackspaceRevive_def HasEngineBuffer_def document_def Let_def
      split: option.split prod.split)

lemma test_want_empty:
  assumes "Count (tsfEngine s) = 0" and "docComposition s = None"
  shows "document (snd (test_want env vk s)) = docBefore s"
proof -
  obtain want s1 where w: "WantKey env vk s = (want, s1)" by fastforce
  have s1: "Count (tsfEngine s1) = 0" "docComposition s1 = None" "docBefore s1 = docBefore s"
    using WantKey_simps[of env vk s] w assms by auto
  note rest = test_rest_empty[of s1, OF s1(1,2)] test_rest_empty[of "ResetCommitUndo s1"]
  show ?thesis
    using s1 rest by (simp add: test_want_def w Let_def document_def)
qed

text \<open>C33: when the settings are published again while a word is being typed, the next key erases the
  word: reading them commits the engine's word into nothing and starts a new engine, and the recovery
  that finds a composition without a buffer commits the empty text of the new engine over it.\<close>

theorem settings_change_erases_word:
  assumes "obliging env" and "fst (CheckConfigEvent env s)" and "tsContext env = lastContext s"
    and "\<not> contextBlocked s" and "docComposition s = Some w"
  shows "document s = docBefore s @ w \<and> document (snd (OnTestKeyDown env vk s)) = docBefore s"
proof -
  obtain n where c: "CheckConfigEvent env s = (True, ApplySharedState (tsRead env) (s\<lparr>lastEpoch := n\<rparr>))"
    using assms(2) by (auto simp: CheckConfigEvent_def split: if_splits)
  define s1 where "s1 = test_entry env s"
  have s1_eq: "s1 = (ApplySharedState (tsRead env) (s\<lparr>lastEpoch := n\<rparr>))\<lparr>lastPunctChar := 0\<rparr>"
    using assms(3) by (simp add: s1_def test_entry_def c CheckContextBlocked_def ApplySharedState_def Let_def)
  obtain cfg where s1: "tsfEngine s1 = newEngine cfg" "docComposition s1 = Some w" "docBefore s1 = docBefore s"
    "\<not> contextBlocked s1"
    using assms(4,5) by (simp add: s1_eq ApplySharedState_def Let_def)
  define s2 where "s2 = OnNonRestoreKey s1"
  have s2: "tsfEngine s2 = newEngine cfg" "docComposition s2 = Some w" "docBefore s2 = docBefore s"
    using s1 by (simp_all add: s2_def OnNonRestoreKey_def)
  have recover: "docComposition (recover_desync env t) = None \<and> Count (tsfEngine (recover_desync env t)) = 0 \<and>
      docBefore (recover_desync env t) = docBefore s \<and> commitUndo (recover_desync env t) = UndoIdle"
    if "tsfEngine t = newEngine cfg" "docComposition t = Some w" "docBefore t = docBefore s" for t
    using that assms(1)
    by (simp add: recover_desync_def IsComposing_def HasEngineBuffer_def TsfCommit_def Let_def Commit_def
        commit_text_fresh obliging_simps(1) CommitSession_eq Count_Reset RecordCommitSnapshot_def
        clear_last_commit_def)
      (simp add: Count_def newEngine_def)
  let ?r = "test_synced env vk s"
  have r: "docComposition ?r = None" "Count (tsfEngine ?r) = 0" "docBefore ?r = docBefore s" "commitUndo ?r = UndoIdle"
    using recover[OF s1(1-3)] recover[OF s2] by (auto simp: test_synced_def s1_def s2_def)
  note e = esc_idle[OF r(2,4), of env vk]
  have "HasEngineBuffer s1 = False" using s1(1) by (simp add: HasEngineBuffer_def Count_def newEngine_def)
  then have "document (snd (OnTestKeyDown env vk s)) = docBefore s"
    using s1(4) r test_want_empty[OF r(2,1)]
    by (simp add: OnTestKeyDown_eq[OF e] s1_def[symmetric] dismisses_suggestion_def HasEngineBuffer_def
        document_def)
  then show ?thesis using assms(5) by (simp add: document_def)
qed

text \<open>The methods Combined (3) and UserDefined (4) become Telex.\<close>

lemma other_methods_become_Telex:
  "shInputMethod st > 2 \<Longrightarrow> inputMethod (tsfConfig (ApplySharedState st s)) = Telex"
  by (simp add: ApplySharedState_def Let_def DecodeFeatureFlags_def word_less_nat_alt word_le_nat_alt)

text \<open>When the composition over a word cannot be started the letter is eaten and lost.\<close>

lemma failed_revival_loses_letter:
  assumes "tsGrants env" and "\<not> tsStarts env" and "Count (tsfEngine s) = 0" and "docComposition s = None"
    and "\<not> isScintillaApp s" and "InspectPrecedingText env s = (word, cap)" and "word \<noteq> []"
    and "fst (SeedFromText word (newEngine (tsfConfig s)))"
    and "\<not> IsEnglishWord (snd (SeedFromText word (newEngine (tsfConfig s))))"
  shows "fst (handle_letter env vk s) \<and> document (snd (handle_letter env vk s)) = document s"
proof -
  have "document (revive_session env word key s) = document s" for key
    using assms(2,4)
    by (simp add: revive_session_def StartComposition_def EndComposition_def document_def case_prod_unfold Let_def)
  then show ?thesis
    using assms
    by (simp add: handle_letter_def Let_def IsComposing_def case_prod_unfold RequestEditSession_def
        ReviveAndTypeSession_def)
qed

text \<open>Esc that was claimed when it was tested is not eaten when it is delivered.\<close>

lemma restored_Esc_not_eaten:
  assumes "CheckConfigEvent env s = (False, s)" and "Count (tsfEngine s) = 0" and "commitUndo s = UndoIdle"
    and "lastTestedVk s \<noteq> 0x1B"
  shows "\<not> fst (OnKeyDown env 0x1B s)"
proof -
  have esc: "esc_restore env 0x1B (snd (CheckConfigEvent env s)) = (False, s)"
    using assms(1-3) by (simp add: esc_idle)
  obtain want s' where w: "key_want env 0x1B s = (want, s')" by fastforce
  have "\<not> want_class env 0x1B composed t" for composed t
    by (simp add: want_class_def IsEngineDigitKey_def)
  then have "\<not> fst (WantKey env 0x1B s)"
    by (simp add: WantKey_def Let_def split: DigitLedDecision.split)
  then have "\<not> want" using w assms(4) by (auto simp: key_want_def split: prod.splits)
  then show ?thesis
    using assms(1) by (simp add: OnKeyDown_eq[OF esc w] key_rest_def dismisses_suggestion_def IsPunctuationKey_def)
qed

subsection \<open>Another layout of the shared memory\<close>

text \<open>A service that found another layout, outside a word.\<close>

definition aside :: "TsfState \<Rightarrow> bool" where
  "aside s \<longleftrightarrow>
    \<not> abiOk s \<and> \<not> tsfActive s \<and> Count (tsfEngine s) = 0 \<and> docComposition s = None \<and>
    commitUndo s = UndoIdle \<and> \<not> lastWantKey s"

lemma aside_config:
  "aside s \<Longrightarrow> aside (snd (CheckConfigEvent env s)) \<and> docBefore (snd (CheckConfigEvent env s)) = docBefore s"
  by (simp add: aside_def CheckConfigEvent_def)
    (simp add: ApplySharedState_def Let_def)

lemma aside_esc: "aside s \<Longrightarrow> esc_restore env vk s = (False, s)"
  by (simp add: aside_def esc_idle)

lemma aside_want: "aside s \<Longrightarrow> WantKey env vk s = (False, s)"
  by (simp add: aside_def WantKey_def)

lemma aside_blocked: "aside s \<Longrightarrow> aside (CheckContextBlocked env s) \<and>
    docBefore (CheckContextBlocked env s) = docBefore s"
  by (simp add: aside_def CheckContextBlocked_def Let_def)

lemma aside_prepare:
  "aside s \<Longrightarrow> PrepareBackspaceRevive env s = (False, s\<lparr>pendingRevive := None\<rparr>)"
  by (simp add: aside_def PrepareBackspaceRevive_def)

lemma aside_entry: "aside s \<Longrightarrow> aside (test_entry env s) \<and> docBefore (test_entry env s) = docBefore s"
  using aside_config[of s env] aside_blocked[of "(snd (CheckConfigEvent env s))\<lparr>lastPunctChar := 0\<rparr>" env]
  by (simp add: test_entry_def) (simp add: aside_def)

lemma aside_synced: "aside s \<Longrightarrow> test_synced env vk s = test_entry env s"
  using aside_entry[of s env]
  by (simp add: test_synced_def OnNonRestoreKey_def recover_desync_def IsComposing_def HasEngineBuffer_def aside_def)

lemma aside_test:
  assumes "aside s"
  shows "fst (OnTestKeyDown env vk s) = False \<and> aside (snd (OnTestKeyDown env vk s)) \<and>
    docBefore (snd (OnTestKeyDown env vk s)) = docBefore s"
proof -
  let ?t = "test_entry env s"
  note t = aside_entry[OF assms, of env]
  have e: "esc_restore env vk (test_synced env vk s) = (False, ?t)"
    using t by (simp add: aside_synced[OF assms] aside_esc)
  have rest: "aside ?t \<Longrightarrow> fst (test_rest env vk False ?t) = False \<and> aside (snd (test_rest env vk False ?t)) \<and>
      docBefore (snd (test_rest env vk False ?t)) = docBefore ?t"
    by (simp add: test_rest_def aside_prepare Let_def) (simp add: aside_def HasEngineBuffer_def)
  have "test_want env vk ?t = test_rest env vk False ?t"
    using t by (simp add: test_want_def aside_want Let_def) (simp add: aside_def)
  then show ?thesis
    using t rest unfolding OnTestKeyDown_eq[OF e] aside_synced[OF assms]
    by (simp add: dismisses_suggestion_def HasEngineBuffer_def) (simp add: aside_def)
qed

lemma aside_key:
  assumes "aside s"
  shows "fst (OnKeyDown env vk s) = False \<and> aside (snd (OnKeyDown env vk s)) \<and>
    docBefore (snd (OnKeyDown env vk s)) = docBefore s"
proof -
  let ?t = "snd (CheckConfigEvent env s)"
  note t = aside_config[OF assms, of env]
  have e: "esc_restore env vk ?t = (False, ?t)" using t by (simp add: aside_esc)
  have w: "key_want env vk ?t = (False, ?t)"
    using t by (simp add: key_want_def aside_want) (simp add: aside_def)
  show ?thesis
    using t unfolding OnKeyDown_eq[OF e w] Let_def
    by (simp add: key_rest_def dismisses_suggestion_def HasEngineBuffer_def) (simp add: aside_def)
qed

text \<open>The answers to keys that are tested (\<open>True\<close>) or delivered, and the state at the end.\<close>

fun key_answers :: "(bool \<times> TsfEnv \<times> vkey) list \<Rightarrow> TsfState \<Rightarrow> bool list \<times> TsfState" where
  "key_answers [] s = ([], s)"
| "key_answers ((test, env, vk) # ks) s =
    (let (eaten, s) = (if test then OnTestKeyDown env vk s else OnKeyDown env vk s);
         (rest, s) = key_answers ks s
     in (eaten # rest, s))"

lemma aside_answers:
  "aside s \<Longrightarrow> list_all Not (fst (key_answers ks s)) \<and> docBefore (snd (key_answers ks s)) = docBefore s \<and>
    aside (snd (key_answers ks s))"
proof (induction ks arbitrary: s)
  case (Cons k ks)
  obtain test env vk where k: "k = (test, env, vk)" by (cases k)
  show ?case
    using aside_test[OF Cons.prems, of env vk] aside_key[OF Cons.prems, of env vk]
      Cons.IH[of "snd (OnTestKeyDown env vk s)"] Cons.IH[of "snd (OnKeyDown env vk s)"]
    by (simp add: k case_prod_unfold Let_def)
qed simp

text \<open>C32: a service that is loaded beside a main program with another layout of the shared memory is
  passive: whatever keys are tested or delivered, none is eaten and the document is left alone, and the
  flag that tells the main program of the mismatch is set.\<close>

theorem mismatched_layout_passes_keys:
  assumes "NewEngineController env0 doc = (s, m)" and "SharedConnected (tsOpened env0)"
    and "\<not> IsAbiCompatible (tsOpened env0)"
  shows "list_all Not (fst (key_answers ks s)) \<and> document (snd (key_answers ks s)) = doc \<and>
    ReadFlags m AND TSF_ABI_MISMATCH \<noteq> 0"
proof -
  have s: "s = (tsf_defaults doc)\<lparr>abiOk := False\<rparr>" "m = map_option (SetOrClearFlag TSF_ABI_MISMATCH True) (tsOpened env0)"
    using assms by (auto simp: NewEngineController_def)
  have "aside s" "docBefore s = doc"
    by (simp_all add: s aside_def tsf_defaults_def Let_def Count_def newEngine_def)
  then have "list_all Not (fst (key_answers ks s)) \<and> document (snd (key_answers ks s)) = doc"
    using aside_answers[of s ks] by (simp add: aside_def document_def)
  moreover have "(x OR b) AND b = b" for x b :: u32 by (rule bit_word_eqI) (auto simp: bit_simps)
  moreover have "ReadFlags m AND TSF_ABI_MISMATCH \<noteq> 0"
    using assms(2) calculation(2)[of _ TSF_ABI_MISMATCH]
    by (auto simp: s ReadFlags_def SharedConnected_def SetOrClearFlag_def
        split: option.splits)
  ultimately show ?thesis by simp
qed


subsection \<open>Instances\<close>

definition demo_memory :: SharedState where
  "demo_memory = (InitDefaults zeroState)\<lparr>shEpoch := 0, shFlags := ENGINE_ENABLED OR TSF_ACTIVE OR VIETNAMESE_MODE\<rparr>"

definition demo_keys :: TsfEnv where
  "demo_keys =
    \<lparr>tsGrants = True, tsReads = True, tsSelection = False, tsStarts = True, tsShifts = True, tsSets = True,
     tsContext = None, tsBlocks = False, tsCtrl = False, tsShift = False, tsAlt = False, tsWin = False,
     tsCaps = False, tsChar = (\<lambda>vk. vk), tsTick = 0, tsScintillaWindow = False, tsShared = Some demo_memory,
     tsOpened = None, tsRead = demo_memory\<rparr>"

definition demo_doc :: "wstring \<Rightarrow> TsfState" where
  "demo_doc doc = (tsf_defaults doc)\<lparr>tsfConfig := defaultConfig\<lparr>escRestoreRawEnabled := True\<rparr>,
    tsfEngine := newEngine (defaultConfig\<lparr>escRestoreRawEnabled := True\<rparr>)\<rparr>"

lemma demo_doc_simps [simp]:
  "docBefore (demo_doc doc) = doc" "docComposition (demo_doc doc) = None" "pendingRevive (demo_doc doc) = None"
  "tsfConfig (demo_doc doc) = defaultConfig\<lparr>escRestoreRawEnabled := True\<rparr>"
  "tsfEngine (demo_doc doc) = newEngine (defaultConfig\<lparr>escRestoreRawEnabled := True\<rparr>)" "in_step (demo_doc doc)"
  by (simp_all add: demo_doc_def tsf_defaults_def Let_def in_step_def Count_def newEngine_def)

lemma demo_quiet: "quiet demo_keys (demo_doc doc)"
  by (simp add: quiet_def demo_keys_def demo_doc_def tsf_defaults_def obliging_def CheckConfigEvent_def connect_def
      SharedConnected_def ReadEpoch_def ReadFlags_def demo_memory_def InitDefaults_def SetFeatureFlags_def Let_def)

lemma text_service_in_step_witness:
  "\<exists>s'. tsf_run (demo_doc []) [TestedKey demo_keys 0x41, PressedKey demo_keys 0x41, Terminated] s' \<and>
    document s' = docBefore s' @ Peek (tsfEngine s')"
proof -
  obtain t where t: "OnTestKeyDown demo_keys 0x41 (demo_doc []) = (True, t)" "tested 0x41 (demo_doc []) t"
    using quiet_test[OF demo_quiet, of "0x41" "[]"] by (auto simp: letter_key_def)
  have "same_setup (demo_doc []) t" using t(2) by (simp add: tested_def)
  then have "quiet demo_keys t" by (rule quiet_setup[OF _ demo_quiet])
  then have "calm demo_keys (demo_doc [])" "calm demo_keys t" "obliging demo_keys"
    using demo_quiet[of "[]"] by (simp_all add: quiet_def calm_def)
  then have "tsf_run (demo_doc []) [TestedKey demo_keys 0x41, PressedKey demo_keys 0x41, Terminated]
      (OnCompositionTerminated (snd (OnKeyDown demo_keys 0x41 t)))"
    using t(1) by (auto intro!: tsf_run.intros)
  then show ?thesis using text_service_in_step[of "demo_doc []"] by auto
qed

lemma typed_word_committed_witness:
  "document (fold press [(demo_keys, 0x41), (demo_keys, 0x41), (demo_keys, 0x20)] (demo_doc [])) = [0xE2, 32]"
proof -
  let ?cfg = "defaultConfig\<lparr>escRestoreRawEnabled := True\<rparr>"
  have insp: "InspectPrecedingText demo_keys (demo_doc []) = ([], True)"
    by (simp add: InspectPrecedingText_def demo_keys_def)
  have chars: "word_char demo_keys 0x41 (demo_doc []) = 97" "typed_char (demo_keys, 0x41) = 97"
    by (simp_all add: word_char_def letter_char_def demo_keys_def defaultConfig_def towlower_def)
  have "stays [97, 97] (newEngine ?cfg)" "fst (Commit (pushAll [97, 97] (newEngine ?cfg))) = [0xE2]"
    by code_simp+
  then show ?thesis
    using typed_word_committed[of "(demo_keys, 0x41)" "[(demo_keys, 0x41)]" "demo_doc []" demo_keys "[97, 97]"]
      demo_quiet insp chars by (simp add: letter_key_def)
qed

lemma demo_word:
  "InspectPrecedingText demo_keys (demo_doc [32, 97]) = ([97], ComputeShouldAutoCap [32, 97])"
  "SeedFromText [97] (newEngine (defaultConfig\<lparr>escRestoreRawEnabled := True\<rparr>)) =
    (True, snd (SeedFromText [97] (newEngine (defaultConfig\<lparr>escRestoreRawEnabled := True\<rparr>))))"
  "\<not> IsEnglishWord (snd (SeedFromText [97] (newEngine (defaultConfig\<lparr>escRestoreRawEnabled := True\<rparr>))))"
  "Count (PushChar 110 (snd (SeedFromText [97] (newEngine (defaultConfig\<lparr>escRestoreRawEnabled := True\<rparr>))))) > 0"
  "letter_char demo_keys 0x4E = 110" "letter_key 0x4E"
proof -
  have "preceding_word 64 [32, 97] = [97]" by code_simp
  then show "InspectPrecedingText demo_keys (demo_doc [32, 97]) = ([97], ComputeShouldAutoCap [32, 97])"
    by (simp add: InspectPrecedingText_def demo_keys_def)
  have "fst (SeedFromText [97] (newEngine (defaultConfig\<lparr>escRestoreRawEnabled := True\<rparr>)))" by code_simp
  then show "SeedFromText [97] (newEngine (defaultConfig\<lparr>escRestoreRawEnabled := True\<rparr>)) =
    (True, snd (SeedFromText [97] (newEngine (defaultConfig\<lparr>escRestoreRawEnabled := True\<rparr>))))"
    by (metis prod.collapse)
  show "\<not> IsEnglishWord (snd (SeedFromText [97] (newEngine (defaultConfig\<lparr>escRestoreRawEnabled := True\<rparr>))))"
    "Count (PushChar 110 (snd (SeedFromText [97] (newEngine (defaultConfig\<lparr>escRestoreRawEnabled := True\<rparr>))))) > 0"
    by code_simp+
  show "letter_char demo_keys 0x4E = 110" "letter_key 0x4E"
    by (simp_all add: letter_char_def demo_keys_def towlower_def letter_key_def)
qed

lemma letter_takes_word_up_witness:
  "\<exists>pre. [32, 97] = pre @ [97] \<and> docBefore (press (demo_keys, 0x4E) (demo_doc [32, 97])) = pre"
  using letter_takes_word_up[OF demo_quiet demo_word(6) _ _ demo_word(1)] demo_word(2-5) by auto

lemma esc_erases_word_taken_up_witness:
  "document (snd (OnTestKeyDown demo_keys 0x1B (press (demo_keys, 0x4E) (demo_doc [32, 97])))) = [32, 110]"
  using esc_erases_word_taken_up[OF demo_quiet demo_word(6) _ _ demo_word(1), of "[32]" demo_keys]
    arg_cong[OF demo_word(2), of fst] demo_word(3-5) demo_quiet by simp

lemma settings_change_erases_word_witness:
  "document (snd (OnTestKeyDown (demo_keys\<lparr>tsRead := demo_memory\<lparr>shEpoch := 1\<rparr>, tsShared := Some (demo_memory\<lparr>shEpoch := 1\<rparr>)\<rparr>)
    0x4E ((demo_doc [32])\<lparr>docComposition := Some [97, 110]\<rparr>))) = [32]"
proof -
  let ?env = "demo_keys\<lparr>tsRead := demo_memory\<lparr>shEpoch := 1\<rparr>, tsShared := Some (demo_memory\<lparr>shEpoch := 1\<rparr>)\<rparr>"
  let ?s = "(demo_doc [32])\<lparr>docComposition := Some [97, 110]\<rparr>"
  have "obliging ?env" "fst (CheckConfigEvent ?env ?s)" "tsContext ?env = lastContext ?s" "\<not> contextBlocked ?s"
    by (simp_all add: demo_keys_def demo_doc_def tsf_defaults_def obliging_def CheckConfigEvent_def connect_def
        SharedConnected_def ReadEpoch_def demo_memory_def InitDefaults_def SetFeatureFlags_def IsValid_def Let_def)
  from settings_change_erases_word[OF this, of "[97, 110]" "0x4E"] show ?thesis by simp
qed

lemma mismatched_layout_passes_keys_witness:
  "list_all Not (fst (key_answers [(True, demo_keys, 0x41), (False, demo_keys, 0x08)]
    (fst (NewEngineController (demo_keys\<lparr>tsOpened := Some (demo_memory\<lparr>shVersion := 5\<rparr>)\<rparr>) [97]))))"
proof -
  let ?env = "demo_keys\<lparr>tsOpened := Some (demo_memory\<lparr>shVersion := 5\<rparr>)\<rparr>"
  have "SharedConnected (tsOpened ?env)" "\<not> IsAbiCompatible (tsOpened ?env)"
    by (simp_all add: SharedConnected_def IsAbiCompatible_def demo_memory_def InitDefaults_def
        SetFeatureFlags_def Let_def)
  from mismatched_layout_passes_keys[OF prod.collapse[symmetric] this] show ?thesis by blast
qed

end
