(* ===== verification/ConfigFiles.thy ===== *)
theory ConfigFiles
  imports HotkeyRegistry "HOL-Library.AList" "HOL-Library.Char_ord" "HOL-Library.List_Lexorder"
begin

text \<open>
  The settings file, \<open>src/core/config/ConfigManager.cpp\<close>. A file is the table it parses to, or \<open>None\<close>
  when it is missing or cannot be parsed. The table of the TOML library looks a key up in a map; a loop
  over it visits the keys in their order, which is \<open>toml_rows\<close>. Of the values of the library the model
  has those the program writes (strings, integers, truth values, tables and arrays). The conversions
  between UTF-8 and UTF-16 of the operating system are the record \<open>TextCodec\<close>. An \<open>unordered_map\<close> is an
  association list.
\<close>

record TextCodec =
  toUtf8 :: "wstring \<Rightarrow> string"
  toWide :: "string \<Rightarrow> wstring"

type_synonym TomlTable = "(string \<times> Toml) list"
type_synonym TomlFile = "TomlTable option"

subsection \<open>Tables and values\<close>

definition toml_rows :: "TomlTable \<Rightarrow> TomlTable" where
  "toml_rows tbl = sort_key fst tbl"

definition sub_table :: "TomlTable \<Rightarrow> string \<Rightarrow> TomlTable option" where
  "sub_table tbl key = (case toml_get tbl key of Some (TTable t) \<Rightarrow> Some t | _ \<Rightarrow> None)"

definition sub_array :: "TomlTable \<Rightarrow> string \<Rightarrow> Toml list option" where
  "sub_array tbl key = (case toml_get tbl key of Some (TArray a) \<Rightarrow> Some a | _ \<Rightarrow> None)"

definition toml_erase :: "string \<Rightarrow> TomlTable \<Rightarrow> TomlTable" where
  "toml_erase key tbl = filter (\<lambda>(k, v). k \<noteq> key) tbl"

text \<open>\<open>node::value\<close>: strings are taken as they are, integers and truth values convert into each other,
  and an integer that does not fit has no value.\<close>

fun value_str :: "Toml \<Rightarrow> string option" where
  "value_str (TStr s) = Some s"
| "value_str _ = None"

fun value_bool :: "Toml \<Rightarrow> bool option" where
  "value_bool (TBool b) = Some b"
| "value_bool (TInt n) = Some (n \<noteq> 0)"
| "value_bool _ = None"

fun value_int64 :: "Toml \<Rightarrow> 64 word option" where
  "value_int64 (TInt n) = Some n"
| "value_int64 (TBool b) = Some (if b then 1 else 0)"
| "value_int64 _ = None"

definition value_int :: "Toml \<Rightarrow> 32 word option" where
  "value_int v =
    (case v of
       TInt n \<Rightarrow> if - (2 ^ 31) \<le> sint n \<and> sint n \<le> 2 ^ 31 - 1 then Some (ucast n) else None
     | TBool b \<Rightarrow> Some (if b then 1 else 0)
     | _ \<Rightarrow> None)"

definition value_or :: "(Toml \<Rightarrow> 'a option) \<Rightarrow> TomlTable \<Rightarrow> string \<Rightarrow> 'a \<Rightarrow> 'a" where
  "value_or val tbl key d =
    (case toml_get tbl key of None \<Rightarrow> d | Some v \<Rightarrow> (case val v of None \<Rightarrow> d | Some x \<Rightarrow> x))"

abbreviation bool_or :: "TomlTable \<Rightarrow> string \<Rightarrow> bool \<Rightarrow> bool" where
  "bool_or \<equiv> value_or value_bool"

abbreviation int_or :: "TomlTable \<Rightarrow> string \<Rightarrow> 32 word \<Rightarrow> 32 word" where
  "int_or \<equiv> value_or value_int"

subsection \<open>Files\<close>

abbreviation kMaxConfigFileSizeBytes :: nat where "kMaxConfigFileSizeBytes \<equiv> 5 * 1024 * 1024"
abbreviation kMaxMacroKeyLen :: nat where "kMaxMacroKeyLen \<equiv> 32"
abbreviation kMaxMacroValueLen :: nat where "kMaxMacroValueLen \<equiv> 20480"
abbreviation kMaxPerAppEntries :: nat where "kMaxPerAppEntries \<equiv> 256"
abbreviation kMaxAppListEntries :: nat where "kMaxAppListEntries \<equiv> 1000"

definition LoadExistingToml :: "TomlFile \<Rightarrow> TomlTable" where
  "LoadExistingToml file = (case file of None \<Rightarrow> [] | Some tbl \<Rightarrow> tbl)"

text \<open>The temporary file is written and moved over the file, or the file stays as it is.\<close>

definition WriteToml :: "bool \<Rightarrow> TomlTable \<Rightarrow> TomlFile \<Rightarrow> bool \<times> TomlFile" where
  "WriteToml ok tbl file = (if ok then (True, Some tbl) else (False, file))"

text \<open>The cache of parsed files, of one path: the time stamp of the parsed file and what it parsed to.\<close>

type_synonym CacheEntry = "(nat \<times> TomlFile) option"

text \<open>\<open>stamp\<close> is the time stamp the file system reports, \<open>None\<close> for a missing file.\<close>

definition CacheLoad :: "nat option \<Rightarrow> TomlFile \<Rightarrow> CacheEntry \<Rightarrow> TomlFile \<times> CacheEntry" where
  "CacheLoad stamp file c =
    (case stamp of
       None \<Rightarrow> (None, None)
     | Some t \<Rightarrow>
         (case c of
            Some (t', tbl) \<Rightarrow> if t' = t then (tbl, c) else (file, Some (t, file))
          | None \<Rightarrow> (file, Some (t, file))))"

definition CacheInvalidate :: "CacheEntry \<Rightarrow> CacheEntry" where
  "CacheInvalidate c = None"

text \<open>A miss is parsed once more, for the error.\<close>

definition ParseTomlCached :: "nat option \<Rightarrow> TomlFile \<Rightarrow> CacheEntry \<Rightarrow> TomlFile \<times> CacheEntry" where
  "ParseTomlCached stamp file c =
    (let (cached, c) = CacheLoad stamp file c in
     case cached of Some tbl \<Rightarrow> (Some tbl, c) | None \<Rightarrow> (file, c))"

subsection \<open>The typing settings\<close>

fun method_name :: "InputMethod \<Rightarrow> string" where
  "method_name VNI = ''vni''"
| "method_name SimpleTelex = ''simple_telex''"
| "method_name Combined = ''combined''"
| "method_name UserDefined = ''user_defined''"
| "method_name Telex = ''telex''"

definition method_of_name :: "string \<Rightarrow> InputMethod" where
  "method_of_name s =
    (if s = ''vni'' then VNI else if s = ''simple_telex'' then SimpleTelex
     else if s = ''combined'' then Combined else if s = ''user_defined'' then UserDefined else Telex)"

fun code_table_index :: "CodeTable \<Rightarrow> nat" where
  "code_table_index Unicode = 0" | "code_table_index TCVN3 = 1" | "code_table_index VNIWindows = 2"
| "code_table_index UnicodeCompound = 3" | "code_table_index VietnameseLocale = 4"

definition code_table_of :: "int \<Rightarrow> CodeTable" where
  "code_table_of n =
    (if n = 1 then TCVN3 else if n = 2 then VNIWindows else if n = 3 then UnicodeCompound
     else if n = 4 then VietnameseLocale else Unicode)"

definition load_input :: "TomlTable \<Rightarrow> TypingConfig \<Rightarrow> TypingConfig" where
  "load_input input cfg =
    (let cfg = (case toml_get input ''method'' of
                  None \<Rightarrow> cfg
                | Some v \<Rightarrow> cfg\<lparr>inputMethod := method_of_name
                    (case value_str v of Some s \<Rightarrow> s | None \<Rightarrow> ''telex'')\<rparr>)
     in case toml_get input ''code_table'' of
          None \<Rightarrow> cfg
        | Some v \<Rightarrow>
            (let val = (case value_int v of Some n \<Rightarrow> sint n | None \<Rightarrow> 0) in
             if 0 \<le> val \<and> val \<le> 4 then cfg\<lparr>codeTable := code_table_of val\<rparr> else cfg))"

text \<open>One row of a key map: the first byte of the key is the key.\<close>

definition load_key :: "string \<times> Toml \<Rightarrow> TypingConfig \<Rightarrow> TypingConfig" where
  "load_key row cfg =
    (let (key, v) = row in
     if key = [] then cfg
     else if of_char (hd key) \<ge> (128::nat) then cfg
     else (case value_str v of
             None \<Rightarrow> cfg
           | Some s \<Rightarrow> cfg\<lparr>customKeyMap := (customKeyMap cfg)(of_char (hd key) := StringToTypingAction s)\<rparr>))"

definition LoadCustomKeyMap :: "TomlTable \<Rightarrow> TypingConfig \<Rightarrow> TypingConfig" where
  "LoadCustomKeyMap km cfg = fold load_key (toml_rows km) cfg"

text \<open>The key of index 0 is the empty string.\<close>

definition key_name :: "nat \<Rightarrow> string" where
  "key_name i = (if i = 0 then [] else [char_of i])"

definition SaveCustomKeyMap :: "TypingConfig \<Rightarrow> TomlTable \<Rightarrow> TomlTable" where
  "SaveCustomKeyMap cfg km =
    fold (\<lambda>i km. if customKeyMap cfg i \<noteq> ActNone
                 then toml_assign (key_name i) (TStr (TypingActionToString (customKeyMap cfg i))) km else km)
      [0..<128] km"

definition load_exclusion :: "TextCodec \<Rightarrow> Toml \<Rightarrow> wstring list \<Rightarrow> wstring list" where
  "load_exclusion cdc item excl =
    (case value_str item of
       None \<Rightarrow> excl
     | Some s \<Rightarrow> if length (toWide cdc s) \<ge> 2 then excl @ [map towlower (toWide cdc s)] else excl)"

definition load_features :: "TextCodec \<Rightarrow> TomlTable \<Rightarrow> TypingConfig \<Rightarrow> TypingConfig" where
  "load_features cdc f cfg =
    cfg\<lparr>spellCheckEnabled := bool_or f ''spell_check'' True,
        beepOnSwitch := bool_or f ''beep_on_switch'' False,
        smartSwitch := bool_or f ''smart_switch'' False,
        excludeApps := bool_or f ''exclude_apps'' False,
        tsfApps := bool_or f ''tsf_apps'' False,
        optimizeLevel := ucast (int_or f ''optimize_level'' 0),
        modernOrtho := bool_or f ''modern_ortho'' True,
        autoCaps := bool_or f ''auto_caps'' False,
        allowZwjf := bool_or f ''allow_zwjf'' False,
        autoRestoreEnabled := bool_or f ''auto_restore'' True,
        cjkAutoSwitch := bool_or f ''cjk_auto_switch'' False,
        macroEnabled := bool_or f ''macro_enabled'' False,
        macroInEnglish := bool_or f ''macro_in_english'' False,
        quickConsonant := bool_or f ''quick_consonant'' False,
        quickStartConsonant := bool_or f ''quick_start_consonant'' False,
        quickEndConsonant := bool_or f ''quick_end_consonant'' False,
        escRestoreRawEnabled := bool_or f ''esc_restore_raw'' False,
        autoCapsMacro := bool_or f ''auto_caps_macro'' False,
        allowEnglishBypass := bool_or f ''allow_english_bypass'' False,
        suggestKeepChars := bool_or f ''suggest_keep_chars'' False,
        debugLogEnabled := bool_or f ''debug_log'' False,
        macroTriggerSpace := bool_or f ''macro_trigger_space'' True,
        macroTriggerEnter := bool_or f ''macro_trigger_enter'' True,
        macroTriggerTab := bool_or f ''macro_trigger_tab'' True,
        macroTriggerDir := bool_or f ''macro_trigger_dir'' True,
        spellExclusions :=
          (case sub_array f ''spell_exclusions'' of
             None \<Rightarrow> spellExclusions cfg
           | Some arr \<Rightarrow> fold (load_exclusion cdc) arr (spellExclusions cfg))\<rparr>"

text \<open>The second argument is the size of the file in bytes, \<open>None\<close> when it cannot be read.\<close>

definition LoadFromFile :: "TextCodec \<Rightarrow> nat option \<Rightarrow> TomlFile \<Rightarrow> TypingConfig option" where
  "LoadFromFile cdc bytes file =
    (case (bytes, file) of
       (Some n, Some tbl) \<Rightarrow>
         if n > kMaxConfigFileSizeBytes then None
         else
           (let cfg = defaultConfig;
                cfg = (case sub_table tbl ''input'' of Some t \<Rightarrow> load_input t cfg | None \<Rightarrow> cfg);
                cfg = (case sub_table tbl ''UserDefinedKeyMap'' of
                         Some t \<Rightarrow> LoadCustomKeyMap t cfg | None \<Rightarrow> cfg);
                cfg = (case sub_table tbl ''features'' of Some t \<Rightarrow> load_features cdc t cfg | None \<Rightarrow> cfg)
            in Some (case sub_table tbl ''debug'' of
                       Some t \<Rightarrow> cfg\<lparr>perfHistogramEnabled := bool_or t ''perf_histogram'' False\<rparr>
                     | None \<Rightarrow> cfg))
     | _ \<Rightarrow> None)"

definition features_table :: "TextCodec \<Rightarrow> TypingConfig \<Rightarrow> TomlTable" where
  "features_table cdc cfg =
    fold (\<lambda>(k, v). toml_assign k v)
      [(''spell_check'', TBool (spellCheckEnabled cfg)),
       (''beep_on_switch'', TBool (beepOnSwitch cfg)),
       (''smart_switch'', TBool (smartSwitch cfg)),
       (''exclude_apps'', TBool (excludeApps cfg)),
       (''tsf_apps'', TBool (tsfApps cfg)),
       (''optimize_level'', TInt (ucast (optimizeLevel cfg))),
       (''modern_ortho'', TBool (modernOrtho cfg)),
       (''auto_caps'', TBool (autoCaps cfg)),
       (''allow_zwjf'', TBool (allowZwjf cfg)),
       (''auto_restore'', TBool (autoRestoreEnabled cfg)),
       (''cjk_auto_switch'', TBool (cjkAutoSwitch cfg)),
       (''macro_enabled'', TBool (macroEnabled cfg)),
       (''macro_in_english'', TBool (macroInEnglish cfg)),
       (''quick_consonant'', TBool (quickConsonant cfg)),
       (''quick_start_consonant'', TBool (quickStartConsonant cfg)),
       (''quick_end_consonant'', TBool (quickEndConsonant cfg)),
       (''esc_restore_raw'', TBool (escRestoreRawEnabled cfg)),
       (''auto_caps_macro'', TBool (autoCapsMacro cfg)),
       (''allow_english_bypass'', TBool (allowEnglishBypass cfg)),
       (''suggest_keep_chars'', TBool (suggestKeepChars cfg)),
       (''debug_log'', TBool (debugLogEnabled cfg)),
       (''macro_trigger_space'', TBool (macroTriggerSpace cfg)),
       (''macro_trigger_enter'', TBool (macroTriggerEnter cfg)),
       (''macro_trigger_tab'', TBool (macroTriggerTab cfg)),
       (''macro_trigger_dir'', TBool (macroTriggerDir cfg)),
       (''spell_exclusions'', TArray (map (\<lambda>w. TStr (toUtf8 cdc w)) (filter (\<lambda>w. length w \<ge> 2) (spellExclusions cfg))))]
      []"

definition SaveToFile :: "TextCodec \<Rightarrow> bool \<Rightarrow> TypingConfig \<Rightarrow> TomlFile \<Rightarrow> bool \<times> TomlFile" where
  "SaveToFile cdc ok cfg file =
    (let tbl = LoadExistingToml file;
         input = toml_assign ''code_table'' (TInt (of_nat (code_table_index (codeTable cfg))))
                   (toml_assign ''method'' (TStr (method_name (inputMethod cfg))) []);
         tbl = toml_assign ''input'' (TTable input) tbl;
         km = SaveCustomKeyMap cfg [];
         tbl = (if km \<noteq> [] then toml_assign ''UserDefinedKeyMap'' (TTable km) tbl
                else toml_erase ''UserDefinedKeyMap'' tbl);
         tbl = toml_assign ''features'' (TTable (features_table cdc cfg)) tbl
     in WriteToml ok tbl file)"

definition LoadOrDefault :: "TextCodec \<Rightarrow> nat option \<Rightarrow> TomlFile \<Rightarrow> TypingConfig" where
  "LoadOrDefault cdc bytes file =
    (case LoadFromFile cdc bytes file of Some cfg \<Rightarrow> cfg | None \<Rightarrow> defaultConfig)"

definition ImportCustomKeyMap :: "TomlFile \<Rightarrow> TypingConfig \<Rightarrow> bool \<times> TypingConfig" where
  "ImportCustomKeyMap file cfg =
    (case file of None \<Rightarrow> (False, cfg) | Some tbl \<Rightarrow> (True, LoadCustomKeyMap tbl cfg))"

text \<open>The file that is exported is written in place, \<open>opened\<close> or not.\<close>

definition ExportCustomKeyMap :: "bool \<Rightarrow> TypingConfig \<Rightarrow> TomlFile \<Rightarrow> bool \<times> TomlFile" where
  "ExportCustomKeyMap opened cfg file =
    (if opened then (True, Some (SaveCustomKeyMap cfg [])) else (False, file))"

subsection \<open>The settings of the windows and the system\<close>

record UIConfig =
  showAdvanced :: bool
  backgroundOpacity :: u8
  pinned :: bool

definition defaultUIConfig :: UIConfig where
  "defaultUIConfig = \<lparr>showAdvanced = False, backgroundOpacity = 80, pinned = False\<rparr>"

definition LoadUIConfig :: "TomlFile \<Rightarrow> UIConfig option" where
  "LoadUIConfig file =
    map_option (\<lambda>tbl. case sub_table tbl ''ui'' of
        None \<Rightarrow> defaultUIConfig
      | Some ui \<Rightarrow> \<lparr>showAdvanced = bool_or ui ''show_advanced'' False,
                    backgroundOpacity = ucast (int_or ui ''background_opacity'' 80),
                    pinned = bool_or ui ''pinned'' False\<rparr>) file"

definition SaveUIConfig :: "bool \<Rightarrow> UIConfig \<Rightarrow> TomlFile \<Rightarrow> bool \<times> TomlFile" where
  "SaveUIConfig ok cfg file =
    (let ui = fold (\<lambda>(k, v). toml_assign k v)
           [(''show_advanced'', TBool (showAdvanced cfg)),
            (''background_opacity'', TInt (ucast (backgroundOpacity cfg))),
            (''pinned'', TBool (pinned cfg))] []
     in WriteToml ok (toml_assign ''ui'' (TTable ui) (LoadExistingToml file)) file)"

record SystemConfig =
  runAtStartup :: bool
  runAsAdmin :: bool
  showOnStartup :: bool
  desktopShortcut :: bool
  forceLightTheme :: bool
  uiLanguage :: u8
  iconStyle :: u8
  customColorV :: u32
  customColorE :: u32
  showFloatingIcon :: bool
  floatingIconX :: "32 word"
  floatingIconY :: "32 word"
  startupMode :: u8
  autoCheckUpdate :: bool
  watchdogEnabled :: bool

abbreviation INT32_MIN :: "32 word" where "INT32_MIN \<equiv> 0x80000000"

definition defaultSystemConfig :: SystemConfig where
  "defaultSystemConfig =
    \<lparr>runAtStartup = False, runAsAdmin = False, showOnStartup = True, desktopShortcut = False,
     forceLightTheme = False, uiLanguage = 0, iconStyle = 0, customColorV = 0, customColorE = 0,
     showFloatingIcon = False, floatingIconX = INT32_MIN, floatingIconY = INT32_MIN, startupMode = 0,
     autoCheckUpdate = True, watchdogEnabled = False\<rparr>"

definition load_system :: "TomlTable \<Rightarrow> SystemConfig" where
  "load_system t =
    \<lparr>runAtStartup = bool_or t ''run_at_startup'' False,
     runAsAdmin = bool_or t ''run_as_admin'' False,
     showOnStartup = bool_or t ''show_on_startup'' False,
     desktopShortcut = bool_or t ''desktop_shortcut'' False,
     forceLightTheme = bool_or t ''force_light_theme'' False,
     uiLanguage = ucast (int_or t ''language'' 0),
     iconStyle = ucast (int_or t ''icon_style'' 0),
     customColorV = ucast (value_or value_int64 t ''custom_color_v'' 0),
     customColorE = ucast (value_or value_int64 t ''custom_color_e'' 0),
     showFloatingIcon = bool_or t ''show_floating_icon'' False,
     floatingIconX = ucast (value_or value_int64 t ''floating_icon_x'' (scast INT32_MIN)),
     floatingIconY = ucast (value_or value_int64 t ''floating_icon_y'' (scast INT32_MIN)),
     startupMode = ucast (int_or t ''startup_mode'' 0),
     autoCheckUpdate = bool_or t ''auto_check_update'' True,
     watchdogEnabled = bool_or t ''watchdog_enabled'' False\<rparr>"

definition LoadSystemConfig :: "TomlFile \<Rightarrow> SystemConfig option" where
  "LoadSystemConfig file =
    map_option (\<lambda>tbl. case sub_table tbl ''system'' of
        None \<Rightarrow> defaultSystemConfig | Some t \<Rightarrow> load_system t) file"

definition system_table :: "SystemConfig \<Rightarrow> TomlTable" where
  "system_table cfg =
    fold (\<lambda>(k, v). toml_assign k v)
      [(''run_at_startup'', TBool (runAtStartup cfg)),
       (''run_as_admin'', TBool (runAsAdmin cfg)),
       (''show_on_startup'', TBool (showOnStartup cfg)),
       (''desktop_shortcut'', TBool (desktopShortcut cfg)),
       (''language'', TInt (ucast (uiLanguage cfg))),
       (''icon_style'', TInt (ucast (iconStyle cfg))),
       (''custom_color_v'', TInt (ucast (customColorV cfg))),
       (''custom_color_e'', TInt (ucast (customColorE cfg))),
       (''show_floating_icon'', TBool (showFloatingIcon cfg)),
       (''floating_icon_x'', TInt (scast (floatingIconX cfg))),
       (''floating_icon_y'', TInt (scast (floatingIconY cfg))),
       (''auto_check_update'', TBool (autoCheckUpdate cfg)),
       (''startup_mode'', TInt (ucast (startupMode cfg))),
       (''force_light_theme'', TBool (forceLightTheme cfg)),
       (''watchdog_enabled'', TBool (watchdogEnabled cfg))] []"

definition SaveSystemConfig :: "bool \<Rightarrow> SystemConfig \<Rightarrow> TomlFile \<Rightarrow> bool \<times> TomlFile" where
  "SaveSystemConfig ok cfg file =
    WriteToml ok (toml_assign ''system'' (TTable (system_table cfg)) (LoadExistingToml file)) file"

subsection \<open>Hotkeys\<close>

text \<open>The modifiers and the key of a hotkey table: the key as an integer, or the letter of older files.\<close>

definition load_hotkey_vk :: "TextCodec \<Rightarrow> TomlTable \<Rightarrow> u32 \<Rightarrow> u32" where
  "load_hotkey_vk cdc t vk =
    (case toml_get t ''vk'' of
       Some (TInt n) \<Rightarrow> ucast n
     | _ \<Rightarrow> (let keyStr = value_or value_str t ''key'' [] in
             if keyStr \<noteq> [] then LegacyKeyCharToVk (toWide cdc keyStr) else vk))"

definition load_hotkey :: "TextCodec \<Rightarrow> bool \<Rightarrow> TomlTable \<Rightarrow> HotkeyConfig" where
  "load_hotkey cdc d t =
    \<lparr>hkCtrl = bool_or t ''ctrl'' d, hkShift = bool_or t ''shift'' d, hkAlt = bool_or t ''alt'' False,
     hkWin = bool_or t ''win'' False, hkVk = load_hotkey_vk cdc t 0\<rparr>"

definition hotkey_table :: "HotkeyConfig \<Rightarrow> TomlTable" where
  "hotkey_table hk =
    fold (\<lambda>(k, v). toml_assign k v)
      [(''ctrl'', TBool (hkCtrl hk)), (''shift'', TBool (hkShift hk)), (''alt'', TBool (hkAlt hk)),
       (''win'', TBool (hkWin hk)), (''vk'', TInt (ucast (hkVk hk)))] []"

definition ctrl_shift :: HotkeyConfig where
  "ctrl_shift = \<lparr>hkCtrl = True, hkShift = True, hkAlt = False, hkWin = False, hkVk = 0\<rparr>"

definition LoadHotkeyConfig :: "TextCodec \<Rightarrow> TomlFile \<Rightarrow> HotkeyConfig option" where
  "LoadHotkeyConfig cdc file =
    map_option (\<lambda>tbl. case sub_table tbl ''hotkey'' of
        None \<Rightarrow> ctrl_shift | Some t \<Rightarrow> load_hotkey cdc True t) file"

definition SaveHotkeyConfig :: "bool \<Rightarrow> HotkeyConfig \<Rightarrow> TomlFile \<Rightarrow> bool \<times> TomlFile" where
  "SaveHotkeyConfig ok hk file =
    WriteToml ok (toml_assign ''hotkey'' (TTable (hotkey_table hk)) (LoadExistingToml file)) file"

definition LoadHotkeyConfigOrDefault :: "TextCodec \<Rightarrow> TomlFile \<Rightarrow> HotkeyConfig" where
  "LoadHotkeyConfigOrDefault cdc file =
    (case LoadHotkeyConfig cdc file of Some hk \<Rightarrow> hk | None \<Rightarrow> ctrl_shift)"

definition LoadHotkeyRegistry :: "TomlFile \<Rightarrow> HotkeyRegistry option" where
  "LoadHotkeyRegistry file =
    map_option (\<lambda>tbl.
      let r = emptyHotkeys;
          r = (case sub_array tbl ''hotkeys'' of Some arr \<Rightarrow> LoadHotkeys arr r | None \<Rightarrow> r)
      in case sub_table tbl ''hotkey_state'' of Some t \<Rightarrow> LoadEnabled t r | None \<Rightarrow> r) file"

text \<open>Esc alone cancels the composition: the setting the text service reads.\<close>

definition escIsCancelTrigger :: "HotkeyRegistry \<Rightarrow> bool" where
  "escIsCancelTrigger r = Matches CancelComposition 0x1B 0 False False r"

definition mirror_esc :: "HotkeyRegistry \<Rightarrow> TomlTable \<Rightarrow> TomlTable" where
  "mirror_esc r tbl =
    (let f = (case sub_table tbl ''features'' of Some f \<Rightarrow> f | None \<Rightarrow> [])
     in toml_assign ''features'' (TTable (toml_assign ''esc_restore_raw'' (TBool (escIsCancelTrigger r)) f)) tbl)"

definition SaveHotkeyRegistry :: "bool \<Rightarrow> HotkeyRegistry \<Rightarrow> TomlFile \<Rightarrow> bool \<times> TomlFile" where
  "SaveHotkeyRegistry ok r file =
    (let tbl = LoadExistingToml file;
         tbl = toml_assign ''hotkeys'' (TArray (SaveHotkeys r [])) tbl;
         tbl = toml_assign ''hotkey_state'' (TTable (SaveEnabled r [])) tbl
     in WriteToml ok (mirror_esc r tbl) file)"

definition HasHotkeyStateSection :: "TomlFile \<Rightarrow> bool" where
  "HasHotkeyStateSection file \<longleftrightarrow>
    (case file of None \<Rightarrow> False | Some tbl \<Rightarrow> toml_get tbl ''hotkey_state'' \<noteq> None)"

definition no_triggers :: "HotkeyRegistry \<Rightarrow> bool" where
  "no_triggers r \<longleftrightarrow>
    TriggersFor CancelComposition r = [] \<and> TriggersFor SkipMacro r = [] \<and> TriggersFor ToggleEnabled r = []"

definition LoadHotkeyRegistryOrDefault :: "TomlFile \<Rightarrow> HotkeyRegistry" where
  "LoadHotkeyRegistryOrDefault file =
    (case LoadHotkeyRegistry file of
       None \<Rightarrow> DefaultHotkeys
     | Some r \<Rightarrow> if HasHotkeyStateSection file then r else if no_triggers r then DefaultHotkeys else r)"

record LegacyHotkeyToggles =
  escRestoreRaw :: bool
  tempOffMacroEsc :: bool
  tempOffMethod :: u8

definition ReadLegacyHotkeyToggles :: "TomlFile \<Rightarrow> LegacyHotkeyToggles" where
  "ReadLegacyHotkeyToggles file =
    (let out = \<lparr>escRestoreRaw = False, tempOffMacroEsc = False, tempOffMethod = 0\<rparr> in
     case file of
       None \<Rightarrow> out
     | Some tbl \<Rightarrow>
         (case sub_table tbl ''features'' of
            None \<Rightarrow> out
          | Some f \<Rightarrow>
              out\<lparr>escRestoreRaw := bool_or f ''esc_restore_raw'' False,
                  tempOffMacroEsc := bool_or f ''temp_off_macro_esc'' False,
                  tempOffMethod :=
                    (case Option.bind (toml_get f ''temp_off_method'') value_int64 of
                       Some m \<Rightarrow> (let v = sint (ucast m :: 32 word)
                                  in if 0 \<le> v \<and> v \<le> 2 then word_of_int v else 0)
                     | None \<Rightarrow> if bool_or f ''temp_off_by_alt'' False then 1 else 0)\<rparr>))"

text \<open>The file exists or not; the result is the registry in use and the file.\<close>

definition MigrateLegacyHotkeysIfNeeded :: "bool \<Rightarrow> bool \<Rightarrow> TomlFile \<Rightarrow> HotkeyRegistry \<times> TomlFile" where
  "MigrateLegacyHotkeysIfNeeded exists ok file =
    (if \<not> exists then (DefaultHotkeys, file)
     else if HasHotkeyStateSection file
     then ((case LoadHotkeyRegistry file of Some r \<Rightarrow> r | None \<Rightarrow> emptyHotkeys), file)
     else
       (let legacy = ReadLegacyHotkeyToggles file;
            migrated =
              (if \<not> escRestoreRaw legacy \<and> \<not> tempOffMacroEsc legacy \<and> tempOffMethod legacy = 0
               then DefaultHotkeys
               else FromLegacyFields (escRestoreRaw legacy) (tempOffMacroEsc legacy) (tempOffMethod legacy))
        in case LoadHotkeyRegistry file of
             Some r \<Rightarrow> if \<not> no_triggers r then (r, file)
                       else (migrated, snd (SaveHotkeyRegistry ok migrated file))
           | None \<Rightarrow> (migrated, snd (SaveHotkeyRegistry ok migrated file))))"

subsection \<open>The convert tool\<close>

record ConvertConfig =
  cvAllCaps :: bool
  cvAllLower :: bool
  cvCapsFirst :: bool
  cvCapsEach :: bool
  cvRemoveMark :: bool
  cvAlertDone :: bool
  cvAutoPaste :: bool
  cvSequential :: bool
  cvEnableLog :: bool
  cvSourceEncoding :: u8
  cvDestEncoding :: u8
  cvHotkey :: HotkeyConfig

definition defaultConvertConfig :: ConvertConfig where
  "defaultConvertConfig =
    \<lparr>cvAllCaps = False, cvAllLower = False, cvCapsFirst = False, cvCapsEach = False, cvRemoveMark = False,
     cvAlertDone = False, cvAutoPaste = False, cvSequential = False, cvEnableLog = False,
     cvSourceEncoding = 0, cvDestEncoding = 0,
     cvHotkey = \<lparr>hkCtrl = False, hkShift = False, hkAlt = False, hkWin = False, hkVk = 0\<rparr>\<rparr>"

definition load_convert :: "TextCodec \<Rightarrow> TomlTable \<Rightarrow> ConvertConfig" where
  "load_convert cdc t =
    \<lparr>cvAllCaps = bool_or t ''all_caps'' False, cvAllLower = bool_or t ''all_lower'' False,
     cvCapsFirst = bool_or t ''caps_first'' False, cvCapsEach = bool_or t ''caps_each'' False,
     cvRemoveMark = bool_or t ''remove_mark'' False, cvAlertDone = bool_or t ''alert_done'' False,
     cvAutoPaste = bool_or t ''auto_paste'' False, cvSequential = bool_or t ''sequential'' False,
     cvEnableLog = bool_or t ''enable_log'' False,
     cvSourceEncoding = ucast (int_or t ''source_encoding'' 0),
     cvDestEncoding = ucast (int_or t ''dest_encoding'' 0),
     cvHotkey = (case sub_table t ''hotkey'' of
                   Some hk \<Rightarrow> load_hotkey cdc False hk
                 | None \<Rightarrow> cvHotkey defaultConvertConfig)\<rparr>"

definition LoadConvertConfig :: "TextCodec \<Rightarrow> TomlFile \<Rightarrow> ConvertConfig option" where
  "LoadConvertConfig cdc file =
    map_option (\<lambda>tbl. case sub_table tbl ''convert'' of
        None \<Rightarrow> defaultConvertConfig | Some t \<Rightarrow> load_convert cdc t) file"

definition convert_table :: "ConvertConfig \<Rightarrow> TomlTable" where
  "convert_table cfg =
    fold (\<lambda>(k, v). toml_assign k v)
      [(''all_caps'', TBool (cvAllCaps cfg)), (''all_lower'', TBool (cvAllLower cfg)),
       (''caps_first'', TBool (cvCapsFirst cfg)), (''caps_each'', TBool (cvCapsEach cfg)),
       (''remove_mark'', TBool (cvRemoveMark cfg)), (''alert_done'', TBool (cvAlertDone cfg)),
       (''auto_paste'', TBool (cvAutoPaste cfg)), (''sequential'', TBool (cvSequential cfg)),
       (''enable_log'', TBool (cvEnableLog cfg)),
       (''source_encoding'', TInt (ucast (cvSourceEncoding cfg))),
       (''dest_encoding'', TInt (ucast (cvDestEncoding cfg))),
       (''hotkey'', TTable (hotkey_table (cvHotkey cfg)))] []"

definition SaveConvertConfig :: "bool \<Rightarrow> ConvertConfig \<Rightarrow> TomlFile \<Rightarrow> bool \<times> TomlFile" where
  "SaveConvertConfig ok cfg file =
    WriteToml ok (toml_assign ''convert'' (TTable (convert_table cfg)) (LoadExistingToml file)) file"

subsection \<open>Lists of programs\<close>

text \<open>The loop over an array of names, which ends when the list is full.\<close>

definition load_name :: "TextCodec \<Rightarrow> Toml \<Rightarrow> wstring list \<Rightarrow> wstring list" where
  "load_name cdc item apps =
    (if length apps \<ge> kMaxAppListEntries then apps
     else case value_str item of None \<Rightarrow> apps | Some s \<Rightarrow> apps @ [toWide cdc s])"

definition load_new_name :: "TextCodec \<Rightarrow> Toml \<Rightarrow> wstring list \<Rightarrow> wstring list" where
  "load_new_name cdc item apps =
    (if length apps \<ge> kMaxAppListEntries then apps
     else case value_str item of
            None \<Rightarrow> apps
          | Some s \<Rightarrow> if toWide cdc s \<in> set apps then apps else apps @ [toWide cdc s])"

definition array_of :: "TomlFile \<Rightarrow> string \<Rightarrow> string \<Rightarrow> Toml list" where
  "array_of file sec key =
    (case file of
       None \<Rightarrow> []
     | Some tbl \<Rightarrow>
         (case sub_table tbl sec of
            None \<Rightarrow> []
          | Some t \<Rightarrow> (case sub_array t key of None \<Rightarrow> [] | Some arr \<Rightarrow> arr)))"

definition LoadAllExcludedApps :: "TextCodec \<Rightarrow> TomlFile \<Rightarrow> wstring list" where
  "LoadAllExcludedApps cdc file =
    fold (load_new_name cdc) (array_of file ''excluded_apps'' ''soft'')
      (fold (load_name cdc) (array_of file ''excluded_apps'' ''list'') [])"

definition LoadForcedVnApps :: "TextCodec \<Rightarrow> TomlFile \<Rightarrow> wstring list" where
  "LoadForcedVnApps cdc file = fold (load_name cdc) (array_of file ''excluded_apps'' ''force_vn'') []"

definition LoadTsfApps :: "TextCodec \<Rightarrow> TomlFile \<Rightarrow> wstring list" where
  "LoadTsfApps cdc file = fold (load_name cdc) (array_of file ''tsf_apps'' ''list'') []"

definition names_array :: "TextCodec \<Rightarrow> wstring list \<Rightarrow> Toml" where
  "names_array cdc apps = TArray (map (\<lambda>w. TStr (toUtf8 cdc w)) apps)"

definition SaveExcludedApps :: "TextCodec \<Rightarrow> bool \<Rightarrow> wstring list \<Rightarrow> TomlFile \<Rightarrow> bool \<times> TomlFile" where
  "SaveExcludedApps cdc ok apps file =
    (let tbl = LoadExistingToml file;
         sec = (case sub_table tbl ''excluded_apps'' of
                  Some t \<Rightarrow> toml_erase ''soft'' (toml_assign ''list'' (names_array cdc apps) t)
                | None \<Rightarrow> toml_assign ''list'' (names_array cdc apps) [])
     in WriteToml ok (toml_assign ''excluded_apps'' (TTable sec) tbl) file)"

definition SaveForcedVnApps :: "TextCodec \<Rightarrow> bool \<Rightarrow> wstring list \<Rightarrow> TomlFile \<Rightarrow> bool \<times> TomlFile" where
  "SaveForcedVnApps cdc ok apps file =
    (let tbl = LoadExistingToml file;
         sec = (case sub_table tbl ''excluded_apps'' of Some t \<Rightarrow> t | None \<Rightarrow> [])
     in WriteToml ok (toml_assign ''excluded_apps''
          (TTable (toml_assign ''force_vn'' (names_array cdc apps) sec)) tbl) file)"

definition SaveTsfApps :: "TextCodec \<Rightarrow> bool \<Rightarrow> wstring list \<Rightarrow> TomlFile \<Rightarrow> bool \<times> TomlFile" where
  "SaveTsfApps cdc ok apps file =
    WriteToml ok (toml_assign ''tsf_apps'' (TTable (toml_assign ''list'' (names_array cdc apps) []))
      (LoadExistingToml file)) file"

subsection \<open>Tables of programs and macros\<close>

text \<open>\<open>emplace\<close> keeps the entry of a key that is there.\<close>

definition emplace :: "wstring \<Rightarrow> 'a \<Rightarrow> (wstring \<times> 'a) list \<Rightarrow> (wstring \<times> 'a) list" where
  "emplace k v m = (if map_of m k = None then AList.update k v m else m)"

definition load_mode :: "TextCodec \<Rightarrow> string \<times> Toml \<Rightarrow> (wstring \<times> bool) list \<Rightarrow> (wstring \<times> bool) list" where
  "load_mode cdc row apps =
    (if length apps \<ge> kMaxAppListEntries then apps
     else case value_str (snd row) of
            None \<Rightarrow> apps
          | Some s \<Rightarrow>
              (if s \<noteq> ''english'' \<and> s \<noteq> ''vietnamese'' then apps
               else (let key = map towlower (toWide cdc (fst row)) in
                     if key = [] then apps else emplace key (s = ''vietnamese'') apps)))"

definition load_english :: "TextCodec \<Rightarrow> Toml \<Rightarrow> (wstring \<times> bool) list \<Rightarrow> (wstring \<times> bool) list" where
  "load_english cdc item apps =
    (if length apps \<ge> kMaxAppListEntries then apps
     else case value_str item of
            None \<Rightarrow> apps
          | Some s \<Rightarrow> (let key = map towlower (toWide cdc s) in if key = [] then apps else emplace key False apps))"

definition LoadSmartSwitchApps :: "TextCodec \<Rightarrow> TomlFile \<Rightarrow> (wstring \<times> bool) list" where
  "LoadSmartSwitchApps cdc file =
    (case Option.bind file (\<lambda>tbl. sub_table tbl ''smart_switch'') of
       None \<Rightarrow> []
     | Some smart \<Rightarrow>
         (case sub_table smart ''apps'' of
            Some t \<Rightarrow> fold (load_mode cdc) (toml_rows t) []
          | None \<Rightarrow> (case sub_array smart ''english_mode_apps'' of
                       Some arr \<Rightarrow> fold (load_english cdc) arr [] | None \<Rightarrow> [])))"

definition toml_insert :: "string \<Rightarrow> Toml \<Rightarrow> TomlTable \<Rightarrow> TomlTable" where
  "toml_insert key v tbl = (if toml_get tbl key = None then toml_assign key v tbl else tbl)"

definition SaveSmartSwitchApps :: "TextCodec \<Rightarrow> bool \<Rightarrow> (wstring \<times> bool) list \<Rightarrow> TomlFile \<Rightarrow> bool \<times> TomlFile" where
  "SaveSmartSwitchApps cdc ok apps file =
    (let t = fold (\<lambda>(w, vn). toml_insert (toUtf8 cdc w) (TStr (if vn then ''vietnamese'' else ''english'')))
               (sort_key fst apps) []
     in WriteToml ok (toml_assign ''smart_switch'' (TTable [(''apps'', TTable t)]) (LoadExistingToml file)) file)"

record AppOverrideEntry =
  ovInputMethod :: "8 word"
  ovEncoding :: "8 word"
  ovSendMethod :: "8 word"

definition load_override ::
  "TextCodec \<Rightarrow> string \<times> Toml \<Rightarrow> (wstring \<times> AppOverrideEntry) list \<Rightarrow> (wstring \<times> AppOverrideEntry) list" where
  "load_override cdc row m =
    (case snd row of
       TTable e \<Rightarrow> AList.update (toWide cdc (fst row))
         \<lparr>ovInputMethod = ucast (int_or e ''input_method'' (- 1)),
          ovEncoding = ucast (int_or e ''encoding'' (- 1)),
          ovSendMethod = ucast (int_or e ''send_method'' (- 1))\<rparr> m
     | _ \<Rightarrow> m)"

definition LoadAppOverrides :: "TextCodec \<Rightarrow> TomlFile \<Rightarrow> (wstring \<times> AppOverrideEntry) list" where
  "LoadAppOverrides cdc file =
    (case Option.bind file (\<lambda>tbl. sub_table tbl ''app_overrides'') of
       None \<Rightarrow> []
     | Some t \<Rightarrow> fold (load_override cdc) (take kMaxPerAppEntries (toml_rows t)) [])"

definition override_table :: "AppOverrideEntry \<Rightarrow> TomlTable" where
  "override_table e =
    fold (\<lambda>(k, v). toml_assign k v)
      [(''input_method'', TInt (scast (ovInputMethod e))), (''encoding'', TInt (scast (ovEncoding e))),
       (''send_method'', TInt (scast (ovSendMethod e)))] []"

definition SaveAppOverrides ::
  "TextCodec \<Rightarrow> bool \<Rightarrow> (wstring \<times> AppOverrideEntry) list \<Rightarrow> TomlFile \<Rightarrow> bool \<times> TomlFile" where
  "SaveAppOverrides cdc ok m file =
    (let t = fold (\<lambda>(w, e). toml_assign (toUtf8 cdc w) (TTable (override_table e))) m []
     in WriteToml ok (toml_assign ''app_overrides'' (TTable t) (LoadExistingToml file)) file)"

text \<open>The limits count the bytes of the file.\<close>

definition load_macro :: "TextCodec \<Rightarrow> string \<times> Toml \<Rightarrow> (wstring \<times> wstring) list \<Rightarrow> (wstring \<times> wstring) list" where
  "load_macro cdc row m =
    (case value_str (snd row) of
       None \<Rightarrow> m
     | Some s \<Rightarrow>
         (if length (fst row) > kMaxMacroKeyLen \<or> length s > kMaxMacroValueLen then m
          else AList.update (toWide cdc (fst row)) (toWide cdc s) m))"

definition LoadMacros :: "TextCodec \<Rightarrow> nat option \<Rightarrow> TomlFile \<Rightarrow> (wstring \<times> wstring) list" where
  "LoadMacros cdc bytes file =
    (case bytes of
       None \<Rightarrow> []
     | Some n \<Rightarrow>
         if n > kMaxConfigFileSizeBytes then []
         else (case Option.bind file (\<lambda>tbl. sub_table tbl ''macros'') of
                 None \<Rightarrow> [] | Some t \<Rightarrow> fold (load_macro cdc) (toml_rows t) []))"

definition SaveMacros :: "TextCodec \<Rightarrow> bool \<Rightarrow> (wstring \<times> wstring) list \<Rightarrow> TomlFile \<Rightarrow> bool \<times> TomlFile" where
  "SaveMacros cdc ok m file =
    (let t = fold (\<lambda>(k, v). toml_assign (toUtf8 cdc k) (TStr (toUtf8 cdc v))) m []
     in WriteToml ok (toml_assign ''macros'' (TTable t) (LoadExistingToml file)) file)"

end
