(* ===== verification/ConfigLaws.thy ===== *)
theory ConfigLaws
  imports ConfigFiles HotkeyLaws
begin

text \<open>
  Laws of the settings file: what is saved is read back, a part of the settings is not touched by
  saving another part, older files are taken over once, and the cache of parsed files.
\<close>

subsection \<open>Tables\<close>

lemma map_of_replace:
  "map_of (map (\<lambda>(k', w). if k' = k then (k', v) else (k', w)) t) x =
    (if x = k \<and> x \<in> fst ` set t then Some v else map_of t x)"
proof (induction t)
  case (Cons kw t)
  then show ?case by (cases kw; cases "fst kw = k"; cases "x = k"; simp)
qed simp

lemma map_of_absent: "x \<notin> fst ` set t \<Longrightarrow> map_of t x = None"
  by (simp add: map_of_eq_None_iff)

lemma toml_get_assign [simp]:
  "toml_get (toml_assign k v t) k' = (if k' = k then Some v else toml_get t k')"
proof (cases "k \<in> fst ` set t")
  case True
  then show ?thesis by (simp add: toml_get_def toml_assign_def map_of_replace)
next
  case False
  then show ?thesis by (simp add: toml_get_def toml_assign_def map_of_absent map_add_def split: option.split)
qed

lemma toml_get_erase [simp]: "toml_get (toml_erase k t) k' = (if k' = k then None else toml_get t k')"
  by (induction t) (auto simp: toml_get_def toml_erase_def)

lemma toml_get_Nil [simp]: "toml_get [] k = None"
  by (simp add: toml_get_def)

lemma toml_get_assigns:
  "toml_get (fold (\<lambda>(k, v). toml_assign k v) kvs t) x =
    (case map_of (rev kvs) x of Some v \<Rightarrow> Some v | None \<Rightarrow> toml_get t x)"
  by (induction kvs arbitrary: t) (auto simp: map_add_def split: option.split)

lemma map_fst_replace: "map fst (map (\<lambda>(k', w). if k' = k then (k', v) else (k', w)) t) = map fst t"
  by (induction t) auto

lemma map_fst_assign:
  "map fst (toml_assign k v t) = (if k \<in> fst ` set t then map fst t else map fst t @ [k])"
  unfolding toml_assign_def using map_fst_replace[of k v t] by (simp del: map_map)

lemma keys_assign: "fst ` set (toml_assign k v t) = insert k (fst ` set t)"
proof -
  have "set (map fst (toml_assign k v t)) = insert k (set (map fst t))"
    unfolding map_fst_assign by auto
  then show ?thesis by simp
qed

lemma distinct_assign: "distinct (map fst t) \<Longrightarrow> distinct (map fst (toml_assign k v t))"
  by (simp add: map_fst_assign)

lemma distinct_rows: "distinct (map fst t) \<Longrightarrow> distinct (map fst (toml_rows t))"
  by (simp add: toml_rows_def distinct_map)

lemma rows_map_of: "distinct (map fst t) \<Longrightarrow> map_of (toml_rows t) = toml_get t"
  using distinct_rows[of t] map_of_inject_set[of "toml_rows t" t]
  by (simp add: fun_eq_iff toml_get_def toml_rows_def)

lemma set_rows [simp]: "set (toml_rows t) = set t"
  by (simp add: toml_rows_def)

lemma sub_table_Nil [simp]: "sub_table [] k = None"
  by (simp add: sub_table_def)

lemma sub_table_assign [simp]:
  "sub_table (toml_assign k v t) k' = (if k' = k then (case v of TTable s \<Rightarrow> Some s | _ \<Rightarrow> None) else sub_table t k')"
  by (simp add: sub_table_def)

lemma sub_table_erase [simp]: "sub_table (toml_erase k t) k' = (if k' = k then None else sub_table t k')"
  by (simp add: sub_table_def)

lemma sub_array_assign [simp]:
  "sub_array (toml_assign k v t) k' = (if k' = k then (case v of TArray s \<Rightarrow> Some s | _ \<Rightarrow> None) else sub_array t k')"
  by (simp add: sub_array_def)

lemma value_or_eq: "toml_get t k = Some v \<Longrightarrow> val v = Some x \<Longrightarrow> value_or val t k d = x"
  by (simp add: value_or_def)

lemma sint_byte: "sint (ucast (b :: u8) :: 64 word) = uint b"
proof -
  have "signed_take_bit 63 (uint b) = uint b"
    using uint_lt2p[of b] by (intro signed_take_bit_int_eq_self order_trans[OF _ uint_ge_0]) simp_all
  then show ?thesis using uint_lt2p[of b] by (simp add: sint_uint unsigned_ucast_eq take_bit_int_eq_self)
qed

lemma value_int_byte: "value_int (TInt (ucast (b :: u8))) = Some (ucast b)"
proof -
  have "- (2 ^ 31) \<le> uint b" by (rule order_trans[OF _ uint_ge_0]) simp
  then have "- (2 ^ 31) \<le> sint (ucast b :: 64 word) \<and> sint (ucast b :: 64 word) \<le> 2 ^ 31 - 1"
    using uint_lt2p[of b] by (simp add: sint_byte)
  moreover have "ucast (ucast b :: 64 word) = (ucast b :: 32 word)"
    by (rule bit_word_eqI) (auto simp: bit_ucast_iff dest: bit_imp_le_length)
  ultimately show ?thesis by (simp add: value_int_def)
qed

text \<open>The conversions are inverse on these strings.\<close>

definition codec_ok :: "TextCodec \<Rightarrow> wstring list \<Rightarrow> bool" where
  "codec_ok cdc ws \<longleftrightarrow> (\<forall>w \<in> set ws. toWide cdc (toUtf8 cdc w) = w)"

subsection \<open>Key maps\<close>

definition key_entry :: "TypingConfig \<Rightarrow> nat \<Rightarrow> Toml option" where
  "key_entry cfg i =
    (if customKeyMap cfg i \<noteq> ActNone then Some (TStr (TypingActionToString (customKeyMap cfg i))) else None)"

lemma key_name_inj: "i < 128 \<Longrightarrow> j < 128 \<Longrightarrow> key_name i = key_name j \<longleftrightarrow> i = j"
proof -
  assume "i < 128" "j < 128"
  moreover have "char_of i = char_of j \<longleftrightarrow> i = j" if "i < 256" "j < 256" for i j :: nat
    using that by (metis char_of_mod_256 mod_less of_char_of)
  ultimately show ?thesis by (auto simp: key_name_def)
qed

lemma save_keys:
  fixes cfg :: TypingConfig
  defines "f \<equiv> \<lambda>i km. if customKeyMap cfg i \<noteq> ActNone
    then toml_assign (key_name i) (TStr (TypingActionToString (customKeyMap cfg i))) km else km"
  assumes "n \<le> 128"
  shows "distinct (map fst (fold f [0..<n] [])) \<and> fst ` set (fold f [0..<n] []) \<subseteq> key_name ` {..<n} \<and>
    (\<forall>i<128. toml_get (fold f [0..<n] []) (key_name i) = (if i < n then key_entry cfg i else None))"
  using assms(2)
proof (induction n)
  case (Suc n)
  then have old: "distinct (map fst (fold f [0..<n] []))" "fst ` set (fold f [0..<n] []) \<subseteq> key_name ` {..<n}"
    "\<And>i. i < 128 \<Longrightarrow> toml_get (fold f [0..<n] []) (key_name i) = (if i < n then key_entry cfg i else None)"
    by auto
  have step: "fold f [0..<Suc n] [] = f n (fold f [0..<n] [])" by simp
  have "toml_get (fold f [0..<Suc n] []) (key_name i) = (if i < Suc n then key_entry cfg i else None)" if "i < 128" for i
    using that old(3)[OF that] Suc.prems
    by (cases "i = n") (auto simp: step f_def key_entry_def key_name_inj)
  moreover have "fst ` set (fold f [0..<Suc n] []) \<subseteq> key_name ` {..<Suc n}"
    using old(2) by (auto simp: step f_def keys_assign lessThan_Suc)
  moreover have "distinct (map fst (fold f [0..<Suc n] []))"
    using old(1) by (simp add: step f_def distinct_assign)
  ultimately show ?case by blast
qed simp

lemma SaveCustomKeyMap_facts:
  "distinct (map fst (SaveCustomKeyMap cfg []))"
  "fst ` set (SaveCustomKeyMap cfg []) \<subseteq> key_name ` {..<128}"
  "i < 128 \<Longrightarrow> toml_get (SaveCustomKeyMap cfg []) (key_name i) = key_entry cfg i"
  using save_keys[of 128 cfg] by (auto simp: SaveCustomKeyMap_def)

lemma load_keys:
  assumes "distinct (map fst rows)" and "fst ` set rows \<subseteq> key_name ` {..<128}"
  shows "customKeyMap (fold load_key rows cfg) i =
      (if 0 < i \<and> i < 128 then
         (case map_of rows (key_name i) of
            Some (TStr s) \<Rightarrow> StringToTypingAction s | _ \<Rightarrow> customKeyMap cfg i)
       else customKeyMap cfg i) \<and>
    (fold load_key rows cfg)\<lparr>customKeyMap := m\<rparr> = cfg\<lparr>customKeyMap := m\<rparr>"
  using assms
proof (induction rows arbitrary: cfg)
  case (Cons row rows)
  obtain k v where row: "row = (k, v)" by fastforce
  obtain j where j: "k = key_name j" "j < 128" using Cons.prems(2) row by auto
  let ?cfg = "load_key (k, v) cfg"
  have IH: "customKeyMap (fold load_key rows ?cfg) i =
      (if 0 < i \<and> i < 128 then
         (case map_of rows (key_name i) of
            Some (TStr s) \<Rightarrow> StringToTypingAction s | _ \<Rightarrow> customKeyMap ?cfg i)
       else customKeyMap ?cfg i)"
    "(fold load_key rows ?cfg)\<lparr>customKeyMap := m\<rparr> = ?cfg\<lparr>customKeyMap := m\<rparr>"
    using Cons by auto
  have absent: "map_of rows k = None" using Cons.prems(1) row by (simp add: map_of_absent)
  have head: "of_char (hd k) = j" if "j \<noteq> 0"
    using that j by (simp add: key_name_def of_char_of)
  have cfg: "?cfg = (if j = 0 then cfg else case value_str v of None \<Rightarrow> cfg
      | Some s \<Rightarrow> cfg\<lparr>customKeyMap := (customKeyMap cfg)(j := StringToTypingAction s)\<rparr>)"
    using j head by (auto simp: load_key_def key_name_def split: option.split)
  show ?case unfolding row
  proof
    show "(fold load_key ((k, v) # rows) cfg)\<lparr>customKeyMap := m\<rparr> = cfg\<lparr>customKeyMap := m\<rparr>"
      using IH(2) by (simp add: cfg split: option.splits if_splits)
    show "customKeyMap (fold load_key ((k, v) # rows) cfg) i =
      (if 0 < i \<and> i < 128 then
         (case map_of ((k, v) # rows) (key_name i) of
            Some (TStr s) \<Rightarrow> StringToTypingAction s | _ \<Rightarrow> customKeyMap cfg i)
       else customKeyMap cfg i)"
    proof (cases "i = j")
      case True
      have "customKeyMap ?cfg j = (if j = 0 then customKeyMap cfg j else
          case v of TStr s \<Rightarrow> StringToTypingAction s | _ \<Rightarrow> customKeyMap cfg j)"
        using cfg by (cases v) simp_all
      then show ?thesis
        using IH(1) absent j(2) unfolding True j(1)[symmetric] by (cases "j = 0") (simp_all split: Toml.split)
    next
      case False
      then have "i < 128 \<Longrightarrow> key_name i \<noteq> k" using j key_name_inj by metis
      moreover have "customKeyMap ?cfg i = customKeyMap cfg i"
        using False by (simp add: cfg split: option.split)
      ultimately show ?thesis using IH(1) by (auto split: option.split Toml.split)
    qed
  qed
qed simp

text \<open>A key map that is saved and loaded over a map without entries is the same map.\<close>

lemma key_map_survives:
  assumes "\<And>i. i = 0 \<or> 128 \<le> i \<Longrightarrow> customKeyMap cfg i = ActNone" and "\<And>i. customKeyMap d i = ActNone"
  shows "LoadCustomKeyMap (SaveCustomKeyMap cfg []) d = d\<lparr>customKeyMap := customKeyMap cfg\<rparr>"
proof -
  let ?t = "SaveCustomKeyMap cfg []"
  note rows = load_keys[OF distinct_rows[OF SaveCustomKeyMap_facts(1)], of cfg d]
  have keys: "fst ` set (toml_rows ?t) \<subseteq> key_name ` {..<128}" using SaveCustomKeyMap_facts(2)[of cfg] by simp
  have "customKeyMap (LoadCustomKeyMap ?t d) i = customKeyMap cfg i" for i
    using rows[OF keys, of i] SaveCustomKeyMap_facts(3)[of i cfg] assms
    by (auto simp: LoadCustomKeyMap_def rows_map_of SaveCustomKeyMap_facts(1) key_entry_def
        action_name_round_trip)
  then have "customKeyMap (LoadCustomKeyMap ?t d) = customKeyMap cfg" by auto
  moreover have "(LoadCustomKeyMap ?t d)\<lparr>customKeyMap := customKeyMap cfg\<rparr> = d\<lparr>customKeyMap := customKeyMap cfg\<rparr>"
    using rows[OF keys, of 0 "customKeyMap cfg"] by (simp add: LoadCustomKeyMap_def)
  ultimately show ?thesis
    by (metis TypingConfig.surjective TypingConfig.update_convs(30))
qed


subsection \<open>The typing settings\<close>

lemma method_name_reads_back: "method_of_name (method_name m) = m"
  by (cases m) (simp_all add: method_of_name_def)

lemma code_table_reads_back: "code_table_of (int (code_table_index t)) = t" "code_table_index t \<le> 4"
  by (cases t; simp add: code_table_of_def)+

lemma input_reads_back:
  "load_input (toml_assign ''code_table'' (TInt (of_nat (code_table_index (codeTable cfg))))
      (toml_assign ''method'' (TStr (method_name (inputMethod cfg))) [])) d =
    d\<lparr>inputMethod := inputMethod cfg, codeTable := codeTable cfg\<rparr>"
  by (cases "codeTable cfg")
    (simp_all add: load_input_def Let_def method_name_reads_back value_int_def code_table_of_def)

lemma exclusions_read_back:
  assumes "codec_ok cdc ws" and "\<forall>w \<in> set ws. length w \<ge> 2 \<and> map towlower w = w"
  shows "fold (load_exclusion cdc) (map (\<lambda>w. TStr (toUtf8 cdc w)) ws) acc = acc @ ws"
  using assms by (induction ws arbitrary: acc) (auto simp: load_exclusion_def codec_ok_def)

text \<open>The settings a file can hold.\<close>

definition storable :: "TextCodec \<Rightarrow> TypingConfig \<Rightarrow> bool" where
  "storable cdc cfg \<longleftrightarrow>
    codec_ok cdc (spellExclusions cfg) \<and>
    (\<forall>w \<in> set (spellExclusions cfg). length w \<ge> 2 \<and> map towlower w = w) \<and>
    (\<forall>i. i = 0 \<or> 128 \<le> i \<longrightarrow> customKeyMap cfg i = ActNone)"

lemma features_get:
  "toml_get (features_table cdc cfg) k =
    map_of (rev [(''spell_check'', TBool (spellCheckEnabled cfg)),
       (''beep_on_switch'', TBool (beepOnSwitch cfg)),
       (''smart_switch'', TBool (smartSwitch cfg)),
       (''exclude_apps'', TBool (excludeApps cfg)),
       (''tsf_apps'', TBool (tsfApps cfg)),
       (''optimize_level'', TInt (ucast (optimizeLevel cfg))),
       (''modern_ortho'', TBool (modernOrtho cfg)),
       (''auto_caps'', TBool (autoCaps cfg)),
       (''allow_zwjf'', TBool (allowZwjf cfg)),
       (''auto_restore'', TBool (autoRestoreEnabled cfg)),
       (''cjk_auto_switch'', TBool (cjkAutoSwitch cfg)),
       (''macro_enabled'', TBool (macroEnabled cfg)),
       (''macro_in_english'', TBool (macroInEnglish cfg)),
       (''quick_consonant'', TBool (quickConsonant cfg)),
       (''quick_start_consonant'', TBool (quickStartConsonant cfg)),
       (''quick_end_consonant'', TBool (quickEndConsonant cfg)),
       (''esc_restore_raw'', TBool (escRestoreRawEnabled cfg)),
       (''auto_caps_macro'', TBool (autoCapsMacro cfg)),
       (''allow_english_bypass'', TBool (allowEnglishBypass cfg)),
       (''suggest_keep_chars'', TBool (suggestKeepChars cfg)),
       (''debug_log'', TBool (debugLogEnabled cfg)),
       (''macro_trigger_space'', TBool (macroTriggerSpace cfg)),
       (''macro_trigger_enter'', TBool (macroTriggerEnter cfg)),
       (''macro_trigger_tab'', TBool (macroTriggerTab cfg)),
       (''macro_trigger_dir'', TBool (macroTriggerDir cfg)),
       (''spell_exclusions'', TArray (map (\<lambda>w. TStr (toUtf8 cdc w)) (filter (\<lambda>w. length w \<ge> 2) (spellExclusions cfg))))]) k"
  unfolding features_table_def toml_get_assigns by (simp only: toml_get_Nil) (simp split: option.split)

lemma features_read_back:
  assumes "storable cdc cfg" and "spellExclusions d = []"
  shows "load_features cdc (features_table cdc cfg) d =
    cfg\<lparr>inputMethod := inputMethod d, codeTable := codeTable d, customKeyMap := customKeyMap d,
        perfHistogramEnabled := perfHistogramEnabled d\<rparr>"
proof -
  have bool: "bool_or (features_table cdc cfg) k x = b"
    if "toml_get (features_table cdc cfg) k = Some (TBool b)" for k x b
    using that by (simp add: value_or_def)
  have all: "filter (\<lambda>w. length w \<ge> 2) (spellExclusions cfg) = spellExclusions cfg"
    using assms(1) by (simp add: storable_def)
  have "sub_array (features_table cdc cfg) ''spell_exclusions'' =
      Some (map (\<lambda>w. TStr (toUtf8 cdc w)) (spellExclusions cfg))"
    by (simp add: sub_array_def features_get all)
  moreover have "int_or (features_table cdc cfg) ''optimize_level'' 0 = ucast (optimizeLevel cfg)"
    by (rule value_or_eq[where val = value_int, OF _ value_int_byte]) (simp add: features_get)
  moreover have "ucast (ucast (b :: u8) :: 32 word) = b" for b
    by (rule bit_word_eqI) (auto simp: bit_ucast_iff dest: bit_imp_le_length)
  ultimately show ?thesis
    using assms exclusions_read_back[of cdc "spellExclusions cfg" "[]"]
    by (cases cfg; cases d) (simp add: load_features_def value_or_def features_get storable_def)
qed


text \<open>The hidden setting of the histogram is read from a table of its own and is not saved.\<close>

definition stored_perf :: "TomlFile \<Rightarrow> bool" where
  "stored_perf file =
    (case Option.bind file (\<lambda>t. sub_table t ''debug'') of
       None \<Rightarrow> False | Some t \<Rightarrow> bool_or t ''perf_histogram'' False)"

lemma default_map: "customKeyMap defaultConfig i = ActNone" "spellExclusions defaultConfig = []"
  by (simp_all add: defaultConfig_def)

lemma saved_typing:
  assumes "storable cdc cfg"
  shows "sub_table (LoadExistingToml (snd (SaveToFile cdc True cfg file))) ''features'' = Some (features_table cdc cfg)"
    and "LoadFromFile cdc (Some 0) (snd (SaveToFile cdc True cfg file)) = Some (cfg\<lparr>perfHistogramEnabled := stored_perf file\<rparr>)"
proof -
  let ?km = "SaveCustomKeyMap cfg []"
  obtain tbl where tbl: "snd (SaveToFile cdc True cfg file) = Some tbl"
    by (simp add: SaveToFile_def WriteToml_def Let_def)
  have features: "sub_table tbl ''features'' = Some (features_table cdc cfg)"
    and input: "sub_table tbl ''input'' = Some (toml_assign ''code_table'' (TInt (of_nat (code_table_index (codeTable cfg))))
        (toml_assign ''method'' (TStr (method_name (inputMethod cfg))) []))"
    and km: "sub_table tbl ''UserDefinedKeyMap'' = (if ?km = [] then None else Some ?km)"
    and dbg: "sub_table tbl ''debug'' = sub_table (LoadExistingToml file) ''debug''"
    using tbl by (auto simp: SaveToFile_def WriteToml_def Let_def)
  show "sub_table (LoadExistingToml (snd (SaveToFile cdc True cfg file))) ''features'' = Some (features_table cdc cfg)"
    using features tbl by (simp add: LoadExistingToml_def)
  let ?d = "defaultConfig\<lparr>inputMethod := inputMethod cfg, codeTable := codeTable cfg\<rparr>"
  have loaded: "LoadCustomKeyMap ?km ?d = ?d\<lparr>customKeyMap := customKeyMap cfg\<rparr>"
    using assms default_map by (intro key_map_survives) (auto simp: storable_def)
  have none: "?d\<lparr>customKeyMap := customKeyMap cfg\<rparr> = ?d" if "?km = []"
  proof -
    have "customKeyMap cfg i = ActNone" for i
    proof (cases "i < 128")
      case True
      then have "key_entry cfg i = None" using SaveCustomKeyMap_facts(3)[of i cfg] that by simp
      then show ?thesis by (simp add: key_entry_def split: if_splits)
    next
      case False
      then show ?thesis using assms by (simp add: storable_def)
    qed
    then have "customKeyMap cfg = customKeyMap ?d" using default_map(1) by auto
    then show ?thesis by simp
  qed
  have keys: "(case sub_table tbl ''UserDefinedKeyMap'' of Some t \<Rightarrow> LoadCustomKeyMap t ?d | None \<Rightarrow> ?d) =
      ?d\<lparr>customKeyMap := customKeyMap cfg\<rparr>"
  proof (cases "?km = []")
    case True
    then have "sub_table tbl ''UserDefinedKeyMap'' = None" using km by simp
    then show ?thesis using none[OF True] by (simp only: option.case)
  next
    case False
    then have "sub_table tbl ''UserDefinedKeyMap'' = Some ?km" using km by simp
    then show ?thesis using loaded by (simp only: option.case)
  qed
  have "load_features cdc (features_table cdc cfg) (?d\<lparr>customKeyMap := customKeyMap cfg\<rparr>) =
      cfg\<lparr>perfHistogramEnabled := False\<rparr>"
    using features_read_back[OF assms, of "?d\<lparr>customKeyMap := customKeyMap cfg\<rparr>"] default_map(2)
    by (cases cfg) (simp add: defaultConfig_def)
  then have "LoadFromFile cdc (Some 0) (Some tbl) = Some (case sub_table tbl ''debug'' of
      Some t \<Rightarrow> (cfg\<lparr>perfHistogramEnabled := False\<rparr>)\<lparr>perfHistogramEnabled := bool_or t ''perf_histogram'' False\<rparr>
    | None \<Rightarrow> cfg\<lparr>perfHistogramEnabled := False\<rparr>)"
    unfolding LoadFromFile_def Let_def
    by (simp only: input features input_reads_back keys option.case prod.case) simp
  also have "\<dots> = Some (cfg\<lparr>perfHistogramEnabled := stored_perf file\<rparr>)"
  proof (cases "file")
    case None
    then show ?thesis by (simp add: dbg LoadExistingToml_def stored_perf_def)
  next
    case (Some t)
    then show ?thesis by (cases "sub_table t ''debug''") (simp_all add: dbg LoadExistingToml_def stored_perf_def)
  qed
  finally show "LoadFromFile cdc (Some 0) (snd (SaveToFile cdc True cfg file)) =
      Some (cfg\<lparr>perfHistogramEnabled := stored_perf file\<rparr>)"
    by (simp only: tbl)
qed


subsection \<open>The parts of the file\<close>

definition entry :: "TomlFile \<Rightarrow> string \<Rightarrow> Toml option" where
  "entry file k = toml_get (LoadExistingToml file) k"

text \<open>
  A part of the settings: \<open>load\<close> reads it from the file, \<open>store\<close> writes it, \<open>content\<close> is what is read
  back of a value that \<open>fits\<close>; the part is read from some keys of the file and written to some.
\<close>

locale settings_part =
  fixes load :: "TomlFile \<Rightarrow> 'a" and store :: "bool \<Rightarrow> 'c \<Rightarrow> TomlFile \<Rightarrow> bool \<times> TomlFile"
    and fits :: "'c \<Rightarrow> bool" and content :: "'c \<Rightarrow> 'a" and reads :: "string set" and writes :: "string set"
  assumes refused: "store False c file = (False, file)"
    and written: "snd (store True c file) \<noteq> None"
    and reads_back: "fits c \<Longrightarrow> load (snd (store True c file)) = content c"
    and others: "k \<notin> writes \<Longrightarrow> entry (snd (store ok c file)) k = entry file k"
    and local_read: "f \<noteq> None \<Longrightarrow> g \<noteq> None \<Longrightarrow> (\<And>k. k \<in> reads \<Longrightarrow> entry g k = entry f k) \<Longrightarrow> load g = load f"
begin

lemma stays: "file \<noteq> None \<Longrightarrow> snd (store ok c file) \<noteq> None"
  by (cases ok) (simp_all add: refused written)

text \<open>What is saved is read until something is written to its keys.\<close>

lemma read_later:
  assumes "fits c" and "g \<noteq> None"
    and "\<And>k. k \<in> reads \<Longrightarrow> entry g k = entry (snd (store True c file)) k"
  shows "load g = content c"
  using local_read[OF written assms(2,3)] reads_back[OF assms(1)] by simp

end

lemma entry_WriteToml: "entry (snd (WriteToml ok tbl file)) k = (if ok then toml_get tbl k else entry file k)"
  by (simp add: WriteToml_def entry_def LoadExistingToml_def)

lemma sub_entry: "file = Some tbl \<Longrightarrow> toml_get tbl k = entry file k"
  by (simp add: entry_def LoadExistingToml_def)

lemma entry_back: "toml_get (LoadExistingToml f) k = entry f k"
  by (simp add: entry_def)

lemma entry_Some [simp]: "entry (Some tbl) k = toml_get tbl k"
  by (simp add: entry_def LoadExistingToml_def)

lemma value_int_scast: "value_int (TInt (scast (b :: 8 word))) = Some (scast b)"
proof -
  have "sint (scast b :: 64 word) = sint b" by (rule sint_up_scast) (simp add: is_up)
  moreover have "- (2 ^ 7) \<le> sint b" "sint b < 2 ^ 7" using sint_range_size[of b] by (simp_all add: word_size)
  moreover have "ucast (scast b :: 64 word) = (scast b :: 32 word)"
    by (rule bit_word_eqI) (auto simp: bit_ucast_iff bit_word_scast_iff)
  ultimately show ?thesis by (simp add: value_int_def)
qed


subsection \<open>Every part\<close>

lemma byte_back: "ucast (ucast (b :: u8) :: 32 word) = b"
  by (rule bit_word_eqI) (auto simp: bit_ucast_iff dest: bit_imp_le_length)

lemma word_back: "ucast (ucast (w :: u32) :: 64 word) = w" "ucast (scast (v :: 32 word) :: 64 word) = v"
  by (rule bit_word_eqI, auto simp: bit_ucast_iff bit_word_scast_iff dest: bit_imp_le_length)+

lemma int_or_byte: "toml_get t k = Some (TInt (ucast (b :: u8))) \<Longrightarrow> int_or t k d = ucast b"
  by (rule value_or_eq[where val = value_int, OF _ value_int_byte])

lemmas part_defs = WriteToml_def Let_def LoadExistingToml_def

interpretation ui: settings_part LoadUIConfig SaveUIConfig "\<lambda>_. True" Some "{''ui''}" "{''ui''}"
proof
  fix c :: UIConfig and "file" :: TomlFile and ok k and f g :: TomlFile
  show "SaveUIConfig False c file = (False, file)" "snd (SaveUIConfig True c file) \<noteq> None"
    by (simp_all add: SaveUIConfig_def part_defs)
  show "LoadUIConfig (snd (SaveUIConfig True c file)) = Some c"
    by (cases c) (simp add: SaveUIConfig_def LoadUIConfig_def part_defs toml_get_assigns value_or_def
        value_int_byte byte_back)
  show "k \<notin> {''ui''} \<Longrightarrow> entry (snd (SaveUIConfig ok c file)) k = entry file k"
    by (simp add: SaveUIConfig_def Let_def entry_WriteToml entry_back)
  show "f \<noteq> None \<Longrightarrow> g \<noteq> None \<Longrightarrow> (\<And>k. k \<in> {''ui''} \<Longrightarrow> entry g k = entry f k) \<Longrightarrow>
      LoadUIConfig g = LoadUIConfig f"
    by (auto simp: LoadUIConfig_def sub_table_def)
qed

lemma system_reads_back: "load_system (system_table cfg) = cfg"
  by (cases cfg) (simp add: load_system_def system_table_def toml_get_assigns value_or_def value_int_byte
      byte_back word_back)

interpretation system: settings_part LoadSystemConfig SaveSystemConfig "\<lambda>_. True" Some "{''system''}" "{''system''}"
proof
  fix c :: SystemConfig and "file" :: TomlFile and ok k and f g :: TomlFile
  show "SaveSystemConfig False c file = (False, file)" "snd (SaveSystemConfig True c file) \<noteq> None"
    by (simp_all add: SaveSystemConfig_def part_defs)
  show "LoadSystemConfig (snd (SaveSystemConfig True c file)) = Some c"
    by (simp add: SaveSystemConfig_def LoadSystemConfig_def part_defs system_reads_back)
  show "k \<notin> {''system''} \<Longrightarrow> entry (snd (SaveSystemConfig ok c file)) k = entry file k"
    by (simp add: SaveSystemConfig_def entry_WriteToml entry_back)
  show "f \<noteq> None \<Longrightarrow> g \<noteq> None \<Longrightarrow> (\<And>k. k \<in> {''system''} \<Longrightarrow> entry g k = entry f k) \<Longrightarrow>
      LoadSystemConfig g = LoadSystemConfig f"
    by (auto simp: LoadSystemConfig_def sub_table_def)
qed

lemma hotkey_reads_back: "load_hotkey cdc d (hotkey_table hk) = hk"
  by (cases hk) (simp add: load_hotkey_def hotkey_table_def load_hotkey_vk_def toml_get_assigns value_or_def word_back)

interpretation hotkey: settings_part "LoadHotkeyConfig cdc" SaveHotkeyConfig "\<lambda>_. True" Some "{''hotkey''}" "{''hotkey''}"
  for cdc
proof
  fix c :: HotkeyConfig and "file" :: TomlFile and ok k and f g :: TomlFile
  show "SaveHotkeyConfig False c file = (False, file)" "snd (SaveHotkeyConfig True c file) \<noteq> None"
    by (simp_all add: SaveHotkeyConfig_def part_defs)
  show "LoadHotkeyConfig cdc (snd (SaveHotkeyConfig True c file)) = Some c"
    by (simp add: SaveHotkeyConfig_def LoadHotkeyConfig_def part_defs hotkey_reads_back)
  show "k \<notin> {''hotkey''} \<Longrightarrow> entry (snd (SaveHotkeyConfig ok c file)) k = entry file k"
    by (simp add: SaveHotkeyConfig_def entry_WriteToml entry_back)
  show "f \<noteq> None \<Longrightarrow> g \<noteq> None \<Longrightarrow> (\<And>k. k \<in> {''hotkey''} \<Longrightarrow> entry g k = entry f k) \<Longrightarrow>
      LoadHotkeyConfig cdc g = LoadHotkeyConfig cdc f"
    by (auto simp: LoadHotkeyConfig_def sub_table_def)
qed

lemma convert_reads_back: "load_convert cdc (convert_table cfg) = cfg"
  by (cases cfg) (simp add: load_convert_def convert_table_def toml_get_assigns value_or_def value_int_byte
      byte_back sub_table_def hotkey_reads_back)

interpretation convert: settings_part "LoadConvertConfig cdc" SaveConvertConfig "\<lambda>_. True" Some
  "{''convert''}" "{''convert''}" for cdc
proof
  fix c :: ConvertConfig and "file" :: TomlFile and ok k and f g :: TomlFile
  show "SaveConvertConfig False c file = (False, file)" "snd (SaveConvertConfig True c file) \<noteq> None"
    by (simp_all add: SaveConvertConfig_def part_defs)
  show "LoadConvertConfig cdc (snd (SaveConvertConfig True c file)) = Some c"
    by (simp add: SaveConvertConfig_def LoadConvertConfig_def part_defs convert_reads_back)
  show "k \<notin> {''convert''} \<Longrightarrow> entry (snd (SaveConvertConfig ok c file)) k = entry file k"
    by (simp add: SaveConvertConfig_def entry_WriteToml entry_back)
  show "f \<noteq> None \<Longrightarrow> g \<noteq> None \<Longrightarrow> (\<And>k. k \<in> {''convert''} \<Longrightarrow> entry g k = entry f k) \<Longrightarrow>
      LoadConvertConfig cdc g = LoadConvertConfig cdc f"
    by (auto simp: LoadConvertConfig_def sub_table_def)
qed


definition without_perf :: "TypingConfig \<Rightarrow> TypingConfig" where
  "without_perf cfg = cfg\<lparr>perfHistogramEnabled := False\<rparr>"

lemma LoadFromFile_bytes: "n \<le> kMaxConfigFileSizeBytes \<Longrightarrow> LoadFromFile cdc (Some n) file = LoadFromFile cdc (Some 0) file"
  by (simp add: LoadFromFile_def split: option.split)

interpretation typing: settings_part "\<lambda>f. map_option without_perf (LoadFromFile cdc (Some 0) f)" "SaveToFile cdc"
  "storable cdc" "\<lambda>c. Some (without_perf c)"
  "{''input'', ''UserDefinedKeyMap'', ''features''}" "{''input'', ''UserDefinedKeyMap'', ''features''}" for cdc
proof
  fix c :: TypingConfig and "file" :: TomlFile and ok k and f g :: TomlFile
  show "SaveToFile cdc False c file = (False, file)" "snd (SaveToFile cdc True c file) \<noteq> None"
    by (simp_all add: SaveToFile_def part_defs)
  show "storable cdc c \<Longrightarrow> map_option without_perf (LoadFromFile cdc (Some 0) (snd (SaveToFile cdc True c file))) =
      Some (without_perf c)"
    by (simp add: saved_typing without_perf_def)
  show "k \<notin> {''input'', ''UserDefinedKeyMap'', ''features''} \<Longrightarrow> entry (snd (SaveToFile cdc ok c file)) k = entry file k"
    by (simp add: SaveToFile_def Let_def entry_WriteToml entry_back)
  show "map_option without_perf (LoadFromFile cdc (Some 0) g) = map_option without_perf (LoadFromFile cdc (Some 0) f)"
    if fg: "f \<noteq> None" "g \<noteq> None"
      and same: "\<And>k. k \<in> {''input'', ''UserDefinedKeyMap'', ''features''} \<Longrightarrow> entry g k = entry f k"
  proof -
    obtain a b where ab: "f = Some a" "g = Some b" using fg by auto
    have "sub_table b ''input'' = sub_table a ''input''"
      "sub_table b ''UserDefinedKeyMap'' = sub_table a ''UserDefinedKeyMap''"
      "sub_table b ''features'' = sub_table a ''features''"
      using same ab by (simp_all add: sub_table_def)
    moreover have "without_perf (case m of Some t \<Rightarrow> x\<lparr>perfHistogramEnabled := p t\<rparr> | None \<Rightarrow> x) = without_perf x"
      for m :: "TomlTable option" and x p
      by (cases m) (simp_all add: without_perf_def)
    ultimately show ?thesis by (simp add: ab LoadFromFile_def Let_def)
  qed
qed

text \<open>Registries are compared by the keys they fire at.\<close>

definition fires :: "HotkeyRegistry \<Rightarrow> HotIntent \<Rightarrow> u32 \<Rightarrow> u32 \<Rightarrow> bool \<Rightarrow> bool \<Rightarrow> bool" where
  "fires r i vk mods dt up = Matches i vk mods dt up r"

interpretation registry: settings_part "\<lambda>f. map_option fires (LoadHotkeyRegistry f)" SaveHotkeyRegistry
  no_zero_key "\<lambda>r. Some (fires r)" "{''hotkeys'', ''hotkey_state''}" "{''hotkeys'', ''hotkey_state'', ''features''}"
proof
  fix c :: HotkeyRegistry and "file" :: TomlFile and ok k and f g :: TomlFile
  show "SaveHotkeyRegistry False c file = (False, file)" "snd (SaveHotkeyRegistry True c file) \<noteq> None"
    by (simp_all add: SaveHotkeyRegistry_def part_defs)
  show "map_option fires (LoadHotkeyRegistry (snd (SaveHotkeyRegistry True c file))) = Some (fires c)"
    if "no_zero_key c"
    by (simp add: SaveHotkeyRegistry_def LoadHotkeyRegistry_def part_defs mirror_esc_def fires_def fun_eq_iff
        hotkeys_survive_saving[OF that])
  show "k \<notin> {''hotkeys'', ''hotkey_state'', ''features''} \<Longrightarrow> entry (snd (SaveHotkeyRegistry ok c file)) k = entry file k"
    by (simp add: SaveHotkeyRegistry_def Let_def mirror_esc_def entry_WriteToml entry_back)
  show "f \<noteq> None \<Longrightarrow> g \<noteq> None \<Longrightarrow> (\<And>k. k \<in> {''hotkeys'', ''hotkey_state''} \<Longrightarrow> entry g k = entry f k) \<Longrightarrow>
      map_option fires (LoadHotkeyRegistry g) = map_option fires (LoadHotkeyRegistry f)"
    by (auto simp: LoadHotkeyRegistry_def sub_table_def sub_array_def)
qed

lemma app_names_read_back:
  assumes "codec_ok cdc ws" and "length acc + length ws \<le> kMaxAppListEntries"
  shows "fold (load_name cdc) (map (\<lambda>w. TStr (toUtf8 cdc w)) ws) acc = acc @ ws"
  using assms by (induction ws arbitrary: acc) (auto simp: load_name_def codec_ok_def)

definition short_list :: "TextCodec \<Rightarrow> wstring list \<Rightarrow> bool" where
  "short_list cdc ws \<longleftrightarrow> codec_ok cdc ws \<and> length ws \<le> kMaxAppListEntries"

lemma short_list_back:
  "short_list cdc ws \<Longrightarrow> fold (load_name cdc) (map (\<lambda>w. TStr (toUtf8 cdc w)) ws) [] = ws"
  by (simp add: short_list_def app_names_read_back)

lemma array_of_saved:
  "array_of (snd (WriteToml True (toml_assign sec (TTable t) tbl) file)) sec key =
    (case sub_array t key of None \<Rightarrow> [] | Some arr \<Rightarrow> arr)"
  by (simp add: array_of_def WriteToml_def)

lemma array_of_entry:
  "f \<noteq> None \<Longrightarrow> g \<noteq> None \<Longrightarrow> entry g sec = entry f sec \<Longrightarrow> array_of g sec key = array_of f sec key"
  by (auto simp: array_of_def sub_table_def)

interpretation tsf: settings_part "LoadTsfApps cdc" "SaveTsfApps cdc" "short_list cdc" "\<lambda>ws. ws"
  "{''tsf_apps''}" "{''tsf_apps''}" for cdc
proof
  fix c :: "wstring list" and "file" :: TomlFile and ok k and f g :: TomlFile
  show "SaveTsfApps cdc False c file = (False, file)" "snd (SaveTsfApps cdc True c file) \<noteq> None"
    by (simp_all add: SaveTsfApps_def part_defs)
  show "short_list cdc c \<Longrightarrow> LoadTsfApps cdc (snd (SaveTsfApps cdc True c file)) = c"
    by (simp add: SaveTsfApps_def LoadTsfApps_def array_of_saved names_array_def short_list_back)
  show "k \<notin> {''tsf_apps''} \<Longrightarrow> entry (snd (SaveTsfApps cdc ok c file)) k = entry file k"
    by (simp add: SaveTsfApps_def entry_WriteToml entry_back)
  show "f \<noteq> None \<Longrightarrow> g \<noteq> None \<Longrightarrow> (\<And>k. k \<in> {''tsf_apps''} \<Longrightarrow> entry g k = entry f k) \<Longrightarrow>
      LoadTsfApps cdc g = LoadTsfApps cdc f"
    by (simp add: LoadTsfApps_def array_of_entry[of f g])
qed

interpretation excluded: settings_part "LoadAllExcludedApps cdc" "SaveExcludedApps cdc" "short_list cdc" "\<lambda>ws. ws"
  "{''excluded_apps''}" "{''excluded_apps''}" for cdc
proof
  fix c :: "wstring list" and "file" :: TomlFile and ok k and f g :: TomlFile
  show "SaveExcludedApps cdc False c file = (False, file)" "snd (SaveExcludedApps cdc True c file) \<noteq> None"
    by (simp_all add: SaveExcludedApps_def part_defs)
  show "short_list cdc c \<Longrightarrow> LoadAllExcludedApps cdc (snd (SaveExcludedApps cdc True c file)) = c"
    by (cases "sub_table (LoadExistingToml file) ''excluded_apps''")
      (simp_all add: SaveExcludedApps_def LoadAllExcludedApps_def array_of_saved names_array_def short_list_back
        Let_def sub_array_def)
  show "k \<notin> {''excluded_apps''} \<Longrightarrow> entry (snd (SaveExcludedApps cdc ok c file)) k = entry file k"
    by (simp add: SaveExcludedApps_def Let_def entry_WriteToml entry_back)
  show "f \<noteq> None \<Longrightarrow> g \<noteq> None \<Longrightarrow> (\<And>k. k \<in> {''excluded_apps''} \<Longrightarrow> entry g k = entry f k) \<Longrightarrow>
      LoadAllExcludedApps cdc g = LoadAllExcludedApps cdc f"
    by (simp add: LoadAllExcludedApps_def array_of_entry[of f g])
qed

interpretation forced: settings_part "LoadForcedVnApps cdc" "SaveForcedVnApps cdc" "short_list cdc" "\<lambda>ws. ws"
  "{''excluded_apps''}" "{''excluded_apps''}" for cdc
proof
  fix c :: "wstring list" and "file" :: TomlFile and ok k and f g :: TomlFile
  show "SaveForcedVnApps cdc False c file = (False, file)" "snd (SaveForcedVnApps cdc True c file) \<noteq> None"
    by (simp_all add: SaveForcedVnApps_def part_defs)
  show "short_list cdc c \<Longrightarrow> LoadForcedVnApps cdc (snd (SaveForcedVnApps cdc True c file)) = c"
    by (simp add: SaveForcedVnApps_def LoadForcedVnApps_def array_of_saved names_array_def short_list_back
        Let_def sub_array_def)
  show "k \<notin> {''excluded_apps''} \<Longrightarrow> entry (snd (SaveForcedVnApps cdc ok c file)) k = entry file k"
    by (simp add: SaveForcedVnApps_def Let_def entry_WriteToml entry_back)
  show "f \<noteq> None \<Longrightarrow> g \<noteq> None \<Longrightarrow> (\<And>k. k \<in> {''excluded_apps''} \<Longrightarrow> entry g k = entry f k) \<Longrightarrow>
      LoadForcedVnApps cdc g = LoadForcedVnApps cdc f"
    by (simp add: LoadForcedVnApps_def array_of_entry[of f g])
qed

text \<open>The two lists of one table: saving one leaves the other.\<close>

lemma excluded_lists_independent:
  "LoadForcedVnApps cdc (snd (SaveExcludedApps cdc ok ws file)) = LoadForcedVnApps cdc file"
  "LoadAllExcludedApps cdc (snd (SaveForcedVnApps cdc ok ws file)) = LoadAllExcludedApps cdc file"
  by (cases ok; cases "file"; cases "sub_table (LoadExistingToml file) ''excluded_apps''";
      simp add: SaveExcludedApps_def SaveForcedVnApps_def LoadForcedVnApps_def LoadAllExcludedApps_def part_defs
        array_of_def sub_array_def)+


subsection \<open>Tables that are maps\<close>

lemma assigns_append:
  assumes "distinct (map (\<lambda>e. u (fst e)) m)" and "fst ` set t \<inter> (\<lambda>e. u (fst e)) ` set m = {}"
  shows "fold (\<lambda>(k, v). toml_assign (u k) (w v)) m t = t @ map (\<lambda>(k, v). (u k, w v)) m"
  using assms
proof (induction m arbitrary: t)
  case (Cons e m)
  obtain k v where e: "e = (k, v)" by fastforce
  have new: "u k \<notin> fst ` set t" using Cons.prems(2) by (auto simp: e)
  then have "toml_assign (u k) (w v) t = t @ [(u k, w v)]" by (simp add: toml_assign_def)
  moreover have "fst ` set (t @ [(u k, w v)]) \<inter> (\<lambda>e. u (fst e)) ` set m = {}"
    using Cons.prems by (auto simp: e)
  ultimately show ?case using Cons.IH[of "t @ [(u k, w v)]"] Cons.prems(1) by (simp add: e)
qed simp

lemma codec_distinct:
  assumes "codec_ok cdc (map fst m)" and "distinct (map fst m)"
  shows "distinct (map (\<lambda>e. toUtf8 cdc (fst e)) m)"
  using assms
proof -
  have "inj_on (toUtf8 cdc) (set (map fst m))"
    using assms(1) by (metis codec_ok_def inj_on_def)
  then have "distinct (map (toUtf8 cdc) (map fst m))" using assms(2) by (subst distinct_map) simp
  then show ?thesis by (simp only: map_map comp_def)
qed

lemma fold_updates:
  assumes "distinct (map key rows)"
  shows "map_of (fold (\<lambda>r. AList.update (key r) (val r)) rows acc) x =
    (case map_of (map (\<lambda>r. (key r, val r)) rows) x of Some v \<Rightarrow> Some v | None \<Rightarrow> map_of acc x)"
  using assms
proof (induction rows arbitrary: acc)
  case (Cons r rows)
  have "map_of (map (\<lambda>r. (key r, val r)) rows) (key r) = None"
    using Cons.prems by (auto simp: map_of_eq_None_iff)
  then show ?case using Cons by (auto simp: update_conv' split: option.split)
qed simp

text \<open>A loop that stores every row under its key gives the map whose rows are in the table.\<close>

lemma rows_read_map:
  assumes t: "set rows = (\<lambda>(k, v). (toUtf8 cdc k, w v)) ` set m" and "distinct (map fst rows)"
    and ok: "codec_ok cdc (map fst m)" and d: "distinct (map fst m)"
    and inv: "\<And>k v. (k, v) \<in> set m \<Longrightarrow> val (w v) = v"
  shows "map_of (map (\<lambda>r. (toWide cdc (fst r), val (snd r))) rows) = map_of m"
    and "distinct (map (\<lambda>r. toWide cdc (fst r)) rows)"
proof -
  let ?f = "\<lambda>r. (toWide cdc (fst r), val (snd r))"
  have "?f (toUtf8 cdc k, w v) = (k, v)" if "(k, v) \<in> set m" for k v
    using that ok inv by (force simp: codec_ok_def)
  then have image: "?f ` set rows = set m" unfolding t image_image by (force simp: case_prod_unfold)
  have inj: "toWide cdc (fst r) = toWide cdc (fst r') \<longrightarrow> r = r'" if rr: "r \<in> set rows" "r' \<in> set rows" for r r'
  proof -
    have row: "\<exists>k v. (k, v) \<in> set m \<and> q = (toUtf8 cdc k, w v)" if "q \<in> set rows" for q
      using that[unfolded t] by auto
    obtain k v k' v' where kv: "(k, v) \<in> set m" "r = (toUtf8 cdc k, w v)" "(k', v') \<in> set m" "r' = (toUtf8 cdc k', w v')"
      using row[OF rr(1)] row[OF rr(2)] by blast
    then have "toWide cdc (fst r) = k" "toWide cdc (fst r') = k'" using ok by (force simp: codec_ok_def)+
    then show ?thesis using kv d by (auto dest: eq_key_imp_eq_value)
  qed
  have "distinct rows" using assms(2) by (simp add: distinct_map)
  then show dist: "distinct (map (\<lambda>r. toWide cdc (fst r)) rows)"
    using inj by (auto simp: distinct_map inj_on_def)
  show "map_of (map ?f rows) = map_of m"
    using dist d image by (subst map_of_inject_set) (simp_all add: comp_def)
qed

lemma loop_reads_map:
  assumes "set rows = (\<lambda>(k, v). (toUtf8 cdc k, w v)) ` set m" and "distinct (map fst rows)"
    and "codec_ok cdc (map fst m)" and "distinct (map fst m)" and "\<And>k v. (k, v) \<in> set m \<Longrightarrow> val (w v) = v"
  shows "map_of (fold (\<lambda>r. AList.update (toWide cdc (fst r)) (val (snd r))) rows []) = map_of m"
  using rows_read_map(1)[OF assms] 
    fold_updates[OF rows_read_map(2)[OF assms], where val = "\<lambda>r. val (snd r)" and acc = "[]"]
  by (auto simp: fun_eq_iff split: option.splits)


lemma saved_rows:
  fixes w :: "'v \<Rightarrow> Toml"
  assumes "codec_ok cdc (map fst m)" and "distinct (map fst m)"
  defines "t \<equiv> fold (\<lambda>(k, v). toml_assign (toUtf8 cdc k) (w v)) m []"
  shows "t = map (\<lambda>(k, v). (toUtf8 cdc k, w v)) m"
    and "set (toml_rows t) = (\<lambda>(k, v). (toUtf8 cdc k, w v)) ` set m" and "distinct (map fst (toml_rows t))"
    and "length (toml_rows t) = length m"
proof -
  show t: "t = map (\<lambda>(k, v). (toUtf8 cdc k, w v)) m"
    unfolding t_def using assigns_append[of "toUtf8 cdc" m "[]" w] codec_distinct[OF assms(1,2)] by simp
  show "set (toml_rows t) = (\<lambda>(k, v). (toUtf8 cdc k, w v)) ` set m" by (simp add: t)
  have "map fst t = map (\<lambda>e. toUtf8 cdc (fst e)) m" by (simp add: t case_prod_unfold)
  then show "distinct (map fst (toml_rows t))"
    using codec_distinct[OF assms(1,2)] by (intro distinct_rows) simp
  show "length (toml_rows t) = length m" by (simp add: toml_rows_def t)
qed

definition storable_macros :: "TextCodec \<Rightarrow> (wstring \<times> wstring) list \<Rightarrow> bool" where
  "storable_macros cdc m \<longleftrightarrow>
    distinct (map fst m) \<and> codec_ok cdc (map fst m) \<and> codec_ok cdc (map snd m) \<and>
    (\<forall>(k, v) \<in> set m. length (toUtf8 cdc k) \<le> kMaxMacroKeyLen \<and> length (toUtf8 cdc v) \<le> kMaxMacroValueLen)"

interpretation macros: settings_part "\<lambda>f. map_of (LoadMacros cdc (Some 0) f)" "SaveMacros cdc"
  "storable_macros cdc" map_of "{''macros''}" "{''macros''}" for cdc
proof
  fix c :: "(wstring \<times> wstring) list" and "file" :: TomlFile and ok k and f g :: TomlFile
  show "SaveMacros cdc False c file = (False, file)" "snd (SaveMacros cdc True c file) \<noteq> None"
    by (simp_all add: SaveMacros_def part_defs)
  show "map_of (LoadMacros cdc (Some 0) (snd (SaveMacros cdc True c file))) = map_of c" if "storable_macros cdc c"
  proof -
    let ?t = "fold (\<lambda>(k, v). toml_assign (toUtf8 cdc k) (TStr (toUtf8 cdc v))) c []"
    let ?val = "\<lambda>v. case value_str v of None \<Rightarrow> [] | Some s \<Rightarrow> toWide cdc s"
    have ok: "codec_ok cdc (map fst c)" "distinct (map fst c)" using that by (simp_all add: storable_macros_def)
    note rows = saved_rows[OF ok, of "\<lambda>v. TStr (toUtf8 cdc v)"]
    have "map_of (fold (\<lambda>r. AList.update (toWide cdc (fst r)) (?val (snd r))) (toml_rows ?t) []) = map_of c"
      using that by (intro loop_reads_map[OF rows(2,3) ok])
        (auto simp: storable_macros_def codec_ok_def)
    moreover have "fold (load_macro cdc) (toml_rows ?t) [] =
        fold (\<lambda>r. AList.update (toWide cdc (fst r)) (?val (snd r))) (toml_rows ?t) []"
      using that rows(2) by (intro fold_cong refl) (auto simp: load_macro_def storable_macros_def fun_eq_iff)
    ultimately show ?thesis by (simp add: LoadMacros_def SaveMacros_def WriteToml_def)
  qed
  show "k \<notin> {''macros''} \<Longrightarrow> entry (snd (SaveMacros cdc ok c file)) k = entry file k"
    by (simp add: SaveMacros_def entry_WriteToml entry_back)
  show "f \<noteq> None \<Longrightarrow> g \<noteq> None \<Longrightarrow> (\<And>k. k \<in> {''macros''} \<Longrightarrow> entry g k = entry f k) \<Longrightarrow>
      map_of (LoadMacros cdc (Some 0) g) = map_of (LoadMacros cdc (Some 0) f)"
    by (auto simp: LoadMacros_def sub_table_def)
qed

definition storable_overrides :: "TextCodec \<Rightarrow> (wstring \<times> AppOverrideEntry) list \<Rightarrow> bool" where
  "storable_overrides cdc m \<longleftrightarrow>
    distinct (map fst m) \<and> codec_ok cdc (map fst m) \<and> length m \<le> kMaxPerAppEntries"

definition read_override :: "Toml \<Rightarrow> AppOverrideEntry" where
  "read_override v =
    (case v of
       TTable e \<Rightarrow> \<lparr>ovInputMethod = ucast (int_or e ''input_method'' (- 1)),
         ovEncoding = ucast (int_or e ''encoding'' (- 1)), ovSendMethod = ucast (int_or e ''send_method'' (- 1))\<rparr>
     | _ \<Rightarrow> \<lparr>ovInputMethod = - 1, ovEncoding = - 1, ovSendMethod = - 1\<rparr>)"

lemma override_reads_back: "read_override (TTable (override_table e)) = e"
proof -
  have "ucast (scast (b :: 8 word) :: 32 word) = b" for b
    by (rule bit_word_eqI) (auto simp: bit_ucast_iff bit_word_scast_iff dest: bit_imp_le_length)
  then show ?thesis
    by (cases e) (simp add: read_override_def override_table_def toml_get_assigns value_or_def value_int_scast)
qed

interpretation overrides: settings_part "\<lambda>f. map_of (LoadAppOverrides cdc f)" "SaveAppOverrides cdc"
  "storable_overrides cdc" map_of "{''app_overrides''}" "{''app_overrides''}" for cdc
proof
  fix c :: "(wstring \<times> AppOverrideEntry) list" and "file" :: TomlFile and ok k and f g :: TomlFile
  show "SaveAppOverrides cdc False c file = (False, file)" "snd (SaveAppOverrides cdc True c file) \<noteq> None"
    by (simp_all add: SaveAppOverrides_def part_defs)
  show "map_of (LoadAppOverrides cdc (snd (SaveAppOverrides cdc True c file))) = map_of c" if "storable_overrides cdc c"
  proof -
    let ?t = "fold (\<lambda>(k, e). toml_assign (toUtf8 cdc k) (TTable (override_table e))) c []"
    have ok: "codec_ok cdc (map fst c)" "distinct (map fst c)" using that by (simp_all add: storable_overrides_def)
    note rows = saved_rows[OF ok, of "\<lambda>e. TTable (override_table e)"]
    have "map_of (fold (\<lambda>r. AList.update (toWide cdc (fst r)) (read_override (snd r))) (toml_rows ?t) []) = map_of c"
      by (intro loop_reads_map[OF rows(2,3) ok]) (simp add: override_reads_back)
    moreover have "fold (load_override cdc) (toml_rows ?t) [] =
        fold (\<lambda>r. AList.update (toWide cdc (fst r)) (read_override (snd r))) (toml_rows ?t) []"
      using rows(2) by (intro fold_cong refl) (auto simp: load_override_def read_override_def fun_eq_iff)
    moreover have "take kMaxPerAppEntries (toml_rows ?t) = toml_rows ?t"
      using rows(4) that by (simp add: storable_overrides_def)
    ultimately show ?thesis by (simp add: LoadAppOverrides_def SaveAppOverrides_def WriteToml_def)
  qed
  show "k \<notin> {''app_overrides''} \<Longrightarrow> entry (snd (SaveAppOverrides cdc ok c file)) k = entry file k"
    by (simp add: SaveAppOverrides_def entry_WriteToml entry_back)
  show "f \<noteq> None \<Longrightarrow> g \<noteq> None \<Longrightarrow> (\<And>k. k \<in> {''app_overrides''} \<Longrightarrow> entry g k = entry f k) \<Longrightarrow>
      map_of (LoadAppOverrides cdc g) = map_of (LoadAppOverrides cdc f)"
    by (auto simp: LoadAppOverrides_def sub_table_def)
qed


definition storable_modes :: "TextCodec \<Rightarrow> (wstring \<times> bool) list \<Rightarrow> bool" where
  "storable_modes cdc m \<longleftrightarrow>
    distinct (map fst m) \<and> codec_ok cdc (map fst m) \<and> length m \<le> kMaxAppListEntries \<and>
    (\<forall>k \<in> set (map fst m). k \<noteq> [] \<and> map towlower k = k)"

abbreviation mode_text :: "bool \<Rightarrow> string" where
  "mode_text vn \<equiv> if vn then ''vietnamese'' else ''english''"

lemma modes_read_back:
  assumes "\<forall>r \<in> set rows. (\<exists>vn. snd r = TStr (mode_text vn)) \<and> toWide cdc (fst r) \<noteq> [] \<and>
      map towlower (toWide cdc (fst r)) = toWide cdc (fst r)"
    and "distinct (map fst acc @ map (\<lambda>r. toWide cdc (fst r)) rows)" and "length acc + length rows \<le> kMaxAppListEntries"
  shows "fold (load_mode cdc) rows acc =
    acc @ map (\<lambda>r. (toWide cdc (fst r), value_str (snd r) = Some ''vietnamese'')) rows"
  using assms
proof (induction rows arbitrary: acc)
  case (Cons r rows)
  obtain vn where vn: "snd r = TStr (mode_text vn)" using Cons.prems(1) by auto
  let ?k = "toWide cdc (fst r)"
  have "?k \<notin> fst ` set acc" using Cons.prems(2) by auto
  then have "emplace ?k vn acc = acc @ [(?k, vn)]"
    by (simp add: emplace_def map_of_eq_None_iff update_conv' update_keys)
      (induction acc; auto)
  then have "load_mode cdc r acc = acc @ [(?k, vn)]"
    using Cons.prems vn by (cases vn) (simp_all add: load_mode_def)
  then show ?case
    using Cons.IH[of "acc @ [(?k, vn)]"] Cons.prems vn by (cases vn) simp_all
qed simp

lemma inserts_assign:
  assumes "distinct (map (\<lambda>e. u (fst e)) m)" and "\<forall>e \<in> set m. u (fst e) \<notin> fst ` set t"
  shows "fold (\<lambda>(k, v). toml_insert (u k) (w v)) m t = fold (\<lambda>(k, v). toml_assign (u k) (w v)) m t"
  using assms
proof (induction m arbitrary: t)
  case (Cons e m)
  obtain k v where e: "e = (k, v)" by fastforce
  have "toml_get t (u k) = None" using Cons.prems(2) by (simp add: e toml_get_def map_of_eq_None_iff)
  then have "toml_insert (u k) (w v) t = toml_assign (u k) (w v) t" by (simp add: toml_insert_def)
  moreover have "u (fst e') \<notin> fst ` set (toml_assign (u k) (w v) t)" if "e' \<in> set m" for e'
  proof -
    have "u (fst e') \<noteq> u k" using Cons.prems(1) that by (auto simp: e image_iff)
    then show ?thesis using Cons.prems(2) that by (simp add: keys_assign)
  qed
  ultimately show ?case using Cons.IH[of "toml_assign (u k) (w v) t"] Cons.prems(1) by (simp add: e)
qed simp

interpretation smart: settings_part "\<lambda>f. map_of (LoadSmartSwitchApps cdc f)" "SaveSmartSwitchApps cdc"
  "storable_modes cdc" map_of "{''smart_switch''}" "{''smart_switch''}" for cdc
proof
  fix c :: "(wstring \<times> bool) list" and "file" :: TomlFile and ok k and f g :: TomlFile
  show "SaveSmartSwitchApps cdc False c file = (False, file)" "snd (SaveSmartSwitchApps cdc True c file) \<noteq> None"
    by (simp_all add: SaveSmartSwitchApps_def part_defs)
  show "map_of (LoadSmartSwitchApps cdc (snd (SaveSmartSwitchApps cdc True c file))) = map_of c"
    if "storable_modes cdc c"
  proof -
    let ?c = "sort_key fst c" let ?w = "\<lambda>vn. TStr (mode_text vn)"
    let ?t = "fold (\<lambda>(k, vn). toml_assign (toUtf8 cdc k) (?w vn)) ?c []"
    have set: "set ?c = set c" by simp
    have ok: "codec_ok cdc (map fst ?c)" "distinct (map fst ?c)"
      using that by (simp_all add: storable_modes_def codec_ok_def distinct_map)
    note rows = saved_rows[OF ok, of ?w]
    have inv: "(value_str (?w v) = Some ''vietnamese'') = v" for v by simp
    note reads = rows_read_map[OF rows(2,3) ok, of "\<lambda>v. value_str v = Some ''vietnamese''", OF inv]
    have key: "toWide cdc (toUtf8 cdc k) = k \<and> k \<noteq> [] \<and> map towlower k = k" if "(k, v) \<in> set ?c" for k v
      using that \<open>storable_modes cdc c\<close> by (force simp: storable_modes_def codec_ok_def)
    have "(\<exists>vn. snd r = ?w vn) \<and> toWide cdc (fst r) \<noteq> [] \<and>
        map towlower (toWide cdc (fst r)) = toWide cdc (fst r)" if "r \<in> set (toml_rows ?t)" for r
      using that key unfolding rows(2) by force
    moreover have "length (toml_rows ?t) \<le> kMaxAppListEntries"
      using that rows(4) by (simp add: storable_modes_def)
    ultimately have "fold (load_mode cdc) (toml_rows ?t) [] =
        map (\<lambda>r. (toWide cdc (fst r), value_str (snd r) = Some ''vietnamese'')) (toml_rows ?t)"
      using modes_read_back[of "toml_rows ?t" cdc "[]"] reads(2) by simp
    moreover have "fold (\<lambda>(k, vn). toml_insert (toUtf8 cdc k) (?w vn)) ?c [] = ?t"
      by (rule inserts_assign) (use codec_distinct[OF ok] in auto)
    moreover have "map_of ?c = map_of c"
      using ok(2) that by (simp add: map_of_inject_set storable_modes_def)
    moreover have "sub_table [(''apps'', TTable t)] ''apps'' = Some t" for t
      by (simp add: sub_table_def toml_get_def)
    ultimately show ?thesis
      using reads(1) by (simp add: LoadSmartSwitchApps_def SaveSmartSwitchApps_def WriteToml_def Let_def)
  qed
  show "k \<notin> {''smart_switch''} \<Longrightarrow> entry (snd (SaveSmartSwitchApps cdc ok c file)) k = entry file k"
    by (simp add: SaveSmartSwitchApps_def Let_def entry_WriteToml entry_back)
  show "f \<noteq> None \<Longrightarrow> g \<noteq> None \<Longrightarrow> (\<And>k. k \<in> {''smart_switch''} \<Longrightarrow> entry g k = entry f k) \<Longrightarrow>
      map_of (LoadSmartSwitchApps cdc g) = map_of (LoadSmartSwitchApps cdc f)"
    by (auto simp: LoadSmartSwitchApps_def sub_table_def)
qed


subsection \<open>Savings in any order\<close>

datatype Saving =
    SavingTyping TypingConfig | SavingUI UIConfig | SavingSystem SystemConfig | SavingHotkey HotkeyConfig
  | SavingConvert ConvertConfig | SavingRegistry HotkeyRegistry | SavingExcluded "wstring list"
  | SavingForced "wstring list" | SavingTsf "wstring list" | SavingModes "(wstring \<times> bool) list"
  | SavingOverrides "(wstring \<times> AppOverrideEntry) list" | SavingMacros "(wstring \<times> wstring) list"

text \<open>A saving, which may fail, done to the file.\<close>

fun perform :: "TextCodec \<Rightarrow> bool \<times> Saving \<Rightarrow> TomlFile \<Rightarrow> TomlFile" where
  "perform cdc (ok, SavingTyping c) f = snd (SaveToFile cdc ok c f)"
| "perform cdc (ok, SavingUI c) f = snd (SaveUIConfig ok c f)"
| "perform cdc (ok, SavingSystem c) f = snd (SaveSystemConfig ok c f)"
| "perform cdc (ok, SavingHotkey c) f = snd (SaveHotkeyConfig ok c f)"
| "perform cdc (ok, SavingConvert c) f = snd (SaveConvertConfig ok c f)"
| "perform cdc (ok, SavingRegistry r) f = snd (SaveHotkeyRegistry ok r f)"
| "perform cdc (ok, SavingExcluded ws) f = snd (SaveExcludedApps cdc ok ws f)"
| "perform cdc (ok, SavingForced ws) f = snd (SaveForcedVnApps cdc ok ws f)"
| "perform cdc (ok, SavingTsf ws) f = snd (SaveTsfApps cdc ok ws f)"
| "perform cdc (ok, SavingModes m) f = snd (SaveSmartSwitchApps cdc ok m f)"
| "perform cdc (ok, SavingOverrides m) f = snd (SaveAppOverrides cdc ok m f)"
| "perform cdc (ok, SavingMacros m) f = snd (SaveMacros cdc ok m f)"

fun written_keys :: "Saving \<Rightarrow> string set" where
  "written_keys (SavingTyping c) = {''input'', ''UserDefinedKeyMap'', ''features''}"
| "written_keys (SavingUI c) = {''ui''}"
| "written_keys (SavingSystem c) = {''system''}"
| "written_keys (SavingHotkey c) = {''hotkey''}"
| "written_keys (SavingConvert c) = {''convert''}"
| "written_keys (SavingRegistry r) = {''hotkeys'', ''hotkey_state'', ''features''}"
| "written_keys (SavingExcluded ws) = {''excluded_apps''}"
| "written_keys (SavingForced ws) = {''excluded_apps''}"
| "written_keys (SavingTsf ws) = {''tsf_apps''}"
| "written_keys (SavingModes m) = {''smart_switch''}"
| "written_keys (SavingOverrides m) = {''app_overrides''}"
| "written_keys (SavingMacros m) = {''macros''}"

text \<open>The registry of hotkeys also writes a table it does not read.\<close>

fun read_keys :: "Saving \<Rightarrow> string set" where
  "read_keys (SavingRegistry r) = {''hotkeys'', ''hotkey_state''}"
| "read_keys sv = written_keys sv"

fun storable_saving :: "TextCodec \<Rightarrow> Saving \<Rightarrow> bool" where
  "storable_saving cdc (SavingTyping c) = storable cdc c"
| "storable_saving cdc (SavingRegistry r) = no_zero_key r"
| "storable_saving cdc (SavingExcluded ws) = short_list cdc ws"
| "storable_saving cdc (SavingForced ws) = short_list cdc ws"
| "storable_saving cdc (SavingTsf ws) = short_list cdc ws"
| "storable_saving cdc (SavingModes m) = storable_modes cdc m"
| "storable_saving cdc (SavingOverrides m) = storable_overrides cdc m"
| "storable_saving cdc (SavingMacros m) = storable_macros cdc m"
| "storable_saving cdc _ = True"

text \<open>The file holds what was saved: reading it gives the value back.\<close>

fun holds :: "TextCodec \<Rightarrow> Saving \<Rightarrow> TomlFile \<Rightarrow> bool" where
  "holds cdc (SavingTyping c) f \<longleftrightarrow> map_option without_perf (LoadFromFile cdc (Some 0) f) = Some (without_perf c)"
| "holds cdc (SavingUI c) f \<longleftrightarrow> LoadUIConfig f = Some c"
| "holds cdc (SavingSystem c) f \<longleftrightarrow> LoadSystemConfig f = Some c"
| "holds cdc (SavingHotkey c) f \<longleftrightarrow> LoadHotkeyConfig cdc f = Some c"
| "holds cdc (SavingConvert c) f \<longleftrightarrow> LoadConvertConfig cdc f = Some c"
| "holds cdc (SavingRegistry r) f \<longleftrightarrow> map_option fires (LoadHotkeyRegistry f) = Some (fires r)"
| "holds cdc (SavingExcluded ws) f \<longleftrightarrow> LoadAllExcludedApps cdc f = ws"
| "holds cdc (SavingForced ws) f \<longleftrightarrow> LoadForcedVnApps cdc f = ws"
| "holds cdc (SavingTsf ws) f \<longleftrightarrow> LoadTsfApps cdc f = ws"
| "holds cdc (SavingModes m) f \<longleftrightarrow> map_of (LoadSmartSwitchApps cdc f) = map_of m"
| "holds cdc (SavingOverrides m) f \<longleftrightarrow> map_of (LoadAppOverrides cdc f) = map_of m"
| "holds cdc (SavingMacros m) f \<longleftrightarrow> map_of (LoadMacros cdc (Some 0) f) = map_of m"

lemmas part_others = typing.others ui.others system.others hotkey.others convert.others registry.others
  excluded.others forced.others tsf.others smart.others overrides.others macros.others

lemma perform_others: "k \<notin> written_keys (snd o1) \<Longrightarrow> entry (perform cdc o1 f) k = entry f k"
  by (cases "(cdc, o1, f)" rule: perform.cases) (simp_all add: part_others)

lemma perform_stays: "f \<noteq> None \<or> fst o1 \<Longrightarrow> perform cdc o1 f \<noteq> None"
  by (cases "(cdc, o1, f)" rule: perform.cases; cases "fst o1")
    (auto simp: typing.written ui.written system.written hotkey.written convert.written registry.written
      excluded.written forced.written tsf.written smart.written overrides.written macros.written
      typing.refused ui.refused system.refused hotkey.refused convert.refused registry.refused
      excluded.refused forced.refused tsf.refused smart.refused overrides.refused macros.refused)

lemma perform_all:
  assumes "\<forall>o1 \<in> set ops. k \<notin> written_keys (snd o1)"
  shows "entry (fold (perform cdc) ops f) k = entry f k"
  using assms by (induction ops arbitrary: f) (simp_all add: perform_others)

lemma perform_all_stays: "f \<noteq> None \<Longrightarrow> fold (perform cdc) ops f \<noteq> None"
  by (induction ops arbitrary: f) (simp_all add: perform_stays del: not_None_eq)

lemma holds_read:
  assumes "storable_saving cdc sv" and "g \<noteq> None"
    and "\<And>k. k \<in> read_keys sv \<Longrightarrow> entry g k = entry (perform cdc (True, sv) f) k"
  shows "holds cdc sv g"
proof (cases sv)
  case (SavingTyping c)
  show ?thesis
    using assms unfolding SavingTyping holds.simps read_keys.simps written_keys.simps perform.simps storable_saving.simps
    by (rule typing.read_later)
next
  case (SavingUI c)
  show ?thesis
    using assms unfolding SavingUI holds.simps read_keys.simps written_keys.simps perform.simps storable_saving.simps
    by (rule ui.read_later)
next
  case (SavingSystem c)
  show ?thesis
    using assms unfolding SavingSystem holds.simps read_keys.simps written_keys.simps perform.simps storable_saving.simps
    by (rule system.read_later)
next
  case (SavingHotkey c)
  show ?thesis
    using assms unfolding SavingHotkey holds.simps read_keys.simps written_keys.simps perform.simps storable_saving.simps
    by (rule hotkey.read_later)
next
  case (SavingConvert c)
  show ?thesis
    using assms unfolding SavingConvert holds.simps read_keys.simps written_keys.simps perform.simps storable_saving.simps
    by (rule convert.read_later)
next
  case (SavingRegistry r)
  show ?thesis
    using assms unfolding SavingRegistry holds.simps read_keys.simps written_keys.simps perform.simps storable_saving.simps
    by (rule registry.read_later)
next
  case (SavingExcluded ws)
  show ?thesis
    using assms unfolding SavingExcluded holds.simps read_keys.simps written_keys.simps perform.simps storable_saving.simps
    by (rule excluded.read_later)
next
  case (SavingForced ws)
  show ?thesis
    using assms unfolding SavingForced holds.simps read_keys.simps written_keys.simps perform.simps storable_saving.simps
    by (rule forced.read_later)
next
  case (SavingTsf ws)
  show ?thesis
    using assms unfolding SavingTsf holds.simps read_keys.simps written_keys.simps perform.simps storable_saving.simps
    by (rule tsf.read_later)
next
  case (SavingModes m)
  show ?thesis
    using assms unfolding SavingModes holds.simps read_keys.simps written_keys.simps perform.simps storable_saving.simps
    by (rule smart.read_later)
next
  case (SavingOverrides m)
  show ?thesis
    using assms unfolding SavingOverrides holds.simps read_keys.simps written_keys.simps perform.simps storable_saving.simps
    by (rule overrides.read_later)
next
  case (SavingMacros m)
  show ?thesis
    using assms unfolding SavingMacros holds.simps read_keys.simps written_keys.simps perform.simps storable_saving.simps
    by (rule macros.read_later)
qed

text \<open>The conversions for letters of at most 16 bits, for the examples.\<close>

definition utf8_unit :: "wchar \<Rightarrow> nat list" where
  "utf8_unit w =
    (let n = nat w in
     if n < 0x80 then [n] else if n < 0x800 then [0xC0 + n div 64, 0x80 + n mod 64]
     else [0xE0 + n div 4096, 0x80 + n div 64 mod 64, 0x80 + n mod 64])"

fun utf8_units :: "nat list \<Rightarrow> wstring" where
  "utf8_units [] = []"
| "utf8_units (a # bs) =
    (if a < 0x80 then int a # utf8_units bs
     else if a < 0xE0
     then (case bs of b # r \<Rightarrow> int ((a - 0xC0) * 64 + (b - 0x80)) # utf8_units r | _ \<Rightarrow> [])
     else (case bs of b # c # r \<Rightarrow> int ((a - 0xE0) * 4096 + (b - 0x80) * 64 + (c - 0x80)) # utf8_units r | _ \<Rightarrow> []))"

definition bmp_codec :: TextCodec where
  "bmp_codec = \<lparr>toUtf8 = \<lambda>w. map char_of (concat (map utf8_unit w)), toWide = \<lambda>s. utf8_units (map of_char s)\<rparr>"

abbreviation bmp_text :: "wstring \<Rightarrow> bool" where
  "bmp_text \<equiv> list_all (\<lambda>c. 0 \<le> c \<and> c < 0x10000)"

lemma utf8_bytes: "0 \<le> c \<Longrightarrow> c < 0x10000 \<Longrightarrow> b \<in> set (utf8_unit c) \<Longrightarrow> b < 256"
  by (auto simp: utf8_unit_def Let_def split: if_splits)

lemma utf8_reads_back:
  assumes "0 \<le> c" and "c < 0x10000"
  shows "utf8_units (utf8_unit c @ r) = c # utf8_units r"
proof -
  obtain n where n: "c = int n" "n < 65536" using assms by (metis nat_0_le nat_less_iff of_nat_numeral zero_le_numeral)
  have two: "n div 64 * 64 + n mod 64 = n" by simp
  have "n div 4096 = n div 64 div 64" by (simp flip: div_mult2_eq)
  then have three: "n div 4096 * 4096 + n div 64 mod 64 * 64 + n mod 64 = n"
    using div_mult_mod_eq[of "n div 64" 64] two by linarith
  consider "n < 128" | "\<not> n < 128" "n < 2048" "n div 64 < 32" | "\<not> n < 2048"
    using div_less_mono[of n 2048 64] by fastforce
  then show ?thesis
    using n(2) two three
    by cases (simp_all add: n(1) utf8_unit_def flip: of_nat_add of_nat_mult)
qed

lemma bmp_codec_ok: "list_all bmp_text ws \<Longrightarrow> codec_ok bmp_codec ws"
proof -
  have "utf8_units (concat (map utf8_unit w)) = w" if "bmp_text w" for w
    using that by (induction w) (simp_all add: utf8_reads_back)
  moreover have "map (of_char :: char \<Rightarrow> nat) (map char_of (concat (map utf8_unit w))) = concat (map utf8_unit w)"
    if "bmp_text w" for w
    using that utf8_bytes by (intro map_idI[of _ "of_char \<circ> char_of", unfolded map_map[symmetric]])
      (fastforce simp: list_all_iff of_char_of)
  ultimately show "list_all bmp_text ws \<Longrightarrow> codec_ok bmp_codec ws"
    by (simp add: codec_ok_def bmp_codec_def list_all_iff)
qed

lemma bmp_length: "length (toUtf8 bmp_codec w) = sum_list (map (length \<circ> utf8_unit) w)"
  by (simp add: bmp_codec_def length_concat comp_def)



text \<open>the typing settings survive the file: loading what was saved gives the same settings back,
  method, code table, every switch, the excluded prefixes and the user's key map, when the prefixes are in
  lower case with at least two letters and no action is bound to the key 0; the file may have held
  anything. Only the setting of the histogram comes from the table of the file that is not saved.\<close>

theorem settings_survive_saving:
  assumes "storable cdc cfg" and "bytes \<le> 5 * 1024 * 1024"
  shows "fst (SaveToFile cdc True cfg file) \<and>
    LoadFromFile cdc (Some bytes) (snd (SaveToFile cdc True cfg file)) =
      Some (cfg\<lparr>perfHistogramEnabled := stored_perf file\<rparr>)"
  using saved_typing(2)[OF assms(1), of "file"] LoadFromFile_bytes[of bytes] assms(2)
  by (simp add: SaveToFile_def WriteToml_def Let_def)

definition some_settings :: TypingConfig where
  "some_settings = defaultConfig\<lparr>inputMethod := VNI, codeTable := TCVN3, spellExclusions := [[104, 0x111]],
     customKeyMap := (\<lambda>_. ActNone)(97 := CircumflexA)\<rparr>"

lemma some_settings_storable: "storable bmp_codec some_settings"
proof -
  have "codec_ok bmp_codec [[104, 0x111]]" "map towlower [104, 0x111] = [104, 0x111]"
    by (simp add: bmp_codec_ok, code_simp)
  then show ?thesis by (simp add: storable_def some_settings_def)
qed

lemma settings_survive_saving_witness:
  "LoadFromFile bmp_codec (Some 900) (snd (SaveToFile bmp_codec True some_settings None)) = Some some_settings"
  using settings_survive_saving[OF some_settings_storable, of 900 None]
  by (simp add: stored_perf_def some_settings_def defaultConfig_def)

end
