(* ===== verification/ConfigUse.thy ===== *)
theory ConfigUse
  imports ConfigLaws
begin

text \<open>
  The settings file in use: the setting of Esc that follows the hotkeys, the hotkeys of older files,
  files that cannot be parsed, macros that are too long for the file, and the cache of parsed files.
\<close>

subsection \<open>The setting of Esc\<close>

lemma load_key_frame: "\<exists>m. load_key row cfg = cfg\<lparr>customKeyMap := m\<rparr>"
  by (rule exI[of _ "customKeyMap (load_key row cfg)"])
    (simp add: load_key_def Let_def split: prod.split option.split)

lemma load_keys_frame: "\<exists>m. fold load_key rows cfg = cfg\<lparr>customKeyMap := m\<rparr>"
proof (induction rows arbitrary: cfg)
  case Nil
  show ?case by (rule exI[of _ "customKeyMap cfg"]) simp
next
  case (Cons row rows)
  obtain m where "load_key row cfg = cfg\<lparr>customKeyMap := m\<rparr>" using load_key_frame by blast
  then show ?case using Cons[of "cfg\<lparr>customKeyMap := m\<rparr>"] by simp
qed

lemma load_input_frame: "\<exists>i t. load_input tbl cfg = cfg\<lparr>inputMethod := i, codeTable := t\<rparr>"
  by (rule exI[of _ "inputMethod (load_input tbl cfg)"], rule exI[of _ "codeTable (load_input tbl cfg)"])
    (simp add: load_input_def Let_def split: option.split)

text \<open>What the three tables before the switches leave of the compiled settings.\<close>

definition load_head :: "TomlTable \<Rightarrow> TypingConfig" where
  "load_head tbl =
    (let cfg = (case sub_table tbl ''input'' of Some t \<Rightarrow> load_input t defaultConfig | None \<Rightarrow> defaultConfig)
     in case sub_table tbl ''UserDefinedKeyMap'' of Some t \<Rightarrow> LoadCustomKeyMap t cfg | None \<Rightarrow> cfg)"

lemma load_head_frame:
  "\<exists>i t m. load_head tbl = defaultConfig\<lparr>inputMethod := i, codeTable := t, customKeyMap := m\<rparr>"
proof -
  obtain i t where it: "(case sub_table tbl ''input'' of Some t \<Rightarrow> load_input t defaultConfig | None \<Rightarrow> defaultConfig) =
      defaultConfig\<lparr>inputMethod := i, codeTable := t\<rparr>"
  proof (cases "sub_table tbl ''input''")
    case None
    then show thesis using that[where i = "inputMethod defaultConfig" and t = "codeTable defaultConfig"] by simp
  next
    case (Some x)
    then show thesis using that load_input_frame[of x defaultConfig] by auto
  qed
  let ?d = "defaultConfig\<lparr>inputMethod := i, codeTable := t\<rparr>"
  have head: "load_head tbl = (case sub_table tbl ''UserDefinedKeyMap'' of Some t \<Rightarrow> LoadCustomKeyMap t ?d | None \<Rightarrow> ?d)"
    unfolding load_head_def Let_def it ..
  obtain m where "load_head tbl = ?d\<lparr>customKeyMap := m\<rparr>"
  proof (cases "sub_table tbl ''UserDefinedKeyMap''")
    case None
    then show thesis using that[of "customKeyMap ?d"] head by simp
  next
    case (Some x)
    then show thesis using that load_keys_frame[of "toml_rows x" ?d] head by (auto simp: LoadCustomKeyMap_def)
  qed
  then show ?thesis by blast
qed

lemma LoadFromFile_head:
  "LoadFromFile cdc (Some n) (Some tbl) =
    (if n > kMaxConfigFileSizeBytes then None
     else (let cfg = (case sub_table tbl ''features'' of
                        Some t \<Rightarrow> load_features cdc t (load_head tbl) | None \<Rightarrow> load_head tbl)
           in Some (case sub_table tbl ''debug'' of
                      Some t \<Rightarrow> cfg\<lparr>perfHistogramEnabled := bool_or t ''perf_histogram'' False\<rparr> | None \<Rightarrow> cfg)))"
  unfolding LoadFromFile_def load_head_def Let_def by (simp only: prod.case option.case)

lemma features_esc:
  "load_features cdc (toml_assign ''esc_restore_raw'' (TBool b) f) cfg =
    (load_features cdc f cfg)\<lparr>escRestoreRawEnabled := b\<rparr>"
  by (simp add: load_features_def value_or_def)

lemma esc_perf_commute:
  "(c\<lparr>escRestoreRawEnabled := b\<rparr>)\<lparr>perfHistogramEnabled := p\<rparr> =
    (c\<lparr>perfHistogramEnabled := p\<rparr>)\<lparr>escRestoreRawEnabled := b\<rparr>"
  by (cases c) simp

lemma features_absent: "load_features cdc [] (load_head tbl) = load_head tbl"
proof -
  obtain i t m where "load_head tbl = defaultConfig\<lparr>inputMethod := i, codeTable := t, customKeyMap := m\<rparr>"
    using load_head_frame by blast
  then show ?thesis by (simp add: load_features_def value_or_def sub_array_def defaultConfig_def)
qed

text \<open>saving the hotkeys changes the typing settings that are loaded in one place: the switch of Esc,
  which the text service reads, becomes whether Esc alone is a hotkey that cancels the composition. All
  other settings stay, also when the file had no table of switches.\<close>

theorem esc_setting_follows_hotkeys:
  assumes "LoadFromFile cdc (Some n) file = Some cfg"
  shows "LoadFromFile cdc (Some n) (snd (SaveHotkeyRegistry True r file)) =
    Some (cfg\<lparr>escRestoreRawEnabled := escIsCancelTrigger r\<rparr>)"
proof -
  obtain tbl where tbl: "file = Some tbl" using assms by (cases "file") (simp_all add: LoadFromFile_def)
  obtain new where new: "snd (SaveHotkeyRegistry True r file) = Some new"
    by (simp add: SaveHotkeyRegistry_def part_defs)
  have parts: "sub_table new k = sub_table tbl k" if "k \<in> {''input'', ''UserDefinedKeyMap'', ''debug''}" for k
    using new that by (auto simp: SaveHotkeyRegistry_def part_defs tbl mirror_esc_def)
  have head: "load_head new = load_head tbl" by (simp add: load_head_def parts)
  let ?b = "escIsCancelTrigger r"
  have "sub_table new ''features'' = Some (toml_assign ''esc_restore_raw'' (TBool ?b)
      (case sub_table tbl ''features'' of Some f \<Rightarrow> f | None \<Rightarrow> []))"
    using new by (auto simp: SaveHotkeyRegistry_def part_defs tbl mirror_esc_def)
  then have "(case sub_table new ''features'' of Some t \<Rightarrow> load_features cdc t (load_head tbl) | None \<Rightarrow> load_head tbl) =
      (case sub_table tbl ''features'' of Some t \<Rightarrow> load_features cdc t (load_head tbl) | None \<Rightarrow> load_head tbl)
        \<lparr>escRestoreRawEnabled := ?b\<rparr>"
    by (cases "sub_table tbl ''features''") (simp_all add: features_esc features_absent)
  moreover have n: "\<not> n > kMaxConfigFileSizeBytes"
    using assms unfolding tbl LoadFromFile_head by (simp split: if_splits)
  moreover have dbg: "sub_table new ''debug'' = sub_table tbl ''debug''" by (rule parts) simp
  ultimately show ?thesis
    using assms unfolding tbl new[unfolded tbl] LoadFromFile_head head dbg Let_def if_not_P[OF n]
    by (cases "sub_table tbl ''debug''") (auto simp only: option.case option.inject esc_perf_commute)
qed

lemma esc_setting_follows_hotkeys_witness:
  "LoadFromFile bmp_codec (Some 0) (snd (SaveHotkeyRegistry True DefaultHotkeys (Some []))) =
    Some (defaultConfig\<lparr>escRestoreRawEnabled := True\<rparr>)"
proof -
  have "LoadFromFile bmp_codec (Some 0) (Some []) = Some defaultConfig" by (simp add: LoadFromFile_def)
  moreover have "escIsCancelTrigger DefaultHotkeys" by code_simp
  ultimately show ?thesis using esc_setting_follows_hotkeys[of bmp_codec 0 "Some []" defaultConfig DefaultHotkeys] by simp
qed

text \<open>typing settings that were loaded before the hotkeys were changed, and are saved after it, undo the
  switch of Esc: the file then holds the new hotkeys and the old switch.\<close>

theorem stale_settings_undo_esc:
  assumes "storable cdc cfg" and "no_zero_key r"
  shows "let saved = snd (SaveToFile cdc True cfg (snd (SaveHotkeyRegistry True r file))) in
    map_option fires (LoadHotkeyRegistry saved) = Some (fires r) \<and>
    map_option escRestoreRawEnabled (LoadFromFile cdc (Some 0) saved) = Some (escRestoreRawEnabled cfg)"
proof -
  let ?f = "snd (SaveHotkeyRegistry True r file)" let ?g = "snd (SaveToFile cdc True cfg ?f)"
  have "map_option fires (LoadHotkeyRegistry ?g) = Some (fires r)"
    by (rule registry.read_later[OF assms(2) typing.written]) (auto simp: typing.others)
  moreover have "map_option escRestoreRawEnabled (LoadFromFile cdc (Some 0) ?g) = Some (escRestoreRawEnabled cfg)"
    by (simp add: saved_typing(2)[OF assms(1)])
  ultimately show ?thesis by (simp add: Let_def)
qed

lemma stale_settings_undo_esc_witness:
  "let saved = snd (SaveToFile bmp_codec True some_settings (snd (SaveHotkeyRegistry True DefaultHotkeys None))) in
    (\<exists>r. LoadHotkeyRegistry saved = Some r \<and> escIsCancelTrigger r) \<and>
    map_option escRestoreRawEnabled (LoadFromFile bmp_codec (Some 0) saved) = Some False"
proof -
  have "escIsCancelTrigger DefaultHotkeys" by code_simp
  then have "fires DefaultHotkeys CancelComposition 0x1B 0 False False" by (simp add: escIsCancelTrigger_def fires_def)
  moreover have "escRestoreRawEnabled some_settings = False" by (simp add: some_settings_def defaultConfig_def)
  ultimately show ?thesis
    using stale_settings_undo_esc[OF some_settings_storable no_zero_Default, of None]
    by (auto simp: Let_def escIsCancelTrigger_def simp flip: fires_def)
qed

subsection \<open>The hotkeys of older files\<close>

lemma no_zero_Legacy: "no_zero_key (FromLegacyFields e m t)"
proof -
  have "\<forall>x \<in> set (TriggersFor i (FromLegacyFields e m t)). trigVk x \<noteq> 0" for i
    by (cases i) (simp_all add: FromLegacyFields_def Let_def TriggersFor_def SetEnabled_def AddTrigger_def emptyHotkeys_def)
  then show ?thesis by (simp add: no_zero_key_def)
qed

lemma saved_registry_settles:
  assumes "no_zero_key r"
  shows "HasHotkeyStateSection (snd (SaveHotkeyRegistry True r file))"
    and "\<exists>r'. LoadHotkeyRegistry (snd (SaveHotkeyRegistry True r file)) = Some r' \<and> fires r' = fires r"
proof -
  show "HasHotkeyStateSection (snd (SaveHotkeyRegistry True r file))"
    by (simp add: HasHotkeyStateSection_def SaveHotkeyRegistry_def part_defs mirror_esc_def)
  show "\<exists>r'. LoadHotkeyRegistry (snd (SaveHotkeyRegistry True r file)) = Some r' \<and> fires r' = fires r"
    using registry.reads_back[OF assms, of "file"] by auto
qed

text \<open>The registry that older switches turn into.\<close>

definition migrated_hotkeys :: "TomlFile \<Rightarrow> HotkeyRegistry" where
  "migrated_hotkeys file =
    (let legacy = ReadLegacyHotkeyToggles file in
     if \<not> escRestoreRaw legacy \<and> \<not> tempOffMacroEsc legacy \<and> tempOffMethod legacy = 0 then DefaultHotkeys
     else FromLegacyFields (escRestoreRaw legacy) (tempOffMacroEsc legacy) (tempOffMethod legacy))"

definition migration_due :: "TomlFile \<Rightarrow> bool" where
  "migration_due file \<longleftrightarrow>
    \<not> HasHotkeyStateSection file \<and> (case LoadHotkeyRegistry file of Some r \<Rightarrow> no_triggers r | None \<Rightarrow> True)"

lemma Migrate_cases:
  "MigrateLegacyHotkeysIfNeeded True ok file =
    (if migration_due file then (migrated_hotkeys file, snd (SaveHotkeyRegistry ok (migrated_hotkeys file) file))
     else ((case LoadHotkeyRegistry file of Some r \<Rightarrow> r | None \<Rightarrow> emptyHotkeys), file))"
  by (cases "LoadHotkeyRegistry file")
    (simp_all add: MigrateLegacyHotkeysIfNeeded_def migration_due_def migrated_hotkeys_def Let_def)

text \<open>the hotkeys of an older file are taken over once: whatever the file holds, after the first start
  that can write it no later start changes the file, and every later start has hotkeys that fire at the
  same keys as those of the first.\<close>

theorem migration_settles:
  assumes "MigrateLegacyHotkeysIfNeeded True True file = (r, file')"
  shows "snd (MigrateLegacyHotkeysIfNeeded True ok file') = file' \<and>
    fires (fst (MigrateLegacyHotkeysIfNeeded True ok file')) = fires r"
proof (cases "migration_due file")
  case False
  then show ?thesis using assms by (auto simp: Migrate_cases)
next
  case True
  have "no_zero_key (migrated_hotkeys file)"
    by (simp add: migrated_hotkeys_def Let_def no_zero_Default no_zero_Legacy)
  note saved = saved_registry_settles[OF this, of "file"]
  have r: "r = migrated_hotkeys file" and f: "file' = snd (SaveHotkeyRegistry True (migrated_hotkeys file) file)"
    using assms True by (auto simp: Migrate_cases)
  have "\<not> migration_due file'" using saved(1) by (simp add: f migration_due_def)
  then show ?thesis using saved(2) by (auto simp: Migrate_cases r f)
qed

definition old_file :: TomlTable where
  "old_file = [(''features'', TTable [(''esc_restore_raw'', TBool True), (''temp_off_method'', TInt 2)])]"

lemma migration_settles_witness:
  "let (r, saved) = MigrateLegacyHotkeysIfNeeded True True (Some old_file) in
    saved \<noteq> Some old_file \<and> snd (MigrateLegacyHotkeysIfNeeded True True saved) = saved \<and>
    fires (fst (MigrateLegacyHotkeysIfNeeded True True saved)) = fires r"
proof -
  obtain r saved where p: "MigrateLegacyHotkeysIfNeeded True True (Some old_file) = (r, saved)" by fastforce
  have "HasHotkeyStateSection (snd (MigrateLegacyHotkeysIfNeeded True True (Some old_file)))"
    "\<not> HasHotkeyStateSection (Some old_file)" by code_simp+
  then have "saved \<noteq> Some old_file" using p by auto
  then show ?thesis using migration_settles[OF p, of True] p by simp
qed

text \<open>the switches of an older file become hotkeys that fire as the switches did: Esc cancels the
  composition or skips macros exactly when its switch was on, and the toggle is a double Alt or a single
  Ctrl as chosen. A file without any switch on gets the default hotkeys.\<close>

theorem legacy_switches_taken_over:
  assumes "toml_get tbl ''hotkeys'' = None" and "toml_get tbl ''hotkey_state'' = None"
    and "ReadLegacyHotkeyToggles (Some tbl) = legacy"
    and "escRestoreRaw legacy \<or> tempOffMacroEsc legacy \<or> tempOffMethod legacy \<noteq> 0"
  shows "let r = fst (MigrateLegacyHotkeysIfNeeded True ok (Some tbl)) in
    Matches CancelComposition vk mods dt up r =
      (escRestoreRaw legacy \<and> vk = 0x1B \<and> mods = 0 \<and> \<not> dt \<and> \<not> up) \<and>
    Matches SkipMacro vk mods dt up r = (tempOffMacroEsc legacy \<and> vk = 0x1B \<and> mods = 0 \<and> \<not> dt \<and> \<not> up) \<and>
    Matches ToggleEnabled vk mods dt up r =
      (mods = 0 \<and> (tempOffMethod legacy = 1 \<and> vk = 0x12 \<and> dt \<or>
                    tempOffMethod legacy = 2 \<and> vk = 0x11 \<and> \<not> dt \<and> up))"
proof -
  have load: "LoadHotkeyRegistry (Some tbl) = Some emptyHotkeys"
    using assms(1,2) by (simp add: LoadHotkeyRegistry_def sub_array_def sub_table_def)
  have "migration_due (Some tbl)"
    using assms(2) load by (simp add: migration_due_def HasHotkeyStateSection_def no_triggers_def TriggersFor_def emptyHotkeys_def)
  then have r: "fst (MigrateLegacyHotkeysIfNeeded True ok (Some tbl)) =
      FromLegacyFields (escRestoreRaw legacy) (tempOffMacroEsc legacy) (tempOffMethod legacy)"
    using assms(3,4) by (auto simp: Migrate_cases migrated_hotkeys_def Let_def)
  show ?thesis unfolding r Let_def
    by (auto simp: FromLegacyFields_def Let_def Matches_def SetEnabled_def AddTrigger_def emptyHotkeys_def TriggersFor_def
        IsEnabled_def trigger_fires_def IsModifierKey_def)
qed

lemma legacy_switches_taken_over_witness:
  "let r = fst (MigrateLegacyHotkeysIfNeeded True False (Some old_file)) in
    Matches CancelComposition 0x1B 0 False False r \<and> Matches ToggleEnabled 0x11 0 False True r \<and>
    \<not> Matches SkipMacro 0x1B 0 False False r"
proof -
  let ?l = "\<lparr>escRestoreRaw = True, tempOffMacroEsc = False, tempOffMethod = 2\<rparr>"
  have old: "toml_get old_file ''hotkeys'' = None" "toml_get old_file ''hotkey_state'' = None"
    "ReadLegacyHotkeyToggles (Some old_file) = ?l"
    by (simp_all add: old_file_def toml_get_def, code_simp)
  have on: "escRestoreRaw ?l \<or> tempOffMacroEsc ?l \<or> tempOffMethod ?l \<noteq> 0" by simp
  show ?thesis
    using legacy_switches_taken_over[OF old on, where vk = "0x1B" and mods = 0 and dt = False and up = False and ok = False]
      legacy_switches_taken_over[OF old on, where vk = "0x11" and mods = 0 and dt = False and up = True and ok = False]
    by (simp add: Let_def)
qed

text \<open>a settings file that exists and cannot be parsed is replaced at the next start: the new file
  has the default hotkeys and the switch of Esc and nothing else, so the macros, the lists of programs and
  all other settings are gone.\<close>

theorem unreadable_file_replaced:
  "let (r, saved) = MigrateLegacyHotkeysIfNeeded True True None in
    r = DefaultHotkeys \<and> saved \<noteq> None \<and>
    {k. entry saved k \<noteq> None} = {''hotkeys'', ''hotkey_state'', ''features''} \<and>
    LoadFromFile cdc (Some 0) saved = Some (defaultConfig\<lparr>escRestoreRawEnabled := True\<rparr>) \<and>
    LoadMacros cdc bytes saved = [] \<and> LoadAllExcludedApps cdc saved = []"
proof -
  let ?t = "snd (SaveHotkeyRegistry True DefaultHotkeys None)"
  have esc: "escIsCancelTrigger DefaultHotkeys" by (simp add: escIsCancelTrigger_def, code_simp)
  have t: "?t = Some (mirror_esc DefaultHotkeys (toml_assign ''hotkey_state'' (TTable (SaveEnabled DefaultHotkeys []))
      (toml_assign ''hotkeys'' (TArray (SaveHotkeys DefaultHotkeys [])) [])))"
    by (simp add: SaveHotkeyRegistry_def part_defs)
  have "migrated_hotkeys None = DefaultHotkeys" "migration_due None"
    by (simp_all add: migrated_hotkeys_def ReadLegacyHotkeyToggles_def Let_def migration_due_def
        HasHotkeyStateSection_def LoadHotkeyRegistry_def)
  moreover have "LoadFromFile cdc (Some 0) ?t = Some (defaultConfig\<lparr>escRestoreRawEnabled := True\<rparr>)"
    using features_absent[of cdc "[]"] features_esc[of cdc True "[]" "load_head []"]
    by (simp add: t LoadFromFile_def mirror_esc_def esc Let_def load_head_def)
  moreover have "{k. entry ?t k \<noteq> None} = {''hotkeys'', ''hotkey_state'', ''features''}"
    by (auto simp: t mirror_esc_def split: if_splits)
  moreover have "LoadMacros cdc bytes ?t = []" "LoadAllExcludedApps cdc ?t = []"
    by (simp_all add: t mirror_esc_def LoadMacros_def LoadAllExcludedApps_def array_of_def split: option.split)
  moreover have "?t \<noteq> None" by (simp add: t)
  ultimately show ?thesis by (simp add: Migrate_cases)
qed

subsection \<open>Macros\<close>

definition macro_fits :: "TextCodec \<Rightarrow> wstring \<times> wstring \<Rightarrow> bool" where
  "macro_fits cdc e \<longleftrightarrow>
    length (toUtf8 cdc (fst e)) \<le> kMaxMacroKeyLen \<and> length (toUtf8 cdc (snd e)) \<le> kMaxMacroValueLen"

lemma load_macros_filter:
  assumes "\<And>r. r \<in> set rows \<Longrightarrow> \<exists>s. snd r = TStr s"
  shows "fold (load_macro cdc) rows acc =
    fold (\<lambda>r. AList.update (toWide cdc (fst r)) (case value_str (snd r) of None \<Rightarrow> [] | Some s \<Rightarrow> toWide cdc s))
      (filter (\<lambda>r. case value_str (snd r) of None \<Rightarrow> False
                   | Some s \<Rightarrow> length (fst r) \<le> kMaxMacroKeyLen \<and> length s \<le> kMaxMacroValueLen) rows) acc"
  using assms
proof (induction rows arbitrary: acc)
  case (Cons r rows)
  obtain s where "snd r = TStr s" using Cons.prems[of r] by auto
  moreover have "\<And>x. x \<in> set rows \<Longrightarrow> \<exists>s. snd x = TStr s" using Cons.prems by simp
  ultimately show ?case using Cons.IH by (auto simp: load_macro_def)
qed simp

lemma map_of_filter_fits:
  "distinct (map fst m) \<Longrightarrow> map_of (filter P m) k =
    (case map_of m k of Some v \<Rightarrow> if P (k, v) then Some v else None | None \<Rightarrow> None)"
proof (induction m)
  case (Cons e m)
  obtain a v where "e = (a, v)" by fastforce
  then show ?case using Cons by (auto simp: map_of_eq_None_iff image_iff split: option.split)
qed simp

text \<open>of the macros that are saved exactly those are read back whose key takes at most 32 and whose
  text at most 20480 bytes of UTF-8. The tables of macros, which count letters, accept longer ones: such
  a macro is missing after the next start, and from the file after the next change of the table.\<close>

theorem saved_macros_that_fit:
  assumes "distinct (map fst m)" and "codec_ok cdc (map fst m)" and "codec_ok cdc (map snd m)"
    and "bytes \<le> 5 * 1024 * 1024"
  shows "map_of (LoadMacros cdc (Some bytes) (snd (SaveMacros cdc True m file))) k =
    (case map_of m k of
       Some v \<Rightarrow> if length (toUtf8 cdc k) \<le> 32 \<and> length (toUtf8 cdc v) \<le> 20480 then Some v else None
     | None \<Rightarrow> None)"
proof -
  let ?t = "fold (\<lambda>(k, v). toml_assign (toUtf8 cdc k) (TStr (toUtf8 cdc v))) m []"
  let ?val = "\<lambda>v. case value_str v of None \<Rightarrow> [] | Some s \<Rightarrow> toWide cdc s"
  let ?fit = "\<lambda>r. case value_str (snd r) of None \<Rightarrow> False
      | Some s \<Rightarrow> length (fst r) \<le> kMaxMacroKeyLen \<and> length s \<le> kMaxMacroValueLen"
  let ?m = "filter (macro_fits cdc) m"
  note rows = saved_rows[OF assms(2,1), of "\<lambda>v. TStr (toUtf8 cdc v)"]
  have strs: "\<exists>s. snd r = TStr s" if "r \<in> set (toml_rows ?t)" for r
    using that unfolding rows(2) by auto
  have set: "set (filter ?fit (toml_rows ?t)) = (\<lambda>(k, v). (toUtf8 cdc k, TStr (toUtf8 cdc v))) ` set ?m"
    unfolding set_filter rows(2) by (force simp: macro_fits_def)
  have keys: "distinct (map fst (filter ?fit (toml_rows ?t)))"
    using rows(3) by (simp add: distinct_map inj_on_def)
  have ok: "codec_ok cdc (map fst ?m)" "distinct (map fst ?m)"
    using assms(1,2) by (auto simp: codec_ok_def distinct_map inj_on_def)
  have "map_of (fold (\<lambda>r. AList.update (toWide cdc (fst r)) (?val (snd r))) (filter ?fit (toml_rows ?t)) []) = map_of ?m"
    using assms(3) by (intro loop_reads_map[OF set keys ok]) (auto simp: codec_ok_def)
  then have "map_of (fold (load_macro cdc) (toml_rows ?t) []) = map_of ?m"
    by (subst load_macros_filter[OF strs]) simp_all
  moreover have "LoadMacros cdc (Some bytes) (snd (SaveMacros cdc True m file)) = fold (load_macro cdc) (toml_rows ?t) []"
    using assms(4) by (simp add: LoadMacros_def SaveMacros_def WriteToml_def)
  ultimately show ?thesis
    by (simp add: map_of_filter_fits[OF assms(1)] macro_fits_def split: option.split)
qed

lemma saved_macros_that_fit_witness:
  "let k = replicate 11 0x1EBF; m = [(wide ''btv'', [98]), (k, [97])];
       loaded = map_of (LoadMacros bmp_codec (Some 0) (snd (SaveMacros bmp_codec True m None))) in
    length k \<le> 32 \<and> loaded (wide ''btv'') = Some [98] \<and> loaded k = None"
proof -
  let ?k = "replicate 11 (0x1EBF :: wchar)" let ?m = "[(wide ''btv'', [98 :: wchar]), (?k, [97])]"
  have keys: "wide ''btv'' = [98, 116, 118]" "?k \<noteq> wide ''btv''" by code_simp+
  have ok: "distinct (map fst ?m)" using keys(2) by auto
  have ok': "codec_ok bmp_codec (map fst ?m)" "codec_ok bmp_codec (map snd ?m)"
    by (simp_all add: bmp_codec_ok keys(1) list_all_iff)
  note fit = saved_macros_that_fit[OF ok ok', of 0 None]
  have "length (toUtf8 bmp_codec ?k) = 33" "length (toUtf8 bmp_codec (wide ''btv'')) = 3"
    "length (toUtf8 bmp_codec [98]) = 1" "map_of ?m ?k = Some [97]" "map_of ?m (wide ''btv'') = Some [98]"
    using keys by (simp_all add: bmp_length utf8_unit_def sum_list_replicate map_replicate)
  then show ?thesis using fit[of ?k] fit[of "wide ''btv''"] unfolding Let_def by simp
qed

subsection \<open>The cache of parsed files\<close>

text \<open>A file with its time stamp, \<open>None\<close> when it is missing, and the entry of the cache of one process.\<close>

record CachedFile =
  onDisk :: TomlFile
  diskStamp :: "nat option"
  cacheEntry :: CacheEntry

text \<open>What happens to the file: this process writes it, another process does, it is deleted, or this
  process reads it.\<close>

datatype FileEvent = OwnWrite nat TomlTable | OtherWrite nat TomlFile | Deletion | Reading

fun file_event :: "FileEvent \<Rightarrow> CachedFile \<Rightarrow> CachedFile" where
  "file_event (OwnWrite t tbl) s =
    \<lparr>onDisk = snd (WriteToml True tbl (onDisk s)), diskStamp = Some t, cacheEntry = CacheInvalidate (cacheEntry s)\<rparr>"
| "file_event (OtherWrite t f) s = s\<lparr>onDisk := f, diskStamp := Some t\<rparr>"
| "file_event Deletion s = s\<lparr>onDisk := None, diskStamp := None\<rparr>"
| "file_event Reading s = s\<lparr>cacheEntry := snd (ParseTomlCached (diskStamp s) (onDisk s) (cacheEntry s))\<rparr>"

text \<open>The clock of the file system: it does not run backwards, and it has ticked since the last write when
  another process writes. The process's own writes may fall into the same tick.\<close>

fun clock_runs :: "nat \<Rightarrow> FileEvent list \<Rightarrow> bool" where
  "clock_runs now [] = True"
| "clock_runs now (OwnWrite t tbl # es) \<longleftrightarrow> now \<le> t \<and> clock_runs t es"
| "clock_runs now (OtherWrite t f # es) \<longleftrightarrow> now < t \<and> clock_runs t es"
| "clock_runs now (Deletion # es) = clock_runs now es"
| "clock_runs now (Reading # es) = clock_runs now es"

definition cache_current :: "nat \<Rightarrow> CachedFile \<Rightarrow> bool" where
  "cache_current now s \<longleftrightarrow>
    (diskStamp s = None \<longrightarrow> onDisk s = None) \<and>
    (\<forall>t f. cacheEntry s = Some (t, f) \<longrightarrow> t \<le> now \<and> (diskStamp s = Some t \<longrightarrow> onDisk s = f)) \<and>
    (\<forall>t. diskStamp s = Some t \<longrightarrow> t \<le> now)"

lemma current_read: "cache_current now s \<Longrightarrow> fst (ParseTomlCached (diskStamp s) (onDisk s) (cacheEntry s)) = onDisk s"
  by (cases s) (auto simp: cache_current_def ParseTomlCached_def CacheLoad_def split: option.splits)

lemma current_reading: "cache_current now s \<Longrightarrow> cache_current now (file_event Reading s)"
  by (cases s) (auto simp: cache_current_def ParseTomlCached_def CacheLoad_def split: option.splits)

lemma current_events:
  "cache_current now s \<Longrightarrow> clock_runs now es \<Longrightarrow> \<exists>later. cache_current later (fold file_event es s)"
proof (induction now es arbitrary: s rule: clock_runs.induct)
  case (2 now t tbl es)
  then have "cache_current t (file_event (OwnWrite t tbl) s)"
    by (simp add: cache_current_def CacheInvalidate_def)
  then show ?case using 2 by simp
next
  case (3 now t f es)
  then have "cache_current t (file_event (OtherWrite t f) s)" by (fastforce simp: cache_current_def)
  then show ?case using 3 by simp
next
  case (4 now es)
  then have "cache_current now (file_event Deletion s)" by (simp add: cache_current_def)
  then show ?case using 4 by simp
next
  case (5 now es)
  then show ?case using current_reading[of now s] by simp
qed auto

text \<open>the cache never shows an old file: after any writes of this process and of others, deletions and
  readings, a read returns what the file holds, as long as the clock of the file system ticks between a
  write and a later write of another process.\<close>

theorem cached_file_is_current:
  assumes "clock_runs 0 es"
  shows "let s = fold file_event es \<lparr>onDisk = None, diskStamp = None, cacheEntry = None\<rparr> in
    fst (ParseTomlCached (diskStamp s) (onDisk s) (cacheEntry s)) = onDisk s"
proof -
  have "cache_current 0 \<lparr>onDisk = None, diskStamp = None, cacheEntry = None\<rparr>" by (simp add: cache_current_def)
  then show ?thesis using current_events[OF _ assms] current_read by (fastforce simp: Let_def)
qed

lemma cached_file_is_current_witness:
  "let s = fold file_event [OwnWrite 3 [], Reading, OwnWrite 3 old_file, Reading, Deletion, OtherWrite 4 (Some [])]
       \<lparr>onDisk = None, diskStamp = None, cacheEntry = None\<rparr> in
    fst (ParseTomlCached (diskStamp s) (onDisk s) (cacheEntry s)) = onDisk s \<and> onDisk s = Some []"
  using cached_file_is_current[of "[OwnWrite 3 [], Reading, OwnWrite 3 old_file, Reading, Deletion, OtherWrite 4 (Some [])]"]
  by (simp add: Let_def)

text \<open>Without the tick the write of the other process is not seen.\<close>

lemma same_tick_write_missed:
  "let s = fold file_event [OwnWrite 1 [], Reading, OtherWrite 1 (Some [(''ui'', TBool True)])]
       \<lparr>onDisk = None, diskStamp = None, cacheEntry = None\<rparr> in
    fst (ParseTomlCached (diskStamp s) (onDisk s) (cacheEntry s)) = Some [] \<and> onDisk s \<noteq> Some []"
  by (simp add: Let_def ParseTomlCached_def CacheLoad_def CacheInvalidate_def WriteToml_def)

end
