(* ===== verification/Spec2Isabelle.thy ===== *)
theory Spec2Isabelle
  imports SpellSync Reopen ModifierLaws TonePlacement CodeTableLaws KeystrokeLaws HookMailboxLaws ModeLaws
    SmartSwitchLaws MacroLaws HotkeyLaws ModifierKeyLaws HookFaults
    SharedStateLaws SharedSyncLaws TextServiceLaws ConfigUse
begin

text \<open>
  A model of the typing engine and the keyboard hook of NexusKey, a Vietnamese input method for
  Windows, and the theorems that make it correct. Paths below are relative to \<open>src/src/core\<close> unless
  they say otherwise.

  \<^bold>\<open>The program.\<close> A keyboard hook or a text service hands every key to a typing engine
  (\<open>engine/TypingEngine\<close>), which keeps the word being typed as a vector of character states (base
  letter, modifier, tone, case) together with the raw keys, and answers with the text to display.
  The engine classifies a key as a tone, a modifier or a letter (\<open>engine/TypingAction.h\<close>), runs the
  rules of its registry (\<open>engine/rule\<close>) gated by the escape, spelling and English protection states,
  and falls back to appending the letter. Two services guide it: the phonotactics engine
  (\<open>engine/Phonotactics.cpp\<close>, \<open>engine/PhonotacticsValidator.cpp\<close>), which validates syllables and places
  tones from tables of Vietnamese phonology, and the English protection
  (\<open>engine/EnglishProtection.h\<close>), which recognises words that are no Vietnamese.

  \<^bold>\<open>The theories.\<close>
  \<^item> \<open>Prelude\<close>: wide characters, the C library's character functions, index scans, bit masks.
  \<^item> \<open>VietnameseTables\<close>, \<open>CharStates\<close>: \<open>engine/VietnameseTables.h\<close> and the \<open>CharState\<close> of
    \<open>engine/TypingEngine.h\<close> with \<open>Compose\<close>.
  \<^item> \<open>TypingActions\<close>: \<open>engine/TypingAction.h\<close>, \<open>config/TypingConfig.h\<close>.
  \<^item> \<open>PhonologyData\<close>, \<open>Validator\<close>, \<open>Phonotactics\<close>: \<open>engine/VietnamesePhonologyData.h\<close>, the validator of
    character states and the engine on rendered text.
  \<^item> \<open>EnglishProtection\<close>, \<open>EngineHelpers\<close>: the headers of the same names.
  \<^item> \<open>EngineState\<close>, \<open>EngineModifiers\<close>, \<open>RuleRegistry\<close>, \<open>Engine\<close>: \<open>engine/TypingEngine.cpp\<close> and
    \<open>engine/rule\<close>. The record \<open>Engine\<close> has the members of the class; a member function is a function
    from the engine to the engine, paired with its result where it has one; a handler that answers
    \<open>true\<close> when it consumed the key returns that boolean and the engine.
  \<^item> \<open>ValidatorShape\<close>, \<open>TextPhonotactics\<close>, \<open>TonePlacement\<close>: what the verdicts of the phonotactics engine
    mean. The locale \<open>tone_placement\<close> is the contract of the placement service towards the typing
    engine, interpreted on \<open>TonePosition\<close>.
  \<^item> \<open>EngineInvariant\<close>, \<open>EngineSteps\<close>, \<open>EngineRuns\<close>: the well-formedness of the buffer, its preservation
    by every operation, the calls of \<open>IInputEngine\<close> as a step relation and the reachable engines. The
    locales \<open>rule_bucket\<close> (of \<open>RuleRegistry\<close>) and \<open>veto_bucket\<close> (of \<open>SpellSync\<close>) state what a
    dispatch owes to its rules; both are interpreted on the engine's own rules.
  \<^item> \<open>SpellSync\<close>, \<open>ToneKeys\<close>, \<open>ModifierLaws\<close>, \<open>SeedRoundTrip\<close>, \<open>Reopen\<close>: the cached spell state and
    auto-restore, tone keys, modifier handlers, seeding from displayed text.
  \<^item> \<open>CodeTables\<close>, \<open>CodeTableLaws\<close>: \<open>engine/CodeTableConverter.cpp\<close>, and what survives an encoding. The
    locale \<open>code_table\<close> states what an encoding owes to its decoder; it is interpreted on the tables
    of VNI, code page 1258 and Unicode compound.
  \<^item> \<open>MacroCase\<close>, \<open>MacroLaws\<close>: \<open>MacroCase.cpp\<close>: which macro the typed keys match, how much of the screen
    it replaces, its letter case and the pieces it is sent in.
  \<^item> \<open>HotkeyRegistry\<close>, \<open>HotkeyLaws\<close>: \<open>hotkey/HotkeyRegistry.cpp\<close> and \<open>hotkey/HotkeyLabel.cpp\<close>.
  \<^item> \<open>SmartSwitch\<close>, \<open>SmartSwitchLaws\<close>: \<open>SmartSwitchManager.cpp\<close>, the table of modes per application that
    processes share; the locale \<open>mode_table\<close> is the map it implements.
  \<^item> \<open>KeystrokeDecisions\<close>, \<open>KeystrokeLaws\<close>: the pure decisions of the hook per keystroke
    (\<open>AutoCapStateTransition.h\<close>, \<open>CjkSwitchDecision.h\<close>, \<open>CommitUndoExemption.h\<close>, \<open>DigitLedWordDecision.h\<close>,
    \<open>FormulaSegmentDecision.h\<close>, \<open>PerAppModeDecision.h\<close>, \<open>MacroPrefix.h\<close>) and the code that feeds them.

  \<^bold>\<open>The keyboard hook\<close> is \<open>src/src/app/system/HookEngine.cpp\<close>.
  \<^item> \<open>HookMailbox\<close>, \<open>HookMailboxLaws\<close>: \<open>HookCommandMailbox.cpp\<close>, the bits other threads post to the thread
    of the hook, as atomic steps of both sides in every interleaving.
  \<^item> \<open>ModeControl\<close>, \<open>ModeLaws\<close>: the language mode under focus changes, toggles, keyboard layouts and
    settings of single applications.
  \<^item> \<open>CommitState\<close>, \<open>ModifierKeys\<close>, \<open>Pipeline\<close>: \<open>CommitState.h\<close>, the modifier keys and their taps, and
    \<open>pipeline\<close>, the features in front of and behind the engine with their gates.
  \<^item> \<open>HookState\<close>, \<open>HookKeys\<close>, \<open>HookDispatch\<close>: the members of the hook, its edits of the program in
    front (\<open>ReplaceComposition\<close>, \<open>OutputDispatcher.cpp\<close>), the handlers of the keys, and the way of a key
    through \<open>ProcessKeyDown\<close> and \<open>ProcessKeyUp\<close>. The record \<open>HookEnv\<close> is what the hook reads while it
    handles one key and does not write: the settings, the modifier keys, the tick count, the character
    a key types in the layout in use, and the injector. An injector either delivers a request, which
    is appended to \<open>outEvents\<close>, or reports failure.
  \<^item> \<open>PipelineLaws\<close>, \<open>ModifierKeyLaws\<close>, \<open>HookLaws\<close>, \<open>HookWordLaws\<close>, \<open>HookMacroLaws\<close>: the program in front
    is a text before the caret and a function that says what a key does to it. The text is then the
    rendering of the engine's composition after every key of a word, a commit can be taken back, and
    a macro replaces exactly its word.
  \<^item> \<open>HookFaults\<close>: the states in which the hook loses step with the program in front of it.
  \<^item> \<open>SharedState\<close>, \<open>SharedStateLaws\<close>: \<open>ipc/SharedState.h\<close>, the structure the processes share, the
    encoding of the settings in it, and the anchor that describes the text in front of the caret.
  \<^item> \<open>SharedSync\<close>, \<open>SharedSyncLaws\<close>: \<open>ipc/SharedStateManager.cpp\<close> and the anchor functions, as single
    memory accesses of readers and writers in every interleaving. The locale \<open>seqlock\<close> is the protocol,
    interpreted on the structure and on the anchor, each with one writer.

  \<^bold>\<open>The text service\<close> is \<open>src/src/tsf\<close>.
  \<^item> \<open>TextService\<close>: \<open>EngineController.cpp\<close>, \<open>KeyEventSink.cpp\<close>, \<open>CompositionManager.cpp\<close> and the edit
    sessions. The record \<open>TsfState\<close> has the members of the controller and of the key event sink, and the
    document: the text in front of the composition and the text of the composition. The record \<open>TsfEnv\<close>
    is what the system answers while one key is handled.
  \<^item> \<open>TextServiceLaws\<close>: in every run the document shows the buffer of the engine (\<open>text_service_in_step\<close>,
    over the step relation \<open>tsf_run\<close>), words are committed and taken up again, a service beside a main
    program of another version is passive, and the situations in which the service loses text.

  \<^bold>\<open>The settings file\<close> is \<open>config/ConfigManager.cpp\<close>.
  \<^item> \<open>ConfigFiles\<close>: loading and saving of every part of the file, the hotkeys of older files, and the
    cache of parsed files. A file is the table it parses to, or \<open>None\<close>; the conversions between UTF-8
    and UTF-16 are the parameter \<open>TextCodec\<close>; whether the system lets a file be written is an argument.
  \<^item> \<open>ConfigLaws\<close>: the locale \<open>settings_part\<close> is what one part of the file owes to the others; it is
    interpreted on all twelve, so a part that was saved is read back after any savings of other parts.
  \<^item> \<open>ConfigUse\<close>: the switch of Esc follows the hotkeys and is undone by stale settings, older hotkeys are
    taken over once, unreadable files are replaced, long macros are lost, and the cache shows the file.

  \<^bold>\<open>Conventions.\<close> A \<open>wchar_t\<close> is an integer, a \<open>wstring\<close> a list of them, and packed keys and masks are
  words of their C++ width. Sentinel indices (\<open>-1\<close>, \<open>SIZE_MAX\<close>) are \<open>None\<close>. A pointer and a count are
  a list; an index read that the source guards is a list read under the same guard. Loops are
  structural recursion, the scans \<open>first_idx\<close> and \<open>last_idx\<close>, or a \<open>function\<close> with its measure
  (\<open>vcv_scan\<close>); nothing in the model needs fuel. The free-mark loop of the circumflex handler counts
  down the buffer and recurses on that counter. The only capacity is \<open>kVowelCap\<close>, the 16 entries of
  the source's vowel and coda buffers, which the model truncates at as the source does; no reachable
  syllable needs more, since a valid one has at most eight letters.

  \<^bold>\<open>Not modelled.\<close> Of the keyboard hook: its installation and message loop, the mouse hook, the worker
  threads, reloading of settings, and how an injector carries out a request (\<open>SendInput\<close>, edit
  messages, the clipboard). Of the text service: COM registration, activation and reference counts, display
  attributes and the language bar. The dialogs and everything else that talks to the Win32 API or to COM; the text of TOML files, which the vendored library reads and
  writes, the directory of the settings file and the lock on it; the creation and mapping of shared memory;
  logging, updates and the watchdog; vendored libraries. \<open>towlower\<close> and its
  relatives run in the ``C'' locale, in which the program leaves them.
\<close>

subsection \<open>Sessions of the typing engine\<close>

definition fresh :: Engine where
  "fresh = newEngine defaultConfig"

lemma reachable_typed: "0 \<notin> set ws \<Longrightarrow> reachable defaultConfig (pushAll ws fresh)"
  unfolding fresh_def by (rule reachable_pushAll[OF reachable.start])

text \<open>C1: Whatever sequence of keys, backspaces, commits, resets and seedings an engine has gone
  through, it still has the configuration it was created with, every state of its buffer is well
  formed (a modifier only on a letter that carries it, a tone only on a vowel, a lower-case base
  letter) and the buffer displays exactly one character per state, so that the number of characters
  on the screen equals \<open>Count\<close>.\<close>

theorem reachable_engine_invariant:
  assumes "reachable cfg e"
  shows "config e = cfg \<and> list_all state_wf (states e) \<and> length (Peek e) = Count e"
  using reachable_inv[OF assms] length_Peek_wf[of e] by (simp add: engine_wf_def)

theorem reachable_engine_invariant_witness:
  "length (Peek (Backspace (pushAll [L_v, L_i, L_e, L_e, L_t, L_j] fresh))) =
   Count (Backspace (pushAll [L_v, L_i, L_e, L_e, L_t, L_j] fresh))"
  using reachable_engine_invariant[of defaultConfig "Backspace (pushAll [L_v, L_i, L_e, L_e, L_t, L_j] fresh)",
      OF reachable.step[OF reachable_typed engine_step.backspace]] by simp

text \<open>C16: The cached spell state is in step with the buffer after every operation: unless the hard
  English bias is set, \<open>spellCheckDisabled\<close> is the verdict of a validation of the buffer as it is
  now.\<close>

theorem spell_state_in_step:
  assumes "reachable cfg e" and "\<not> IsEnglishWord e"
  shows "spellCheckDisabled e = UpdateSpellCheck (states e) cfg"
  using reachable_spell[OF assms(1)] reachable_inv[OF assms(1)] assms(2)
  by (simp add: spell_cache_ok_def synced_def IsEnglishWord_def)

theorem spell_state_in_step_witness:
  "spellCheckDisabled (snd (SeedFromText [L_v, L_i] fresh)) =
   UpdateSpellCheck (states (snd (SeedFromText [L_v, L_i] fresh))) defaultConfig"
proof -
  have "reachable defaultConfig (snd (SeedFromText [L_v, L_i] fresh))"
    using reachable.step[OF reachable_typed[of "[]"] engine_step.seed[of _ "[L_v, L_i]"]]
    by (simp add: pushAll_def)
  moreover have "\<not> IsEnglishWord (snd (SeedFromText [L_v, L_i] fresh))" by code_simp
  ultimately show ?thesis by (rule spell_state_in_step)
qed

text \<open>C2: A complete syllable is committed as it is displayed: auto-restore never replaces a buffer
  the validator calls \<open>Valid\<close> by its raw keys, unless the buffer is nothing but an expanded quick
  consonant or the word is English.\<close>

theorem valid_syllable_committed:
  assumes "reachable cfg e" and "ValidateSyllableState (states e) (allowZwjf cfg) = Valid"
    and "\<not> IsEnglishWord e" and "quickStartKey e = 0" and "\<not> onlyQC (qc e)"
  shows "fst (Commit e) = Peek e \<and> states (snd (Commit e)) = [] \<and> reachable cfg (snd (Commit e))"
  using commit_valid[OF assms(1) _ assms(4,5,2)] assms(1,3)
  by (auto simp: Commit_def IsEnglishWord_def
      intro: reachable.step[OF _ engine_step.commit, unfolded Commit_def, simplified])

theorem valid_syllable_committed_witness:
  "fst (Commit (pushAll [L_a, L_s] fresh)) = [0xE1]"
proof -
  let ?e = "pushAll [L_a, L_s] fresh"
  have "ValidateSyllableState (states ?e) (allowZwjf defaultConfig) = Valid \<and> \<not> IsEnglishWord ?e \<and>
    quickStartKey ?e = 0 \<and> \<not> onlyQC (qc ?e) \<and> Peek ?e = [0xE1]" by code_simp
  then show ?thesis
    using valid_syllable_committed[of defaultConfig ?e] reachable_typed[of "[L_a, L_s]"] by simp
qed

text \<open>Commit answers the displayed text or restores the raw keys, with the case of the first letter
  at most changed, and it restores only when the two texts differ in a way auto-restore acts on.\<close>

theorem commit_displayed_or_raw:
  "fst (Commit e) = Peek e \<or>
   (map towlower (fst (Commit e)) = map towlower (rawInput e) \<and> ShouldAutoRestore (fst (Commit e)) (Peek e))"
proof -
  have "map towlower (restore_text raw composed) = map towlower raw" for raw composed
  proof (cases raw)
    case (Cons c cs)
    have "towlower (towupper c) = towlower c" by (auto simp: towlower_def towupper_def)
    with Cons show ?thesis by (simp add: restore_text_def)
  qed (simp add: restore_text_def)
  then show ?thesis using commit_text_cases[of e] by (auto simp: Commit_def)
qed

text \<open>The key history that the escape key restores is exactly the keys typed since the engine was
  reset, whatever the keys did to the buffer.\<close>

theorem keys_recorded:
  assumes "0 \<notin> set ws" shows "PeekRaw (pushAll ws (Reset e)) = ws"
  using pushAll_facts(2)[OF assms, of "Reset e"] by (simp add: PeekRaw_def)

theorem keys_recorded_witness: "PeekRaw (pushAll [L_a, L_a, L_s, L_s] (Reset fresh)) = [L_a, L_a, L_s, L_s]"
  by (rule keys_recorded) simp

text \<open>C13: Backspacing comes to an end: one backspace per displayed character, and one more for a quick
  consonant that is undone in place, empty the buffer from any state.\<close>

theorem backspaces_empty_buffer:
  "states ((Backspace ^^ (Count e + 1)) e) = [] \<and> Peek ((Backspace ^^ (Count e + 1)) e) = []"
  using backspaces_empty[of e "Count e + 1"] by (simp add: bs_measure_def Peek_def ComposeAll_def)

text \<open>C18: A plain backspace removes the last displayed character and nothing else, and takes the raw keys
  back to where the removed character began.\<close>

theorem backspace_removes_last:
  assumes "reachable cfg e" and "states e \<noteq> []" and "quickStartKey e = 0"
    and "\<not> HasActiveQuickConsonant e"
  shows "Peek (Backspace e) = butlast (Peek e) \<and>
    rawInput (Backspace e) = take (csRawIdx (last (states e))) (rawInput e) \<and> \<not> IsToneEscaped (Backspace e)"
proof -
  have "list_all state_wf (states e)" using reachable_inv[OF assms(1)] by (simp add: engine_wf_def)
  then have wf: "list_all state_wf (states e)" "list_all state_wf (butlast (states e))"
    by (auto simp: list_all_iff dest: in_set_butlastD)
  have b: "Backspace e = bs_normal (e\<lparr>escape := EscNone, quickStartKey := 0\<rparr>)"
    using assms(2-4) by (simp add: Backspace_eq HasActiveQuickConsonant_def)
  have "escape (bs_finish x) = escape x" for x
    by (simp add: bs_finish_def zwjfBias_def recalcBias_def UpdateSpellState_def Let_def)
  then show ?thesis
    unfolding b
    by (simp add: Peek_def ComposeAll_wf wf bs_normal_def popState_def map_butlast Let_def
        IsToneEscaped_def isEscaped_def)
qed

theorem backspace_removes_last_witness:
  "Peek (Backspace (pushAll [L_a, L_b] fresh)) = butlast (Peek (pushAll [L_a, L_b] fresh))"
proof -
  have "states (pushAll [L_a, L_b] fresh) \<noteq> [] \<and> quickStartKey (pushAll [L_a, L_b] fresh) = 0 \<and>
      \<not> HasActiveQuickConsonant (pushAll [L_a, L_b] fresh)" by code_simp
  then show ?thesis
    using backspace_removes_last[of defaultConfig "pushAll [L_a, L_b] fresh"] reachable_typed[of "[L_a, L_b]"]
    by simp
qed

subsection \<open>Reopening a committed word\<close>

text \<open>C19: Seeding the engine from displayed text either fails and leaves it reset, or shows exactly that
  text, one state per character, in a well-formed buffer.\<close>

theorem seed_shows_text:
  "(if fst (SeedFromText ws e)
    then Peek (snd (SeedFromText ws e)) = ws \<and> Count (snd (SeedFromText ws e)) = length ws \<and>
         list_all state_wf (states (snd (SeedFromText ws e)))
    else snd (SeedFromText ws e) = Reset e)"
proof (cases "fst (SeedFromText ws e)")
  case True
  then have "Peek (snd (SeedFromText ws e)) = ws" by (rule SeedFromText_Peek)
  then show ?thesis
    using True wf_SeedFromText[of ws e] length_Peek_wf[OF wf_SeedFromText, of ws e] by (simp add: engine_wf_def)
next
  case False
  then show ?thesis by (simp add: SeedFromText_def split: option.splits)
qed

text \<open>C11: A word can be edited again after it was committed: seeding from the displayed text of a buffer
  of letters gives back the base letter, the modifier, the tone and the case of every state, unless a
  capital i or u with a bare tilde is among them.\<close>

theorem reopen_restores_marks:
  assumes "reachable cfg e" and "list_all letter (states e)" and "\<not> list_ex capital_tilde_iu (states e)"
  shows "fst (SeedFromText (Peek e) e') \<and>
    map marks (states (snd (SeedFromText (Peek e) e'))) = map marks (states e)"
proof -
  have "list_all reopenable (states e)"
    using reachable_inv[OF assms(1)] assms(2,3)
    by (auto simp: reopenable_def engine_wf_def list_all_iff list_ex_iff)
  then show ?thesis using SeedFromText_reopens by blast
qed

theorem reopen_restores_marks_witness: "fst (SeedFromText (Peek (pushAll [L_a, L_s] fresh)) fresh)"
proof -
  have "list_all letter (states (pushAll [L_a, L_s] fresh)) \<and>
      \<not> list_ex capital_tilde_iu (states (pushAll [L_a, L_s] fresh))" by code_simp
  then show ?thesis
    using reopen_restores_marks[of defaultConfig "pushAll [L_a, L_s] fresh" fresh]
      reachable_typed[of "[L_a, L_s]"] by simp
qed

text \<open>C21: A word that shows a capital i or u with a bare tilde can never be reopened: the engine produces
  the character, but its own decomposition does not know it, and the seeding fails.\<close>

theorem capital_tilde_not_reopened:
  assumes "reachable cfg e" and "list_ex capital_tilde_iu (states e)"
  shows "SeedFromText (Peek e) e' = (False, Reset e')"
proof -
  have wf: "list_all state_wf (states e)" using reachable_inv[OF assms(1)] by (simp add: engine_wf_def)
  obtain s where s: "s \<in> set (states e)" "capital_tilde_iu s" using assms(2) by (auto simp: list_ex_iff)
  then have "DecomposeVietChar (Compose s) = None"
    using wf by (intro Decompose_capital_tilde) (auto simp: list_all_iff)
  moreover have "Compose s \<in> set (Peek e)" using s(1) wf by (simp add: Peek_def ComposeAll_wf)
  ultimately show ?thesis by (simp add: SeedFromText_def seed_loop_None)
qed

theorem capital_tilde_not_reopened_witness:
  "SeedFromText (Peek (pushAll [73, 120] fresh)) fresh = (False, Reset fresh)"
proof -
  have "list_ex capital_tilde_iu (states (pushAll [73, 120] fresh))" by code_simp
  then show ?thesis
    using capital_tilde_not_reopened[of defaultConfig "pushAll [73, 120] fresh" fresh]
      reachable_typed[of "[73, 120]"] by simp
qed

text \<open>Backspace leaves a stale record of where the tone key was typed. After \<open>toans\<close>, a backspace
  and \<open>ngs\<close> the second \<open>s\<close> takes the tone back, but the raw key it strikes is the \<open>g\<close>: the screen
  shows \<open>toangs\<close> while the raw keys, and the text that is committed, are \<open>toans\<close>.\<close>

lemma stale_tone_key:
  "(let e = pushAll [L_n, L_g, L_s] (Backspace (pushAll [L_t, L_o, L_a, L_n, L_s] fresh)) in
    Peek e = [L_t, L_o, L_a, L_n, L_g, L_s] \<and> rawInput e = [L_t, L_o, L_a, L_n, L_s] \<and>
    fst (Commit e) = [L_t, L_o, L_a, L_n, L_s])"
  by code_simp

end
